(* ===== verification/Prelude.thy ===== *)
theory Prelude
  imports Main "HOL-Library.Char_ord" "HOL-Library.List_Lexorder" "HOL-Library.Sublist"
begin

text \<open>
  The prelude of the development: what the Rust sources use of the language and of its standard
  library, and the lemmas all components share.

  \<^item> Text. A Rust \<open>String\<close> is a \<^typ>\<open>string\<close>, the list of its UTF-8 bytes. \<open>lines\<close>, \<open>split\<close>,
    \<open>split_once\<close>, \<open>trim\<close>, \<open>strip_prefix\<close>, \<open>contains\<close>, \<open>join\<close> and decimal printing and parsing are
    the functions of \<open>str\<close>; the order of \<open>BTreeMap\<close> and \<open>BTreeSet\<close> keys is the order of
    \<open>List_Lexorder\<close> on bytes, which is Rust's order on \<open>str\<close>.
  \<^item> Results. \<open>Result<T, E>\<close> is \<open>'e + 'a\<close> and the \<open>?\<close> operator is \<open>and_then\<close>.
  \<^item> Commands. A command that reads and writes files is a state transformer
    \<open>'s \<Rightarrow> ('e + 'a) \<times> 's\<close>: an error keeps what was written before it.
  \<^item> Tables. The tab separated state files are lines under a header; the locale \<open>tsv_table\<close> states
    what a row codec promises and proves once that a table reads back as it was written.
\<close>

named_theorems text_simps \<open>rewriting with the text functions of the standard library\<close>
named_theorems cmd_simps \<open>success and failure of commands and of results\<close>

section \<open>Bytes and characters\<close>

abbreviation NL :: char where "NL \<equiv> CHR 0x0A"
abbreviation CR :: char where "CR \<equiv> CHR 0x0D"
abbreviation TAB :: char where "TAB \<equiv> CHR 0x09"

definition byte_of :: "char \<Rightarrow> nat" where
  "byte_of c = of_char c"

definition is_ascii_digit :: "char \<Rightarrow> bool" where
  "is_ascii_digit c \<longleftrightarrow> 48 \<le> byte_of c \<and> byte_of c \<le> 57"

definition is_ascii_lowercase :: "char \<Rightarrow> bool" where
  "is_ascii_lowercase c \<longleftrightarrow> 97 \<le> byte_of c \<and> byte_of c \<le> 122"

definition is_ascii_uppercase :: "char \<Rightarrow> bool" where
  "is_ascii_uppercase c \<longleftrightarrow> 65 \<le> byte_of c \<and> byte_of c \<le> 90"

definition is_ascii_alphanumeric :: "char \<Rightarrow> bool" where
  "is_ascii_alphanumeric c \<longleftrightarrow> is_ascii_digit c \<or> is_ascii_lowercase c \<or> is_ascii_uppercase c"

definition is_ascii_hexdigit :: "char \<Rightarrow> bool" where
  "is_ascii_hexdigit c \<longleftrightarrow> is_ascii_digit c \<or> (97 \<le> byte_of c \<and> byte_of c \<le> 102)
     \<or> (65 \<le> byte_of c \<and> byte_of c \<le> 70)"

definition to_ascii_lowercase :: "string \<Rightarrow> string" where
  "to_ascii_lowercase s =
     map (\<lambda>c. if is_ascii_uppercase c then char_of (byte_of c + 32) else c) s"

definition eq_ignore_ascii_case :: "string \<Rightarrow> string \<Rightarrow> bool" where
  "eq_ignore_ascii_case s t \<longleftrightarrow> to_ascii_lowercase s = to_ascii_lowercase t"

text \<open>A character that belongs to no separator of the state files.\<close>

definition plain_char :: "char \<Rightarrow> bool" where
  "plain_char c \<longleftrightarrow> c \<noteq> NL \<and> c \<noteq> CR \<and> c \<noteq> TAB"

lemma byte_of_simps [simp]:
  "byte_of NL = 10" "byte_of CR = 13" "byte_of TAB = 9"
  by (simp_all add: byte_of_def)

lemma alphanumeric_plain: "is_ascii_alphanumeric c \<Longrightarrow> plain_char c"
  by (auto simp: is_ascii_alphanumeric_def is_ascii_digit_def is_ascii_lowercase_def
        is_ascii_uppercase_def plain_char_def)

section \<open>Splitting and joining\<close>

fun split_once :: "char \<Rightarrow> string \<Rightarrow> (string \<times> string) option" where
  "split_once c [] = None"
| "split_once c (x # xs) =
     (if x = c then Some ([], xs)
      else case split_once c xs of None \<Rightarrow> None | Some (l, r) \<Rightarrow> Some (x # l, r))"

lemma split_once_None: "split_once c s = None \<longleftrightarrow> c \<notin> set s"
  by (induction s) (auto split: option.splits)

lemma split_once_Some:
  "split_once c s = Some (l, r) \<longleftrightarrow> s = l @ c # r \<and> c \<notin> set l"
proof (induction s arbitrary: l)
  case (Cons x xs)
  show ?case
  proof (cases "x = c")
    case True
    then show ?thesis by (cases l) auto
  next
    case False
    then show ?thesis
      using Cons.IH by (cases l; cases "split_once c xs") auto
  qed
qed simp

declare split_once.simps(2) [simp del]

lemma split_once_app [text_simps]: "c \<notin> set l \<Longrightarrow> split_once c (l @ c # r) = Some (l, r)"
  by (simp add: split_once_Some)

lemma split_once_free [text_simps]: "c \<notin> set s \<Longrightarrow> split_once c s = None"
  by (simp add: split_once_None)

lemma split_once_shorter: "split_once c s = Some (l, r) \<Longrightarrow> length r < length s"
  by (auto simp: split_once_Some)

text \<open>\<open>str::split(char)\<close>: always at least one piece.\<close>

function split_char :: "char \<Rightarrow> string \<Rightarrow> string list" where
  "split_char c s = (case split_once c s of None \<Rightarrow> [s] | Some (l, r) \<Rightarrow> l # split_char c r)"
  by pat_completeness auto
termination
  by (relation "measure (\<lambda>(c, s). length s)") (auto simp: split_once_Some)

declare split_char.simps [simp del]

fun join_with :: "string \<Rightarrow> string list \<Rightarrow> string" where
  "join_with sep [] = []"
| "join_with sep [x] = x"
| "join_with sep (x # y # ys) = x @ sep @ join_with sep (y # ys)"

lemma split_char_free [text_simps]: "c \<notin> set s \<Longrightarrow> split_char c s = [s]"
  by (subst split_char.simps) (simp add: split_once_free)

lemma split_char_app [text_simps]:
  "c \<notin> set l \<Longrightarrow> split_char c (l @ c # r) = l # split_char c r"
  by (subst split_char.simps) (simp add: split_once_app)

lemma split_char_nonempty [simp]: "split_char c s \<noteq> []"
  by (subst split_char.simps) (auto split: option.splits)

lemma split_char_join:
  "xs \<noteq> [] \<Longrightarrow> (\<forall>x \<in> set xs. c \<notin> set x) \<Longrightarrow> split_char c (join_with [c] xs) = xs"
  by (induction "[c]" xs rule: join_with.induct) (auto simp: text_simps)

lemma join_split_char: "join_with [c] (split_char c s) = s"
proof (induction c s rule: split_char.induct)
  case (1 c s)
  show ?case
  proof (cases "split_once c s")
    case None
    then show ?thesis by (subst split_char.simps) simp
  next
    case (Some p)
    obtain l r where p: "p = (l, r)" by force
    with Some have "s = l @ c # r" by (simp add: split_once_Some)
    moreover have "join_with [c] (l # split_char c r) = l @ c # join_with [c] (split_char c r)"
      by (cases "split_char c r") auto
    ultimately show ?thesis
      using "1.IH" [OF Some, of l r] p Some by (subst split_char.simps) simp
  qed
qed

lemma split_char_piece: "x \<in> set (split_char c s) \<Longrightarrow> set x \<subseteq> set s \<and> c \<notin> set x"
proof (induction c s rule: split_char.induct)
  case (1 c s)
  show ?case
  proof (cases "split_once c s")
    case None
    then have "x = s" using "1.prems" by (subst (asm) split_char.simps) simp
    then show ?thesis using None by (simp add: split_once_None)
  next
    case (Some p)
    obtain l r where p: "p = (l, r)" by force
    then have s: "s = l @ c # r" "c \<notin> set l" using Some by (auto simp: split_once_Some)
    have "x = l \<or> x \<in> set (split_char c r)"
      using "1.prems" Some p by (subst (asm) split_char.simps) simp
    then show ?thesis using "1.IH" [OF Some, of l r] p s by auto
  qed
qed

section \<open>Lines\<close>

text \<open>
  \<open>str::lines\<close>: a line ends at a line feed, a carriage return before that line feed is dropped,
  and a last line without a line feed is kept as it is.
\<close>

definition strip_cr :: "string \<Rightarrow> string" where
  "strip_cr l = (if l \<noteq> [] \<and> last l = CR then butlast l else l)"

function lines :: "string \<Rightarrow> string list" where
  "lines s =
     (if s = [] then []
      else case split_once NL s of None \<Rightarrow> [s] | Some (l, r) \<Rightarrow> strip_cr l # lines r)"
  by pat_completeness auto
termination
  by (relation "measure length") (auto simp: split_once_Some)

declare lines.simps [simp del]

lemma lines_Nil [simp]: "lines [] = []"
  by (simp add: lines.simps)

lemma lines_app [text_simps]: "NL \<notin> set l \<Longrightarrow> lines (l @ NL # r) = strip_cr l # lines r"
  by (subst lines.simps) (simp add: split_once_app)

lemma strip_cr_id [text_simps]: "CR \<notin> set l \<Longrightarrow> strip_cr l = l"
  by (metis last_in_set strip_cr_def)

lemma set_strip_cr: "set (strip_cr l) \<subseteq> set l"
  by (auto simp: strip_cr_def dest: in_set_butlastD)

text \<open>Text made of whole lines.\<close>

definition unlines :: "string list \<Rightarrow> string" where
  "unlines ls = concat (map (\<lambda>l. l @ [NL]) ls)"

definition single_line :: "string \<Rightarrow> bool" where
  "single_line l \<longleftrightarrow> NL \<notin> set l \<and> CR \<notin> set l"

lemma unlines_Nil [simp]: "unlines [] = []"
  and unlines_Cons [simp]: "unlines (l # ls) = l @ NL # unlines ls"
  by (simp_all add: unlines_def)

lemma unlines_append [simp]: "unlines (xs @ ys) = unlines xs @ unlines ys"
  by (simp add: unlines_def)

lemma lines_unlines_app:
  "list_all single_line ls \<Longrightarrow> lines (unlines ls @ s) = ls @ lines s"
  by (induction ls) (auto simp: text_simps single_line_def)

lemma lines_unlines: "list_all single_line ls \<Longrightarrow> lines (unlines ls) = ls"
  using lines_unlines_app [of ls "[]"] by simp

lemma lines_unlines_NL: "list_all (\<lambda>l. NL \<notin> set l) ls \<Longrightarrow> lines (unlines ls) = map strip_cr ls"
  by (induction ls) (auto simp: text_simps)

text \<open>A text of whole lines is empty or ends with a line feed; appending to it appends lines.\<close>

definition whole_lines :: "string \<Rightarrow> bool" where
  "whole_lines t \<longleftrightarrow> t = [] \<or> last t = NL"

lemma whole_lines_simps [simp]:
  "whole_lines []" "whole_lines (s @ [NL])" "whole_lines (unlines ls)" "whole_lines t \<Longrightarrow> whole_lines (s @ t) \<longleftrightarrow> t \<noteq> [] \<or> whole_lines s"
proof -
  show "whole_lines (unlines ls)" by (cases ls rule: rev_cases) (simp_all add: whole_lines_def)
qed (auto simp: whole_lines_def last_append)

lemma lines_whole_app: "whole_lines t \<Longrightarrow> lines (t @ s) = lines t @ lines s"
proof (induction t rule: lines.induct)
  case (1 t)
  show ?case
  proof (cases "split_once NL t")
    case None
    then have "t = []" using 1(2) by (auto simp: split_once_None whole_lines_def) (metis last_in_set)
    then show ?thesis by simp
  next
    case (Some lr)
    then obtain l r where lr: "split_once NL t = Some (l, r)" by (cases lr) simp
    then have t: "t = l @ NL # r" "NL \<notin> set l" by (auto simp: split_once_Some)
    then have "whole_lines r" using 1(2) by (auto simp: whole_lines_def split: if_splits)
    then show ?thesis using 1(1) lr t by (auto simp: text_simps)
  qed
qed

lemma lines_no_newline: "l \<in> set (lines s) \<Longrightarrow> NL \<notin> set l"
proof (induction s rule: lines.induct)
  case (1 s)
  show ?case
  proof (cases "split_once NL s")
    case None
    then have "l = s" using "1.prems" by (subst (asm) lines.simps) (simp split: if_splits)
    then show ?thesis using None by (simp add: split_once_None)
  next
    case (Some p)
    obtain a r where p: "p = (a, r)" by force
    have "s \<noteq> []" and a: "NL \<notin> set a" using Some p by (auto simp: split_once_Some)
    then have "l = strip_cr a \<or> l \<in> set (lines r)"
      using "1.prems" Some p by (subst (asm) lines.simps) simp
    then show ?thesis using "1.IH" [OF \<open>s \<noteq> []\<close> Some, of a r] p a set_strip_cr [of a] by auto
  qed
qed

lemma lines_subset: "l \<in> set (lines s) \<Longrightarrow> set l \<subseteq> set s"
proof (induction s rule: lines.induct)
  case (1 s)
  show ?case
  proof (cases "split_once NL s")
    case None
    then have "l = s" using "1.prems" by (subst (asm) lines.simps) (simp split: if_splits)
    then show ?thesis by simp
  next
    case (Some p)
    obtain a r where p: "p = (a, r)" by force
    have "s \<noteq> []" and s: "s = a @ NL # r" using Some p by (auto simp: split_once_Some)
    then have "l = strip_cr a \<or> l \<in> set (lines r)"
      using "1.prems" Some p by (subst (asm) lines.simps) simp
    then show ?thesis using "1.IH" [OF \<open>s \<noteq> []\<close> Some, of a r] p s set_strip_cr [of a] by auto
  qed
qed

section \<open>Prefixes, suffixes and substrings\<close>

definition starts_with :: "string \<Rightarrow> string \<Rightarrow> bool" where
  "starts_with p s \<longleftrightarrow> take (length p) s = p"

definition ends_with :: "string \<Rightarrow> string \<Rightarrow> bool" where
  "ends_with p s \<longleftrightarrow> length p \<le> length s \<and> drop (length s - length p) s = p"

definition strip_prefix :: "string \<Rightarrow> string \<Rightarrow> string option" where
  "strip_prefix p s = (if starts_with p s then Some (drop (length p) s) else None)"

definition strip_suffix :: "string \<Rightarrow> string \<Rightarrow> string option" where
  "strip_suffix p s = (if ends_with p s then Some (take (length s - length p) s) else None)"

fun contains_str :: "string \<Rightarrow> string \<Rightarrow> bool" where
  "contains_str p [] = (p = [])"
| "contains_str p (c # s) = (starts_with p (c # s) \<or> contains_str p s)"

lemma starts_with_iff: "starts_with p s \<longleftrightarrow> (\<exists>r. s = p @ r)"
  by (metis append_eq_conv_conj append_take_drop_id starts_with_def)

lemma strip_prefix_Some [text_simps]: "strip_prefix p s = Some r \<longleftrightarrow> s = p @ r"
  by (auto simp: strip_prefix_def starts_with_iff)

lemma strip_prefix_app [simp]: "strip_prefix p (p @ r) = Some r"
  by (simp add: strip_prefix_Some)

lemma strip_prefix_None [text_simps]: "strip_prefix p s = None \<longleftrightarrow> \<not> starts_with p s"
  by (auto simp: strip_prefix_def)

lemma contains_str_iff: "contains_str p s \<longleftrightarrow> (\<exists>l r. s = l @ p @ r)"
proof (induction p s rule: contains_str.induct)
  case (1 p)
  then show ?case by auto
next
  case (2 p c s)
  show ?case
  proof
    assume "contains_str p (c # s)"
    then consider r where "c # s = p @ r" | l r where "s = l @ p @ r"
      using 2 by (auto simp: starts_with_iff)
    then show "\<exists>l r. c # s = l @ p @ r" by (metis append.left_neutral append_Cons)
  next
    assume "\<exists>l r. c # s = l @ p @ r"
    then obtain l r where lr: "c # s = l @ p @ r" by blast
    show "contains_str p (c # s)"
    proof (cases l)
      case Nil
      then have "starts_with p (c # s)" using lr starts_with_iff by auto
      then show ?thesis by simp
    next
      case (Cons d l')
      then have "contains_str p s" using lr 2 by auto
      then show ?thesis by simp
    qed
  qed
qed

section \<open>Trimming\<close>

text \<open>
  \<open>str::trim\<close> removes the characters with the Unicode property White-Space; these are their UTF-8
  encodings. In valid UTF-8 text a suffix that equals one of them is a whole character.
\<close>

definition white_space :: "string list" where
  "white_space =
     [[CHR 0x09], [CHR 0x0A], [CHR 0x0B], [CHR 0x0C], [CHR 0x0D], [CHR 0x20],
      [CHR 0xC2, CHR 0x85], [CHR 0xC2, CHR 0xA0], [CHR 0xE1, CHR 0x9A, CHR 0x80],
      [CHR 0xE2, CHR 0x80, CHR 0x80], [CHR 0xE2, CHR 0x80, CHR 0x81],
      [CHR 0xE2, CHR 0x80, CHR 0x82], [CHR 0xE2, CHR 0x80, CHR 0x83],
      [CHR 0xE2, CHR 0x80, CHR 0x84], [CHR 0xE2, CHR 0x80, CHR 0x85],
      [CHR 0xE2, CHR 0x80, CHR 0x86], [CHR 0xE2, CHR 0x80, CHR 0x87],
      [CHR 0xE2, CHR 0x80, CHR 0x88], [CHR 0xE2, CHR 0x80, CHR 0x89],
      [CHR 0xE2, CHR 0x80, CHR 0x8A], [CHR 0xE2, CHR 0x80, CHR 0xA8],
      [CHR 0xE2, CHR 0x80, CHR 0xA9], [CHR 0xE2, CHR 0x80, CHR 0xAF],
      [CHR 0xE2, CHR 0x81, CHR 0x9F], [CHR 0xE3, CHR 0x80, CHR 0x80]]"

definition leading_in :: "string list \<Rightarrow> string \<Rightarrow> nat" where
  "leading_in ws s = (case find (\<lambda>w. w \<noteq> [] \<and> starts_with w s) ws of None \<Rightarrow> 0 | Some w \<Rightarrow> length w)"

function drop_leading :: "string list \<Rightarrow> string \<Rightarrow> string" where
  "drop_leading ws s =
     (if leading_in ws s = 0 then s else drop_leading ws (drop (leading_in ws s) s))"
  by pat_completeness auto

lemma leading_in_le: "leading_in ws s \<le> length s"
  by (auto simp: leading_in_def find_Some_iff starts_with_iff split: option.splits)

termination drop_leading
proof (relation "measure (\<lambda>(ws, s). length s)", goal_cases)
  case (2 ws s)
  then show ?case using leading_in_le [of ws s] by simp
qed simp

declare drop_leading.simps [simp del]

definition trim_start :: "string \<Rightarrow> string" where
  "trim_start s = drop_leading white_space s"

definition trim_end :: "string \<Rightarrow> string" where
  "trim_end s = rev (drop_leading (map rev white_space) (rev s))"

definition trim :: "string \<Rightarrow> string" where
  "trim s = trim_end (trim_start s)"

lemma drop_leading_suffix: "\<exists>l. s = l @ drop_leading ws s"
proof (induction ws s rule: drop_leading.induct)
  case (1 ws s)
  show ?case
  proof (cases "leading_in ws s = 0")
    case True
    then show ?thesis by (subst drop_leading.simps) simp
  next
    case False
    with 1 obtain l where "drop (leading_in ws s) s = l @ drop_leading ws (drop (leading_in ws s) s)"
      by blast
    with False show ?thesis
      by (metis append.assoc append_take_drop_id drop_leading.simps)
  qed
qed

lemma set_trim: "set (trim s) \<subseteq> set s"
proof -
  have "set (trim_start s) \<subseteq> set s"
    using drop_leading_suffix [of s white_space] by (auto simp: trim_start_def) (metis Un_iff set_append)
  moreover have "set (trim_end t) \<subseteq> set t" for t
    using drop_leading_suffix [of "rev t" "map rev white_space"]
    by (auto simp: trim_end_def) (metis Un_iff set_append set_rev)
  ultimately show ?thesis by (metis order_trans trim_def)
qed

lemma drop_leading_id [text_simps]: "leading_in ws s = 0 \<Longrightarrow> drop_leading ws s = s"
  by (simp add: drop_leading.simps)

text \<open>Text without white space is left alone by \<open>trim\<close>.\<close>

definition ws_byte :: "char \<Rightarrow> bool" where
  "ws_byte c \<longleftrightarrow> byte_of c \<in> {9, 10, 11, 12, 13, 32} \<or> 128 \<le> byte_of c"

lemma white_space_bytes: "w \<in> set white_space \<Longrightarrow> w \<noteq> [] \<and> list_all ws_byte w"
  by (auto simp: white_space_def ws_byte_def byte_of_def)

lemma leading_in_clean:
  assumes "\<not> ws_byte (hd s)" and "s \<noteq> []" and "\<And>w. w \<in> set ws \<Longrightarrow> list_all ws_byte w"
  shows "leading_in ws s = 0"
proof -
  have "\<not> starts_with w s" if "w \<in> set ws" "w \<noteq> []" for w
    using assms(1) assms(3) [OF that(1)] that(2) by (cases w) (auto simp: starts_with_iff)
  then have "find (\<lambda>w. w \<noteq> [] \<and> starts_with w s) ws = None"
    by (auto simp: find_None_iff)
  then show ?thesis by (simp add: leading_in_def)
qed

lemma trim_ends:
  assumes "s \<noteq> []" and "\<not> ws_byte (hd s)" and "\<not> ws_byte (last s)"
  shows "trim s = s"
proof -
  have "leading_in white_space s = 0"
    using assms white_space_bytes by (intro leading_in_clean) auto
  moreover have "leading_in (map rev white_space) (rev s) = 0"
    using assms white_space_bytes by (intro leading_in_clean) (auto simp: hd_rev list_all_iff)
  ultimately show ?thesis by (simp add: trim_def trim_start_def trim_end_def text_simps)
qed

lemma trim_clean:
  assumes "list_all (\<lambda>c. \<not> ws_byte c) s"
  shows "trim s = s"
proof (cases "s = []")
  case True
  have "leading_in ws [] = 0" for ws
    using leading_in_le [of ws "[]"] by simp
  with True show ?thesis by (simp add: trim_def trim_start_def trim_end_def text_simps)
next
  case False
  then show ?thesis using assms by (intro trim_ends) (auto simp: list_all_iff)
qed

lemma drop_leading_keeps:
  assumes "\<And>w. w \<in> set ws \<Longrightarrow> list_all ws_byte w" and "c \<in> set s" and "\<not> ws_byte c"
  shows "c \<in> set (drop_leading ws s)"
  using assms
proof (induction ws s rule: drop_leading.induct)
  case (1 ws s)
  show ?case
  proof (cases "leading_in ws s = 0")
    case True
    then show ?thesis using "1.prems"(2) by (simp add: drop_leading_id)
  next
    case False
    then obtain w where w: "find (\<lambda>w. w \<noteq> [] \<and> starts_with w s) ws = Some w"
      by (auto simp: leading_in_def split: option.splits)
    then have in_ws: "w \<in> set ws" and sw: "starts_with w s" by (auto simp: find_Some_iff)
    then have "s = w @ drop (leading_in ws s) s" using w by (auto simp: leading_in_def starts_with_iff)
    moreover have "c \<notin> set w" using "1.prems"(1) [OF in_ws] "1.prems"(3) by (auto simp: list_all_iff)
    ultimately have "c \<in> set (drop (leading_in ws s) s)" using "1.prems"(2) by (metis Un_iff set_append)
    then have "c \<in> set (drop_leading ws (drop (leading_in ws s) s))"
      using "1.IH" [OF False] "1.prems"(1,3) by blast
    then show ?thesis using False by (subst drop_leading.simps) simp
  qed
qed

lemma trim_keeps: "c \<in> set s \<Longrightarrow> \<not> ws_byte c \<Longrightarrow> c \<in> set (trim s)"
proof -
  assume c: "c \<in> set s" "\<not> ws_byte c"
  have "c \<in> set (trim_start s)"
    unfolding trim_start_def using white_space_bytes c by (intro drop_leading_keeps) auto
  then have "c \<in> set (drop_leading (map rev white_space) (rev (trim_start s)))"
    using white_space_bytes c by (intro drop_leading_keeps) (auto simp: list_all_iff)
  then show ?thesis by (simp add: trim_def trim_end_def)
qed

section \<open>Decimal numbers\<close>

definition digit_char :: "nat \<Rightarrow> char" where
  "digit_char d = char_of (48 + d)"

fun show_nat :: "nat \<Rightarrow> string" where
  "show_nat n = (if n < 10 then [digit_char n] else show_nat (n div 10) @ [digit_char (n mod 10)])"

declare show_nat.simps [simp del]

definition digits_value :: "string \<Rightarrow> nat" where
  "digits_value s = foldl (\<lambda>n c. 10 * n + (byte_of c - 48)) 0 s"

text \<open>\<open>str::parse\<close> of an unsigned type with the given maximum: an optional plus sign, then digits.\<close>

definition parse_unsigned :: "nat \<Rightarrow> string \<Rightarrow> nat option" where
  "parse_unsigned maximum s =
     (let ds = (case s of c # r \<Rightarrow> if c = CHR ''+'' then r else s | [] \<Rightarrow> s)
      in if ds \<noteq> [] \<and> list_all is_ascii_digit ds \<and> digits_value ds \<le> maximum
         then Some (digits_value ds) else None)"

lemma digit_char_literals [simp]:
  "digit_char 0 = CHR ''0''" "digit_char 1 = CHR ''1''" "digit_char (Suc 0) = CHR ''1''"
  "digit_char 2 = CHR ''2''" "digit_char 3 = CHR ''3''" "digit_char 4 = CHR ''4''"
  "digit_char 5 = CHR ''5''" "digit_char 6 = CHR ''6''" "digit_char 7 = CHR ''7''"
  "digit_char 8 = CHR ''8''" "digit_char 9 = CHR ''9''"
  by code_simp+

lemma byte_of_digit_char: "d < 10 \<Longrightarrow> byte_of (digit_char d) = 48 + d"
  by (simp add: byte_of_def digit_char_def)

lemma show_nat_digits: "list_all is_ascii_digit (show_nat n)"
proof (induction n rule: show_nat.induct)
  case (1 n)
  have "is_ascii_digit (digit_char d)" if "d < 10" for d
    using that by (simp add: is_ascii_digit_def byte_of_digit_char)
  then show ?case
    using 1 by (subst show_nat.simps) auto
qed

lemma show_nat_nonempty: "show_nat n \<noteq> []"
  by (subst show_nat.simps) simp

lemma digits_value_show: "digits_value (show_nat n) = n"
proof (induction n rule: show_nat.induct)
  case (1 n)
  then show ?case
    by (subst show_nat.simps) (auto simp: digits_value_def byte_of_digit_char)
qed

lemma parse_show_nat: "n \<le> maximum \<Longrightarrow> parse_unsigned maximum (show_nat n) = Some n"
proof -
  assume n: "n \<le> maximum"
  obtain c r where s: "show_nat n = c # r" using show_nat_nonempty by (meson neq_Nil_conv)
  then have "is_ascii_digit c" using show_nat_digits [of n] by simp
  then have "c \<noteq> CHR ''+''" by (auto simp: is_ascii_digit_def byte_of_def)
  then show ?thesis
    using n s show_nat_digits [of n] digits_value_show [of n]
    by (simp add: parse_unsigned_def)
qed

lemma parse_unsigned_bound: "parse_unsigned maximum s = Some n \<Longrightarrow> n \<le> maximum"
  by (auto simp: parse_unsigned_def Let_def split: if_splits)

lemma digit_plain: "is_ascii_digit c \<Longrightarrow> plain_char c"
  by (auto simp: is_ascii_digit_def plain_char_def)

lemma show_nat_plain: "list_all plain_char (show_nat n)"
  using show_nat_digits [of n] by (auto simp: list_all_iff intro: digit_plain)

text \<open>
  64-bit unsigned numbers. The code equations spare the evaluator the bound when a number has at most 19 digits.
\<close>

definition parse_u64 :: "string \<Rightarrow> nat option" where
  "parse_u64 s = parse_unsigned (2 ^ 64 - 1) s"

definition wrap_u64 :: "nat \<Rightarrow> nat" where
  "wrap_u64 n = n mod 2 ^ 64"

lemma digits_value_snoc: "digits_value (s @ [c]) = 10 * digits_value s + (byte_of c - 48)"
  by (simp add: digits_value_def)

lemma digits_value_less: "list_all is_ascii_digit s \<Longrightarrow> digits_value s < 10 ^ length s"
proof (induction s rule: rev_induct)
  case (snoc c s)
  then have "digits_value s < 10 ^ length s" "byte_of c - 48 \<le> 9" by (auto simp: is_ascii_digit_def)
  then show ?case by (simp add: digits_value_snoc)
qed (simp add: digits_value_def)

lemma short_digits_u64:
  assumes "list_all is_ascii_digit s" and "length s \<le> 19" shows "digits_value s \<le> 2 ^ 64 - 1"
proof -
  have "digits_value s < 10 ^ length s" by (rule digits_value_less [OF assms(1)])
  also have "\<dots> \<le> (10 :: nat) ^ 19" using assms(2) by (rule power_increasing) simp
  finally show ?thesis by simp
qed

lemma parse_u64_code [code]:
  "parse_u64 s =
     (let ds = (case s of c # r \<Rightarrow> if c = CHR ''+'' then r else s | [] \<Rightarrow> s)
      in if ds \<noteq> [] \<and> list_all is_ascii_digit ds \<and> length ds \<le> 19 then Some (digits_value ds)
         else parse_unsigned (2 ^ 64 - 1) s)"
  using short_digits_u64 by (auto simp: parse_u64_def parse_unsigned_def Let_def)

lemma wrap_u64_code [code]: "wrap_u64 n = (if length (show_nat n) \<le> 19 then n else n mod 2 ^ 64)"
proof (cases "length (show_nat n) \<le> 19")
  case True
  then have "n \<le> 2 ^ 64 - 1" using short_digits_u64 [OF show_nat_digits] by (simp add: digits_value_show)
  then have "n < 2 ^ 64" by simp
  then show ?thesis using True by (simp only: wrap_u64_def mod_less if_True)
qed (simp add: wrap_u64_def)

section \<open>Results and commands\<close>

type_synonym ('e, 'a) result = "'e + 'a"
type_synonym ('s, 'e, 'a) cmd = "'s \<Rightarrow> ('e + 'a) \<times> 's"

text \<open>The \<open>?\<close> operator on \<open>Result\<close>.\<close>

definition and_then :: "'e + 'a \<Rightarrow> ('a \<Rightarrow> 'e + 'b) \<Rightarrow> 'e + 'b" where
  "and_then m f = (case m of Inl e \<Rightarrow> Inl e | Inr x \<Rightarrow> f x)"

definition ok_or :: "'a option \<Rightarrow> 'e \<Rightarrow> 'e + 'a" where
  "ok_or m e = (case m of None \<Rightarrow> Inl e | Some x \<Rightarrow> Inr x)"

definition guard_ok :: "bool \<Rightarrow> 'e \<Rightarrow> 'e + unit" where
  "guard_ok b e = (if b then Inr () else Inl e)"

fun all_ok :: "('a \<Rightarrow> 'e + unit) \<Rightarrow> 'a list \<Rightarrow> 'e + unit" where
  "all_ok f [] = Inr ()"
| "all_ok f (x # xs) = and_then (f x) (\<lambda>_. all_ok f xs)"

lemma and_then_simps [simp]: "and_then (Inl e) f = Inl e" "and_then (Inr x) f = f x"
  by (simp_all add: and_then_def)

lemma and_then_Inr [cmd_simps]: "and_then m f = Inr y \<longleftrightarrow> (\<exists>x. m = Inr x \<and> f x = Inr y)"
  by (cases m) auto

lemma and_then_Inl [cmd_simps]:
  "and_then m f = Inl e \<longleftrightarrow> m = Inl e \<or> (\<exists>x. m = Inr x \<and> f x = Inl e)"
  by (cases m) auto

lemma ok_or_Inr [cmd_simps]: "ok_or m e = Inr x \<longleftrightarrow> m = Some x"
  by (cases m) (auto simp: ok_or_def)

lemma ok_or_simps [simp]: "ok_or None e = Inl e" "ok_or (Some x) e = Inr x"
  by (simp_all add: ok_or_def)

lemma guard_ok_Inr [cmd_simps]: "guard_ok b e = Inr u \<longleftrightarrow> b"
  by (simp add: guard_ok_def)

lemma guard_ok_Inl [cmd_simps]: "guard_ok b e = Inl e' \<longleftrightarrow> \<not> b \<and> e' = e"
  by (auto simp: guard_ok_def)

lemma guard_ok_simps [simp]: "guard_ok True e = Inr ()" "guard_ok False e = Inl e"
  by (simp_all add: guard_ok_def)

lemma all_ok_Inr [cmd_simps]: "all_ok f xs = Inr u \<longleftrightarrow> (\<forall>x \<in> set xs. f x = Inr ())"
  by (induction xs) (auto simp: cmd_simps)

text \<open>
  A command threads the state. \<open>lift_r\<close> runs a pure check, \<open>bind_c\<close> sequences two commands and
  stops at the first error with the state reached so far.
\<close>

definition ret_c :: "'a \<Rightarrow> ('s, 'e, 'a) cmd" where
  "ret_c x = (\<lambda>s. (Inr x, s))"

definition bind_c :: "('s, 'e, 'a) cmd \<Rightarrow> ('a \<Rightarrow> ('s, 'e, 'b) cmd) \<Rightarrow> ('s, 'e, 'b) cmd" where
  "bind_c m f = (\<lambda>s. case m s of (Inl e, s') \<Rightarrow> (Inl e, s') | (Inr x, s') \<Rightarrow> f x s')"

definition lift_r :: "('s \<Rightarrow> 'e + 'a) \<Rightarrow> ('s, 'e, 'a) cmd" where
  "lift_r f = (\<lambda>s. (f s, s))"

definition modify_c :: "('s \<Rightarrow> 's) \<Rightarrow> ('s, 'e, unit) cmd" where
  "modify_c f = (\<lambda>s. (Inr (), f s))"

lemma ret_c_eq [cmd_simps]: "ret_c x s = (r, s') \<longleftrightarrow> r = Inr x \<and> s' = s"
  by (auto simp: ret_c_def)

lemma bind_c_Inr [cmd_simps]:
  "bind_c m f s = (Inr y, s') \<longleftrightarrow> (\<exists>x t. m s = (Inr x, t) \<and> f x t = (Inr y, s'))"
  by (auto simp: bind_c_def split: prod.splits sum.splits)

lemma bind_c_Inl [cmd_simps]:
  "bind_c m f s = (Inl e, s') \<longleftrightarrow>
     m s = (Inl e, s') \<or> (\<exists>x t. m s = (Inr x, t) \<and> f x t = (Inl e, s'))"
  by (auto simp: bind_c_def split: prod.splits sum.splits)

lemma lift_r_eq [cmd_simps]: "lift_r f s = (r, s') \<longleftrightarrow> f s = r \<and> s' = s"
  by (auto simp: lift_r_def)

lemma modify_c_eq [cmd_simps]: "modify_c f s = (r, s') \<longleftrightarrow> r = Inr () \<and> s' = f s"
  by (auto simp: modify_c_def)

lemmas cmd_defs = ret_c_def bind_c_def lift_r_def modify_c_def

section \<open>Maps\<close>

lemma map_of_rev_distinct: "distinct (map fst xs) \<Longrightarrow> map_of (rev xs) = map_of xs"
proof (induction xs)
  case (Cons x xs)
  then have "map_of (rev xs) (fst x) = None" by (auto simp: map_of_eq_None_iff)
  with Cons show ?case by (cases x) (auto simp: map_add_def fun_eq_iff split: option.splits)
qed simp

section \<open>Tab separated tables\<close>

text \<open>
  Every table of the state directory is a header line followed by one line per row, each the row's
  fields joined by tabs. \<open>Vec::resize\<close> to the number of columns pads short rows with empty fields
  and cuts long ones.
\<close>

definition pad_fields :: "nat \<Rightarrow> string list \<Rightarrow> string list" where
  "pad_fields n xs = take n xs @ replicate (n - length xs) []"

definition parse_fields :: "nat \<Rightarrow> string \<Rightarrow> string list" where
  "parse_fields n line = pad_fields n (split_char TAB line)"

definition encode_fields :: "string list \<Rightarrow> string" where
  "encode_fields fields = join_with [TAB] fields"

definition field_ok :: "string \<Rightarrow> bool" where
  "field_ok f \<longleftrightarrow> list_all plain_char f"

lemma length_parse_fields [simp]: "length (parse_fields n line) = n"
  by (simp add: parse_fields_def pad_fields_def)

lemma parse_encode_fields:
  "fs \<noteq> [] \<Longrightarrow> list_all field_ok fs \<Longrightarrow> parse_fields (length fs) (encode_fields fs) = fs"
proof -
  assume fs: "fs \<noteq> []" "list_all field_ok fs"
  then have "\<forall>x \<in> set fs. TAB \<notin> set x"
    using list.pred_set field_ok_def plain_char_def by (metis (full_types))
  then have "split_char TAB (join_with [TAB] fs) = fs" using fs(1) by (intro split_char_join)
  then show ?thesis by (simp add: parse_fields_def encode_fields_def pad_fields_def)
qed

lemma set_join_with: "set (join_with sep xs) \<subseteq> set sep \<union> (\<Union>x \<in> set xs. set x)"
  by (induction sep xs rule: join_with.induct) auto

lemma encode_fields_single_line:
  "list_all field_ok fs \<Longrightarrow> single_line (encode_fields fs)"
proof -
  assume fs: "list_all field_ok fs"
  have "plain_char c \<or> c = TAB" if "c \<in> set (encode_fields fs)" for c
    using that set_join_with [of "[TAB]" fs] fs
    by (auto simp: encode_fields_def list_all_iff field_ok_def)
  then show ?thesis by (force simp: single_line_def plain_char_def)
qed

lemma field_ok_single_line: "field_ok f \<Longrightarrow> single_line f"
  by (auto simp: field_ok_def single_line_def list_all_iff plain_char_def)

lemma field_ok_Nil [simp]: "field_ok []"
  by (simp add: field_ok_def)

lemma field_ok_show_nat [simp]: "field_ok (show_nat n)"
  by (simp add: field_ok_def show_nat_plain)

lemma field_ok_append [simp]: "field_ok (s @ t) \<longleftrightarrow> field_ok s \<and> field_ok t"
  by (auto simp: field_ok_def)

definition table_text :: "string \<Rightarrow> string list \<Rightarrow> string" where
  "table_text header rows = unlines (header # rows)"

definition table_lines :: "string \<Rightarrow> string list" where
  "table_lines text = drop 1 (lines text)"

lemma table_lines_text:
  "single_line h \<Longrightarrow> list_all single_line rows \<Longrightarrow> table_lines (table_text h rows) = rows"
  using lines_unlines [of "h # rows"] by (simp add: table_lines_def table_text_def)

text \<open>
  What a row codec promises. A well-formed row is printed on one line, never as an empty line, and
  parses back; the table then reads back as it was written, and an appended row is the last one.
\<close>

locale tsv_table =
  fixes header :: string
    and encode :: "'r \<Rightarrow> string"
    and parse :: "string \<Rightarrow> 'r option"
    and wf_row :: "'r \<Rightarrow> bool"
  assumes header_line: "single_line header"
    and encode_line: "wf_row r \<Longrightarrow> single_line (encode r)"
    and encode_nonempty: "wf_row r \<Longrightarrow> encode r \<noteq> []"
    and parse_encode: "wf_row r \<Longrightarrow> parse (encode r) = Some r"
begin

lemma written_lines:
  "list_all wf_row rows \<Longrightarrow> table_lines (table_text header (map encode rows)) = map encode rows"
  using encode_line by (intro table_lines_text header_line) (auto simp: list_all_iff)

lemma parse_rows: "list_all wf_row rows \<Longrightarrow> List.map_filter parse (map encode rows) = rows"
  by (induction rows) (simp_all add: List.map_filter_simps parse_encode)

lemma read_written:
  "list_all wf_row rows \<Longrightarrow>
     List.map_filter parse (table_lines (table_text header (map encode rows))) = rows"
  by (simp add: written_lines parse_rows)

lemma read_written_nonempty:
  assumes "list_all wf_row rows"
  shows "List.map_filter parse
           (filter (\<lambda>l. l \<noteq> []) (table_lines (table_text header (map encode rows)))) = rows"
proof -
  have "filter (\<lambda>l. l \<noteq> []) (map encode rows) = map encode rows"
    using assms encode_nonempty by (auto simp: filter_id_conv list_all_iff)
  then show ?thesis
    using assms by (simp add: written_lines parse_rows)
qed

lemma read_header_only: "table_lines (header @ [NL]) = []"
  using table_lines_text [of header "[]"] header_line by (simp add: table_text_def)

lemma encode_inj: "wf_row r \<Longrightarrow> wf_row q \<Longrightarrow> encode r = encode q \<Longrightarrow> r = q"
  using parse_encode by (metis option.inject)

end

lemma table_lines_single:
  "CR \<notin> set t \<Longrightarrow> l \<in> set (table_lines t) \<Longrightarrow> single_line l"
  using lines_subset [of l t] lines_no_newline [of l t]
  by (auto simp: table_lines_def single_line_def dest: in_set_dropD)

lemma split_TAB_field_ok: "single_line l \<Longrightarrow> x \<in> set (split_char TAB l) \<Longrightarrow> field_ok x"
  using split_char_piece [of x TAB l]
  by (auto simp: field_ok_def list_all_iff plain_char_def single_line_def)

lemma parse_fields_ok: "single_line l \<Longrightarrow> list_all field_ok (parse_fields n l)"
  by (auto simp: parse_fields_def pad_fields_def list_all_iff dest: in_set_takeD split_TAB_field_ok)

lemma set_table_text: "set (table_text h rows) = set h \<union> {NL} \<union> (\<Union>r \<in> set rows. insert NL (set r))"
  by (auto simp: table_text_def unlines_def)

lemma parse_fields_first:
  assumes "TAB \<notin> set f" and "0 < n"
  shows "parse_fields n (encode_fields (f # fs)) ! 0 = f"
proof (cases fs)
  case Nil
  then show ?thesis using assms
    by (simp add: parse_fields_def encode_fields_def pad_fields_def text_simps)
next
  case (Cons g gs)
  then have "encode_fields (f # fs) = f @ TAB # encode_fields fs" by (simp add: encode_fields_def)
  then show ?thesis using assms
    by (cases n) (simp_all add: parse_fields_def pad_fields_def text_simps)
qed

section \<open>Sequences of commands\<close>

text \<open>
  The interface of a component whose commands keep an invariant: \<open>exec\<close> is what one command does to
  the state, whether it succeeds or fails.
\<close>

locale command_system =
  fixes exec :: "'c \<Rightarrow> 's \<Rightarrow> 's"
    and allowed :: "'c \<Rightarrow> bool"
    and inv :: "'s \<Rightarrow> bool"
  assumes exec_inv: "allowed c \<Longrightarrow> inv s \<Longrightarrow> inv (exec c s)"
begin

lemma run_inv: "list_all allowed cs \<Longrightarrow> inv s \<Longrightarrow> inv (fold exec cs s)"
  by (induction cs arbitrary: s) (auto intro: exec_inv)

lemma prefix_inv: "list_all allowed cs \<Longrightarrow> inv s \<Longrightarrow> inv (fold exec (take k cs) s)"
  by (rule run_inv) (auto simp: list_all_iff dest: in_set_takeD)

end

section \<open>Command line options\<close>

type_synonym options = "string \<rightharpoonup> string"

definition opt_value :: "options \<Rightarrow> string \<Rightarrow> string" where
  "opt_value opts key = (case opts key of None \<Rightarrow> [] | Some v \<Rightarrow> v)"

lemma opt_value_simps [simp]:
  "opts key = None \<Longrightarrow> opt_value opts key = []"
  "opts key = Some v \<Longrightarrow> opt_value opts key = v"
  by (simp_all add: opt_value_def)

section \<open>Identifiers\<close>

text \<open>
  The identifier rule that the \<open>decision\<close>, \<open>dag\<close> and \<open>workflow\<close> commands share: not empty, and only
  ASCII letters, digits, underscores, dots and hyphens.
\<close>

definition id_char :: "char \<Rightarrow> bool" where
  "id_char c \<longleftrightarrow> is_ascii_alphanumeric c \<or> c \<in> {CHR ''_'', CHR ''.'', CHR ''-''}"

definition valid_identifier :: "string \<Rightarrow> bool" where
  "valid_identifier s \<longleftrightarrow> s \<noteq> [] \<and> list_all id_char s"

lemma id_char_plain: "id_char c \<Longrightarrow> plain_char c"
  using alphanumeric_plain [of c] by (auto simp: id_char_def plain_char_def)

lemma valid_identifier_field: "valid_identifier s \<Longrightarrow> field_ok s"
  by (auto simp: valid_identifier_def field_ok_def list_all_iff id_char_plain)

end
