(* ===== verification/State_Config.thy ===== *)
theory State_Config
  imports Prelude
begin

text \<open>
  The shared state primitives (\<open>runtime/src/state.rs\<close>) and the process configuration
  (\<open>runtime/src/config.rs\<close>).

  \<^item> \<open>atomic_write_bytes\<close> is the list of file system operations the function performs. A file has its
    data and whether the data has reached the disk (\<open>sync_all\<close>); a crash may replace data that was not
    synced by anything. The lemmas show that a crash or a failing operation at any point leaves the
    target with its old contents or with the complete new ones.
  \<^item> \<open>parse_env\<close> reads the \<open>KEY=VALUE\<close> files; \<open>env_text\<close> is the form all writers print, and reads back.
  \<^item> An error is the message the program prints. Messages of the operating system are not modelled
    beyond \<open>not_found\<close>.
\<close>

type_synonym error = string
type_synonym env = "string \<rightharpoonup> string"

definition not_found :: error where
  "not_found = ''No such file or directory (os error 2)''"

section \<open>Environment files\<close>

definition parse_env :: "string \<Rightarrow> env" where
  "parse_env text = map_of (rev (List.map_filter (split_once CHR ''='') (lines text)))"

definition read_env :: "string \<Rightarrow> string option \<Rightarrow> error + env" where
  "read_env path file =
     (case file of
        None \<Rightarrow> Inl (''read state '' @ path @ '': '' @ not_found)
      | Some text \<Rightarrow> Inr (parse_env text))"

definition read_env_optional :: "string \<Rightarrow> string option \<Rightarrow> error + env" where
  "read_env_optional path file =
     (case file of None \<Rightarrow> Inr Map.empty | Some text \<Rightarrow> read_env path (Some text))"

text \<open>The text every writer of an environment file prints: one \<open>key=value\<close> line per entry.\<close>

definition env_line :: "string \<times> string \<Rightarrow> string" where
  "env_line kv = fst kv @ CHR ''='' # snd kv"

definition env_text :: "(string \<times> string) list \<Rightarrow> string" where
  "env_text kvs = unlines (map env_line kvs)"

definition env_entry_ok :: "string \<times> string \<Rightarrow> bool" where
  "env_entry_ok kv \<longleftrightarrow> single_line (fst kv) \<and> CHR ''='' \<notin> set (fst kv) \<and> single_line (snd kv)"

section \<open>Crash-safe publication\<close>

type_synonym path = "string list"

record fs_file =
  data :: string
  synced :: bool

type_synonym fs = "path \<rightharpoonup> fs_file"

datatype fs_op =
    Create path
  | Write_All path string
  | Sync_All path
  | Rename path path

definition file_name :: "path \<Rightarrow> string option" where
  "file_name p = (if p = [] \<or> last p = ''..'' then None else Some (last p))"

definition temporary :: "nat \<Rightarrow> path \<Rightarrow> path" where
  "temporary pid p =
     butlast p @ [''.'' @ (case file_name p of None \<Rightarrow> ''state'' | Some n \<Rightarrow> n)
                  @ ''.'' @ show_nat pid @ ''.tmp'']"

definition atomic_write_bytes :: "nat \<Rightarrow> path \<Rightarrow> string \<Rightarrow> error + fs_op list" where
  "atomic_write_bytes pid p bytes =
     (if p = [] then Inl ''state path has no parent: ''
      else let t = temporary pid p
           in Inr [Create t, Write_All t bytes, Sync_All t, Rename t p])"

definition exec_op :: "fs_op \<Rightarrow> fs \<Rightarrow> fs" where
  "exec_op c fs = (case c of
       Create p \<Rightarrow> fs(p \<mapsto> \<lparr>data = [], synced = False\<rparr>)
     | Write_All p bs \<Rightarrow>
         (case fs p of None \<Rightarrow> fs | Some f \<Rightarrow> fs(p \<mapsto> \<lparr>data = data f @ bs, synced = False\<rparr>))
     | Sync_All p \<Rightarrow> (case fs p of None \<Rightarrow> fs | Some f \<Rightarrow> fs(p \<mapsto> f\<lparr>synced := True\<rparr>))
     | Rename p q \<Rightarrow> (case fs p of None \<Rightarrow> fs | Some f \<Rightarrow> (fs(q \<mapsto> f))(p := None)))"

definition exec_ops :: "fs_op list \<Rightarrow> fs \<Rightarrow> fs" where
  "exec_ops cs fs = fold exec_op cs fs"

text \<open>After a crash a synced file is as it was; the data of any other file is arbitrary.\<close>

definition crash_from :: "fs \<Rightarrow> fs \<Rightarrow> bool" where
  "crash_from fs fs' \<longleftrightarrow>
     (\<forall>p. case fs p of
            None \<Rightarrow> fs' p = None
          | Some f \<Rightarrow> (\<exists>g. fs' p = Some g \<and> (synced f \<longrightarrow> g = f)))"

text \<open>What a reader of the path finds.\<close>

definition contents :: "fs \<Rightarrow> path \<Rightarrow> string option" where
  "contents fs p = map_option data (fs p)"

section \<open>Configuration\<close>

definition CONTROL_UID :: nat where "CONTROL_UID = 10000"
definition ORCHESTRATOR_UID :: nat where "ORCHESTRATOR_UID = 10001"
definition WRITER_UID :: nat where "WRITER_UID = 10002"
definition READER_UID :: nat where "READER_UID = 10003"
definition SUPERVISOR_UID :: nat where "SUPERVISOR_UID = 10004"
definition OPS_UID :: nat where "OPS_UID = 10005"
definition REVIEWER_UID :: nat where "REVIEWER_UID = 10007"
definition ROLE_GID :: nat where "ROLE_GID = 10001"

definition lifecycle_enforced_for :: "nat \<Rightarrow> string option \<Rightarrow> string option \<Rightarrow> bool" where
  "lifecycle_enforced_for real_uid requested uid_sandbox \<longleftrightarrow>
     real_uid = ORCHESTRATOR_UID \<or> requested = Some ''1'' \<or> uid_sandbox = Some ''1''"

definition lifecycle_enforced :: "nat \<Rightarrow> env \<Rightarrow> bool" where
  "lifecycle_enforced real_uid environ =
     lifecycle_enforced_for real_uid (environ ''MULTIAGENT_LIFECYCLE_ENFORCEMENT'')
       (environ ''MULTIAGENT_UID_SANDBOX'')"

definition root :: "env \<Rightarrow> string \<Rightarrow> string" where
  "root environ current_dir =
     (case environ ''MULTIAGENT_ROOT'' of
        Some v \<Rightarrow> if v \<noteq> [] then v else current_dir
      | None \<Rightarrow> current_dir)"

definition state_dir :: "env \<Rightarrow> string \<Rightarrow> string" where
  "state_dir environ current_dir =
     (case environ ''MULTIAGENT_STATE_DIR'' of
        Some v \<Rightarrow> if v \<noteq> [] then v else root environ current_dir @ ''/.multiagent''
      | None \<Rightarrow> root environ current_dir @ ''/.multiagent'')"

section \<open>Environment files read back\<close>

lemma split_env_line:
  "env_entry_ok kv \<Longrightarrow> split_once CHR ''='' (env_line kv) = Some kv"
  by (cases kv) (simp add: env_entry_ok_def env_line_def split_once_app)

lemma env_line_single: "env_entry_ok kv \<Longrightarrow> single_line (env_line kv)"
  by (auto simp: env_entry_ok_def env_line_def single_line_def)

lemma parse_env_app:
  assumes "list_all env_entry_ok kvs"
  shows "parse_env (env_text kvs @ rest) = map_of (rev kvs) ++ parse_env rest"
proof -
  have "lines (env_text kvs @ rest) = map env_line kvs @ lines rest"
    using assms by (auto simp: env_text_def list_all_iff env_line_single intro!: lines_unlines_app)
  moreover have "List.map_filter (split_once CHR ''='') (map env_line kvs @ ls)
      = kvs @ List.map_filter (split_once CHR ''='') ls" for ls
    using assms by (induction kvs) (auto simp: List.map_filter_simps split_env_line)
  ultimately show ?thesis
    by (simp add: parse_env_def)
qed

lemma parse_env_text:
  assumes "list_all env_entry_ok kvs"
  shows "parse_env (env_text kvs) = map_of (rev kvs)"
  using parse_env_app [OF assms, of "[]"]
  by (simp add: parse_env_def List.map_filter_simps)

lemma parse_env_text_distinct:
  assumes "list_all env_entry_ok kvs" and "distinct (map fst kvs)"
  shows "parse_env (env_text kvs) = map_of kvs"
  using assms by (simp add: parse_env_text map_of_rev_distinct)

section \<open>Environment files with carriage returns\<close>

text \<open>A value without a line feed reads back, up to a carriage return at its end.\<close>

lemma strip_cr_env_line: "strip_cr (env_line (k, v)) = env_line (k, strip_cr v)"
  by (auto simp: env_line_def strip_cr_def butlast_append)

lemma split_env_line_NL:
  "CHR ''='' \<notin> set k \<Longrightarrow> split_once CHR ''='' (strip_cr (env_line (k, v))) = Some (k, strip_cr v)"
  unfolding strip_cr_env_line by (simp add: env_line_def split_once_app)

definition env_key_ok :: "string \<times> string \<Rightarrow> bool" where
  "env_key_ok kv \<longleftrightarrow> CHR ''='' \<notin> set (fst kv) \<and> NL \<notin> set (fst kv) \<and> NL \<notin> set (snd kv)"

lemma parse_env_text_NL:
  assumes "list_all env_key_ok kvs"
  shows "parse_env (env_text kvs) = map_of (rev (map (\<lambda>(k, v). (k, strip_cr v)) kvs))"
proof -
  have "lines (env_text kvs) = map strip_cr (map env_line kvs)"
    unfolding env_text_def using assms by (intro lines_unlines_NL) (auto simp: list_all_iff env_key_ok_def env_line_def)
  moreover have "List.map_filter (split_once CHR ''='') (map strip_cr (map env_line kvs)) = map (\<lambda>(k, v). (k, strip_cr v)) kvs"
    using assms
  proof (induction kvs)
    case (Cons kv kvs)
    obtain k v where "kv = (k, v)" by force
    then show ?case using Cons
      by (simp add: List.map_filter_simps split_env_line_NL env_key_ok_def)
  qed (simp add: List.map_filter_simps)
  ultimately show ?thesis by (simp add: parse_env_def)
qed

lemma parse_env_value: "parse_env t k = Some v \<Longrightarrow> NL \<notin> set v"
proof -
  assume "parse_env t k = Some v"
  then have "(k, v) \<in> set (List.map_filter (split_once CHR ''='') (lines t))"
    unfolding parse_env_def by (metis map_of_SomeD set_rev)
  then obtain l where l: "l \<in> set (lines t)" "split_once CHR ''='' l = Some (k, v)"
    by (auto simp: List.map_filter_def)
  then have "set v \<subseteq> set l" by (auto simp: split_once_Some)
  then show ?thesis using lines_no_newline [OF l(1)] by blast
qed

text \<open>Appending to an environment file of whole lines overrides the keys that are appended.\<close>

lemma parse_env_whole_app: "whole_lines t \<Longrightarrow> parse_env (t @ u) = parse_env t ++ parse_env u"
  by (simp add: parse_env_def lines_whole_app List.map_filter_def)

section \<open>Publication is atomic\<close>

lemma last_temporary:
  "last (temporary pid p) =
     ''.'' @ (case file_name p of None \<Rightarrow> ''state'' | Some n \<Rightarrow> n) @ ''.'' @ show_nat pid @ ''.tmp''"
  by (simp add: temporary_def)

lemma temporary_not_target:
  assumes "p \<noteq> []"
  shows "temporary pid p \<noteq> p"
proof (cases "file_name p")
  case None
  then have "length (last p) = 2" using assms by (simp add: file_name_def split: if_splits)
  moreover have "length (last (temporary pid p)) > 2" using None by (simp add: last_temporary)
  ultimately show ?thesis by force
next
  case (Some n)
  then have "last p = n" using assms by (simp add: file_name_def split: if_splits)
  moreover have "length (last (temporary pid p)) > length n" using Some by (simp add: last_temporary)
  ultimately show ?thesis by force
qed

lemma crash_contents:
  assumes "crash_from fs fs'" and "fs p = Some f" and "synced f"
  shows "contents fs' p = Some (data f)"
  using assms(1) [unfolded crash_from_def, rule_format, of p] assms(2,3)
  by (auto simp: contents_def)

lemma crash_absent: "crash_from fs fs' \<Longrightarrow> fs p = None \<Longrightarrow> contents fs' p = None"
  using crash_from_def by (simp add: contents_def) (metis (mono_tags) option.simps(4))

text \<open>Each prefix of the operations leaves the target alone, or it is the whole and durable.\<close>

lemma atomic_write_prefix:
  assumes ops: "atomic_write_bytes pid p bytes = Inr cs"
  shows "exec_ops (take k cs) fs p = fs p \<and> k < 4 \<or>
         exec_ops (take k cs) fs p = Some \<lparr>data = bytes, synced = True\<rparr>"
proof -
  define t where "t = temporary pid p"
  have p: "p \<noteq> []" and cs: "cs = [Create t, Write_All t bytes, Sync_All t, Rename t p]"
    using ops by (auto simp: atomic_write_bytes_def t_def Let_def split: if_splits)
  have t: "t \<noteq> p" "p \<noteq> t" using temporary_not_target [OF p, of pid] by (auto simp: t_def)
  consider "k = 0" | "k = Suc 0" | "k = Suc (Suc 0)" | "k = Suc (Suc (Suc 0))"
    | j where "k = Suc (Suc (Suc (Suc j)))"
    by (metis not0_implies_Suc)
  then show ?thesis
    by cases (simp_all add: cs exec_ops_def exec_op_def t)
qed

end
