(* ===== verification/Dag.thy ===== *)
theory Dag
  imports State_Config "HOL-Library.AList"
begin

text \<open>
  The workflow graph commands of \<open>runtime/src/dag.rs\<close>.

  A workflow directory is a \<open>dag_dir\<close>: the texts of its four files. The state of a command is the
  association list from workflow identifiers to directories; a command returns the text it prints, or the error
  message, and the state it leaves. \<open>ts i\<close> is the \<open>i\<close>-th time stamp the command reads.

  The lemmas show that the depth-first search \<open>has_cycle\<close> decides cyclicity of the dependency
  relation, that every command keeps the graph well formed (distinct node identifiers, edges between
  existing nodes, no cycle), what \<open>ready\<close> and \<open>blocked\<close> print, that rows read back as they were
  written, and that a well-formed graph never gets stuck.
\<close>

section \<open>Tables\<close>

definition NODE_HEADER :: string where
  "NODE_HEADER = join_with [TAB] [''node_id'', ''agent'', ''assignment_id'', ''role'', ''branch'',
     ''owned_paths'', ''status'', ''decision_id'', ''plan_id'', ''added_at'']"

definition EDGE_HEADER :: string where
  "EDGE_HEADER = join_with [TAB] [''from_node'', ''to_node'', ''added_at'']"

definition STATUSES :: "string list" where
  "STATUSES = [''pending'', ''ready'', ''running'', ''blocked'', ''done'', ''failed'', ''skipped'']"

definition ROLES :: "string list" where
  "ROLES = [''exploitation'', ''exploration'', ''reflection'', ''architecture'', ''qa'', ''verifier'',
     ''scout'']"

record node =
  node_id :: string
  agent :: string
  assignment_id :: string
  role :: string
  branch :: string
  owned_paths :: string
  status :: string
  decision_id :: string
  plan_id :: string
  added_at :: string

record edge =
  from_node :: string
  to_node :: string
  edge_added_at :: string

definition node_parse :: "string \<Rightarrow> node option" where
  "node_parse line =
     (let f = parse_fields 10 line
      in Some \<lparr>node_id = f ! 0, agent = f ! 1, assignment_id = f ! 2, role = f ! 3, branch = f ! 4,
               owned_paths = f ! 5, status = f ! 6, decision_id = f ! 7, plan_id = f ! 8,
               added_at = f ! 9\<rparr>)"

definition node_fields :: "node \<Rightarrow> string list" where
  "node_fields n = [node_id n, agent n, assignment_id n, role n, branch n, owned_paths n, status n,
     decision_id n, plan_id n, added_at n]"

definition node_line :: "node \<Rightarrow> string" where
  "node_line n = encode_fields (node_fields n)"

definition edge_parse :: "string \<Rightarrow> edge option" where
  "edge_parse line =
     (case split_char TAB line of
        f # t # rest \<Rightarrow>
          Some \<lparr>from_node = f, to_node = t,
                edge_added_at = (case rest of [] \<Rightarrow> [] | a # _ \<Rightarrow> a)\<rparr>
      | _ \<Rightarrow> None)"

definition edge_line :: "edge \<Rightarrow> string" where
  "edge_line e = encode_fields [from_node e, to_node e, edge_added_at e]"

section \<open>The store\<close>

record dag_dir =
  workflow_env :: "string option"
  nodes_tsv :: "string option"
  edges_tsv :: "string option"
  events_log :: "string option"

type_synonym dag_state = "(string \<times> dag_dir) list"
type_synonym 'a dag_cmd = "(dag_state, error, 'a) cmd"
type_synonym clock = "nat \<Rightarrow> string"

definition empty_dir :: dag_dir where
  "empty_dir = \<lparr>workflow_env = None, nodes_tsv = None, edges_tsv = None, events_log = None\<rparr>"

definition workflow_dir :: "dag_state \<Rightarrow> string \<Rightarrow> dag_dir" where
  "workflow_dir s w = (case map_of s w of None \<Rightarrow> empty_dir | Some d \<Rightarrow> d)"

definition dag_exists :: "dag_state \<Rightarrow> string \<Rightarrow> bool" where
  "dag_exists s w \<longleftrightarrow> workflow_env (workflow_dir s w) \<noteq> None"

definition dag_lock :: "string \<Rightarrow> unit dag_cmd" where
  "dag_lock w = modify_c (\<lambda>s. AList.update w (workflow_dir s w) s)"

definition dag_require :: "dag_state \<Rightarrow> string \<Rightarrow> error + dag_dir" where
  "dag_require s w =
     (if dag_exists s w then Inr (workflow_dir s w) else Inl (''workflow does not exist: '' @ w))"

definition update_dir :: "string \<Rightarrow> (dag_dir \<Rightarrow> dag_dir) \<Rightarrow> unit dag_cmd" where
  "update_dir w f = modify_c (\<lambda>s. AList.update w (f (workflow_dir s w)) s)"

definition append_file :: "string option \<Rightarrow> string \<Rightarrow> string option" where
  "append_file old text = Some ((case old of None \<Rightarrow> [] | Some t \<Rightarrow> t) @ text)"

definition dag_event :: "string \<Rightarrow> string \<Rightarrow> string \<Rightarrow> unit dag_cmd" where
  "dag_event stamp w event =
     update_dir w (\<lambda>d. d\<lparr>events_log := append_file (events_log d) (stamp @ [TAB] @ event @ [NL])\<rparr>)"

definition read_nodes :: "dag_dir \<Rightarrow> error + node list" where
  "read_nodes d =
     (case nodes_tsv d of
        None \<Rightarrow> Inl (''read workflow nodes: '' @ not_found)
      | Some text \<Rightarrow> Inr (List.map_filter node_parse (table_lines text)))"

definition read_edges :: "dag_dir \<Rightarrow> error + edge list" where
  "read_edges d =
     (case edges_tsv d of
        None \<Rightarrow> Inl (''read workflow edges: '' @ not_found)
      | Some text \<Rightarrow> Inr (List.map_filter edge_parse (table_lines text)))"

definition write_nodes :: "string \<Rightarrow> node list \<Rightarrow> unit dag_cmd" where
  "write_nodes w ns =
     update_dir w (\<lambda>d. d\<lparr>nodes_tsv := Some (table_text NODE_HEADER (map node_line ns))\<rparr>)"

definition write_edges :: "string \<Rightarrow> edge list \<Rightarrow> unit dag_cmd" where
  "write_edges w es =
     update_dir w (\<lambda>d. d\<lparr>edges_tsv := Some (table_text EDGE_HEADER (map edge_line es))\<rparr>)"

section \<open>Arguments\<close>

fun dag_parse_options_from :: "options \<Rightarrow> string list \<Rightarrow> string list \<Rightarrow> error + options" where
  "dag_parse_options_from opts [] allowed = Inr opts"
| "dag_parse_options_from opts [raw] allowed =
     (case strip_prefix ''--'' raw of
        None \<Rightarrow> Inl (''unknown option: '' @ raw)
      | Some key \<Rightarrow>
          if key \<notin> set allowed then Inl (''unknown option: '' @ raw)
          else Inl (raw @ '' requires a value''))"
| "dag_parse_options_from opts (raw # current # rest) allowed =
     (case strip_prefix ''--'' raw of
        None \<Rightarrow> Inl (''unknown option: '' @ raw)
      | Some key \<Rightarrow>
          if key \<notin> set allowed then Inl (''unknown option: '' @ raw)
          else dag_parse_options_from (opts(key \<mapsto> current)) rest allowed)"

definition dag_parse_options :: "string list \<Rightarrow> string list \<Rightarrow> error + options" where
  "dag_parse_options args allowed = dag_parse_options_from Map.empty args allowed"

definition dag_required :: "options \<Rightarrow> string \<Rightarrow> error \<Rightarrow> error + string" where
  "dag_required opts key message =
     (case opts key of
        Some current \<Rightarrow> if current \<noteq> [] then Inr current else Inl message
      | None \<Rightarrow> Inl message)"

definition dag_value :: "options \<Rightarrow> string \<Rightarrow> string" where
  "dag_value opts key = opt_value opts key"

definition dag_validate_id :: "string \<Rightarrow> string \<Rightarrow> error + unit" where
  "dag_validate_id label current =
     (if current = [] \<or> \<not> list_all id_char current
      then Inl (''invalid '' @ label @ '': '' @ current) else Inr ())"

definition validate_status :: "string \<Rightarrow> error + unit" where
  "validate_status st =
     (if st \<in> set STATUSES then Inr ()
      else Inl (''invalid status: '' @ st
        @ '' (expected pending|ready|running|blocked|done|failed|skipped)''))"

definition validate_role :: "string \<Rightarrow> error + unit" where
  "validate_role r =
     (if r \<in> set ROLES then Inr ()
      else Inl (''invalid role: '' @ r
        @ '' (expected exploitation|exploration|reflection|architecture|qa|verifier|scout)''))"

definition dag_reject_newline :: "string \<times> string \<Rightarrow> error + unit" where
  "dag_reject_newline lc =
     (if NL \<in> set (snd lc) \<or> CR \<in> set (snd lc) then Inl (fst lc @ '' may not contain newlines'')
      else Inr ())"

definition dag_one_id :: "string \<Rightarrow> string list \<Rightarrow> error + string" where
  "dag_one_id command args =
     (case args of
        [] \<Rightarrow> Inl (command @ '' requires WORKFLOW_ID'')
      | w # _ \<Rightarrow> and_then (dag_validate_id ''workflow ID'' w) (\<lambda>_. Inr w))"

section \<open>Cycle detection\<close>

definition successors :: "edge list \<Rightarrow> string \<Rightarrow> string list" where
  "successors es n = map to_node (filter (\<lambda>e. from_node e = n) es)"

definition endpoints :: "edge list \<Rightarrow> string list" where
  "endpoints es = concat (map (\<lambda>e. [from_node e, to_node e]) es)"

text \<open>
  The search returns whether a cycle was met, and the sets \<open>visited\<close> and \<open>active\<close> it leaves;
  \<open>visit_any\<close> is the loop \<open>.any(..)\<close> over the next nodes, which stops at the first cycle.
\<close>

function (sequential)
  visit_cycle ::
    "edge list \<Rightarrow> string \<Rightarrow> string set \<Rightarrow> string set \<Rightarrow> bool \<times> string set \<times> string set"
  and visit_any ::
    "edge list \<Rightarrow> string list \<Rightarrow> string set \<Rightarrow> string set \<Rightarrow> bool \<times> string set \<times> string set"
where
  "visit_cycle es n visited active =
     (if n \<in> active then (True, visited, active)
      else if n \<in> visited then (False, visited, active)
      else (case visit_any es (successors es n) (insert n visited) (insert n active) of
              (cyclic, visited', active') \<Rightarrow> (cyclic, visited', active' - {n})))"
| "visit_any es [] visited active = (False, visited, active)"
| "visit_any es (n # ns) visited active =
     (case visit_cycle es n visited active of
        (cyclic, visited', active') \<Rightarrow>
          if cyclic then (True, visited', active') else visit_any es ns visited' active')"
  by pat_completeness auto

text \<open>A call only adds to \<open>visited\<close>; this is what makes the recursion end.\<close>

lemma visited_grows_partial:
  "visit_cycle_visit_any_dom (Inl (es, n, v, a)) \<Longrightarrow> v \<subseteq> fst (snd (visit_cycle es n v a))"
  "visit_cycle_visit_any_dom (Inr (es, ns, v, a)) \<Longrightarrow> v \<subseteq> fst (snd (visit_any es ns v a))"
proof (induction es n v a and es ns v a rule: visit_cycle_visit_any.pinduct)
  case (1 es n v a)
  obtain c w b where r: "visit_any es (successors es n) (insert n v) (insert n a) = (c, w, b)"
    by (metis prod_cases3)
  show ?case
    using "1.IH" r by (subst visit_cycle.psimps [OF "1.hyps"]) auto
next
  case (2 es v a)
  then show ?case by (simp add: visit_any.psimps)
next
  case (3 es n ns v a)
  obtain c w b where r: "visit_cycle es n v a = (c, w, b)" by (metis prod_cases3)
  then have "v \<subseteq> w" using "3.IH"(1) by simp
  moreover have "w \<subseteq> fst (snd (visit_any es ns w b))" if "\<not> c"
    using "3.IH"(2) [OF r [symmetric] refl] that by simp
  ultimately show ?case
    using r by (subst visit_any.psimps(2) [OF "3.hyps"]) auto
qed

lemma successors_outside: "n \<notin> set (endpoints es) \<Longrightarrow> successors es n = []"
  by (induction es) (auto simp: endpoints_def successors_def)

lemma unvisited_decrease:
  "n \<in> set (endpoints es) \<Longrightarrow> n \<notin> v \<Longrightarrow>
     card (set (endpoints es) - insert n v) < card (set (endpoints es) - v)"
  by (intro psubset_card_mono) auto

lemma unvisited_le:
  "v \<subseteq> w \<Longrightarrow> card (set (endpoints es) - w) \<le> card (set (endpoints es) - v)"
  by (intro card_mono) auto

definition search_measure ::
  "(edge list \<times> string \<times> string set \<times> string set)
   + (edge list \<times> string list \<times> string set \<times> string set) \<Rightarrow> nat \<times> nat" where
  "search_measure c = (case c of
       Inl (es, n, v, a) \<Rightarrow> (card (set (endpoints es) - v), 1)
     | Inr (es, ns, v, a) \<Rightarrow> (card (set (endpoints es) - v), 2 * length ns))"

termination visit_cycle
proof (relation "inv_image (less_than <*lex*> less_than) search_measure", goal_cases)
  case 1
  then show ?case by (auto intro: wf_inv_image)
next
  case (2 es n v a)
  show ?case
  proof (cases "n \<in> set (endpoints es)")
    case True
    then show ?thesis using 2 unvisited_decrease [of n es v] by (simp add: search_measure_def)
  next
    case False
    then show ?thesis
      using unvisited_le [of v "insert n v" es]
      by (auto simp: search_measure_def successors_outside le_less)
  qed
next
  case (3 es n ns v a)
  then show ?case by (simp add: search_measure_def)
next
  case (4 es n ns v a x c v' a')
  then have "v \<subseteq> v'" using visited_grows_partial(1) [of es n v a] by (metis fst_conv snd_conv)
  then show ?case using unvisited_le [of v v' es] by (auto simp: search_measure_def le_less)
qed

definition has_cycle :: "edge list \<Rightarrow> bool" where
  "has_cycle es = fst (visit_any es (sort (remdups (endpoints es))) {} {})"

section \<open>Commands\<close>

definition dag_init :: "clock \<Rightarrow> string list \<Rightarrow> string dag_cmd" where
  "dag_init ts args =
     bind_c (lift_r (\<lambda>_. case args of
        [] \<Rightarrow> Inl ''init requires WORKFLOW_ID''
      | w # rest \<Rightarrow>
          and_then (dag_validate_id ''workflow ID'' w) (\<lambda>_.
          and_then (dag_parse_options rest [''title'', ''owner'']) (\<lambda>opts.
          and_then (dag_required opts ''title'' ''init requires --title'') (\<lambda>title.
          and_then (dag_reject_newline (''--title'', title)) (\<lambda>_.
          and_then (dag_reject_newline (''--owner'', dag_value opts ''owner'')) (\<lambda>_.
          Inr (w, title, dag_value opts ''owner''))))))))
     (\<lambda>(w, title, owner).
     bind_c (dag_lock w) (\<lambda>_.
     bind_c (lift_r (\<lambda>s. guard_ok (\<not> dag_exists s w) (''workflow already exists: '' @ w))) (\<lambda>_.
     bind_c (update_dir w (\<lambda>d. d\<lparr>workflow_env := Some (env_text
       [(''workflow_id'', w), (''title'', title), (''owner'', owner), (''status'', ''active''),
        (''created_at'', ts 0)])\<rparr>)) (\<lambda>_.
     bind_c (update_dir w (\<lambda>d. d\<lparr>nodes_tsv := Some (NODE_HEADER @ [NL])\<rparr>)) (\<lambda>_.
     bind_c (update_dir w (\<lambda>d. d\<lparr>edges_tsv := Some (EDGE_HEADER @ [NL])\<rparr>)) (\<lambda>_.
     bind_c (dag_event (ts 1) w
       (''workflow_created'' @ [TAB] @ ''title='' @ title @ [TAB] @ ''owner='' @ owner)) (\<lambda>_.
     ret_c (unlines [''workflow created'' @ [TAB] @ w @ [TAB] @ title]))))))))"

text \<open>The arguments of \<open>add-node\<close>, checked before the store is touched.\<close>

definition add_node_input :: "string list \<Rightarrow> error + (string \<times> string \<times> options)" where
  "add_node_input args =
     (case args of
        [] \<Rightarrow> Inl ''add-node requires WORKFLOW_ID''
      | [_] \<Rightarrow> Inl ''add-node requires NODE_ID''
      | w # n # rest \<Rightarrow>
          and_then (dag_validate_id ''workflow ID'' w) (\<lambda>_.
          and_then (dag_validate_id ''node ID'' n) (\<lambda>_.
          and_then (dag_parse_options rest
            [''agent'', ''assignment-id'', ''role'', ''branch'', ''owned'', ''depends-on'', ''status'',
             ''decision-id'', ''plan-id'']) (\<lambda>opts.
          and_then (dag_required opts ''agent'' ''add-node requires --agent'') (\<lambda>_.
          and_then (dag_required opts ''assignment-id'' ''add-node requires --assignment-id'') (\<lambda>_.
          and_then (dag_required opts ''role'' ''add-node requires --role'') (\<lambda>r.
          and_then (dag_required opts ''branch'' ''add-node requires --branch'') (\<lambda>_.
          and_then (dag_required opts ''owned'' ''add-node requires --owned'') (\<lambda>_.
          and_then (validate_role r) (\<lambda>_.
          and_then (validate_status
            (case opts ''status'' of None \<Rightarrow> ''pending'' | Some st \<Rightarrow> st)) (\<lambda>_.
          and_then (all_ok dag_reject_newline
            (map (\<lambda>key. (''--'' @ key, dag_value opts key))
              [''agent'', ''assignment-id'', ''role'', ''branch'', ''owned'', ''depends-on'',
               ''decision-id'', ''plan-id''])) (\<lambda>_.
          Inr (w, n, opts)))))))))))))"

definition dependencies :: "options \<Rightarrow> string list" where
  "dependencies opts =
     filter (\<lambda>d. d \<noteq> []) (map trim (split_char CHR '','' (dag_value opts ''depends-on'')))"

definition new_node :: "string \<Rightarrow> options \<Rightarrow> string \<Rightarrow> node" where
  "new_node n opts stamp =
     \<lparr>node_id = n, agent = dag_value opts ''agent'', assignment_id = dag_value opts ''assignment-id'',
      role = dag_value opts ''role'', branch = dag_value opts ''branch'',
      owned_paths = dag_value opts ''owned'',
      status = (case opts ''status'' of None \<Rightarrow> ''pending'' | Some st \<Rightarrow> st),
      decision_id = dag_value opts ''decision-id'', plan_id = dag_value opts ''plan-id'',
      added_at = stamp\<rparr>"

definition new_edges :: "string \<Rightarrow> options \<Rightarrow> string \<Rightarrow> edge list" where
  "new_edges n opts stamp =
     map (\<lambda>d. \<lparr>from_node = d, to_node = n, edge_added_at = stamp\<rparr>) (dependencies opts)"

text \<open>The checks against the tables, and the tables to write.\<close>

definition add_node_tables ::
  "string \<Rightarrow> string \<Rightarrow> options \<Rightarrow> dag_dir \<Rightarrow> error + (node list \<times> edge list)" where
  "add_node_tables stamp n opts d =
     and_then (read_nodes d) (\<lambda>ns.
     and_then (guard_ok (\<not> list_ex (\<lambda>m. node_id m = n) ns) (''node ID already exists: '' @ n)) (\<lambda>_.
     and_then (all_ok (\<lambda>dep. guard_ok (list_ex (\<lambda>m. node_id m = dep) ns)
       (''dependency does not exist: '' @ dep)) (dependencies opts)) (\<lambda>_.
     and_then (read_edges d) (\<lambda>es.
     and_then (guard_ok (\<not> has_cycle (es @ new_edges n opts stamp))
       ''dependency cycle detected'') (\<lambda>_.
     Inr (ns @ [new_node n opts stamp], es @ new_edges n opts stamp))))))"

definition add_node :: "clock \<Rightarrow> string list \<Rightarrow> string dag_cmd" where
  "add_node ts args =
     bind_c (lift_r (\<lambda>_. add_node_input args)) (\<lambda>(w, n, opts).
     bind_c (dag_lock w) (\<lambda>_.
     bind_c (lift_r (\<lambda>s. and_then (dag_require s w) (add_node_tables (ts 0) n opts))) (\<lambda>(ns, es).
     bind_c (write_nodes w ns) (\<lambda>_.
     bind_c (write_edges w es) (\<lambda>_.
     bind_c (dag_event (ts 1) w
       (''node_added'' @ [TAB] @ ''node_id='' @ n @ [TAB] @ ''agent='' @ dag_value opts ''agent''
        @ [TAB] @ ''assignment_id='' @ dag_value opts ''assignment-id''
        @ [TAB] @ ''status='' @ (case opts ''status'' of None \<Rightarrow> ''pending'' | Some st \<Rightarrow> st)
        @ [TAB] @ ''depends_on='' @ dag_value opts ''depends-on'')) (\<lambda>_.
     ret_c (unlines [''node added'' @ [TAB] @ w @ [TAB] @ n @ [TAB] @ dag_value opts ''agent''])))))))"

text \<open>The first node with the identifier gets the status.\<close>

fun set_status :: "string \<Rightarrow> string \<Rightarrow> node list \<Rightarrow> node list option" where
  "set_status n st [] = None"
| "set_status n st (m # ms) =
     (if node_id m = n then Some (m\<lparr>status := st\<rparr> # ms)
      else map_option ((#) m) (set_status n st ms))"

definition update_status :: "clock \<Rightarrow> string list \<Rightarrow> string dag_cmd" where
  "update_status ts args =
     bind_c (lift_r (\<lambda>_. case args of
        [] \<Rightarrow> Inl ''status requires WORKFLOW_ID''
      | [_] \<Rightarrow> Inl ''status requires NODE_ID''
      | [_, _] \<Rightarrow> Inl ''status requires STATUS''
      | w # n # st # rest \<Rightarrow>
          and_then (dag_validate_id ''workflow ID'' w) (\<lambda>_.
          and_then (dag_validate_id ''node ID'' n) (\<lambda>_.
          and_then (validate_status st) (\<lambda>_.
          and_then (dag_parse_options rest [''reason'']) (\<lambda>opts.
          and_then (dag_reject_newline (''--reason'', dag_value opts ''reason'')) (\<lambda>_.
          Inr (w, n, st, dag_value opts ''reason'')))))))) (\<lambda>(w, n, st, reason).
     bind_c (dag_lock w) (\<lambda>_.
     bind_c (lift_r (\<lambda>s.
       and_then (dag_require s w) (\<lambda>d.
       and_then (read_nodes d) (\<lambda>ns.
       ok_or (set_status n st ns) (''node does not exist: '' @ n))))) (\<lambda>ns.
     bind_c (write_nodes w ns) (\<lambda>_.
     bind_c (dag_event (ts 0) w
       (''status_updated'' @ [TAB] @ ''node_id='' @ n @ [TAB] @ ''status='' @ st
        @ [TAB] @ ''reason='' @ reason)) (\<lambda>_.
     ret_c (unlines [''status updated'' @ [TAB] @ w @ [TAB] @ n @ [TAB] @ st]))))))"

definition statuses :: "node list \<Rightarrow> string \<rightharpoonup> string" where
  "statuses ns = map_of (rev (map (\<lambda>n. (node_id n, status n)) ns))"

definition node_dependencies :: "edge list \<Rightarrow> node \<Rightarrow> string list" where
  "node_dependencies es n = map from_node (filter (\<lambda>e. to_node e = node_id n) es)"

definition node_ready :: "node list \<Rightarrow> edge list \<Rightarrow> node \<Rightarrow> bool" where
  "node_ready ns es n \<longleftrightarrow>
     status n = ''ready'' \<or>
     status n = ''pending'' \<and>
       list_all (\<lambda>d. statuses ns d = Some ''done'' \<or> statuses ns d = Some ''skipped'')
         (node_dependencies es n)"

definition ready_nodes :: "node list \<Rightarrow> edge list \<Rightarrow> string list" where
  "ready_nodes ns es = map node_id (filter (node_ready ns es) ns)"

definition dag_tables :: "dag_state \<Rightarrow> string \<Rightarrow> error + (node list \<times> edge list)" where
  "dag_tables s w =
     and_then (dag_require s w) (\<lambda>d.
     and_then (read_nodes d) (\<lambda>ns. and_then (read_edges d) (\<lambda>es. Inr (ns, es))))"

definition ready :: "string list \<Rightarrow> string dag_cmd" where
  "ready args = lift_r (\<lambda>s.
     and_then (dag_one_id ''ready'' args) (\<lambda>w.
     and_then (dag_tables s w) (\<lambda>(ns, es). Inr (unlines (ready_nodes ns es)))))"

definition failed_dependency :: "node list \<Rightarrow> edge list \<Rightarrow> node \<Rightarrow> string option" where
  "failed_dependency ns es n =
     find (\<lambda>d. statuses ns d = Some ''failed'') (node_dependencies es n)"

definition blocked_lines :: "node list \<Rightarrow> edge list \<Rightarrow> string list" where
  "blocked_lines ns es =
     List.map_filter (\<lambda>n.
       if status n \<noteq> ''pending'' \<and> status n \<noteq> ''ready'' then None
       else map_option (\<lambda>d. node_id n @ [TAB] @ ''dependency '' @ d @ '' failed'')
              (failed_dependency ns es n)) ns"

definition blocked :: "string list \<Rightarrow> string dag_cmd" where
  "blocked args = lift_r (\<lambda>s.
     and_then (dag_one_id ''blocked'' args) (\<lambda>w.
     and_then (dag_tables s w) (\<lambda>(ns, es).
     Inr (unlines ((''BLOCKED_NODES'' @ [TAB] @ ''REASON'') # blocked_lines ns es)))))"

definition dag_print_section :: "string \<Rightarrow> string option \<Rightarrow> bool \<Rightarrow> string" where
  "dag_print_section label text header_only_empty =
     (let t = (case text of None \<Rightarrow> [] | Some x \<Rightarrow> x)
      in unlines [[], label @ '':''] @
         (if t = [] \<or> (header_only_empty \<and> length (lines t) \<le> 1) then unlines [''(none)'']
          else t))"

definition dag_show :: "string list \<Rightarrow> string dag_cmd" where
  "dag_show args = lift_r (\<lambda>s.
     and_then (dag_one_id ''show'' args) (\<lambda>w.
     and_then (dag_require s w) (\<lambda>d.
     Inr (unlines [''Workflow: '' @ w, replicate 50 CHR ''='']
       @ dag_print_section ''Metadata'' (workflow_env d) False
       @ dag_print_section ''Nodes'' (nodes_tsv d) True
       @ dag_print_section ''Dependencies'' (edges_tsv d) True
       @ dag_print_section ''Events'' (events_log d) False))))"

definition list_line :: "string \<Rightarrow> env \<Rightarrow> string" where
  "list_line w m =
     encode_fields [w, case m ''status'' of None \<Rightarrow> ''unknown'' | Some st \<Rightarrow> st,
       opt_value m ''title'', opt_value m ''owner'', opt_value m ''created_at'']"

definition dag_list :: "string dag_cmd" where
  "dag_list = lift_r (\<lambda>s.
     Inr (unlines (encode_fields [''WORKFLOW_ID'', ''STATUS'', ''TITLE'', ''OWNER'', ''CREATED_AT'']
       # List.map_filter (\<lambda>w. map_option (\<lambda>t. list_line w (parse_env t))
           (workflow_env (workflow_dir s w))) (sort (map fst s)))))"

definition dag_run :: "clock \<Rightarrow> string \<Rightarrow> string list \<Rightarrow> string dag_cmd" where
  "dag_run ts usage args =
     (case args of
        [] \<Rightarrow> lift_r (\<lambda>_. Inl ''missing command'')
      | c # rest \<Rightarrow>
          if c \<in> {''-h'', ''--help'', ''help''} then ret_c (unlines [usage])
          else if c = ''init'' then dag_init ts rest
          else if c = ''add-node'' then add_node ts rest
          else if c = ''status'' then update_status ts rest
          else if c = ''ready'' then ready rest
          else if c = ''blocked'' then blocked rest
          else if c = ''show'' then dag_show rest
          else if c = ''list'' then dag_list
          else lift_r (\<lambda>_. Inl (''unknown command: '' @ c)))"

section \<open>The search decides cyclicity\<close>

definition edge_rel :: "edge list \<Rightarrow> (string \<times> string) set" where
  "edge_rel es = set (map (\<lambda>e. (from_node e, to_node e)) es)"

lemma edge_rel_append [simp]: "edge_rel (es @ fs) = edge_rel es \<union> edge_rel fs"
  by (simp add: edge_rel_def)

lemma successors_edge_rel: "m \<in> set (successors es n) \<longleftrightarrow> (n, m) \<in> edge_rel es"
  by (auto simp: successors_def edge_rel_def)

lemma endpoints_edge_rel: "set (endpoints es) = Field (edge_rel es)"
  by (induction es) (auto simp: endpoints_def edge_rel_def Field_def)

text \<open>A search that meets no cycle gives \<open>active\<close> back as it was.\<close>

lemma search_restores_active:
  "\<not> fst (visit_cycle es n v a) \<Longrightarrow> snd (snd (visit_cycle es n v a)) = a"
  "\<not> fst (visit_any es ns v a) \<Longrightarrow> snd (snd (visit_any es ns v a)) = a"
proof (induction es n v a and es ns v a rule: visit_cycle_visit_any.induct)
  case (1 es n v a)
  obtain c w b where r: "visit_any es (successors es n) (insert n v) (insert n a) = (c, w, b)"
    by (metis prod_cases3)
  with 1 show ?case by (auto split: if_splits)
next
  case (3 es n ns v a)
  obtain c w b where r: "visit_cycle es n v a = (c, w, b)" by (metis prod_cases3)
  with "3.prems" have "\<not> c" by auto
  then show ?case using "3.IH"(1) "3.IH"(2) [OF r [symmetric] refl] "3.prems" r by simp
qed simp

lemma search_True_cycle:
  "fst (visit_cycle es n v a) \<Longrightarrow> \<forall>x \<in> a. (x, n) \<in> (edge_rel es)\<^sup>+ \<Longrightarrow>
     \<not> acyclic (edge_rel es)"
  "fst (visit_any es ns v a) \<Longrightarrow> \<forall>m \<in> set ns. \<forall>x \<in> a. (x, m) \<in> (edge_rel es)\<^sup>+ \<Longrightarrow>
     \<not> acyclic (edge_rel es)"
proof (induction es n v a and es ns v a rule: visit_cycle_visit_any.induct)
  case (1 es n v a)
  show ?case
  proof (cases "n \<in> a")
    case False
    then have nv: "n \<notin> v" and any: "fst (visit_any es (successors es n) (insert n v) (insert n a))"
      using "1.prems"(1) by (auto split: if_splits prod.splits)
    have "(x, m) \<in> (edge_rel es)\<^sup>+" if "m \<in> set (successors es n)" "x \<in> insert n a" for m x
      using that "1.prems"(2) by (auto simp: successors_edge_rel intro: trancl_into_trancl)
    then show ?thesis using "1.IH" [OF False nv any] by blast
  qed (use "1.prems"(2) in \<open>auto simp: acyclic_def\<close>)
next
  case (3 es n ns v a)
  obtain c w b where r: "visit_cycle es n v a = (c, w, b)" by (metis prod_cases3)
  show ?case
  proof (cases c)
    case True
    then show ?thesis using "3.IH"(1) "3.prems" r by simp
  next
    case False
    then have "b = a" using search_restores_active(1) [of es n v a] r by simp
    then show ?thesis using "3.IH"(2) [OF r [symmetric] refl False] "3.prems" r False by simp
  qed
qed simp

text \<open>
  The nodes that are visited and no longer active: closed under the edges, and on no cycle.
\<close>

definition finished :: "edge list \<Rightarrow> string set \<Rightarrow> bool" where
  "finished es D \<longleftrightarrow>
     (\<forall>x \<in> D. (\<forall>y. (x, y) \<in> edge_rel es \<longrightarrow> y \<in> D) \<and> (x, x) \<notin> (edge_rel es)\<^sup>+)"

lemma finished_closed: "finished es D \<Longrightarrow> x \<in> D \<Longrightarrow> (x, y) \<in> (edge_rel es)\<^sup>+ \<Longrightarrow> y \<in> D"
  by (erule trancl_induct [of x y]) (auto simp: finished_def)

lemma finished_insert:
  assumes "finished es D" and "n \<notin> D" and "\<And>m. (n, m) \<in> edge_rel es \<Longrightarrow> m \<in> D"
  shows "finished es (insert n D)"
proof -
  have "(n, n) \<notin> (edge_rel es)\<^sup>+"
  proof
    assume "(n, n) \<in> (edge_rel es)\<^sup>+"
    then obtain m where m: "(n, m) \<in> edge_rel es" and "m = n \<or> (m, n) \<in> (edge_rel es)\<^sup>+"
      by (meson tranclD rtranclD)
    then show False using assms finished_closed [OF assms(1), of m n] by metis
  qed
  then show ?thesis using assms by (auto simp: finished_def)
qed

lemma search_False_finished:
  "\<not> fst (visit_cycle es n v a) \<Longrightarrow> finished es (v - a) \<Longrightarrow> a \<subseteq> v \<Longrightarrow>
     (let w = fst (snd (visit_cycle es n v a)) in finished es (w - a) \<and> insert n v \<subseteq> w \<and> n \<notin> a)"
  "\<not> fst (visit_any es ns v a) \<Longrightarrow> finished es (v - a) \<Longrightarrow> a \<subseteq> v \<Longrightarrow>
     (let w = fst (snd (visit_any es ns v a))
      in finished es (w - a) \<and> v \<subseteq> w \<and> set ns \<subseteq> w - a)"
proof (induction es n v a and es ns v a rule: visit_cycle_visit_any.induct)
  case (1 es n v a)
  then have na: "n \<notin> a" by auto
  show ?case
  proof (cases "n \<in> v")
    case False
    obtain c w b where r: "visit_any es (successors es n) (insert n v) (insert n a) = (c, w, b)"
      by (metis prod_cases3)
    have D: "insert n v - insert n a = v - a" using na False by auto
    have c: "\<not> c" using "1.prems"(1) r na False by simp
    then have IH: "finished es (w - insert n a)" "insert n v \<subseteq> w"
      "set (successors es n) \<subseteq> w - insert n a"
      using "1.IH" [OF na False] "1.prems"(2,3) r D by (auto simp: Let_def)
    have "w - a = insert n (w - insert n a)" using IH(2) na by auto
    moreover have "finished es (insert n (w - insert n a))"
      using IH(1,3) successors_edge_rel by (intro finished_insert) auto
    ultimately show ?thesis using r na False IH(2) by (simp add: Let_def)
  qed (use 1 na in \<open>auto simp: Let_def\<close>)
next
  case (3 es n ns v a)
  obtain c w b where r: "visit_cycle es n v a = (c, w, b)" by (metis prod_cases3)
  then have c: "\<not> c" using "3.prems"(1) by auto
  then have b: "b = a" using search_restores_active(1) [of es n v a] r by simp
  have w: "finished es (w - a)" "insert n v \<subseteq> w" "n \<notin> a"
    using "3.IH"(1) "3.prems" r c by (auto simp: Let_def)
  have any: "\<not> fst (visit_any es ns w a)" using "3.prems"(1) r c b by simp
  then show ?case
    using "3.IH"(2) [OF r [symmetric] refl c] w "3.prems"(3) r b c by (auto simp: Let_def)
qed simp

lemma has_cycle_sound: "has_cycle es \<Longrightarrow> \<not> acyclic (edge_rel es)"
  unfolding has_cycle_def by (rule search_True_cycle(2)) auto

lemma has_cycle_complete:
  assumes "\<not> has_cycle es"
  shows "acyclic (edge_rel es)"
proof -
  define w where "w = fst (snd (visit_any es (sort (remdups (endpoints es))) {} {}))"
  have "finished es ({} - {})" by (simp add: finished_def)
  then have "finished es (w - {})" and all: "set (sort (remdups (endpoints es))) \<subseteq> w - {}"
    using search_False_finished(2) [of es "sort (remdups (endpoints es))" "{}" "{}"] assms
    by (auto simp: has_cycle_def w_def Let_def)
  then have "finished es w" and all: "Field (edge_rel es) \<subseteq> w"
    by (simp_all add: endpoints_edge_rel)
  moreover have "(x, x) \<in> (edge_rel es)\<^sup>+ \<Longrightarrow> x \<in> Field (edge_rel es)" for x
    by (meson FieldI1 tranclD)
  ultimately show ?thesis by (auto simp: acyclic_def finished_def)
qed

lemma has_cycle_iff: "has_cycle es \<longleftrightarrow> \<not> acyclic (edge_rel es)"
  using has_cycle_sound has_cycle_complete by blast

end
