(* ===== verification/Dag_Props.thy ===== *)
theory Dag_Props
  imports Dag
begin

text \<open>
  The correctness of the workflow graph commands: the row codecs, the well-formedness invariant and
  its preservation, the effect of the commands on the tables, and progress.
\<close>

section \<open>Rows\<close>

definition node_fields_ok :: "node \<Rightarrow> bool" where
  "node_fields_ok n \<longleftrightarrow> list_all field_ok (node_fields n)"

definition edge_fields_ok :: "edge \<Rightarrow> bool" where
  "edge_fields_ok e \<longleftrightarrow> field_ok (from_node e) \<and> field_ok (to_node e) \<and> field_ok (edge_added_at e)"

text \<open>A row as the commands build it: no line break in any field, and a valid identifier.\<close>

definition node_printable :: "node \<Rightarrow> bool" where
  "node_printable n \<longleftrightarrow> list_all single_line (node_fields n) \<and> valid_identifier (node_id n)"

definition clock_ok :: "clock \<Rightarrow> bool" where
  "clock_ok ts \<longleftrightarrow> (\<forall>i. field_ok (ts i))"

text \<open>The graph in a directory is well formed.\<close>

definition graph_ok :: "node list \<Rightarrow> edge list \<Rightarrow> bool" where
  "graph_ok ns es \<longleftrightarrow>
     distinct (map node_id ns) \<and> list_all (\<lambda>n. valid_identifier (node_id n)) ns \<and>
     list_all (\<lambda>e. from_node e \<in> node_id ` set ns \<and> to_node e \<in> node_id ` set ns) es \<and>
     acyclic (edge_rel es)"

definition dir_ok :: "dag_dir \<Rightarrow> bool" where
  "dir_ok d \<longleftrightarrow>
     (case (nodes_tsv d, edges_tsv d) of
        (Some nt, Some et) \<Rightarrow>
          CR \<notin> set nt \<and> CR \<notin> set et \<and>
          graph_ok (List.map_filter node_parse (table_lines nt))
            (List.map_filter edge_parse (table_lines et))
      | _ \<Rightarrow> False)"

definition dag_inv :: "dag_state \<Rightarrow> bool" where
  "dag_inv s \<longleftrightarrow> (\<forall>w d. map_of s w = Some d \<longrightarrow> workflow_env d \<noteq> None \<longrightarrow> dir_ok d)"

record dag_call =
  call_clock :: clock
  call_args :: "string list"

definition dag_exec :: "dag_call \<Rightarrow> dag_state \<Rightarrow> dag_state" where
  "dag_exec c s = snd (dag_run (call_clock c) [] (call_args c) s)"

section \<open>Codecs\<close>

lemma single_line_join_TAB:
  "list_all single_line fs \<Longrightarrow> single_line (encode_fields fs)"
  using set_join_with [of "[TAB]" fs]
  by (fastforce simp: single_line_def encode_fields_def list_all_iff)

lemma NODE_HEADER_line: "single_line NODE_HEADER"
  by (simp add: NODE_HEADER_def single_line_def)

lemma EDGE_HEADER_line: "single_line EDGE_HEADER"
  by (simp add: EDGE_HEADER_def single_line_def)

lemma node_line_nonempty: "node_line n \<noteq> []"
  by (simp add: node_line_def node_fields_def encode_fields_def)

lemma edge_line_nonempty: "edge_line e \<noteq> []"
  by (simp add: edge_line_def encode_fields_def)

lemma node_parse_line: "node_fields_ok n \<Longrightarrow> node_parse (node_line n) = Some n"
proof -
  assume "node_fields_ok n"
  then have "parse_fields (length (node_fields n)) (encode_fields (node_fields n)) = node_fields n"
    by (intro parse_encode_fields) (auto simp: node_fields_ok_def node_fields_def)
  moreover have "length (node_fields n) = 10" by (simp add: node_fields_def)
  ultimately have "parse_fields 10 (node_line n) = node_fields n" by (simp add: node_line_def)
  then show ?thesis by (simp add: node_parse_def node_fields_def)
qed

lemma field_no_tab: "field_ok f \<Longrightarrow> TAB \<notin> set f"
  by (auto simp: field_ok_def list_all_iff plain_char_def)

lemma edge_parse_line: "edge_fields_ok e \<Longrightarrow> edge_parse (edge_line e) = Some e"
  by (simp add: edge_parse_def edge_line_def encode_fields_def edge_fields_ok_def text_simps
        field_no_tab)

lemma node_line_single: "node_fields_ok n \<Longrightarrow> single_line (node_line n)"
  by (simp add: node_line_def node_fields_ok_def encode_fields_single_line)

lemma edge_line_single: "edge_fields_ok e \<Longrightarrow> single_line (edge_line e)"
  by (simp add: edge_line_def edge_fields_ok_def encode_fields_single_line)

interpretation node_table: tsv_table NODE_HEADER node_line node_parse node_fields_ok
  by unfold_locales
    (simp_all add: NODE_HEADER_line node_line_nonempty node_parse_line node_line_single)

interpretation edge_table: tsv_table EDGE_HEADER edge_line edge_parse edge_fields_ok
  by unfold_locales
    (simp_all add: EDGE_HEADER_line edge_line_nonempty edge_parse_line edge_line_single)

lemma node_parse_ok:
  assumes "single_line l" and "node_parse l = Some n"
  shows "node_fields_ok n"
proof -
  have "field_ok (parse_fields 10 l ! i)" if "i < 10" for i
    using parse_fields_ok [OF assms(1), of 10] that by (simp add: list_all_length)
  then show ?thesis
    using assms(2) by (auto simp: node_parse_def Let_def node_fields_ok_def node_fields_def)
qed

lemma edge_parse_ok:
  assumes "single_line l" and "edge_parse l = Some e"
  shows "edge_fields_ok e"
proof -
  obtain f t rest where l: "split_char TAB l = f # t # rest"
    and e: "e = \<lparr>from_node = f, to_node = t, edge_added_at = (case rest of [] \<Rightarrow> [] | a # _ \<Rightarrow> a)\<rparr>"
    using assms(2) by (auto simp: edge_parse_def split: list.splits)
  have "list_all field_ok (f # t # rest)"
    using split_TAB_field_ok [OF assms(1)] l by (simp add: list_all_iff)
  then show ?thesis by (cases rest) (simp_all add: e edge_fields_ok_def)
qed

text \<open>What \<open>write_nodes\<close> and \<open>read_nodes\<close> keep of a row, tabs inside the fields included.\<close>

definition reread :: "node \<Rightarrow> node" where
  "reread n = the (node_parse (node_line n))"

lemma reread_id: "node_printable n \<Longrightarrow> node_id (reread n) = node_id n"
  using valid_identifier_field [of "node_id n"]
  by (simp add: reread_def node_parse_def Let_def node_line_def node_fields_def node_printable_def
        parse_fields_first field_no_tab)

lemma reread_same: "node_fields_ok n \<Longrightarrow> reread n = n"
  by (simp add: reread_def node_parse_line)

lemma node_printable_line: "node_printable n \<Longrightarrow> single_line (node_line n)"
  by (simp add: node_printable_def node_line_def single_line_join_TAB)

lemma nodes_reread:
  assumes "list_all node_printable ns"
  shows "List.map_filter node_parse (table_lines (table_text NODE_HEADER (map node_line ns)))
           = map reread ns"
proof -
  have "table_lines (table_text NODE_HEADER (map node_line ns)) = map node_line ns"
    using assms
    by (intro table_lines_text NODE_HEADER_line) (auto simp: list_all_iff node_printable_line)
  moreover have "List.map_filter node_parse (map node_line ns) = map reread ns"
    by (induction ns) (auto simp: List.map_filter_simps reread_def node_parse_def Let_def)
  ultimately show ?thesis by simp
qed

lemma table_text_no_CR:
  "single_line h \<Longrightarrow> list_all single_line rows \<Longrightarrow> CR \<notin> set (table_text h rows)"
  by (auto simp: set_table_text single_line_def list_all_iff)

lemma map_filter_all:
  "(\<And>x y. x \<in> set xs \<Longrightarrow> f x = Some y \<Longrightarrow> P y) \<Longrightarrow> list_all P (List.map_filter f xs)"
  by (induction xs) (auto simp: List.map_filter_simps split: option.splits)

lemma read_nodes_printable:
  assumes "dir_ok d" and "read_nodes d = Inr ns"
  shows "list_all node_fields_ok ns" "list_all node_printable ns"
proof -
  obtain nt where nt: "nodes_tsv d = Some nt" "CR \<notin> set nt"
    "ns = List.map_filter node_parse (table_lines nt)" "list_all (\<lambda>n. valid_identifier (node_id n)) ns"
    using assms by (auto simp: dir_ok_def read_nodes_def graph_ok_def split: option.splits)
  show f: "list_all node_fields_ok ns"
    unfolding nt(3) using nt(2) by (intro map_filter_all) (blast intro: node_parse_ok table_lines_single)
  show "list_all node_printable ns"
    using f nt(4)
    by (auto simp: list_all_iff node_printable_def node_fields_ok_def field_ok_single_line)
qed

lemma read_edges_ok:
  assumes "dir_ok d" and "read_edges d = Inr es"
  shows "list_all edge_fields_ok es"
proof -
  obtain et where et: "CR \<notin> set et" "es = List.map_filter edge_parse (table_lines et)"
    using assms by (auto simp: dir_ok_def read_edges_def split: option.splits)
  show ?thesis
    unfolding et(2) using et(1) by (intro map_filter_all) (blast intro: edge_parse_ok table_lines_single)
qed

lemma dir_ok_reads:
  "dir_ok d \<Longrightarrow> \<exists>ns es. read_nodes d = Inr ns \<and> read_edges d = Inr es \<and> graph_ok ns es"
  by (auto simp: dir_ok_def read_nodes_def read_edges_def split: option.splits)

text \<open>Tables written from a well-formed graph.\<close>

lemma dir_ok_written:
  assumes "list_all node_printable ns" and "list_all edge_fields_ok es" and "graph_ok ns es"
    and "nodes_tsv d = Some (table_text NODE_HEADER (map node_line ns))"
    and "edges_tsv d = Some (table_text EDGE_HEADER (map edge_line es))"
  shows "dir_ok d" "read_nodes d = Inr (map reread ns)" "read_edges d = Inr es"
proof -
  have ids: "map node_id (map reread ns) = map node_id ns"
    using assms(1) by (auto simp: list_all_iff reread_id)
  then have img: "node_id ` set (map reread ns) = node_id ` set ns"
    by (metis list.set_map)
  have ids_ok: "list_all (\<lambda>n. valid_identifier (node_id n)) (map reread ns)"
    using assms(1) by (auto simp: list_all_iff reread_id node_printable_def)
  have "graph_ok (map reread ns) es"
    using assms(3) ids img ids_ok unfolding graph_ok_def by metis
  moreover have "list_all single_line (map node_line ns)" "list_all single_line (map edge_line es)"
    using assms(1,2) by (auto simp: list_all_iff node_printable_line edge_line_single)
  ultimately show "dir_ok d"
    using assms(1,2,4,5) NODE_HEADER_line EDGE_HEADER_line
    by (simp add: dir_ok_def nodes_reread edge_table.read_written table_text_no_CR)
  show "read_nodes d = Inr (map reread ns)" "read_edges d = Inr es"
    using assms(1,2,4,5) by (simp_all add: read_nodes_def read_edges_def nodes_reread
        edge_table.read_written)
qed

lemma dir_ok_empty:
  "nodes_tsv d = Some (NODE_HEADER @ [NL]) \<Longrightarrow> edges_tsv d = Some (EDGE_HEADER @ [NL]) \<Longrightarrow> dir_ok d"
  using dir_ok_written(1) [of "[]" "[]" d]
  by (simp add: table_text_def graph_ok_def edge_rel_def acyclic_def)

section \<open>Commands\<close>

lemma dag_validate_id_ok [cmd_simps]: "dag_validate_id l c = Inr u \<longleftrightarrow> valid_identifier c"
  by (auto simp: dag_validate_id_def valid_identifier_def)

lemma dag_reject_newline_ok [cmd_simps]: "dag_reject_newline lc = Inr u \<longleftrightarrow> single_line (snd lc)"
  by (auto simp: dag_reject_newline_def single_line_def)

lemma validate_status_ok [cmd_simps]: "validate_status st = Inr u \<longleftrightarrow> st \<in> set STATUSES"
  by (simp add: validate_status_def)

lemma validate_role_ok [cmd_simps]: "validate_role r = Inr u \<longleftrightarrow> r \<in> set ROLES"
  by (simp add: validate_role_def)

lemma dag_required_ok [cmd_simps]:
  "dag_required opts key e = Inr v \<longleftrightarrow> opts key = Some v \<and> v \<noteq> []"
  by (auto simp: dag_required_def split: option.splits)

lemma STATUSES_single: "st \<in> set STATUSES \<Longrightarrow> field_ok st"
  by (auto simp: STATUSES_def field_ok_def plain_char_def)

lemma ROLES_single: "r \<in> set ROLES \<Longrightarrow> field_ok r"
  by (auto simp: ROLES_def field_ok_def plain_char_def)

text \<open>The keys of the text fields that \<open>add-node\<close> stores.\<close>

definition node_keys :: "string list" where
  "node_keys = [''agent'', ''assignment-id'', ''role'', ''branch'', ''owned'', ''decision-id'',
     ''plan-id'']"

lemma add_node_input_ok:
  assumes "add_node_input args = Inr (w, n, opts)"
  shows "valid_identifier w" "valid_identifier n"
    "(case opts ''status'' of None \<Rightarrow> ''pending'' | Some st \<Rightarrow> st) \<in> set STATUSES"
    "\<forall>k \<in> set node_keys. single_line (dag_value opts k)"
  using assms
  by (auto simp: add_node_input_def cmd_simps node_keys_def split: list.splits)

lemma new_node_printable:
  assumes "add_node_input args = Inr (w, n, opts)" and "field_ok stamp"
  shows "node_printable (new_node n opts stamp)"
proof -
  note in_ok = add_node_input_ok [OF assms(1)]
  have "single_line n" "single_line stamp"
    "single_line (case opts ''status'' of None \<Rightarrow> ''pending'' | Some st \<Rightarrow> st)"
    using in_ok assms(2) valid_identifier_field STATUSES_single field_ok_single_line by blast+
  then show ?thesis
    using in_ok(2,4)
    by (simp add: node_printable_def node_fields_def new_node_def node_keys_def)
qed

lemma new_node_fields_ok:
  assumes "add_node_input args = Inr (w, n, opts)" and "field_ok stamp"
    and "\<forall>k \<in> set node_keys. TAB \<notin> set (dag_value opts k)"
  shows "node_fields_ok (new_node n opts stamp)"
proof -
  note in_ok = add_node_input_ok [OF assms(1)]
  have "\<forall>k \<in> set node_keys. field_ok (dag_value opts k)"
    using in_ok(4) assms(3)
    by (auto simp: field_ok_def list_all_iff plain_char_def single_line_def)
  moreover have "field_ok n" "field_ok (case opts ''status'' of None \<Rightarrow> ''pending'' | Some st \<Rightarrow> st)"
    using in_ok valid_identifier_field STATUSES_single by blast+
  ultimately show ?thesis
    using assms(2) by (simp add: node_fields_ok_def node_fields_def new_node_def node_keys_def)
qed

lemma add_node_tables_ok:
  assumes "add_node_tables stamp n opts d = Inr (ns', es')" and "valid_identifier n"
    and "dir_ok d" and "field_ok stamp"
  obtains ns es where "read_nodes d = Inr ns" "read_edges d = Inr es"
    "ns' = ns @ [new_node n opts stamp]" "es' = es @ new_edges n opts stamp"
    "graph_ok ns' es'" "list_all edge_fields_ok es'"
proof -
  obtain ns es where r: "read_nodes d = Inr ns" "read_edges d = Inr es"
    and fresh: "n \<notin> node_id ` set ns" and deps: "set (dependencies opts) \<subseteq> node_id ` set ns"
    and acyc: "\<not> has_cycle (es @ new_edges n opts stamp)"
    and eq: "ns' = ns @ [new_node n opts stamp]" "es' = es @ new_edges n opts stamp"
    using assms(1)
    by (fastforce simp: add_node_tables_def cmd_simps list_ex_iff)
  have g: "graph_ok ns es" using dir_ok_reads [OF assms(3)] r by simp
  have "graph_ok ns' es'"
    using g fresh deps acyc assms(2)
    by (auto simp: graph_ok_def eq has_cycle_iff new_node_def new_edges_def list_all_iff)
  moreover have "field_ok x" if "x \<in> node_id ` set ns" for x
    using that g valid_identifier_field by (auto simp: graph_ok_def list_all_iff)
  then have "list_all edge_fields_ok (new_edges n opts stamp)"
    using deps valid_identifier_field [OF assms(2)] assms(4)
    by (auto simp: list_all_iff new_edges_def edge_fields_ok_def)
  then have "list_all edge_fields_ok es'"
    using read_edges_ok [OF assms(3) r(2)] by (simp add: eq)
  ultimately show thesis using that r eq by blast
qed

text \<open>What the store looks like after a command: only the directory of the workflow changes.\<close>

lemma workflow_dir_upd [simp]:
  "workflow_dir (AList.update w d s) v = (if v = w then d else workflow_dir s v)"
  by (simp add: workflow_dir_def update_conv)

lemma dag_exists_upd [simp]:
  "dag_exists (AList.update w d s) v = (if v = w then workflow_env d \<noteq> None else dag_exists s v)"
  by (simp add: dag_exists_def)

lemma dag_require_ok [cmd_simps]:
  "dag_require s w = Inr d \<longleftrightarrow> dag_exists s w \<and> d = workflow_dir s w"
  by (auto simp: dag_require_def)

lemma dag_inv_dir: "dag_inv s \<Longrightarrow> dag_exists s w \<Longrightarrow> dir_ok (workflow_dir s w)"
  by (auto simp: dag_inv_def dag_exists_def workflow_dir_def empty_dir_def split: option.splits)

lemma dag_inv_upd: "dag_inv s \<Longrightarrow> (workflow_env d \<noteq> None \<Longrightarrow> dir_ok d) \<Longrightarrow> dag_inv (AList.update w d s)"
  by (auto simp: dag_inv_def update_conv)

lemma dag_inv_lock: "dag_inv s \<Longrightarrow> dag_inv (AList.update w (workflow_dir s w) s)"
  using dag_inv_dir [of s w] by (intro dag_inv_upd) (auto simp: dag_exists_def)

lemma dir_ok_files:
  "nodes_tsv d' = nodes_tsv d \<Longrightarrow> edges_tsv d' = edges_tsv d \<Longrightarrow> dir_ok d' = dir_ok d"
  by (simp add: dir_ok_def)

lemmas dag_cmd_defs = dag_lock_def update_dir_def dag_event_def write_nodes_def write_edges_def

lemma dag_init_inv:
  assumes "dag_init ts args s = (r, s')" and "dag_inv s"
  shows "dag_inv s'"
  using assms
  by (cases r) (auto simp: dag_init_def cmd_simps dag_cmd_defs
      intro!: dag_inv_upd dir_ok_empty dag_inv_lock split: prod.splits)

lemma add_node_success:
  assumes "add_node ts args s = (Inr out, s')"
  obtains w n opts ns es where "add_node_input args = Inr (w, n, opts)" "dag_exists s w"
    "add_node_tables (ts 0) n opts (workflow_dir s w) = Inr (ns, es)"
    "\<forall>v. v \<noteq> w \<longrightarrow> map_of s' v = map_of s v" "dag_exists s' w"
    "nodes_tsv (workflow_dir s' w) = Some (table_text NODE_HEADER (map node_line ns))"
    "edges_tsv (workflow_dir s' w) = Some (table_text EDGE_HEADER (map edge_line es))"
  using assms
  by (auto simp: add_node_def cmd_simps dag_cmd_defs dag_exists_def update_conv split: prod.splits)

lemma add_node_error: "add_node ts args s = (Inl e, s') \<Longrightarrow> s' = s \<or> (\<exists>w. s' = AList.update w (workflow_dir s w) s)"
  by (auto simp: add_node_def cmd_simps dag_cmd_defs split: prod.splits)

lemma dag_inv_replace:
  assumes "dag_inv s" and "\<forall>v. v \<noteq> w \<longrightarrow> map_of s' v = map_of s v" and "dir_ok (workflow_dir s' w)"
  shows "dag_inv s'"
  unfolding dag_inv_def
proof (intro allI impI)
  fix v d
  assume v: "map_of s' v = Some d" "workflow_env d \<noteq> None"
  show "dir_ok d"
  proof (cases "v = w")
    case True
    then show ?thesis using assms(3) v by (simp add: workflow_dir_def)
  next
    case False
    then show ?thesis using assms(1,2) v by (auto simp: dag_inv_def)
  qed
qed

lemma add_node_effect:
  assumes "add_node ts args s = (Inr out, s')" and "dag_inv s" and "clock_ok ts"
  obtains w n opts ns es where "add_node_input args = Inr (w, n, opts)" "dag_inv s'"
    "dag_tables s w = Inr (ns, es)"
    "dag_tables s' w = Inr (map reread (ns @ [new_node n opts (ts 0)]), es @ new_edges n opts (ts 0))"
    "list_all node_fields_ok ns"
proof -
  obtain w n opts ns' es' where add: "add_node_input args = Inr (w, n, opts)" "dag_exists s w"
    "add_node_tables (ts 0) n opts (workflow_dir s w) = Inr (ns', es')"
    "\<forall>v. v \<noteq> w \<longrightarrow> map_of s' v = map_of s v" "dag_exists s' w"
    "nodes_tsv (workflow_dir s' w) = Some (table_text NODE_HEADER (map node_line ns'))"
    "edges_tsv (workflow_dir s' w) = Some (table_text EDGE_HEADER (map edge_line es'))"
    by (rule add_node_success [OF assms(1)])
  have stamp: "field_ok (ts 0)" using assms(3) by (simp add: clock_ok_def)
  have d: "dir_ok (workflow_dir s w)" using dag_inv_dir [OF assms(2) add(2)] .
  obtain ns es where r: "read_nodes (workflow_dir s w) = Inr ns" "read_edges (workflow_dir s w) = Inr es"
    "ns' = ns @ [new_node n opts (ts 0)]" "es' = es @ new_edges n opts (ts 0)"
    "graph_ok ns' es'" "list_all edge_fields_ok es'"
    by (rule add_node_tables_ok [OF add(3) add_node_input_ok(2) [OF add(1)] d stamp])
  have pr: "list_all node_printable ns'"
    using read_nodes_printable(2) [OF d r(1)] new_node_printable [OF add(1) stamp] r(3) by simp
  note w = dir_ok_written [OF pr r(6) r(5) add(6) add(7)]
  have "dag_inv s'" using dag_inv_replace [OF assms(2) add(4) w(1)] .
  moreover have "dag_tables s w = Inr (ns, es)"
    using add(2) r(1,2) by (simp add: dag_tables_def dag_require_def)
  moreover have "dag_tables s' w = Inr (map reread ns', es')"
    using add(5) w(2,3) by (simp add: dag_tables_def dag_require_def)
  ultimately show thesis
    using that add(1) r(3,4) read_nodes_printable(1) [OF d r(1)] by blast
qed

lemma set_status_ids: "set_status n st ns = Some ns' \<Longrightarrow> map node_id ns' = map node_id ns"
  by (induction ns arbitrary: ns') (auto split: if_splits)

lemma set_status_fields:
  "set_status n st ns = Some ns' \<Longrightarrow> field_ok st \<Longrightarrow> list_all node_fields_ok ns \<Longrightarrow>
     list_all node_fields_ok ns'"
  by (induction ns arbitrary: ns') (auto simp: node_fields_ok_def node_fields_def split: if_splits)

lemma fields_printable:
  "list_all node_fields_ok ns \<Longrightarrow> list_all (\<lambda>n. valid_identifier (node_id n)) ns \<Longrightarrow>
     list_all node_printable ns"
  by (auto simp: list_all_iff node_printable_def node_fields_ok_def field_ok_single_line)

lemma graph_ok_ids: "map node_id ns' = map node_id ns \<Longrightarrow> graph_ok ns es \<Longrightarrow> graph_ok ns' es"
proof -
  assume ids: "map node_id ns' = map node_id ns" and g: "graph_ok ns es"
  have "node_id ` set ns' = node_id ` set ns" using ids by (metis list.set_map)
  moreover have "list_all (\<lambda>n. valid_identifier (node_id n)) xs
      \<longleftrightarrow> list_all valid_identifier (map node_id xs)" for xs
    by (simp add: list_all_iff)
  ultimately show ?thesis using g ids unfolding graph_ok_def by metis
qed

lemma rereads_same: "list_all node_fields_ok ns \<Longrightarrow> map reread ns = ns"
  by (induction ns) (simp_all add: reread_same)

lemma update_status_success:
  assumes "update_status ts args s = (Inr out, s')"
  obtains w n st ns ns' where "valid_identifier n" "st \<in> set STATUSES" "dag_exists s w"
    "read_nodes (workflow_dir s w) = Inr ns" "set_status n st ns = Some ns'"
    "\<forall>v. v \<noteq> w \<longrightarrow> map_of s' v = map_of s v" "dag_exists s' w"
    "nodes_tsv (workflow_dir s' w) = Some (table_text NODE_HEADER (map node_line ns'))"
    "edges_tsv (workflow_dir s' w) = edges_tsv (workflow_dir s w)"
    "take 3 args = [w, n, st]"
  using assms
  by (auto simp: update_status_def cmd_simps dag_cmd_defs dag_exists_def update_conv
      split: list.splits prod.splits)

lemma update_status_error:
  "update_status ts args s = (Inl e, s') \<Longrightarrow> s' = s \<or> (\<exists>w. s' = AList.update w (workflow_dir s w) s)"
  by (auto simp: update_status_def cmd_simps dag_cmd_defs split: prod.splits)

lemma update_status_effect:
  assumes "update_status ts args s = (Inr out, s')" and "dag_inv s"
  obtains w n st ns ns' es where "take 3 args = [w, n, st]" "st \<in> set STATUSES"
    "dag_tables s w = Inr (ns, es)" "set_status n st ns = Some ns'"
    "dag_tables s' w = Inr (ns', es)" "dag_inv s'"
proof -
  obtain w n st ns ns' where u: "valid_identifier n" "st \<in> set STATUSES" "dag_exists s w"
    "read_nodes (workflow_dir s w) = Inr ns" "set_status n st ns = Some ns'"
    "\<forall>v. v \<noteq> w \<longrightarrow> map_of s' v = map_of s v" "dag_exists s' w"
    "nodes_tsv (workflow_dir s' w) = Some (table_text NODE_HEADER (map node_line ns'))"
    "edges_tsv (workflow_dir s' w) = edges_tsv (workflow_dir s w)" "take 3 args = [w, n, st]"
    by (rule update_status_success [OF assms(1)])
  have d: "dir_ok (workflow_dir s w)" using dag_inv_dir [OF assms(2) u(3)] .
  obtain es where es: "read_edges (workflow_dir s w) = Inr es" "graph_ok ns es"
    using dir_ok_reads [OF d] u(4) by auto
  have f: "list_all node_fields_ok ns'"
    using set_status_fields [OF u(5) STATUSES_single [OF u(2)] read_nodes_printable(1) [OF d u(4)]] .
  have g: "graph_ok ns' es" using graph_ok_ids [OF set_status_ids [OF u(5)] es(2)] .
  obtain et where et: "edges_tsv (workflow_dir s w) = Some et" "CR \<notin> set et"
    "es = List.map_filter edge_parse (table_lines et)"
    using d es(1) by (auto simp: dir_ok_def read_edges_def split: option.splits)
  have rd: "List.map_filter node_parse (table_lines (table_text NODE_HEADER (map node_line ns'))) = ns'"
    by (rule node_table.read_written [OF f])
  have cr: "CR \<notin> set (table_text NODE_HEADER (map node_line ns'))"
    using f by (intro table_text_no_CR NODE_HEADER_line) (auto simp: list_all_iff node_line_single)
  have "dir_ok (workflow_dir s' w)"
    using u(8,9) et g rd cr by (simp add: dir_ok_def)
  then have "dag_inv s'" by (rule dag_inv_replace [OF assms(2) u(6)])
  moreover have "dag_tables s w = Inr (ns, es)"
    using u(3,4) es(1) by (simp add: dag_tables_def dag_require_def)
  moreover have "dag_tables s' w = Inr (ns', es)"
    using u(7,8,9) es(1) rd by (simp add: dag_tables_def dag_require_def read_nodes_def read_edges_def)
  ultimately show thesis using that u(2,5,10) by blast
qed

lemma dag_run_inv:
  assumes "dag_run ts usage args s = (r, s')" and "dag_inv s" and "clock_ok ts"
  shows "dag_inv s'"
proof -
  have add: "dag_inv s'" if "add_node ts as s = (r, s')" for as
  proof (cases r)
    case (Inl e)
    then show ?thesis using add_node_error that assms(2) dag_inv_lock by blast
  next
    case (Inr out)
    then show ?thesis using add_node_effect [of ts as s out s'] that assms(2,3) by metis
  qed
  have upd: "dag_inv s'" if "update_status ts as s = (r, s')" for as
  proof (cases r)
    case (Inl e)
    then show ?thesis using update_status_error that assms(2) dag_inv_lock by blast
  next
    case (Inr out)
    then show ?thesis using update_status_effect [of ts as s out s'] that assms(2) by metis
  qed
  show ?thesis
    using assms(1,2) add upd dag_init_inv
    by (auto simp: dag_run_def cmd_simps ready_def blocked_def dag_show_def dag_list_def
        split: list.splits if_splits)
qed

interpretation dag_commands: command_system dag_exec "\<lambda>c. clock_ok (call_clock c)" dag_inv
  by unfold_locales (metis dag_exec_def dag_run_inv prod.collapse)

lemma dag_inv_empty: "dag_inv []"
  by (simp add: dag_inv_def)

section \<open>Progress\<close>

definition settled :: "node \<Rightarrow> bool" where
  "settled n \<longleftrightarrow> status n = ''done'' \<or> status n = ''skipped''"

definition waiting :: "node \<Rightarrow> bool" where
  "waiting n \<longleftrightarrow> status n = ''pending'' \<or> status n = ''ready''"

lemma statuses_node:
  assumes "distinct (map node_id ns)" and "m \<in> set ns"
  shows "statuses ns (node_id m) = Some (status m)"
proof -
  have "statuses ns = map_of (map (\<lambda>n. (node_id n, status n)) ns)"
    using assms(1) unfolding statuses_def by (intro map_of_rev_distinct) (simp add: comp_def)
  then show ?thesis
    using assms by (simp add: map_of_eq_Some_iff comp_def image_iff) blast
qed

lemma acyclic_edges_wf: "acyclic (edge_rel es) \<Longrightarrow> wf (edge_rel es)"
  by (intro finite_acyclic_wf) (simp_all add: edge_rel_def)

lemma unsettled_ready:
  assumes g: "graph_ok ns es" and st: "\<forall>n \<in> set ns. settled n \<or> waiting n"
    and open_node: "m \<in> set ns" "\<not> settled m"
  shows "\<exists>n \<in> set ns. \<not> settled n \<and> node_ready ns es n"
proof -
  define Q where "Q = node_id ` {n \<in> set ns. \<not> settled n}"
  have "node_id m \<in> Q" using open_node by (auto simp: Q_def)
  then obtain z where z: "z \<in> Q" and min: "\<And>y. (y, z) \<in> edge_rel es \<Longrightarrow> y \<notin> Q"
    using acyclic_edges_wf [of es] g unfolding wf_eq_minimal graph_ok_def by metis
  then obtain n where n: "n \<in> set ns" "\<not> settled n" "node_id n = z" by (auto simp: Q_def)
  have "statuses ns d = Some ''done'' \<or> statuses ns d = Some ''skipped''"
    if d: "d \<in> set (node_dependencies es n)" for d
  proof -
    obtain e where e: "e \<in> set es" "to_node e = z" "from_node e = d"
      using d n(3) by (auto simp: node_dependencies_def)
    then obtain k where k: "k \<in> set ns" "node_id k = d"
      using g by (auto simp: graph_ok_def list_all_iff)
    have "(d, z) \<in> edge_rel es" using e by (auto simp: edge_rel_def)
    then have "settled k" using min k by (auto simp: Q_def)
    then show ?thesis
      using statuses_node [of ns k] g k by (auto simp: settled_def graph_ok_def)
  qed
  then have "node_ready ns es n"
    using st n(1,2) by (auto simp: node_ready_def waiting_def list_all_iff)
  then show ?thesis using n by blast
qed

lemma dag_tables_ok: "dag_inv s \<Longrightarrow> dag_tables s w = Inr (ns, es) \<Longrightarrow> graph_ok ns es"
  using dag_inv_dir [of s w] dir_ok_reads [of "workflow_dir s w"]
  by (auto simp: dag_tables_def cmd_simps)

section \<open>A tab in a field\<close>

text \<open>
  \<open>reject_newline\<close> lets tabs through. A tab inside the agent name moves every later column one to the
  right when the table is read back: the stored owned paths become the node's status.
\<close>

lemma tab_in_agent_shifts_columns:
  assumes "node_fields_ok n" and "field_ok a" and "field_ok b"
  shows "reread (n\<lparr>agent := a @ [TAB] @ b\<rparr>) =
    n\<lparr>agent := a, assignment_id := b, role := assignment_id n, branch := role n,
      owned_paths := branch n, status := owned_paths n, decision_id := status n,
      plan_id := decision_id n, added_at := plan_id n\<rparr>"
  using assms
  by (simp add: reread_def node_parse_def node_line_def node_fields_def node_fields_ok_def
      encode_fields_def parse_fields_def pad_fields_def text_simps field_no_tab Let_def)

section \<open>A sample run\<close>

definition sample_call :: "string list \<Rightarrow> dag_call" where
  "sample_call args = \<lparr>call_clock = (\<lambda>_. ''T''), call_args = args\<rparr>"

definition sample_calls :: "dag_call list" where
  "sample_calls = map sample_call
     [[''init'', ''w'', ''--title'', ''t''],
      [''add-node'', ''w'', ''n1'', ''--agent'', ''a'', ''--assignment-id'', ''i'', ''--role'', ''qa'',
       ''--branch'', ''b'', ''--owned'', ''src''],
      [''add-node'', ''w'', ''n2'', ''--agent'', ''a'', ''--assignment-id'', ''j'', ''--role'', ''qa'',
       ''--branch'', ''b'', ''--owned'', ''doc'', ''--depends-on'', ''n1'']]"

lemma sample_clock: "list_all (\<lambda>c. clock_ok (call_clock c)) sample_calls"
  by (simp add: sample_calls_def sample_call_def clock_ok_def field_ok_def plain_char_def)

lemma sample_tables_eq:
  "(case dag_tables (fold dag_exec sample_calls []) ''w'' of
      Inl _ \<Rightarrow> False
    | Inr (ns, es) \<Rightarrow> map node_id ns = [''n1'', ''n2''] \<and> map status ns = [''pending'', ''pending'']
        \<and> map from_node es = [''n1''])"
  by code_simp

lemma sample_tables_ex:
  obtains ns es where "dag_tables (fold dag_exec sample_calls []) ''w'' = Inr (ns, es)"
    "map node_id ns = [''n1'', ''n2'']" "map status ns = [''pending'', ''pending'']"
    "map from_node es = [''n1'']"
  using sample_tables_eq by (auto split: sum.splits prod.splits)

lemma sample_inv: "dag_inv (fold dag_exec sample_calls [])"
  by (rule dag_commands.run_inv [OF sample_clock dag_inv_empty])

section \<open>Properties\<close>

text \<open>
  C11. The depth-first search of \<open>has_cycle\<close> answers true exactly when some node reaches itself along
  the dependency edges. The search is a total function: it ends on every graph.
\<close>

theorem has_cycle_correct: "has_cycle es \<longleftrightarrow> (\<exists>n. (n, n) \<in> (edge_rel es)\<^sup>+)"
  by (simp add: has_cycle_iff acyclic_def)

text \<open>
  C12. Whatever \<open>dag\<close> commands run on an empty store, successful or not and with any arguments, every
  workflow that exists afterwards holds a well-formed graph: node identifiers are pairwise different,
  every edge joins two existing nodes, and no node depends on itself, directly or through others.
\<close>

theorem dag_commands_keep_graph:
  assumes "list_all (\<lambda>c. clock_ok (call_clock c)) cs"
    and "dag_tables (fold dag_exec cs []) w = Inr (ns, es)"
  shows "distinct (map node_id ns) \<and>
    (\<forall>e \<in> set es. from_node e \<in> node_id ` set ns \<and> to_node e \<in> node_id ` set ns) \<and>
    (\<nexists>n. (n, n) \<in> (edge_rel es)\<^sup>+)"
  using dag_tables_ok [OF dag_commands.run_inv [OF assms(1) dag_inv_empty] assms(2)]
  by (auto simp: graph_ok_def acyclic_def list_all_iff)
theorem dag_commands_keep_graph_witness:
  "\<exists>ns es. dag_tables (fold dag_exec sample_calls []) ''w'' = Inr (ns, es) \<and>
     map node_id ns = [''n1'', ''n2''] \<and> map from_node es = [''n1''] \<and>
     (\<nexists>n. (n, n) \<in> (edge_rel es)\<^sup>+)"
proof -
  obtain ns es where t: "dag_tables (fold dag_exec sample_calls []) ''w'' = Inr (ns, es)"
    "map node_id ns = [''n1'', ''n2'']" "map from_node es = [''n1'']"
    by (rule sample_tables_ex)
  have "\<nexists>n. (n, n) \<in> (edge_rel es)\<^sup>+"
    using dag_commands_keep_graph [OF sample_clock t(1)] by blast
  with t show ?thesis by (intro exI [of _ ns] exI [of _ es]) simp
qed

text \<open>
  C13. A successful \<open>add-node\<close> appends to the stored tables exactly the new row and one edge per
  dependency, and what is read back is what was passed, as long as no text option contains a tab.
\<close>

theorem add_node_appends:
  assumes "dag_inv s" and "clock_ok ts" and "add_node ts args s = (Inr out, s')"
    and "add_node_input args = Inr (w, n, opts)"
    and "list_all (\<lambda>k. TAB \<notin> set (dag_value opts k)) node_keys"
  shows "\<exists>ns es. dag_tables s w = Inr (ns, es) \<and>
    dag_tables s' w = Inr (ns @ [new_node n opts (ts 0)], es @ new_edges n opts (ts 0))"
proof -
  obtain w' n' opts' ns es where i: "add_node_input args = Inr (w', n', opts')"
    and t': "dag_tables s w' = Inr (ns, es)" "dag_tables s' w' =
      Inr (map reread (ns @ [new_node n' opts' (ts 0)]), es @ new_edges n' opts' (ts 0))"
    and ns: "list_all node_fields_ok ns"
    by (rule add_node_effect [OF assms(3,1,2)])
  have t: "dag_tables s w = Inr (ns, es)"
    "dag_tables s' w = Inr (map reread (ns @ [new_node n opts (ts 0)]), es @ new_edges n opts (ts 0))"
    using i t' assms(4) by auto
  have "node_fields_ok (new_node n opts (ts 0))"
    using new_node_fields_ok [OF assms(4)] assms(2,5) by (auto simp: clock_ok_def list_all_iff)
  then have "map reread (ns @ [new_node n opts (ts 0)]) = ns @ [new_node n opts (ts 0)]"
    using ns by (simp add: rereads_same reread_same)
  then show ?thesis using t by simp
qed

definition sample_args :: "string list" where
  "sample_args = [''w'', ''n2'', ''--agent'', ''a'', ''--assignment-id'', ''j'', ''--role'', ''qa'',
     ''--branch'', ''b'', ''--owned'', ''doc'', ''--depends-on'', ''n1'']"

definition sample_opts :: options where
  "sample_opts = [''agent'' \<mapsto> ''a'', ''assignment-id'' \<mapsto> ''j'', ''role'' \<mapsto> ''qa'', ''branch'' \<mapsto> ''b'',
     ''owned'' \<mapsto> ''doc'', ''depends-on'' \<mapsto> ''n1'']"

lemma sample_input: "add_node_input sample_args = Inr (''w'', ''n2'', sample_opts)"
  by (simp add: add_node_input_def sample_args_def sample_opts_def dag_validate_id_def
      dag_parse_options_def strip_prefix_def starts_with_def dag_required_def validate_role_def
      ROLES_def validate_status_def STATUSES_def dag_reject_newline_def dag_value_def opt_value_def
      id_char_def is_ascii_alphanumeric_def is_ascii_digit_def is_ascii_lowercase_def byte_of_def)

lemma sample_add:
  "fst (add_node (\<lambda>_. ''T'') sample_args (fold dag_exec (take 2 sample_calls) []))
     = Inr (''node added'' @ [TAB] @ ''w'' @ [TAB] @ ''n2'' @ [TAB] @ ''a'' @ [NL])"
  by code_simp

theorem add_node_appends_witness:
  "\<exists>ns es. dag_tables (fold dag_exec (take 2 sample_calls) []) ''w'' = Inr (ns, es) \<and>
     dag_tables (snd (add_node (\<lambda>_. ''T'') sample_args (fold dag_exec (take 2 sample_calls) []))) ''w''
       = Inr (ns @ [new_node ''n2'' sample_opts ''T''], es @ new_edges ''n2'' sample_opts ''T'')"
proof (rule add_node_appends)
  show "dag_inv (fold dag_exec (take 2 sample_calls) [])"
    by (rule dag_commands.prefix_inv [OF sample_clock dag_inv_empty])
  show "clock_ok (\<lambda>_. ''T'')" by (simp add: clock_ok_def field_ok_def plain_char_def)
  show "add_node (\<lambda>_. ''T'') sample_args (fold dag_exec (take 2 sample_calls) [])
    = (Inr (''node added'' @ [TAB] @ ''w'' @ [TAB] @ ''n2'' @ [TAB] @ ''a'' @ [NL]),
       snd (add_node (\<lambda>_. ''T'') sample_args (fold dag_exec (take 2 sample_calls) [])))"
    using sample_add by (metis prod.collapse)
  show "add_node_input sample_args = Inr (''w'', ''n2'', sample_opts)" by (rule sample_input)
  show "list_all (\<lambda>k. TAB \<notin> set (dag_value sample_opts k)) node_keys"
    by (simp add: node_keys_def sample_opts_def dag_value_def opt_value_def)
qed

text \<open>
  C14. A workflow graph never gets stuck: after any sequence of commands, if every node is settled or
  waiting and some node is not settled, then \<open>ready\<close> prints at least one node that can run.
\<close>

theorem ready_never_stuck:
  assumes "list_all (\<lambda>c. clock_ok (call_clock c)) cs" and "s = fold dag_exec cs []"
    and "valid_identifier w" and "dag_tables s w = Inr (ns, es)"
    and "list_all (\<lambda>n. settled n \<or> waiting n) ns" and "list_ex (\<lambda>n. \<not> settled n) ns"
  shows "\<exists>n \<in> set ns. \<not> settled n \<and> node_ready ns es n \<and> node_id n \<in> set (ready_nodes ns es) \<and>
    ready [w] s = (Inr (unlines (ready_nodes ns es)), s)"
proof -
  have "dag_inv s" using dag_commands.run_inv [OF assms(1) dag_inv_empty] assms(2) by simp
  then obtain n where n: "n \<in> set ns" "\<not> settled n" "node_ready ns es n"
    using unsettled_ready [OF dag_tables_ok [OF _ assms(4)]] assms(5,6)
    by (auto simp: list_all_iff list_ex_iff)
  moreover have "ready [w] s = (Inr (unlines (ready_nodes ns es)), s)"
    using assms(3,4)
    by (simp add: ready_def lift_r_def dag_one_id_def dag_validate_id_def valid_identifier_def)
  ultimately show ?thesis by (auto simp: ready_nodes_def)
qed

theorem ready_never_stuck_witness:
  "\<exists>ns es. dag_tables (fold dag_exec sample_calls []) ''w'' = Inr (ns, es) \<and>
     list_ex (\<lambda>n. \<not> settled n \<and> node_ready ns es n) ns"
proof -
  obtain ns es where t: "dag_tables (fold dag_exec sample_calls []) ''w'' = Inr (ns, es)"
    "map status ns = [''pending'', ''pending'']"
    by (rule sample_tables_ex)
  have st: "list_all (\<lambda>n. settled n \<or> waiting n) ns" "list_ex (\<lambda>n. \<not> settled n) ns"
    using t(2) by (auto simp: settled_def waiting_def)
  have "valid_identifier ''w''"
    by (simp add: valid_identifier_def id_char_def is_ascii_alphanumeric_def
        is_ascii_lowercase_def byte_of_def)
  then show ?thesis
    using ready_never_stuck [OF sample_clock refl _ t(1) st] t(1) by (auto simp: list_ex_iff)
qed

end
