(* ===== verification/Json.thy ===== *)
theory Json
  imports Prelude "HOL-Library.Word" "HOL-Library.Multiset"
begin

text \<open>
  JSON values and their canonical form (\<open>logger/src/canonical.rs\<close>). A number is what \<open>serde_json\<close> makes of it: an
  unsigned 64-bit integer, a negative 64-bit integer in two's complement, or anything else, kept as its text. The
  ledger only stores the first kind. An object is the list of its members in the order they were serialized.
  The printer \<open>serde_json::to_vec\<close> is a parameter of the definitions that use it.

  The lemmas show that the canonical form does not depend on the order of the members, that it is
  stable, and that it forgets nothing else.
\<close>

datatype json =
    JNull
  | JBool bool
  | JNum "64 word"
  | JNeg "64 word"
  | JFloat string
  | JStr string
  | JArr "json list"
  | JObj "(string \<times> json) list"

lemma size_json_member: "(k, v) \<in> set kvs \<Longrightarrow> size v < size (JObj kvs)"
  by (induction kvs) auto

function canonical_value :: "json \<Rightarrow> json" where
  "canonical_value (JArr vs) = JArr (map canonical_value vs)"
| "canonical_value (JObj kvs) = JObj (map (\<lambda>(k, v). (k, canonical_value v)) (sort_key fst kvs))"
| "canonical_value JNull = JNull"
| "canonical_value (JBool b) = JBool b"
| "canonical_value (JNum n) = JNum n"
| "canonical_value (JNeg n) = JNeg n"
| "canonical_value (JFloat t) = JFloat t"
| "canonical_value (JStr s) = JStr s"
  by pat_completeness auto
termination canonical_value
proof (relation "measure size", goal_cases)
  case (2 vs v)
  then show ?case by (induction vs) auto
next
  case (3 kvs x k v)
  then show ?case using size_json_member [of k v kvs] by simp
qed simp

text \<open>\<open>canonical::bytes\<close>: the printed canonical form of the serialized value.\<close>

definition canonical_bytes :: "(json \<Rightarrow> string) \<Rightarrow> json \<Rightarrow> string" where
  "canonical_bytes to_vec v = to_vec (canonical_value v)"

definition canonical_sha256 :: "(json \<Rightarrow> string) \<Rightarrow> (string \<Rightarrow> string) \<Rightarrow> json \<Rightarrow> string" where
  "canonical_sha256 to_vec sha v = ''sha256:'' @ sha (canonical_bytes to_vec v)"

section \<open>Canonical values\<close>

fun canonical :: "json \<Rightarrow> bool" where
  "canonical (JArr vs) = list_all canonical vs"
| "canonical (JObj kvs) = (sorted (map fst kvs) \<and> list_all (\<lambda>(k, v). canonical v) kvs)"
| "canonical JNull = True"
| "canonical (JBool b) = True"
| "canonical (JNum n) = True"
| "canonical (JNeg n) = True"
| "canonical (JFloat t) = True"
| "canonical (JStr s) = True"

text \<open>Objects without repeated keys, as serialization produces them.\<close>

fun unique_keys :: "json \<Rightarrow> bool" where
  "unique_keys (JArr vs) = list_all unique_keys vs"
| "unique_keys (JObj kvs) = (distinct (map fst kvs) \<and> list_all (\<lambda>(k, v). unique_keys v) kvs)"
| "unique_keys JNull = True"
| "unique_keys (JBool b) = True"
| "unique_keys (JNum n) = True"
| "unique_keys (JNeg n) = True"
| "unique_keys (JFloat t) = True"
| "unique_keys (JStr s) = True"

lemma map_fst_canonical [simp]:
  "map (fst \<circ> (\<lambda>(k, v). (k, f v))) kvs = map fst kvs"
  by (induction kvs) auto

lemma canonical_canonical_value: "canonical (canonical_value v)"
proof (induction v rule: canonical_value.induct)
  case (2 kvs)
  have "sorted (map fst (sort_key fst kvs))" by simp
  moreover have "list_all (\<lambda>(k, v). canonical v)
      (map (\<lambda>(k, v). (k, canonical_value v)) (sort_key fst kvs))"
    using 2 by (fastforce simp: list_all_iff)
  ultimately show ?case by simp
qed (auto simp: list_all_iff)

lemma canonical_value_id: "canonical v \<Longrightarrow> canonical_value v = v"
proof (induction v rule: canonical_value.induct)
  case (2 kvs)
  have "sort_key fst kvs = kvs" using "2.prems" by (simp add: sorted_sort_id sort_key_id_if_sorted)
  moreover have "map (\<lambda>(k, v). (k, canonical_value v)) kvs = kvs"
    using 2 calculation by (fastforce simp: list_all_iff intro: map_idI)
  ultimately show ?case by simp
qed (auto simp: list_all_iff map_idI)

lemma canonical_value_stable: "canonical_value (canonical_value v) = canonical_value v"
  by (rule canonical_value_id [OF canonical_canonical_value])

lemma sort_key_fst_perm:
  assumes "mset kvs = mset kvs'" and "distinct (map fst kvs)"
  shows "sort_key fst kvs = sort_key fst kvs'"
proof (rule sort_key_inj_key_eq)
  show "mset kvs = mset (sort_key fst kvs')" using assms(1) by simp
  show "inj_on fst (set kvs)" using assms(2) by (simp add: distinct_map)
qed simp

lemma canonical_value_perm:
  "mset kvs = mset kvs' \<Longrightarrow> distinct (map fst kvs) \<Longrightarrow>
     canonical_value (JObj kvs) = canonical_value (JObj kvs')"
  by (simp add: sort_key_fst_perm)

text \<open>A member is found in the canonical form exactly when it is in the object.\<close>

lemma map_of_perm:
  "mset kvs = mset kvs' \<Longrightarrow> distinct (map fst kvs) \<Longrightarrow> map_of kvs = map_of kvs'"
  by (metis distinct_map map_of_inject_set mset_eq_imp_distinct_iff mset_map set_mset_mset)

lemma map_of_canonical:
  "distinct (map fst kvs) \<Longrightarrow>
     map_of (map (\<lambda>(k, v). (k, canonical_value v)) (sort_key fst kvs)) k
       = map_option canonical_value (map_of kvs k)"
proof -
  assume d: "distinct (map fst kvs)"
  have "map_of (sort_key fst kvs) = map_of kvs"
    by (rule map_of_perm [symmetric]) (use d in simp_all)
  then show ?thesis by (simp add: map_of_map)
qed

end
