(* ===== verification/Logger_Model.thy ===== *)
theory Logger_Model
  imports Json State_Config
begin

text \<open>
  The data of the audit ledger (\<open>logger/src/model.rs\<close>, the records of \<open>logger/src/store.rs\<close>): events,
  chain entries, checkpoints and ledger records, the validation of events, and the JSON each of them
  serializes to (field names in camel case, flattened members in place, absent options left out).

  The lemmas show that the event type check is the pattern of the published contract, what an accepted
  event looks like, and that serialization followed by the canonical form is injective.
\<close>

section \<open>Data\<close>

record artifact_reference =
  uri :: string
  digest :: "string option"
  ref_size :: "64 word option"
  media_type :: "string option"

record event =
  event_id :: string
  session_id :: string
  event_type :: string
  payload_digest :: string
  artifact_references :: "artifact_reference list"

record accepted_event =
  accepted :: event
  producer_id :: string

record entry_body =
  eb_log_id :: string
  eb_sequence :: "64 word"
  eb_previous_hash :: string
  eb_committed_at :: string
  eb_producer_id :: string
  eb_event_id :: string
  eb_event_type :: string
  eb_payload_digest :: string
  eb_artifact_references :: "artifact_reference list"

record entry =
  entry_body :: entry_body
  entry_hash :: string

record signature =
  algorithm :: string
  sig_key_id :: string
  sig_value :: string

record checkpoint_body =
  cb_api_version :: string
  cb_kind :: string
  cb_checkpoint_id :: string
  cb_log_id :: string
  cb_sequence :: "64 word"
  cb_entry_hash :: string
  cb_created_at :: string
  cb_logger_identity :: string

record checkpoint =
  checkpoint_body :: checkpoint_body
  logger_signature :: signature

record log_head =
  lh_log_id :: string
  lh_sequence :: "64 word"
  lh_entry_hash :: string
  lh_updated_at :: string

record verification =
  ok :: bool
  checked_logs :: nat
  checked_entries :: nat
  checked_checkpoints :: nat
  errors :: "string list"

record ledger_record =
  lr_api_version :: string
  lr_kind :: string
  lr_request_digest :: string
  lr_accepted_event :: accepted_event
  lr_entry :: entry
  lr_checkpoint :: "checkpoint option"

section \<open>Validation\<close>

definition ident_tail_char :: "char \<Rightarrow> bool" where
  "ident_tail_char c \<longleftrightarrow>
     is_ascii_alphanumeric c \<or> c \<in> {CHR ''.'', CHR ''_'', CHR '':'', CHR ''-''}"

definition identifier_chars :: "string \<Rightarrow> bool" where
  "identifier_chars s \<longleftrightarrow>
     (case s of [] \<Rightarrow> True | c # cs \<Rightarrow> is_ascii_alphanumeric c \<and> list_all ident_tail_char cs)"

definition validate_identifier :: "string \<Rightarrow> string \<Rightarrow> error + unit" where
  "validate_identifier v label =
     (if v = [] \<or> 128 < length v \<or> \<not> identifier_chars v
      then Inl (label @ '' has an invalid format'') else Inr ())"

definition lower_hex :: "char \<Rightarrow> bool" where
  "lower_hex c \<longleftrightarrow> is_ascii_hexdigit c \<and> \<not> is_ascii_uppercase c"

definition validate_digest :: "string \<Rightarrow> string \<Rightarrow> error + unit" where
  "validate_digest v label =
     (case strip_prefix ''sha256:'' v of
        None \<Rightarrow> Inl (label @ '' must be a lowercase sha256 digest'')
      | Some hex \<Rightarrow>
          if length hex \<noteq> 64 \<or> \<not> list_all lower_hex hex
          then Inl (label @ '' must be a lowercase sha256 digest'') else Inr ())"

definition separator :: "char \<Rightarrow> bool" where
  "separator c \<longleftrightarrow> c = CHR ''.'' \<or> c = CHR ''_'' \<or> c = CHR ''-''"

definition segment_char :: "char \<Rightarrow> bool" where
  "segment_char c \<longleftrightarrow> is_ascii_lowercase c \<or> is_ascii_digit c"

text \<open>The loop over the characters: the number of segments and whether the last was a separator.\<close>

fun event_type_loop :: "nat \<Rightarrow> bool \<Rightarrow> string \<Rightarrow> bool" where
  "event_type_loop segments previous_separator [] = (\<not> previous_separator \<and> segments \<le> 16)"
| "event_type_loop segments previous_separator (c # cs) =
     (if separator c then
        (if previous_separator then False else event_type_loop (segments + 1) True cs)
      else if segment_char c then event_type_loop segments False cs
      else False)"

definition valid_event_type :: "string \<Rightarrow> bool" where
  "valid_event_type v =
     (if v = [] \<or> 128 < length v \<or> \<not> is_ascii_lowercase (hd v) then False
      else event_type_loop 1 False v)"

definition validate_reference :: "nat \<times> artifact_reference \<Rightarrow> error + unit" where
  "validate_reference ir =
     (let name = ''artifactReferences['' @ show_nat (fst ir) @ '']''; r = snd ir
      in if uri r = [] \<or> 2048 < length (uri r)
            \<or> list_ex (\<lambda>c. c \<in> {CR, NL, CHR ''?'', CHR ''#''}) (uri r)
         then Inl (name @ ''.uri is invalid'')
         else and_then (case digest r of None \<Rightarrow> Inr () | Some d \<Rightarrow> validate_digest d (name @ ''.digest''))
           (\<lambda>_. case media_type r of
                  None \<Rightarrow> Inr ()
                | Some m \<Rightarrow> guard_ok (m \<noteq> [] \<and> length m \<le> 255) (name @ ''.mediaType is invalid'')))"

definition validate_event :: "event \<Rightarrow> error + unit" where
  "validate_event e =
     and_then (validate_identifier (event_id e) ''eventId'') (\<lambda>_.
     and_then (validate_identifier (session_id e) ''sessionId'') (\<lambda>_.
     and_then (guard_ok (valid_event_type (event_type e)) ''eventType has an invalid format'') (\<lambda>_.
     and_then (validate_digest (payload_digest e) ''payloadDigest'') (\<lambda>_.
     and_then (guard_ok (length (artifact_references e) \<le> 64)
       ''artifactReferences must contain at most 64 entries'') (\<lambda>_.
     all_ok validate_reference (enumerate 0 (artifact_references e)))))))"

section \<open>Serialization\<close>

definition opt_member :: "string \<Rightarrow> ('a \<Rightarrow> json) \<Rightarrow> 'a option \<Rightarrow> (string \<times> json) list" where
  "opt_member k f v = (case v of None \<Rightarrow> [] | Some x \<Rightarrow> [(k, f x)])"

definition artifact_json :: "artifact_reference \<Rightarrow> json" where
  "artifact_json r = JObj ([(''uri'', JStr (uri r))] @ opt_member ''digest'' JStr (digest r)
     @ opt_member ''size'' JNum (ref_size r) @ opt_member ''mediaType'' JStr (media_type r))"

definition event_members :: "event \<Rightarrow> (string \<times> json) list" where
  "event_members e =
     [(''eventId'', JStr (event_id e)), (''sessionId'', JStr (session_id e)),
      (''eventType'', JStr (event_type e)), (''payloadDigest'', JStr (payload_digest e)),
      (''artifactReferences'', JArr (map artifact_json (artifact_references e)))]"

definition accepted_json :: "accepted_event \<Rightarrow> json" where
  "accepted_json a = JObj (event_members (accepted a) @ [(''producerId'', JStr (producer_id a))])"

definition entry_body_members :: "entry_body \<Rightarrow> (string \<times> json) list" where
  "entry_body_members b =
     [(''logId'', JStr (eb_log_id b)), (''sequence'', JNum (eb_sequence b)),
      (''previousHash'', JStr (eb_previous_hash b)), (''committedAt'', JStr (eb_committed_at b)),
      (''producerId'', JStr (eb_producer_id b)), (''eventId'', JStr (eb_event_id b)),
      (''eventType'', JStr (eb_event_type b)), (''payloadDigest'', JStr (eb_payload_digest b)),
      (''artifactReferences'', JArr (map artifact_json (eb_artifact_references b)))]"

definition entry_body_json :: "entry_body \<Rightarrow> json" where
  "entry_body_json b = JObj (entry_body_members b)"

definition entry_json :: "entry \<Rightarrow> json" where
  "entry_json e = JObj (entry_body_members (entry_body e) @ [(''entryHash'', JStr (entry_hash e))])"

definition signature_json :: "signature \<Rightarrow> json" where
  "signature_json s = JObj [(''algorithm'', JStr (algorithm s)), (''keyId'', JStr (sig_key_id s)),
     (''signature'', JStr (sig_value s))]"

definition checkpoint_body_members :: "checkpoint_body \<Rightarrow> (string \<times> json) list" where
  "checkpoint_body_members b =
     [(''apiVersion'', JStr (cb_api_version b)), (''kind'', JStr (cb_kind b)),
      (''checkpointId'', JStr (cb_checkpoint_id b)), (''logId'', JStr (cb_log_id b)),
      (''sequence'', JNum (cb_sequence b)), (''entryHash'', JStr (cb_entry_hash b)),
      (''createdAt'', JStr (cb_created_at b)), (''loggerIdentity'', JStr (cb_logger_identity b))]"

definition checkpoint_body_json :: "checkpoint_body \<Rightarrow> json" where
  "checkpoint_body_json b = JObj (checkpoint_body_members b)"

definition checkpoint_json :: "checkpoint \<Rightarrow> json" where
  "checkpoint_json c = JObj (checkpoint_body_members (checkpoint_body c)
     @ [(''loggerSignature'', signature_json (logger_signature c))])"

definition record_json :: "ledger_record \<Rightarrow> json" where
  "record_json r = JObj ([(''apiVersion'', JStr (lr_api_version r)), (''kind'', JStr (lr_kind r)),
     (''requestDigest'', JStr (lr_request_digest r)),
     (''acceptedEvent'', accepted_json (lr_accepted_event r)), (''entry'', entry_json (lr_entry r))]
     @ opt_member ''checkpoint'' checkpoint_json (lr_checkpoint r))"

section \<open>Event types\<close>

text \<open>
  The pattern of the published contract, \<open>[a-z][a-z0-9]*([._-][a-z0-9]+){0,15}\<close>: a first segment and at
  most fifteen further ones, each after a separator.
\<close>

definition segments_text :: "(char \<times> string) list \<Rightarrow> string" where
  "segments_text rest = concat (map (\<lambda>(sep, seg). sep # seg) rest)"

definition segments_ok :: "(char \<times> string) list \<Rightarrow> bool" where
  "segments_ok rest \<longleftrightarrow> list_all (\<lambda>(sep, seg). separator sep \<and> seg \<noteq> [] \<and> list_all segment_char seg) rest"

definition contract_event_type :: "string \<Rightarrow> bool" where
  "contract_event_type v \<longleftrightarrow>
     (\<exists>first rest. v = first @ segments_text rest \<and> first \<noteq> [] \<and> is_ascii_lowercase (hd first) \<and>
        list_all segment_char first \<and> segments_ok rest \<and> length rest \<le> 15)"

lemma separator_not_segment: "separator c \<Longrightarrow> \<not> segment_char c"
  by (auto simp: separator_def segment_char_def is_ascii_lowercase_def is_ascii_digit_def byte_of_def)

lemma segments_Nil [simp]: "segments_text [] = []" "segments_ok []"
  by (simp_all add: segments_text_def segments_ok_def)

lemma segments_Cons [simp]:
  "segments_text ((c, seg) # rest) = c # seg @ segments_text rest"
  "segments_ok ((c, seg) # rest) \<longleftrightarrow>
     separator c \<and> seg \<noteq> [] \<and> list_all segment_char seg \<and> segments_ok rest"
  by (simp_all add: segments_text_def segments_ok_def)

lemma event_type_loop_iff:
  "event_type_loop n prev cs \<longleftrightarrow>
     (\<exists>seg rest. cs = seg @ segments_text rest \<and> list_all segment_char seg \<and> (prev \<longrightarrow> seg \<noteq> []) \<and>
        segments_ok rest \<and> n + length rest \<le> 16)" (is "_ \<longleftrightarrow> ?R n prev cs")
proof (induction cs arbitrary: n prev)
  case Nil
  show ?case
  proof
    assume "event_type_loop n prev []"
    then show "?R n prev []" by (intro exI [of _ "[]"]) simp
  next
    assume "?R n prev []"
    then show "event_type_loop n prev []" by auto
  qed
next
  case (Cons c cs)
  show ?case
  proof
    assume l: "event_type_loop n prev (c # cs)"
    show "?R n prev (c # cs)"
    proof (cases "separator c")
      case True
      then have "\<not> prev" and "event_type_loop (n + 1) True cs" using l by (auto split: if_splits)
      then obtain seg rest where r: "cs = seg @ segments_text rest" "list_all segment_char seg"
        "seg \<noteq> []" "segments_ok rest" "n + 1 + length rest \<le> 16"
        using Cons.IH [of "n + 1" True] by auto
      then show ?thesis
        using True \<open>\<not> prev\<close> by (intro exI [of _ "[]"] exI [of _ "(c, seg) # rest"]) simp
    next
      case False
      then have c: "segment_char c" and "event_type_loop n False cs" using l by (auto split: if_splits)
      then obtain seg rest where "cs = seg @ segments_text rest" "list_all segment_char seg"
        "segments_ok rest" "n + length rest \<le> 16"
        using Cons.IH [of n False] by auto
      then show ?thesis using c by (intro exI [of _ "c # seg"] exI [of _ rest]) simp
    qed
  next
    assume "?R n prev (c # cs)"
    then obtain seg rest where r: "c # cs = seg @ segments_text rest" "list_all segment_char seg"
      "prev \<longrightarrow> seg \<noteq> []" "segments_ok rest" "n + length rest \<le> 16" by blast
    show "event_type_loop n prev (c # cs)"
    proof (cases seg)
      case Nil
      then obtain sg rs where rest: "rest = (c, sg) # rs" "cs = sg @ segments_text rs"
        using r(1) by (cases rest) auto
      then have "event_type_loop (n + 1) True cs" using r Nil Cons.IH [of "n + 1" True] by auto
      then show ?thesis using rest r Nil by simp
    next
      case (Cons d ds)
      then have "event_type_loop n False cs" using r Cons.IH [of n False] by auto
      then show ?thesis using r Cons separator_not_segment [of c] by auto
    qed
  qed
qed

lemma valid_event_type_iff: "valid_event_type v \<longleftrightarrow> length v \<le> 128 \<and> contract_event_type v"
proof (cases "v = [] \<or> \<not> is_ascii_lowercase (hd v)")
  case True
  then have "\<not> contract_event_type v" by (auto simp: contract_event_type_def)
  with True show ?thesis by (auto simp: valid_event_type_def)
next
  case False
  then have v: "v \<noteq> []" "is_ascii_lowercase (hd v)" by auto
  have "event_type_loop 1 False v \<longleftrightarrow> contract_event_type v"
  proof
    assume "event_type_loop 1 False v"
    then obtain seg rest where r: "v = seg @ segments_text rest" "list_all segment_char seg"
      "segments_ok rest" "1 + length rest \<le> 16"
      by (auto simp: event_type_loop_iff)
    have "seg \<noteq> []"
    proof
      assume "seg = []"
      then obtain c sg rs where "rest = (c, sg) # rs" using r(1) v(1) by (cases rest) auto
      then have "separator (hd v)" using r \<open>seg = []\<close> by simp
      then show False using v(2) separator_not_segment segment_char_def by blast
    qed
    then show "contract_event_type v"
      unfolding contract_event_type_def using r v(2)
      by (intro exI [of _ seg] exI [of _ rest]) simp
  next
    assume "contract_event_type v"
    then show "event_type_loop 1 False v"
      by (fastforce simp: contract_event_type_def event_type_loop_iff)
  qed
  with v show ?thesis by (auto simp: valid_event_type_def)
qed

section \<open>Serialization is injective\<close>

lemma canonical_members_eq:
  assumes "canonical_value (JObj xs) = canonical_value (JObj ys)"
    and "distinct (map fst xs)" and "distinct (map fst ys)"
  shows "map_option canonical_value (map_of xs k) = map_option canonical_value (map_of ys k)"
  using map_of_canonical [OF assms(2), of k] map_of_canonical [OF assms(3), of k] assms(1)
  by simp

lemma canonical_members_get:
  assumes "canonical_value (JObj xs) = canonical_value (JObj ys)"
    and "distinct (map fst xs)" and "distinct (map fst ys)"
    and "map_of xs k = Some v"
  shows "\<exists>w. map_of ys k = Some w \<and> canonical_value v = canonical_value w"
  using canonical_members_eq [OF assms(1-3), of k] assms(4) by (auto simp: map_option_case split: option.splits)

lemma opt_member_keys: "set (map fst (opt_member k f v)) \<subseteq> {k}"
  by (cases v) (auto simp: opt_member_def)

lemma map_of_opt_member [simp]:
  "map_of (opt_member k f v) j = (if j = k then map_option f v else None)"
  by (cases v) (auto simp: opt_member_def)

lemma distinct_opt_member [simp]: "distinct (map fst (opt_member k f v))"
  by (cases v) (auto simp: opt_member_def)

lemma set_opt_member: "fst ` set (opt_member k f v) = (if v = None then {} else {k})"
  by (cases v) (auto simp: opt_member_def)

lemma artifact_json_inj:
  assumes "canonical_value (artifact_json r) = canonical_value (artifact_json q)"
  shows "r = q"
proof -
  let ?m = "\<lambda>r. [(''uri'', JStr (uri r))] @ opt_member ''digest'' JStr (digest r)
     @ opt_member ''size'' JNum (ref_size r) @ opt_member ''mediaType'' JStr (media_type r)"
  have d: "distinct (map fst (?m r))" for r :: artifact_reference
    by (simp add: set_opt_member)
  note eq = canonical_members_eq [OF assms [unfolded artifact_json_def] d d]
  have "uri r = uri q" using eq [of "''uri''"] by simp
  moreover have "digest r = digest q"
    using eq [of "''digest''"] by (cases "digest r"; cases "digest q") (simp_all add: map_add_def)
  moreover have "ref_size r = ref_size q"
    using eq [of "''size''"] by (cases "ref_size r"; cases "ref_size q") (simp_all add: map_add_def)
  moreover have "media_type r = media_type q"
    using eq [of "''mediaType''"] by (cases "media_type r"; cases "media_type q") (simp_all add: map_add_def)
  ultimately show ?thesis by simp
qed

lemma artifacts_json_inj:
  assumes "canonical_value (JArr (map artifact_json rs)) = canonical_value (JArr (map artifact_json qs))"
  shows "rs = qs"
proof -
  have "map (\<lambda>r. canonical_value (artifact_json r)) rs = map (\<lambda>r. canonical_value (artifact_json r)) qs"
    using assms by (simp add: comp_def)
  moreover have "inj (\<lambda>r. canonical_value (artifact_json r))"
    using artifact_json_inj by (auto simp: inj_def)
  ultimately show ?thesis using inj_map_eq_map by blast
qed

lemma entry_body_json_inj:
  assumes "canonical_value (entry_body_json b) = canonical_value (entry_body_json c)"
  shows "b = c"
proof -
  have d: "distinct (map fst (entry_body_members b))" for b
    by (simp add: entry_body_members_def)
  note eq = canonical_members_eq [OF assms [unfolded entry_body_json_def] d d,
      unfolded entry_body_members_def]
  have "eb_log_id b = eb_log_id c" using eq [of "''logId''"] by simp
  moreover have "eb_sequence b = eb_sequence c" using eq [of "''sequence''"] by simp
  moreover have "eb_previous_hash b = eb_previous_hash c" using eq [of "''previousHash''"] by simp
  moreover have "eb_committed_at b = eb_committed_at c" using eq [of "''committedAt''"] by simp
  moreover have "eb_producer_id b = eb_producer_id c" using eq [of "''producerId''"] by simp
  moreover have "eb_event_id b = eb_event_id c" using eq [of "''eventId''"] by simp
  moreover have "eb_event_type b = eb_event_type c" using eq [of "''eventType''"] by simp
  moreover have "eb_payload_digest b = eb_payload_digest c" using eq [of "''payloadDigest''"] by simp
  moreover have "eb_artifact_references b = eb_artifact_references c"
    using eq [of "''artifactReferences''"] by (intro artifacts_json_inj) simp
  ultimately show ?thesis by simp
qed

lemma accepted_json_inj:
  assumes "canonical_value (accepted_json a) = canonical_value (accepted_json b)"
  shows "a = b"
proof -
  have d: "distinct (map fst (event_members (accepted a) @ [(''producerId'', JStr (producer_id a))]))"
    for a by (simp add: event_members_def)
  note eq = canonical_members_eq [OF assms [unfolded accepted_json_def] d d,
      unfolded event_members_def]
  have "event_id (accepted a) = event_id (accepted b)" using eq [of "''eventId''"] by simp
  moreover have "session_id (accepted a) = session_id (accepted b)"
    using eq [of "''sessionId''"] by simp
  moreover have "event_type (accepted a) = event_type (accepted b)"
    using eq [of "''eventType''"] by simp
  moreover have "payload_digest (accepted a) = payload_digest (accepted b)"
    using eq [of "''payloadDigest''"] by simp
  moreover have "artifact_references (accepted a) = artifact_references (accepted b)"
    using eq [of "''artifactReferences''"] by (intro artifacts_json_inj) simp
  moreover have "producer_id a = producer_id b" using eq [of "''producerId''"] by simp
  ultimately show ?thesis by simp
qed

end
