(* ===== verification/Ledger.thy ===== *)
theory Ledger
  imports Logger_Model "HOL-Library.Finite_Map"
begin

text \<open>
  The append-only ledger (\<open>logger/src/store.rs\<close>, \<open>logger/src/signer.rs\<close>).

  The disk is the text of the ledger file, one canonical JSON record per line; the memory is the index
  \<open>ledger_state\<close>. What the code takes from other crates is the record \<open>logger_env\<close>: the JSON printer
  and reader, SHA-256 in hexadecimal, the Ed25519 signature in base64 with its check, and the RFC 3339
  parser. A write ends \<open>Durable\<close>, or \<open>Torn n\<close>: an error was reported after \<open>n\<close> bytes reached the file.
\<close>

section \<open>Parameters\<close>

record logger_env =
  to_vec :: "json \<Rightarrow> string"
  from_slice :: "string \<Rightarrow> ledger_record option"
  sha_hex :: "string \<Rightarrow> string"
  sign_b64 :: "string \<Rightarrow> string"
  verify_b64 :: "string \<Rightarrow> string \<Rightarrow> bool"
  rfc3339 :: "string \<Rightarrow> bool"

definition bytes :: "logger_env \<Rightarrow> json \<Rightarrow> string" where
  "bytes P v = canonical_bytes (to_vec P) v"

definition sha256 :: "logger_env \<Rightarrow> json \<Rightarrow> string" where
  "sha256 P v = canonical_sha256 (to_vec P) (sha_hex P) v"

section \<open>Signer\<close>

record signer =
  key_id :: string
  logger_id :: string

definition signer_sign :: "logger_env \<Rightarrow> signer \<Rightarrow> checkpoint_body \<Rightarrow> signature" where
  "signer_sign P sg b =
     \<lparr>algorithm = ''Ed25519'', sig_key_id = key_id sg,
      sig_value = sign_b64 P (bytes P (checkpoint_body_json b))\<rparr>"

definition signer_verify :: "logger_env \<Rightarrow> signer \<Rightarrow> checkpoint_body \<Rightarrow> signature \<Rightarrow> bool" where
  "signer_verify P sg b s =
     (if algorithm s \<noteq> ''Ed25519'' \<or> sig_key_id s \<noteq> key_id sg then False
      else verify_b64 P (bytes P (checkpoint_body_json b)) (sig_value s))"

section \<open>The index\<close>

definition GENESIS_HASH :: string where
  "GENESIS_HASH = ''sha256:'' @ replicate 64 CHR ''0''"

definition MAX_LEDGER_RECORD_BYTES :: nat where
  "MAX_LEDGER_RECORD_BYTES = 2 * 1024 * 1024"

record stored_event =
  se_request_digest :: string
  se_accepted_event :: accepted_event
  se_entry :: entry

record ledger_state =
  logs :: "(string, log_head) fmap"
  events :: "(string, stored_event) fmap"
  entries :: "(string, entry list) fmap"
  checkpoints :: "(string, checkpoint) fmap"
  checkpoints_by_log :: "(string, checkpoint list) fmap"

definition empty_state :: ledger_state where
  "empty_state = \<lparr>logs = fmempty, events = fmempty, entries = fmempty, checkpoints = fmempty,
     checkpoints_by_log = fmempty\<rparr>"

definition listed :: "(string, 'a list) fmap \<Rightarrow> string \<Rightarrow> 'a list" where
  "listed m k = (case fmlookup m k of None \<Rightarrow> [] | Some xs \<Rightarrow> xs)"

definition push :: "string \<Rightarrow> 'a \<Rightarrow> (string, 'a list) fmap \<Rightarrow> (string, 'a list) fmap" where
  "push k v m = fmupd k (listed m k @ [v]) m"

definition next_sequence :: "ledger_state \<Rightarrow> string \<Rightarrow> 64 word" where
  "next_sequence st l = (case fmlookup (logs st) l of None \<Rightarrow> 1 | Some h \<Rightarrow> lh_sequence h + 1)"

definition last_hash :: "ledger_state \<Rightarrow> string \<Rightarrow> string" where
  "last_hash st l = (case fmlookup (logs st) l of None \<Rightarrow> GENESIS_HASH | Some h \<Rightarrow> lh_entry_hash h)"

definition validate_checkpoint ::
  "logger_env \<Rightarrow> ledger_state \<Rightarrow> signer \<Rightarrow> checkpoint \<Rightarrow> entry \<Rightarrow> error + unit" where
  "validate_checkpoint P st sg c e =
     (let b = checkpoint_body c
      in if cb_api_version b \<noteq> ''logger.multiagent.dev/v1'' \<or> cb_kind b \<noteq> ''LoggerCheckpoint''
            \<or> cb_logger_identity b \<noteq> logger_id sg \<or> cb_log_id b \<noteq> eb_log_id (entry_body e)
            \<or> cb_sequence b \<noteq> eb_sequence (entry_body e) \<or> cb_entry_hash b \<noteq> entry_hash e
            \<or> cb_created_at b \<noteq> eb_committed_at (entry_body e)
         then Inl ''checkpoint does not match its ledger entry''
         else if fmlookup (checkpoints st) (cb_checkpoint_id b) \<noteq> None
            \<or> list_ex (\<lambda>d. cb_sequence (checkpoint_body d) = cb_sequence b)
                (listed (checkpoints_by_log st) (cb_log_id b))
         then Inl ''ledger contains a duplicate checkpoint''
         else if \<not> signer_verify P sg b (logger_signature c)
         then Inl ''checkpoint signature is invalid''
         else Inr ())"

definition entry_matches :: "accepted_event \<Rightarrow> entry_body \<Rightarrow> bool" where
  "entry_matches a b \<longleftrightarrow>
     eb_log_id b = session_id (accepted a) \<and> eb_event_id b = event_id (accepted a) \<and>
     eb_producer_id b = producer_id a \<and> eb_event_type b = event_type (accepted a) \<and>
     eb_payload_digest b = payload_digest (accepted a) \<and>
     eb_artifact_references b = artifact_references (accepted a)"

definition validate_next ::
  "logger_env \<Rightarrow> ledger_state \<Rightarrow> signer \<Rightarrow> ledger_record \<Rightarrow> error + unit" where
  "validate_next P st sg r =
     (let a = lr_accepted_event r; ev = accepted a; e = lr_entry r; b = entry_body e
      in and_then (guard_ok (lr_api_version r = ''logger.multiagent.dev/v1''
             \<and> lr_kind r = ''LoggerLedgerRecord'') ''ledger record has an unsupported contract'') (\<lambda>_.
         and_then (validate_event ev) (\<lambda>_.
         and_then (validate_identifier (producer_id a) ''producer ID'') (\<lambda>_.
         and_then (guard_ok (sha256 P (accepted_json a) = lr_request_digest r)
           ''accepted event digest mismatch'') (\<lambda>_.
         and_then (guard_ok (fmlookup (events st) (event_id ev) = None)
           ''ledger contains a duplicate event ID'') (\<lambda>_.
         and_then (guard_ok (entry_matches a b) ''accepted event does not match the chain entry'') (\<lambda>_.
         and_then (guard_ok (rfc3339 P (eb_committed_at b)) ''entry committedAt is not RFC3339'') (\<lambda>_.
         and_then (guard_ok (eb_sequence b = next_sequence st (session_id ev)
             \<and> eb_previous_hash b = last_hash st (session_id ev))
           ''entry does not extend the current log head'') (\<lambda>_.
         and_then (guard_ok (sha256 P (entry_body_json b) = entry_hash e) ''entry hash mismatch'') (\<lambda>_.
         case lr_checkpoint r of
           None \<Rightarrow> Inr ()
         | Some c \<Rightarrow> validate_checkpoint P st sg c e))))))))))"

definition insert_record :: "ledger_state \<Rightarrow> ledger_record \<Rightarrow> ledger_state" where
  "insert_record st r =
     (let e = lr_entry r; l = eb_log_id (entry_body e);
          st1 = st\<lparr>logs := fmupd l \<lparr>lh_log_id = l, lh_sequence = eb_sequence (entry_body e),
                     lh_entry_hash = entry_hash e, lh_updated_at = eb_committed_at (entry_body e)\<rparr>
                   (logs st),
                 entries := push l e (entries st),
                 events := fmupd (event_id (accepted (lr_accepted_event r)))
                   \<lparr>se_request_digest = lr_request_digest r, se_accepted_event = lr_accepted_event r,
                    se_entry = e\<rparr> (events st)\<rparr>
      in case lr_checkpoint r of
           None \<Rightarrow> st1
         | Some c \<Rightarrow> st1\<lparr>checkpoints_by_log := push l c (checkpoints_by_log st),
             checkpoints := fmupd (cb_checkpoint_id (checkpoint_body c)) c (checkpoints st)\<rparr>)"

section \<open>Replay\<close>

text \<open>\<open>take\<close> and \<open>read_until\<close>: a line with its line feed, cut after the size limit.\<close>

definition read_line :: "string \<Rightarrow> string" where
  "read_line t =
     (let chunk = take (MAX_LEDGER_RECORD_BYTES + 2) t
      in case split_once NL chunk of None \<Rightarrow> chunk | Some (l, _) \<Rightarrow> l @ [NL])"

definition numbered :: "nat \<Rightarrow> string \<Rightarrow> error" where
  "numbered n what = ''logger ledger record '' @ show_nat n @ what"

function replay_from ::
  "logger_env \<Rightarrow> signer \<Rightarrow> nat \<Rightarrow> ledger_state \<Rightarrow> string \<Rightarrow> error + ledger_state" where
  "replay_from P sg n st t =
     (if t = [] then Inr st
      else let line = read_line t; k = Suc n; body = butlast line
           in if MAX_LEDGER_RECORD_BYTES + 1 < length line then Inl (numbered k '' exceeds the size limit'')
              else if last line \<noteq> NL
              then Inl (numbered k '' is truncated; manual recovery is required'')
              else if body = [] then Inl (numbered k '' is empty'')
              else case from_slice P body of
                None \<Rightarrow> Inl (''decode '' @ numbered k [])
              | Some r \<Rightarrow>
                  if bytes P (record_json r) \<noteq> body then Inl (numbered k '' is not canonical JSON'')
                  else case validate_next P st sg r of
                    Inl e \<Rightarrow> Inl (''verify '' @ numbered k ('': '' @ e))
                  | Inr _ \<Rightarrow> replay_from P sg k (insert_record st r) (drop (length line) t))"
  by pat_completeness auto
termination replay_from
proof (relation "measure (\<lambda>(P, sg, n, st, t). length t)", goal_cases)
  case (2 P sg n st t)
  have "read_line t \<noteq> []"
    using 2(1) by (auto simp: read_line_def MAX_LEDGER_RECORD_BYTES_def Let_def split: option.splits)
  then show ?case using 2 by simp
qed simp

declare replay_from.simps [simp del]

definition replay :: "logger_env \<Rightarrow> signer \<Rightarrow> string \<Rightarrow> error + ledger_state" where
  "replay P sg t = replay_from P sg 0 empty_state t"

section \<open>The store\<close>

record store =
  ledger_text :: string
  checkpoint_interval :: "64 word"
  projection_enabled :: bool
  projection_dirty :: "string fset"
  state :: ledger_state
  writable :: bool

datatype append_result = Appended | Duplicate

datatype store_error = Conflict string | Internal string

datatype write_outcome = Durable | Torn nat

definition store_open ::
  "logger_env \<Rightarrow> signer \<Rightarrow> 64 word \<Rightarrow> bool \<Rightarrow> string \<Rightarrow> error + store" where
  "store_open P sg interval projection t =
     and_then (replay P sg t) (\<lambda>st.
     Inr \<lparr>ledger_text = t, checkpoint_interval = interval, projection_enabled = projection,
          projection_dirty = (if projection then fmdom (logs st) else {||}), state = st,
          writable = True\<rparr>)"

definition create_checkpoint :: "logger_env \<Rightarrow> signer \<Rightarrow> entry \<Rightarrow> checkpoint" where
  "create_checkpoint P sg e =
     (let b = entry_body e;
          hex = sha_hex P (eb_log_id b @ '':'' @ show_nat (unat (eb_sequence b)) @ '':'' @ entry_hash e);
          body = \<lparr>cb_api_version = ''logger.multiagent.dev/v1'', cb_kind = ''LoggerCheckpoint'',
                  cb_checkpoint_id = ''checkpoint-'' @ take 48 hex, cb_log_id = eb_log_id b,
                  cb_sequence = eb_sequence b, cb_entry_hash = entry_hash e,
                  cb_created_at = eb_committed_at b, cb_logger_identity = logger_id sg\<rparr>
      in \<lparr>checkpoint_body = body, logger_signature = signer_sign P sg body\<rparr>)"

definition accept :: "event \<Rightarrow> string \<Rightarrow> accepted_event" where
  "accept ev producer = \<lparr>accepted = ev, producer_id = producer\<rparr>"

text \<open>The record that \<open>append\<close> builds for an event that is not stored yet.\<close>

definition next_record ::
  "logger_env \<Rightarrow> signer \<Rightarrow> string \<Rightarrow> event \<Rightarrow> string \<Rightarrow> 64 word \<Rightarrow> ledger_state \<Rightarrow> ledger_record" where
  "next_record P sg now ev producer interval st =
     (let sequence = next_sequence st (session_id ev);
          body = \<lparr>eb_log_id = session_id ev, eb_sequence = sequence,
                  eb_previous_hash = last_hash st (session_id ev), eb_committed_at = now,
                  eb_producer_id = producer, eb_event_id = event_id ev, eb_event_type = event_type ev,
                  eb_payload_digest = payload_digest ev,
                  eb_artifact_references = artifact_references ev\<rparr>;
          e = \<lparr>entry_body = body, entry_hash = sha256 P (entry_body_json body)\<rparr>
      in \<lparr>lr_api_version = ''logger.multiagent.dev/v1'', lr_kind = ''LoggerLedgerRecord'',
          lr_request_digest = sha256 P (accepted_json (accept ev producer)),
          lr_accepted_event = accept ev producer, lr_entry = e,
          lr_checkpoint = (if sequence mod interval = 0 then Some (create_checkpoint P sg e) else None)\<rparr>)"

definition store_append ::
  "logger_env \<Rightarrow> signer \<Rightarrow> write_outcome \<Rightarrow> string \<Rightarrow> event \<Rightarrow> string \<Rightarrow>
   (store, store_error, append_result) cmd" where
  "store_append P sg io now ev producer s =
     (if \<not> writable s
      then (Inl (Internal ''logger ledger is unavailable after a durability failure''), s)
      else case fmlookup (events (state s)) (event_id ev) of
        Some existing \<Rightarrow>
          if se_request_digest existing = sha256 P (accepted_json (accept ev producer))
          then (Inr Duplicate, s)
          else (Inl (Conflict ''eventId already commits different content''), s)
      | None \<Rightarrow>
          let r = next_record P sg now ev producer (checkpoint_interval s) (state s)
          in case validate_next P (state s) sg r of
               Inl e \<Rightarrow> (Inl (Internal e), s)
             | Inr _ \<Rightarrow>
                 let encoded = bytes P (record_json r)
                 in if MAX_LEDGER_RECORD_BYTES < length encoded
                    then (Inl (Internal ''encoded logger record exceeds the ledger limit''), s)
                    else case io of
                      Torn n \<Rightarrow>
                        (Inl (Internal ''durably append logger ledger''),
                         s\<lparr>ledger_text := ledger_text s @ take n (encoded @ [NL]), writable := False\<rparr>)
                    | Durable \<Rightarrow>
                        (Inr Appended,
                         s\<lparr>ledger_text := ledger_text s @ encoded @ [NL],
                           state := insert_record (state s) r,
                           projection_dirty :=
                             (if projection_enabled s
                              then finsert (eb_log_id (entry_body (lr_entry r))) (projection_dirty s)
                              else projection_dirty s)\<rparr>))"

section \<open>Queries\<close>

definition store_head :: "store \<Rightarrow> string \<Rightarrow> log_head option" where
  "store_head s l = fmlookup (logs (state s)) l"

definition store_entries :: "store \<Rightarrow> string \<Rightarrow> 64 word \<Rightarrow> nat \<Rightarrow> entry list" where
  "store_entries s l after limit =
     take limit (filter (\<lambda>e. after < eb_sequence (entry_body e)) (listed (entries (state s)) l))"

definition store_checkpoints :: "store \<Rightarrow> string \<Rightarrow> 64 word \<Rightarrow> nat \<Rightarrow> checkpoint list" where
  "store_checkpoints s l after limit =
     take limit (filter (\<lambda>c. after < cb_sequence (checkpoint_body c))
       (listed (checkpoints_by_log (state s)) l))"

definition store_checkpoint :: "store \<Rightarrow> string \<Rightarrow> checkpoint option" where
  "store_checkpoint s i = fmlookup (checkpoints (state s)) i"

definition checkpoint_session :: "store \<Rightarrow> string \<Rightarrow> string option" where
  "checkpoint_session s i =
     map_option (\<lambda>c. cb_log_id (checkpoint_body c)) (fmlookup (checkpoints (state s)) i)"

definition store_verify :: "logger_env \<Rightarrow> signer \<Rightarrow> store \<Rightarrow> string option \<Rightarrow> verification" where
  "store_verify P sg s log_id =
     (case replay P sg (ledger_text s) of
        Inl e \<Rightarrow> \<lparr>ok = False, checked_logs = 0, checked_entries = 0, checked_checkpoints = 0, errors = [e]\<rparr>
      | Inr replayed \<Rightarrow>
          let errs = (if writable s then [] else [''ledger writes are disabled after a durability failure''])
                @ (if replayed = state s then []
                   else [''on-disk ledger differs from the active in-memory index'']);
              selected = filter (\<lambda>l. log_id = None \<or> log_id = Some l)
                (sorted_list_of_fset (fmdom (logs replayed)))
          in \<lparr>ok = (errs = []), checked_logs = length selected,
              checked_entries = sum_list (map (\<lambda>l. length (listed (entries replayed) l)) selected),
              checked_checkpoints =
                sum_list (map (\<lambda>l. length (listed (checkpoints_by_log replayed) l)) selected),
              errors = errs\<rparr>)"

section \<open>Projections\<close>

definition projection_count :: "store \<Rightarrow> nat" where
  "projection_count s = fcard (projection_dirty s)"

definition projection_text :: "logger_env \<Rightarrow> entry list \<Rightarrow> string" where
  "projection_text P es = unlines (map (\<lambda>e. bytes P (entry_json e)) es)"

text \<open>
  \<open>flush_projections\<close>: \<open>ok_write l\<close> tells whether the rebuilt file of the log could be published. The
  directory maps a log to the text of its projection.
\<close>

definition flush_projections ::
  "logger_env \<Rightarrow> (string \<Rightarrow> bool) \<Rightarrow> store \<times> (string \<rightharpoonup> string) \<Rightarrow>
   (nat \<times> nat) \<times> store \<times> (string \<rightharpoonup> string)" where
  "flush_projections P ok_write sd =
     (let (s, dir) = sd; pending = sorted_list_of_fset (projection_dirty s)
      in ((length (filter ok_write pending), length (filter (\<lambda>l. \<not> ok_write l) pending)),
          s\<lparr>projection_dirty := ffilter (\<lambda>l. \<not> ok_write l) (projection_dirty s)\<rparr>,
          (\<lambda>l. if l |\<in>| projection_dirty s \<and> ok_write l
               then Some (projection_text P (listed (entries (state s)) l)) else dir l)))"

end
