(* ===== verification/Ledger_Props.thy ===== *)
theory Ledger_Props
  imports Ledger
begin

text \<open>
  The correctness of the ledger. The inductive relation \<open>ledger\<close> is the abstract specification: the
  lists of records that validate one after the other, and the index they build. Replaying a file
  succeeds exactly on the printed records of such a list; a store keeps its file and its index on one
  list; the entries of each log form a hash chain; a torn write never changes what was acknowledged.
\<close>

section \<open>Laws of the parameters\<close>

text \<open>
  The documented behaviour of \<open>serde_json\<close> the ledger relies on: different values print differently,
  compact output has no line feed and is not empty, and a printed record decodes to itself.
\<close>

definition env_ok :: "logger_env \<Rightarrow> bool" where
  "env_ok P \<longleftrightarrow> inj (to_vec P) \<and> (\<forall>v. NL \<notin> set (to_vec P v) \<and> to_vec P v \<noteq> []) \<and>
     (\<forall>r. from_slice P (bytes P (record_json r)) = Some r)"

section \<open>The specification\<close>

definition record_text :: "logger_env \<Rightarrow> ledger_record \<Rightarrow> string" where
  "record_text P r = bytes P (record_json r)"

definition ledger_lines :: "logger_env \<Rightarrow> ledger_record list \<Rightarrow> string" where
  "ledger_lines P rs = unlines (map (record_text P) rs)"

inductive ledger :: "logger_env \<Rightarrow> signer \<Rightarrow> ledger_record list \<Rightarrow> ledger_state \<Rightarrow> bool"
  for P :: logger_env and sg :: signer where
  ledger_Nil: "ledger P sg [] empty_state"
| ledger_snoc: "ledger P sg (rs @ [r]) (insert_record st r)"
    if "ledger P sg rs st" "validate_next P st sg r = Inr ()"
      "length (record_text P r) \<le> MAX_LEDGER_RECORD_BYTES"

lemma ledger_lines_append [simp]: "ledger_lines P (rs @ qs) = ledger_lines P rs @ ledger_lines P qs"
  and ledger_lines_Nil [simp]: "ledger_lines P [] = []"
  and ledger_lines_Cons [simp]: "ledger_lines P (r # rs) = record_text P r @ NL # ledger_lines P rs"
  by (simp_all add: ledger_lines_def)

lemma record_text_line: "env_ok P \<Longrightarrow> NL \<notin> set (record_text P r) \<and> record_text P r \<noteq> []"
  by (simp add: env_ok_def record_text_def bytes_def canonical_bytes_def)

lemma read_line_record:
  "NL \<notin> set l \<Longrightarrow> length l \<le> MAX_LEDGER_RECORD_BYTES \<Longrightarrow> read_line (l @ NL # t) = l @ [NL]"
  by (simp add: read_line_def split_once_app Suc_diff_le take_Cons')

lemma read_line_partial:
  "NL \<notin> set l \<Longrightarrow> length l \<le> MAX_LEDGER_RECORD_BYTES \<Longrightarrow> read_line l = l"
  by (simp add: read_line_def split_once_free)

section \<open>Replay accepts exactly the printed ledgers\<close>

lemma replay_from_Nil [simp]: "replay_from P sg n st [] = Inr st"
  by (simp add: replay_from.simps)

lemma replay_step:
  assumes "env_ok P" and "validate_next P st sg r = Inr ()"
    and "length (record_text P r) \<le> MAX_LEDGER_RECORD_BYTES"
  shows "replay_from P sg n st (record_text P r @ NL # t)
    = replay_from P sg (Suc n) (insert_record st r) t"
  using assms record_text_line [OF assms(1), of r]
  by (subst replay_from.simps)
    (simp add: Let_def read_line_record env_ok_def record_text_def)

lemma replay_from_ledger:
  "ledger P sg rs st \<Longrightarrow> env_ok P \<Longrightarrow>
     replay_from P sg 0 empty_state (ledger_lines P rs @ t) = replay_from P sg (length rs) st t"
  by (induction arbitrary: t rule: ledger.induct) (simp_all add: replay_step)

lemma read_line_split: "\<exists>t'. t = read_line t @ t'"
proof (cases "split_once NL (take (MAX_LEDGER_RECORD_BYTES + 2) t)")
  case None
  then show ?thesis
    by (simp add: read_line_def) (metis append_take_drop_id)
next
  case (Some p)
  then obtain l r where p: "p = (l, r)" "take (MAX_LEDGER_RECORD_BYTES + 2) t = l @ NL # r"
    by (cases p) (auto simp: split_once_Some)
  then have "t = (l @ [NL]) @ r @ drop (MAX_LEDGER_RECORD_BYTES + 2) t"
    by (metis append.assoc append_Cons append_Nil append_take_drop_id)
  then show ?thesis using Some p by (simp add: read_line_def) metis
qed

lemma replay_from_sound:
  "replay_from P sg n st t = Inr st' \<Longrightarrow> ledger P sg rs st \<Longrightarrow>
     \<exists>qs. ledger P sg (rs @ qs) st' \<and> t = ledger_lines P qs"
proof (induction P sg n st t arbitrary: rs rule: replay_from.induct)
  case (1 P sg n st t)
  show ?case
  proof (cases "t = []")
    case True
    then show ?thesis using "1.prems" by (intro exI [of _ "[]"]) simp
  next
    case False
    define line where "line = read_line t"
    obtain r where r: "length line \<le> MAX_LEDGER_RECORD_BYTES + 1" "last line = NL"
      "butlast line \<noteq> []" "from_slice P (butlast line) = Some r"
      "bytes P (record_json r) = butlast line" "validate_next P st sg r = Inr ()"
      "replay_from P sg (Suc n) (insert_record st r) (drop (length line) t) = Inr st'"
      using "1.prems"(1) False
      by (subst (asm) replay_from.simps)
        (auto simp: Let_def line_def split: if_splits option.splits sum.splits)
    have line: "line = record_text P r @ [NL]"
      using r(2,3,5) by (metis append_butlast_last_id butlast.simps(1) record_text_def)
    have "ledger P sg (rs @ [r]) (insert_record st r)"
      using "1.prems"(2) r(1,6) line by (intro ledger_snoc) simp_all
    moreover have "\<exists>qs. ledger P sg (xs @ qs) st' \<and> drop (length line) t = ledger_lines P qs"
      if "ledger P sg xs (insert_record st r)" for xs
      using "1.IH" [OF False line_def refl refl, of r] r line_def that by auto
    ultimately obtain qs where qs: "ledger P sg ((rs @ [r]) @ qs) st'"
      "drop (length line) t = ledger_lines P qs"
      by blast
    have "t = line @ drop (length line) t"
      using read_line_split [of t] line_def by (metis append_eq_conv_conj)
    then show ?thesis using qs line by (intro exI [of _ "r # qs"]) simp
  qed
qed

lemma replay_iff:
  assumes "env_ok P"
  shows "replay P sg t = Inr st \<longleftrightarrow> (\<exists>rs. ledger P sg rs st \<and> t = ledger_lines P rs)"
proof
  assume "replay P sg t = Inr st"
  then show "\<exists>rs. ledger P sg rs st \<and> t = ledger_lines P rs"
    using replay_from_sound [OF _ ledger_Nil, of P sg 0 t st] by (auto simp: replay_def)
next
  assume "\<exists>rs. ledger P sg rs st \<and> t = ledger_lines P rs"
  then show "replay P sg t = Inr st"
    using replay_from_ledger [OF _ assms, of sg _ st "[]"]
    by (auto simp: replay_def)
qed

section \<open>A store stays on one ledger\<close>

text \<open>
  The memory holds the index of the acknowledged records; the file holds their lines, and after a failed
  write possibly a part of one more line.
\<close>

definition torn_tail :: "logger_env \<Rightarrow> signer \<Rightarrow> ledger_state \<Rightarrow> string \<Rightarrow> bool" where
  "torn_tail P sg st tail \<longleftrightarrow>
     (\<exists>r n. validate_next P st sg r = Inr () \<and>
        length (record_text P r) \<le> MAX_LEDGER_RECORD_BYTES \<and> tail = take n (record_text P r @ [NL]))"

definition store_on :: "logger_env \<Rightarrow> signer \<Rightarrow> ledger_record list \<Rightarrow> store \<Rightarrow> bool" where
  "store_on P sg rs s \<longleftrightarrow>
     ledger P sg rs (state s) \<and>
     (\<exists>tail. ledger_text s = ledger_lines P rs @ tail \<and>
        (if writable s then tail = [] else torn_tail P sg (state s) tail))"

definition store_inv :: "logger_env \<Rightarrow> signer \<Rightarrow> store \<Rightarrow> bool" where
  "store_inv P sg s \<longleftrightarrow> (\<exists>rs. store_on P sg rs s)"

record append_call =
  ac_outcome :: write_outcome
  ac_now :: string
  ac_event :: event
  ac_producer :: string

definition append_exec :: "logger_env \<Rightarrow> signer \<Rightarrow> append_call \<Rightarrow> store \<Rightarrow> store" where
  "append_exec P sg c s =
     snd (store_append P sg (ac_outcome c) (ac_now c) (ac_event c) (ac_producer c) s)"

lemma store_append_Appended:
  assumes "store_append P sg io now ev producer s = (Inr Appended, s')"
  shows "let r = next_record P sg now ev producer (checkpoint_interval s) (state s)
    in io = Durable \<and> writable s \<and> fmlookup (events (state s)) (event_id ev) = None \<and>
       validate_next P (state s) sg r = Inr () \<and>
       length (record_text P r) \<le> MAX_LEDGER_RECORD_BYTES \<and>
       ledger_text s' = ledger_text s @ record_text P r @ [NL] \<and>
       state s' = insert_record (state s) r \<and> writable s' \<and>
       checkpoint_interval s' = checkpoint_interval s"
  using assms
  by (auto simp: store_append_def Let_def record_text_def
      split: if_splits option.splits sum.splits write_outcome.splits)

lemma store_append_Duplicate: "store_append P sg io now ev producer s = (Inr Duplicate, s') \<Longrightarrow> s' = s"
  by (auto simp: store_append_def Let_def
      split: if_splits option.splits sum.splits write_outcome.splits)

lemma store_append_error:
  assumes "store_append P sg io now ev producer s = (Inl e, s')"
  shows "s' = s \<or> (\<exists>n. let r = next_record P sg now ev producer (checkpoint_interval s) (state s)
    in io = Torn n \<and> writable s \<and> validate_next P (state s) sg r = Inr () \<and>
       length (record_text P r) \<le> MAX_LEDGER_RECORD_BYTES \<and>
       s' = s\<lparr>ledger_text := ledger_text s @ take n (record_text P r @ [NL]), writable := False\<rparr>)"
  using assms
  by (auto simp: store_append_def Let_def record_text_def
      split: if_splits option.splits sum.splits write_outcome.splits)

lemma store_append_on:
  assumes "store_on P sg rs s" and "store_append P sg io now ev producer s = (res, s')"
  shows "if res = Inr Appended
    then store_on P sg (rs @ [next_record P sg now ev producer (checkpoint_interval s) (state s)]) s'
    else store_on P sg rs s'"
proof (cases res)
  case (Inl e)
  then consider "s' = s"
    | n where "writable s" "torn_tail P sg (state s) (take n (record_text P
          (next_record P sg now ev producer (checkpoint_interval s) (state s)) @ [NL]))"
        "s' = s\<lparr>ledger_text := ledger_text s @ take n (record_text P
          (next_record P sg now ev producer (checkpoint_interval s) (state s)) @ [NL]),
          writable := False\<rparr>"
    using store_append_error [of P sg io now ev producer s e s'] assms(2)
    unfolding torn_tail_def Let_def by metis
  then show ?thesis
    by cases (use assms(1) Inl in \<open>simp_all add: store_on_def\<close>)
next
  case (Inr out)
  show ?thesis
  proof (cases out)
    case Appended
    note a = store_append_Appended [of P sg io now ev producer s s', unfolded Let_def]
    show ?thesis
      using a assms Inr Appended by (auto simp: store_on_def intro: ledger_snoc)
  next
    case Duplicate
    then show ?thesis
      using store_append_Duplicate [of P sg io now ev producer s s'] assms Inr by simp
  qed
qed

lemma store_append_inv: "store_inv P sg s \<Longrightarrow> store_inv P sg (append_exec P sg c s)"
  unfolding store_inv_def append_exec_def
  by (metis prod.collapse store_append_on)

interpretation ledger_store: command_system "append_exec P sg" "\<lambda>_. True" "store_inv P sg" for P sg
  by unfold_locales (rule store_append_inv)

lemma store_open_inv:
  "env_ok P \<Longrightarrow> store_open P sg i p t = Inr s \<Longrightarrow> store_inv P sg s"
  by (auto simp: store_open_def cmd_simps replay_iff store_inv_def store_on_def)

lemma store_writable_replay:
  "env_ok P \<Longrightarrow> store_on P sg rs s \<Longrightarrow> writable s \<Longrightarrow> replay P sg (ledger_text s) = Inr (state s)"
  by (auto simp: store_on_def replay_iff)

text \<open>Reading a file whose last write was torn.\<close>

lemma replay_torn:
  assumes "env_ok P" and "ledger P sg rs st" and "torn_tail P sg st tail"
  shows "replay P sg (ledger_lines P rs @ tail) = Inr st \<or>
    (\<exists>r. replay P sg (ledger_lines P rs @ tail) = Inr (insert_record st r) \<and>
         ledger P sg (rs @ [r]) (insert_record st r)) \<or>
    replay P sg (ledger_lines P rs @ tail)
      = Inl (numbered (Suc (length rs)) '' is truncated; manual recovery is required'')"
proof -
  obtain r n where r: "validate_next P st sg r = Inr ()"
    "length (record_text P r) \<le> MAX_LEDGER_RECORD_BYTES" "tail = take n (record_text P r @ [NL])"
    using assms(3) by (auto simp: torn_tail_def)
  have rp: "replay P sg (ledger_lines P rs @ tail) = replay_from P sg (length rs) st tail"
    using replay_from_ledger [OF assms(2,1)] by (simp add: replay_def)
  consider "tail = []" | "length (record_text P r) < n" | "0 < n" "n \<le> length (record_text P r)"
    using r(3) by fastforce
  then show ?thesis
  proof cases
    case 1
    then show ?thesis using rp by simp
  next
    case 2
    then have "tail = record_text P r @ NL # []" using r(3) by simp
    then have "replay P sg (ledger_lines P rs @ tail) = Inr (insert_record st r)"
      using rp replay_step [OF assms(1) r(1,2)] by simp
    then show ?thesis using ledger_snoc [OF assms(2) r(1,2)] by blast
  next
    case 3
    then have t: "tail = take n (record_text P r)" using r(3) by simp
    then have "NL \<notin> set tail" "length tail \<le> MAX_LEDGER_RECORD_BYTES" "tail \<noteq> []"
      using record_text_line [OF assms(1), of r] r(2) 3(1) by (auto dest: in_set_takeD)
    moreover from this have "last tail \<noteq> NL" using last_in_set by metis
    ultimately have "replay_from P sg (length rs) st tail
        = Inl (numbered (Suc (length rs)) '' is truncated; manual recovery is required'')"
      by (subst replay_from.simps) (simp add: Let_def read_line_partial)
    then show ?thesis using rp by simp
  qed
qed

section \<open>The hash chain\<close>

definition link_ok :: "logger_env \<Rightarrow> string \<Rightarrow> nat \<Rightarrow> string \<Rightarrow> entry \<Rightarrow> bool" where
  "link_ok P l i previous e \<longleftrightarrow>
     eb_log_id (entry_body e) = l \<and> eb_sequence (entry_body e) = of_nat (Suc i) \<and>
     eb_previous_hash (entry_body e) = previous \<and>
     entry_hash e = sha256 P (entry_body_json (entry_body e))"

definition chain_ok :: "logger_env \<Rightarrow> string \<Rightarrow> entry list \<Rightarrow> bool" where
  "chain_ok P l es \<longleftrightarrow>
     (\<forall>i < length es.
        link_ok P l i (if i = 0 then GENESIS_HASH else entry_hash (es ! (i - 1))) (es ! i))"

lemma chain_ok_Nil [simp]: "chain_ok P l []"
  by (simp add: chain_ok_def)

lemma chain_ok_snoc:
  "chain_ok P l (es @ [e]) \<longleftrightarrow> chain_ok P l es \<and>
     link_ok P l (length es) (if es = [] then GENESIS_HASH else entry_hash (last es)) e"
proof -
  have "(if i = 0 then GENESIS_HASH else entry_hash ((es @ [e]) ! (i - 1)))
      = (if i = 0 then GENESIS_HASH else entry_hash (es ! (i - 1)))" if "i \<le> length es" for i
    using that by (cases i) (simp_all add: nth_append)
  moreover have "(if length es = 0 then GENESIS_HASH else entry_hash (es ! (length es - 1)))
      = (if es = [] then GENESIS_HASH else entry_hash (last es))"
    by (simp add: last_conv_nth)
  ultimately show ?thesis
    by (auto simp: chain_ok_def All_less_Suc nth_append)
qed

definition head_of :: "entry \<Rightarrow> log_head" where
  "head_of e = \<lparr>lh_log_id = eb_log_id (entry_body e), lh_sequence = eb_sequence (entry_body e),
     lh_entry_hash = entry_hash e, lh_updated_at = eb_committed_at (entry_body e)\<rparr>"

definition logs_ok :: "logger_env \<Rightarrow> ledger_state \<Rightarrow> bool" where
  "logs_ok P st \<longleftrightarrow>
     (\<forall>l. chain_ok P l (listed (entries st) l) \<and>
        fmlookup (logs st) l = (if listed (entries st) l = [] then None
                                else Some (head_of (last (listed (entries st) l)))))"

definition events_ok :: "logger_env \<Rightarrow> ledger_state \<Rightarrow> bool" where
  "events_ok P st \<longleftrightarrow>
     (\<forall>i x. fmlookup (events st) i = Some x \<longrightarrow>
        event_id (accepted (se_accepted_event x)) = i \<and>
        se_request_digest x = sha256 P (accepted_json (se_accepted_event x)) \<and>
        entry_matches (se_accepted_event x) (entry_body (se_entry x)) \<and>
        se_entry x \<in> set (listed (entries st) (eb_log_id (entry_body (se_entry x)))))"

definition checkpoint_of :: "logger_env \<Rightarrow> signer \<Rightarrow> ledger_state \<Rightarrow> checkpoint \<Rightarrow> bool" where
  "checkpoint_of P sg st c \<longleftrightarrow>
     signer_verify P sg (checkpoint_body c) (logger_signature c) \<and>
     (\<exists>e \<in> set (listed (entries st) (cb_log_id (checkpoint_body c))).
        cb_sequence (checkpoint_body c) = eb_sequence (entry_body e) \<and>
        cb_entry_hash (checkpoint_body c) = entry_hash e)"

definition checkpoints_ok :: "logger_env \<Rightarrow> signer \<Rightarrow> ledger_state \<Rightarrow> bool" where
  "checkpoints_ok P sg st \<longleftrightarrow>
     (\<forall>i c. fmlookup (checkpoints st) i = Some c \<longrightarrow>
        cb_checkpoint_id (checkpoint_body c) = i \<and> checkpoint_of P sg st c) \<and>
     (\<forall>l. distinct (map (\<lambda>c. cb_sequence (checkpoint_body c)) (listed (checkpoints_by_log st) l)) \<and>
        (\<forall>c \<in> set (listed (checkpoints_by_log st) l). cb_log_id (checkpoint_body c) = l \<and>
           fmlookup (checkpoints st) (cb_checkpoint_id (checkpoint_body c)) = Some c))"

lemma listed_push: "listed (push k v m) j = (if j = k then listed m k @ [v] else listed m j)"
  by (simp add: listed_def push_def)

lemma insert_record_simps [simp]:
  "entries (insert_record st r) = push (eb_log_id (entry_body (lr_entry r))) (lr_entry r) (entries st)"
  "logs (insert_record st r) = fmupd (eb_log_id (entry_body (lr_entry r))) (head_of (lr_entry r)) (logs st)"
  "events (insert_record st r) = fmupd (event_id (accepted (lr_accepted_event r)))
     \<lparr>se_request_digest = lr_request_digest r, se_accepted_event = lr_accepted_event r,
      se_entry = lr_entry r\<rparr> (events st)"
  by (simp_all add: insert_record_def head_of_def Let_def split: option.split)

lemma insert_record_checkpoints:
  "checkpoints (insert_record st r) = (case lr_checkpoint r of None \<Rightarrow> checkpoints st
     | Some c \<Rightarrow> fmupd (cb_checkpoint_id (checkpoint_body c)) c (checkpoints st))"
  "checkpoints_by_log (insert_record st r) = (case lr_checkpoint r of None \<Rightarrow> checkpoints_by_log st
     | Some c \<Rightarrow> push (eb_log_id (entry_body (lr_entry r))) c (checkpoints_by_log st))"
  by (simp_all add: insert_record_def Let_def split: option.split)

lemma validate_next_ok:
  assumes "validate_next P st sg r = Inr u"
  shows "lr_request_digest r = sha256 P (accepted_json (lr_accepted_event r))"
    "fmlookup (events st) (event_id (accepted (lr_accepted_event r))) = None"
    "entry_matches (lr_accepted_event r) (entry_body (lr_entry r))"
    "eb_sequence (entry_body (lr_entry r)) = next_sequence st (eb_log_id (entry_body (lr_entry r)))"
    "eb_previous_hash (entry_body (lr_entry r)) = last_hash st (eb_log_id (entry_body (lr_entry r)))"
    "entry_hash (lr_entry r) = sha256 P (entry_body_json (entry_body (lr_entry r)))"
    "\<And>c. lr_checkpoint r = Some c \<Longrightarrow> validate_checkpoint P st sg c (lr_entry r) = Inr ()"
    "validate_event (accepted (lr_accepted_event r)) = Inr ()"
  using assms by (auto simp: validate_next_def Let_def cmd_simps entry_matches_def)

lemma logs_ok_insert:
  assumes "logs_ok P st" and "validate_next P st sg r = Inr ()"
  shows "logs_ok P (insert_record st r)"
proof -
  define l where "l = eb_log_id (entry_body (lr_entry r))"
  let ?es = "listed (entries st) l"
  note v = validate_next_ok [OF assms(2), folded l_def]
  have ch: "chain_ok P l ?es"
    and hd: "fmlookup (logs st) l = (if ?es = [] then None else Some (head_of (last ?es)))"
    using assms(1) by (simp_all add: logs_ok_def)
  have "lh_sequence (head_of (last ?es)) = of_nat (length ?es)" if "?es \<noteq> []"
    using ch that by (cases ?es rule: rev_cases) (simp_all add: chain_ok_snoc link_ok_def head_of_def)
  then have "next_sequence st l = of_nat (Suc (length ?es))"
    using hd by (simp add: next_sequence_def)
  moreover have "last_hash st l = (if ?es = [] then GENESIS_HASH else entry_hash (last ?es))"
    using hd by (simp add: last_hash_def head_of_def)
  ultimately have "chain_ok P l (?es @ [lr_entry r])"
    using ch v(4,5,6) by (simp add: chain_ok_snoc link_ok_def l_def)
  then show ?thesis
    using assms(1) by (auto simp: logs_ok_def listed_push l_def)
qed

lemma events_ok_insert:
  assumes "events_ok P st" and "validate_next P st sg r = Inr ()"
  shows "events_ok P (insert_record st r)"
  unfolding events_ok_def
proof (intro allI impI)
  fix i x
  assume x: "fmlookup (events (insert_record st r)) i = Some x"
  note v = validate_next_ok [OF assms(2)]
  have mono: "e \<in> set (listed (entries st) l) \<Longrightarrow> e \<in> set (listed (entries (insert_record st r)) l)" for e l
    by (auto simp: listed_push)
  show "event_id (accepted (se_accepted_event x)) = i \<and>
      se_request_digest x = sha256 P (accepted_json (se_accepted_event x)) \<and>
      entry_matches (se_accepted_event x) (entry_body (se_entry x)) \<and>
      se_entry x \<in> set (listed (entries (insert_record st r)) (eb_log_id (entry_body (se_entry x))))"
  proof (cases "i = event_id (accepted (lr_accepted_event r))")
    case True
    then show ?thesis using x v(1,3) by (auto simp: listed_push)
  next
    case False
    then have "fmlookup (events st) i = Some x" using x by simp
    then show ?thesis using assms(1) mono unfolding events_ok_def by blast
  qed
qed

lemma validate_checkpoint_ok:
  assumes "validate_checkpoint P st sg c e = Inr u"
  shows "cb_log_id (checkpoint_body c) = eb_log_id (entry_body e)"
    "cb_sequence (checkpoint_body c) = eb_sequence (entry_body e)"
    "cb_entry_hash (checkpoint_body c) = entry_hash e"
    "signer_verify P sg (checkpoint_body c) (logger_signature c)"
    "fmlookup (checkpoints st) (cb_checkpoint_id (checkpoint_body c)) = None"
    "cb_sequence (checkpoint_body c) \<notin> (\<lambda>d. cb_sequence (checkpoint_body d)) `
       set (listed (checkpoints_by_log st) (cb_log_id (checkpoint_body c)))"
  using assms
  by (auto simp: validate_checkpoint_def Let_def list_ex_iff split: if_splits)

lemma checkpoint_of_mono: "checkpoint_of P sg st c \<Longrightarrow> checkpoint_of P sg (insert_record st r) c"
  by (auto simp: checkpoint_of_def listed_push)

lemma checkpoints_ok_insert:
  assumes "checkpoints_ok P sg st" and "validate_next P st sg r = Inr ()"
  shows "checkpoints_ok P sg (insert_record st r)"
proof (cases "lr_checkpoint r")
  case None
  then show ?thesis
    using assms(1) checkpoint_of_mono
    by (simp add: checkpoints_ok_def insert_record_checkpoints)
next
  case (Some c)
  note v = validate_checkpoint_ok [OF validate_next_ok(7) [OF assms(2) Some]]
  have c: "checkpoint_of P sg (insert_record st r) c"
    using v by (auto simp: checkpoint_of_def listed_push)
  have keep: "fmlookup (checkpoints st) i = Some d \<Longrightarrow> i \<noteq> cb_checkpoint_id (checkpoint_body c)" for i d
    using v(5) by auto
  show ?thesis
    unfolding checkpoints_ok_def
  proof (intro conjI allI impI ballI)
    fix i d
    assume "fmlookup (checkpoints (insert_record st r)) i = Some d"
    then have d: "d = c \<and> i = cb_checkpoint_id (checkpoint_body c) \<or> fmlookup (checkpoints st) i = Some d"
      using Some by (auto simp: insert_record_checkpoints split: if_splits)
    show "cb_checkpoint_id (checkpoint_body d) = i" "checkpoint_of P sg (insert_record st r) d"
      using d c assms(1) checkpoint_of_mono unfolding checkpoints_ok_def by blast+
  next
    fix l
    show "distinct (map (\<lambda>c. cb_sequence (checkpoint_body c))
        (listed (checkpoints_by_log (insert_record st r)) l))"
      using assms(1) Some v(1,6)
      by (simp add: checkpoints_ok_def insert_record_checkpoints listed_push image_image)
  next
    fix l d
    assume "d \<in> set (listed (checkpoints_by_log (insert_record st r)) l)"
    then have d: "d \<in> set (listed (checkpoints_by_log st) l) \<or> d = c \<and> l = cb_log_id (checkpoint_body c)"
      using Some v(1) by (auto simp: insert_record_checkpoints listed_push split: if_splits)
    show "cb_log_id (checkpoint_body d) = l"
      using d assms(1) unfolding checkpoints_ok_def by blast
    show "fmlookup (checkpoints (insert_record st r)) (cb_checkpoint_id (checkpoint_body d)) = Some d"
    proof (cases "d = c")
      case False
      then have old: "fmlookup (checkpoints st) (cb_checkpoint_id (checkpoint_body d)) = Some d"
        using d assms(1) unfolding checkpoints_ok_def by blast
      show ?thesis using Some old keep [OF old] by (simp add: insert_record_checkpoints)
    qed (simp add: Some insert_record_checkpoints)
  qed
qed

lemma ledger_index_ok:
  "ledger P sg rs st \<Longrightarrow> logs_ok P st \<and> events_ok P st \<and> checkpoints_ok P sg st"
proof (induction rule: ledger.induct)
  case ledger_Nil
  then show ?case
    by (simp add: logs_ok_def events_ok_def checkpoints_ok_def empty_state_def listed_def)
next
  case (ledger_snoc rs st r)
  then show ?case using logs_ok_insert events_ok_insert checkpoints_ok_insert by blast
qed

lemmas ledger_logs_ok = ledger_index_ok [THEN conjunct1]
  and ledger_events_ok = ledger_index_ok [THEN conjunct2, THEN conjunct1]
  and ledger_checkpoints_ok = ledger_index_ok [THEN conjunct2, THEN conjunct2]

section \<open>Tampering\<close>

text \<open>Two different entry bodies with the same digest.\<close>

definition hash_collision :: "logger_env \<Rightarrow> bool" where
  "hash_collision P \<longleftrightarrow>
     (\<exists>b c. b \<noteq> c \<and> sha_hex P (bytes P (entry_body_json b)) = sha_hex P (bytes P (entry_body_json c)))"

lemma sha256_entry_inj:
  "\<not> hash_collision P \<Longrightarrow> sha256 P (entry_body_json b) = sha256 P (entry_body_json c) \<Longrightarrow> b = c"
  by (auto simp: hash_collision_def sha256_def canonical_sha256_def bytes_def)

lemma of_nat_64_inj:
  "a < 2 ^ 64 \<Longrightarrow> b < 2 ^ 64 \<Longrightarrow> (of_nat a :: 64 word) = of_nat b \<Longrightarrow> a = b"
proof -
  assume b: "a < 2 ^ 64" "b < 2 ^ 64" and eq: "(of_nat a :: 64 word) = of_nat b"
  have "a mod 2 ^ 64 = b mod 2 ^ 64"
    using arg_cong [OF eq, of unat] by (simp add: unat_of_nat)
  then show "a = b" using b by simp
qed

lemma chain_determined:
  assumes "\<not> hash_collision P"
  shows "chain_ok P l es \<Longrightarrow> chain_ok P l fs \<Longrightarrow> es \<noteq> [] \<Longrightarrow> fs \<noteq> [] \<Longrightarrow>
    length es < 2 ^ 64 \<Longrightarrow> length fs < 2 ^ 64 \<Longrightarrow> entry_hash (last es) = entry_hash (last fs) \<Longrightarrow> es = fs"
proof (induction es arbitrary: fs rule: rev_induct)
  case (snoc e es)
  obtain f gs where fs: "fs = gs @ [f]" using snoc.prems(4) by (cases fs rule: rev_cases) auto
  have le: "link_ok P l (length es) (if es = [] then GENESIS_HASH else entry_hash (last es)) e"
    and lf: "link_ok P l (length gs) (if gs = [] then GENESIS_HASH else entry_hash (last gs)) f"
    and ch: "chain_ok P l es" "chain_ok P l gs"
    using snoc.prems(1,2) fs by (simp_all add: chain_ok_snoc)
  have "entry_body e = entry_body f"
    using le lf snoc.prems(7) fs sha256_entry_inj [OF assms] by (simp add: link_ok_def)
  then have "e = f" using snoc.prems(7) fs by simp
  then have "length es = length gs" and prev: "(if es = [] then GENESIS_HASH else entry_hash (last es))
      = (if gs = [] then GENESIS_HASH else entry_hash (last gs))"
    using le lf snoc.prems(5,6) fs of_nat_64_inj [of "Suc (length es)" "Suc (length gs)"]
    unfolding link_ok_def by auto
  have "es = gs"
  proof (cases "es = []")
    case True
    then show ?thesis using \<open>length es = length gs\<close> by simp
  next
    case False
    then have "gs \<noteq> []" using \<open>length es = length gs\<close> by auto
    then show ?thesis using snoc.IH [OF ch False] snoc.prems(5,6) fs prev False by simp
  qed
  then show ?case using fs \<open>e = f\<close> by simp
qed simp

end
