(* ===== verification/Logger_Server.thy ===== *)
theory Logger_Server
  imports Ledger_Props
begin

unbundle bit_operations_syntax

text \<open>
  The HTTP front of the ledger: client authentication and authorization (\<open>logger/src/auth.rs\<close>), the
  request handlers (\<open>logger/src/server.rs\<close>) and the integer settings (\<open>logger/src/config.rs\<close>).

  A handler takes the server state and gives a response or an \<open>api_error\<close> with the state it leaves.
  Parameters: the SHA-256 of a token, the JSON readers of the request bodies, and the ledger's
  environment. Request routing and the printing of response bodies are the framework's.
\<close>

section \<open>Clients\<close>

record client =
  client_id :: string
  token_digest :: "8 word list"
  permissions :: "string set"
  event_types :: "string list"
  sessions :: "string list"

record client_spec =
  spec_id :: string
  token_sha256 :: string
  spec_permissions :: "string list"
  spec_event_types :: "string list"
  spec_sessions :: "string list"

definition nibble :: "char \<Rightarrow> error + 8 word" where
  "nibble c =
     (if 48 \<le> byte_of c \<and> byte_of c \<le> 57 then Inr (of_nat (byte_of c - 48))
      else if 97 \<le> byte_of c \<and> byte_of c \<le> 102 then Inr (of_nat (byte_of c - 97 + 10))
      else Inl ''invalid digest'')"

text \<open>The loop over \<open>chunks_exact(2)\<close>; a last odd byte is not part of a chunk.\<close>

fun decode_pairs :: "string \<Rightarrow> error + 8 word list" where
  "decode_pairs (a # b # rest) =
     and_then (nibble a) (\<lambda>hi. and_then (nibble b) (\<lambda>lo.
     and_then (decode_pairs rest) (\<lambda>out. Inr ((push_bit 4 hi OR lo) # out))))"
| "decode_pairs _ = Inr []"

definition decode_digest :: "string \<Rightarrow> error + 8 word list" where
  "decode_digest v =
     (case strip_prefix ''sha256:'' v of
        None \<Rightarrow> Inl ''tokenSha256 must be a lowercase sha256 digest''
      | Some hex \<Rightarrow>
          if length hex \<noteq> 64 \<or> \<not> list_all lower_hex hex
          then Inl ''tokenSha256 must be a lowercase sha256 digest'' else decode_pairs hex)"

definition validate_permissions :: "string list \<Rightarrow> string \<Rightarrow> error + string set" where
  "validate_permissions vs i =
     (if vs = [] then Inl (''logger client '' @ i @ '' must have permissions'')
      else if list_ex (\<lambda>v. v \<notin> {''append'', ''read'', ''verify''}) vs
      then Inl (''logger client '' @ i @ '' has unsupported permission'')
      else Inr (set vs))"

definition stars :: "string \<Rightarrow> nat" where
  "stars p = length (filter (\<lambda>c. c = CHR ''*'') p)"

definition pattern_ok :: "string \<Rightarrow> bool" where
  "pattern_ok p \<longleftrightarrow>
     \<not> (p = [] \<or> 128 < length p \<or> 1 < stars p \<or> (stars p = 1 \<and> \<not> ends_with ''*'' p))"

definition validate_patterns :: "string list \<Rightarrow> string \<Rightarrow> error + string list" where
  "validate_patterns vs name =
     (if vs = [] \<or> 128 < length vs
      then Inl (name @ '' must be a non-empty array of at most 128 patterns'')
      else if list_all pattern_ok vs then Inr vs
      else Inl (name @ '' contains an invalid pattern''))"

definition matches_any :: "string list \<Rightarrow> string \<Rightarrow> bool" where
  "matches_any ps v =
     list_ex (\<lambda>p. p = ''*'' \<or> p = v \<or>
       (case strip_suffix ''*'' p of None \<Rightarrow> False | Some stem \<Rightarrow> starts_with stem v)) ps"

fun load_clients ::
  "string set \<Rightarrow> 8 word list set \<Rightarrow> client_spec list \<Rightarrow> error + client list" where
  "load_clients ids digests [] = Inr []"
| "load_clients ids digests (spec # rest) =
     and_then (validate_identifier (spec_id spec) ''logger client ID'') (\<lambda>_.
     and_then (guard_ok (spec_id spec \<notin> ids) ''logger client IDs must be unique'') (\<lambda>_.
     and_then (decode_digest (token_sha256 spec)) (\<lambda>d.
     and_then (guard_ok (d \<notin> digests) ''logger client token digests must be unique'') (\<lambda>_.
     and_then (validate_permissions (spec_permissions spec) (spec_id spec)) (\<lambda>perms.
     and_then (validate_patterns (spec_event_types spec)
       (''logger client '' @ spec_id spec @ '' eventTypes'')) (\<lambda>types.
     and_then (validate_patterns (spec_sessions spec)
       (''logger client '' @ spec_id spec @ '' sessions'')) (\<lambda>sess.
     and_then (load_clients (insert (spec_id spec) ids) (insert d digests) rest) (\<lambda>cs.
     Inr (\<lparr>client_id = spec_id spec, token_digest = d, permissions = perms, event_types = types,
           sessions = sess\<rparr> # cs)))))))))"

definition authorizer_load :: "client_spec list \<Rightarrow> error + client list" where
  "authorizer_load specs =
     (if specs = [] then Inl ''logger clients file must contain clients''
      else load_clients {} {} specs)"

record auth_error =
  auth_status :: nat
  auth_code :: string
  auth_message :: string

definition unauthorized :: "string \<Rightarrow> auth_error" where
  "unauthorized m = \<lparr>auth_status = 401, auth_code = ''unauthorized'', auth_message = m\<rparr>"

definition forbidden :: "string \<Rightarrow> string \<Rightarrow> auth_error" where
  "forbidden c m = \<lparr>auth_status = 403, auth_code = c, auth_message = m\<rparr>"

definition token_char :: "char \<Rightarrow> bool" where
  "token_char c \<longleftrightarrow> is_ascii_alphanumeric c \<or> c \<in> set ''._~+/=-''"

definition bearer_token :: "string option \<Rightarrow> string option" where
  "bearer_token header =
     (case Option.bind header (strip_prefix ''Bearer '') of
        None \<Rightarrow> None
      | Some t \<Rightarrow> if 20 \<le> length t \<and> length t \<le> 512 \<and> list_all token_char t then Some t else None)"

definition authenticate ::
  "(string \<Rightarrow> 8 word list) \<Rightarrow> client list \<Rightarrow> string option \<Rightarrow> auth_error + client" where
  "authenticate sha cs header =
     (case bearer_token header of
        None \<Rightarrow> Inl (unauthorized ''bearer authentication is required'')
      | Some t \<Rightarrow>
          ok_or (foldl (\<lambda>selected c. if sha t = token_digest c then Some c else selected) None cs)
            (unauthorized ''invalid bearer token''))"

definition client_require :: "client \<Rightarrow> string \<Rightarrow> auth_error + unit" where
  "client_require c permission =
     guard_ok (permission \<in> permissions c)
       (forbidden ''forbidden'' (''client '' @ client_id c @ '' lacks '' @ permission @ '' permission''))"

definition authorize_session :: "client \<Rightarrow> string \<Rightarrow> auth_error + unit" where
  "authorize_session c v =
     guard_ok (matches_any (sessions c) v) (forbidden ''session_forbidden''
       (''client '' @ client_id c @ '' is not authorized for this session''))"

definition authorize_event :: "client \<Rightarrow> string \<Rightarrow> auth_error + unit" where
  "authorize_event c v =
     guard_ok (matches_any (event_types c) v) (forbidden ''event_type_forbidden''
       (''client '' @ client_id c @ '' is not authorized for this event type''))"

section \<open>Server state and errors\<close>

record server =
  srv_store :: store
  authorizer :: "client list"
  public_key :: json
  srv_ready :: bool
  max_event_bytes :: nat
  appends :: "64 word"
  duplicates :: "64 word"
  rejected :: "64 word"
  projection_success :: "64 word"
  projection_failures :: "64 word"

record api_error =
  api_status :: nat
  api_code :: string
  api_message :: string

definition api_new :: "nat \<Rightarrow> string \<Rightarrow> string \<Rightarrow> api_error" where
  "api_new s c m = \<lparr>api_status = s, api_code = c, api_message = m\<rparr>"

definition api_bad :: "string \<Rightarrow> api_error" where
  "api_bad m = api_new 400 ''invalid_request'' m"

definition api_internal :: api_error where
  "api_internal = api_new 500 ''internal_error'' ''internal server error''"

definition api_not_found :: api_error where
  "api_not_found = api_new 404 ''not_found'' ''resource not found''"

definition from_auth :: "auth_error \<Rightarrow> api_error" where
  "from_auth e = api_new (auth_status e) (auth_code e) (auth_message e)"

definition from_store :: "store_error \<Rightarrow> api_error" where
  "from_store e = (case e of
       Conflict m \<Rightarrow> api_new 409 ''event_id_conflict'' m
     | Internal m \<Rightarrow> api_internal)"

definition map_err :: "('e \<Rightarrow> 'f) \<Rightarrow> 'e + 'a \<Rightarrow> 'f + 'a" where
  "map_err f r = (case r of Inl e \<Rightarrow> Inl (f e) | Inr x \<Rightarrow> Inr x)"

record server_env =
  ledger_env :: logger_env
  srv_signer :: signer
  token_sha :: "string \<Rightarrow> 8 word list"
  parse_event :: "string \<Rightarrow> event option"
  parse_verify :: "string \<Rightarrow> string option option"

definition authorize ::
  "server_env \<Rightarrow> server \<Rightarrow> string option \<Rightarrow> string \<Rightarrow> api_error + client" where
  "authorize E s header permission =
     and_then (map_err from_auth (authenticate (token_sha E) (authorizer s) header)) (\<lambda>c.
     and_then (map_err from_auth (client_require c permission)) (\<lambda>_. Inr c))"

definition read_client ::
  "server_env \<Rightarrow> server \<Rightarrow> string option \<Rightarrow> string \<Rightarrow> api_error + client" where
  "read_client E s header log_id =
     and_then (map_err api_bad (validate_identifier log_id ''logId'')) (\<lambda>_.
     and_then (authorize E s header ''read'') (\<lambda>c.
     and_then (map_err from_auth (authorize_session c log_id)) (\<lambda>_. Inr c)))"

definition list_query :: "64 word option \<Rightarrow> nat option \<Rightarrow> api_error + (64 word \<times> nat)" where
  "list_query after limit =
     (let n = (case limit of None \<Rightarrow> 100 | Some k \<Rightarrow> k)
      in if 1 \<le> n \<and> n \<le> 1000 then Inr (case after of None \<Rightarrow> 0 | Some a \<Rightarrow> a, n)
         else Inl (api_bad ''limit is outside the allowed range''))"

section \<open>Handlers\<close>

datatype payload =
    No_Content
  | Live_Body
  | Ready_Body
  | Key_Body json
  | Head_Body log_head
  | Entries_Body string "entry list"
  | Checkpoints_Body string "checkpoint list"
  | Checkpoint_Body checkpoint
  | Verify_Body verification
  | Metrics_Body "64 word list"

type_synonym handler = "(server, api_error, nat \<times> payload) cmd"

text \<open>The checks of \<open>events\<close> before the store is asked.\<close>

definition events_request ::
  "server_env \<Rightarrow> server \<Rightarrow> string option \<Rightarrow> string \<Rightarrow> api_error + (event \<times> client)" where
  "events_request E s header body =
     (if \<not> srv_ready s
      then Inl (api_new 503 ''integrity_unavailable''
        ''authoritative append is disabled until ledger integrity is restored'')
      else and_then (authorize E s header ''append'') (\<lambda>c.
        if body = [] then Inl (api_bad ''request body is required'')
        else if max_event_bytes s < length body
        then Inl (api_new 413 ''request_too_large'' ''request body exceeds size limit'')
        else and_then (ok_or (parse_event E body) (api_bad ''request body must be valid event JSON'')) (\<lambda>ev.
          and_then (map_err api_bad (validate_event ev)) (\<lambda>_.
          and_then (map_err from_auth (authorize_session c (session_id ev))) (\<lambda>_.
          and_then (map_err from_auth (authorize_event c (event_type ev))) (\<lambda>_.
          Inr (ev, c)))))))"

definition events_handler ::
  "server_env \<Rightarrow> write_outcome \<Rightarrow> string \<Rightarrow> string option \<Rightarrow> string \<Rightarrow> handler" where
  "events_handler E io now header body s =
     (case events_request E s header body of
        Inl e \<Rightarrow> (Inl e, s)
      | Inr (ev, c) \<Rightarrow>
          (case store_append (ledger_env E) (srv_signer E) io now ev (client_id c) (srv_store s) of
             (Inl (Internal m), st) \<Rightarrow>
               (Inl (from_store (Internal m)), s\<lparr>srv_store := st, srv_ready := False\<rparr>)
           | (Inl (Conflict m), st) \<Rightarrow> (Inl (from_store (Conflict m)), s\<lparr>srv_store := st\<rparr>)
           | (Inr Appended, st) \<Rightarrow>
               (Inr (204, No_Content), s\<lparr>srv_store := st, appends := appends s + 1\<rparr>)
           | (Inr Duplicate, st) \<Rightarrow>
               (Inr (204, No_Content), s\<lparr>srv_store := st, duplicates := duplicates s + 1\<rparr>)))"

definition health_handler :: handler where
  "health_handler = ret_c (200, Live_Body)"

definition public_key_handler :: handler where
  "public_key_handler = lift_r (\<lambda>s. Inr (200, Key_Body (public_key s)))"

definition ready_handler :: handler where
  "ready_handler = lift_r (\<lambda>s.
     if srv_ready s then Inr (200, Ready_Body)
     else Inl (api_new 503 ''integrity_unavailable'' ''logger integrity is unavailable''))"

definition head_handler :: "server_env \<Rightarrow> string option \<Rightarrow> string \<Rightarrow> handler" where
  "head_handler E header log_id = lift_r (\<lambda>s.
     and_then (read_client E s header log_id) (\<lambda>_.
     and_then (ok_or (store_head (srv_store s) log_id) api_not_found) (\<lambda>h.
     Inr (200, Head_Body h))))"

definition entries_handler ::
  "server_env \<Rightarrow> string option \<Rightarrow> string \<Rightarrow> 64 word option \<Rightarrow> nat option \<Rightarrow> handler" where
  "entries_handler E header log_id after limit = lift_r (\<lambda>s.
     and_then (read_client E s header log_id) (\<lambda>_.
     and_then (list_query after limit) (\<lambda>(a, n).
     Inr (200, Entries_Body log_id (store_entries (srv_store s) log_id a n)))))"

definition checkpoints_handler ::
  "server_env \<Rightarrow> string option \<Rightarrow> string \<Rightarrow> 64 word option \<Rightarrow> nat option \<Rightarrow> handler" where
  "checkpoints_handler E header log_id after limit = lift_r (\<lambda>s.
     and_then (read_client E s header log_id) (\<lambda>_.
     and_then (list_query after limit) (\<lambda>(a, n).
     Inr (200, Checkpoints_Body log_id (store_checkpoints (srv_store s) log_id a n)))))"

definition checkpoint_handler :: "server_env \<Rightarrow> string option \<Rightarrow> string \<Rightarrow> handler" where
  "checkpoint_handler E header i = lift_r (\<lambda>s.
     and_then (map_err api_bad (validate_identifier i ''checkpointId'')) (\<lambda>_.
     and_then (authorize E s header ''read'') (\<lambda>c.
     and_then (ok_or (checkpoint_session (srv_store s) i) api_not_found) (\<lambda>log_id.
     and_then (map_err from_auth (authorize_session c log_id)) (\<lambda>_.
     and_then (ok_or (store_checkpoint (srv_store s) i) api_not_found) (\<lambda>v.
     Inr (200, Checkpoint_Body v)))))))"

definition verify_request ::
  "server_env \<Rightarrow> server \<Rightarrow> string option \<Rightarrow> string \<Rightarrow> api_error + string option" where
  "verify_request E s header body =
     and_then (authorize E s header ''verify'') (\<lambda>c.
     and_then (ok_or (parse_verify E body) (api_bad ''invalid verify request'')) (\<lambda>log_id.
     case log_id of
       None \<Rightarrow> Inr None
     | Some i \<Rightarrow>
         and_then (map_err api_bad (validate_identifier i ''logId'')) (\<lambda>_.
         and_then (map_err from_auth (authorize_session c i)) (\<lambda>_. Inr (Some i)))))"

definition verify_handler :: "server_env \<Rightarrow> string option \<Rightarrow> string \<Rightarrow> handler" where
  "verify_handler E header body s =
     (case verify_request E s header body of
        Inl e \<Rightarrow> (Inl e, s)
      | Inr log_id \<Rightarrow>
          let v = store_verify (ledger_env E) (srv_signer E) (srv_store s) log_id
          in (Inr (if ok v then 200 else 503, Verify_Body v), s\<lparr>srv_ready := ok v\<rparr>))"

definition metrics_handler :: "server_env \<Rightarrow> string option \<Rightarrow> handler" where
  "metrics_handler E header = lift_r (\<lambda>s.
     and_then (authorize E s header ''read'') (\<lambda>_.
     Inr (200, Metrics_Body [appends s, duplicates s, rejected s, if srv_ready s then 1 else 0,
       projection_success s, projection_failures s, of_nat (projection_count (srv_store s))])))"

text \<open>\<open>response_policy\<close>: a client or server error counts as a rejected request.\<close>

definition response_policy :: "handler \<Rightarrow> handler" where
  "response_policy h s =
     (let (r, s') = h s; status = (case r of Inl e \<Rightarrow> api_status e | Inr p \<Rightarrow> fst p)
      in (r, if 400 \<le> status \<and> status < 600 then s'\<lparr>rejected := rejected s' + 1\<rparr> else s'))"

text \<open>\<open>AppState::flush_projections\<close>: \<open>dir_ok\<close> tells whether the directory could be created.\<close>

definition flush_handler :: "server_env \<Rightarrow> bool \<Rightarrow> (string \<Rightarrow> bool) \<Rightarrow> server \<Rightarrow> server" where
  "flush_handler E dir_ok ok_write s =
     (if \<not> projection_enabled (srv_store s) then s
      else if \<not> dir_ok then s\<lparr>projection_failures := projection_failures s + 1\<rparr>
      else let ((good, failed), st, _) = flush_projections (ledger_env E) ok_write (srv_store s, Map.empty)
      in s\<lparr>srv_store := st, projection_success := projection_success s + of_nat good,
           projection_failures := projection_failures s + of_nat failed\<rparr>)"

datatype request =
    Events write_outcome string "string option" string
  | Healthz
  | Readyz
  | Public_Key
  | Head "string option" string
  | Entries "string option" string "64 word option" "nat option"
  | Checkpoints "string option" string "64 word option" "nat option"
  | Get_Checkpoint "string option" string
  | Verify "string option" string
  | Metrics "string option"

definition router :: "server_env \<Rightarrow> request \<Rightarrow> handler" where
  "router E q = response_policy (case q of
       Events io now header body \<Rightarrow> events_handler E io now header body
     | Healthz \<Rightarrow> health_handler
     | Readyz \<Rightarrow> ready_handler
     | Public_Key \<Rightarrow> public_key_handler
     | Head header l \<Rightarrow> head_handler E header l
     | Entries header l a n \<Rightarrow> entries_handler E header l a n
     | Checkpoints header l a n \<Rightarrow> checkpoints_handler E header l a n
     | Get_Checkpoint header i \<Rightarrow> checkpoint_handler E header i
     | Verify header body \<Rightarrow> verify_handler E header body
     | Metrics header \<Rightarrow> metrics_handler E header)"

section \<open>Configuration\<close>

definition config_integer :: "env \<Rightarrow> string \<Rightarrow> nat \<Rightarrow> nat \<Rightarrow> nat \<Rightarrow> error + nat" where
  "config_integer environ name fallback low high =
     (let message = name @ '' must be an integer between '' @ show_nat low @ '' and '' @ show_nat high
      in and_then (case environ name of
             None \<Rightarrow> Inr fallback
           | Some raw \<Rightarrow> ok_or (parse_unsigned (2 ^ 64 - 1) raw) message) (\<lambda>v.
         if low \<le> v \<and> v \<le> high then Inr v else Inl message))"

definition config_required :: "env \<Rightarrow> string \<Rightarrow> error + string" where
  "config_required environ name =
     (case environ name of
        None \<Rightarrow> Inl (name @ '' is required'')
      | Some v \<Rightarrow> if v = [] then Inl (name @ '' is required'') else Inr v)"

record config =
  ledger_file :: string
  signing_key_file :: string
  signing_key_id :: string
  cfg_logger_id :: string
  clients_file :: string
  cfg_checkpoint_interval :: nat
  cfg_max_event_bytes :: nat
  projection_dir :: "string option"
  projection_interval_ms :: nat
  host :: string
  port :: nat

definition env_or :: "env \<Rightarrow> string \<Rightarrow> string \<Rightarrow> string" where
  "env_or environ name fallback = (case environ name of None \<Rightarrow> fallback | Some v \<Rightarrow> v)"

definition config_from_env :: "env \<Rightarrow> error + config" where
  "config_from_env environ =
     and_then (config_required environ ''LOGGER_SIGNING_KEY_FILE'') (\<lambda>key.
     and_then (config_required environ ''LOGGER_ID'') (\<lambda>lid.
     and_then (config_required environ ''LOGGER_CLIENTS_FILE'') (\<lambda>clients.
     and_then (config_integer environ ''LOGGER_CHECKPOINT_INTERVAL'' 100 1 1000000) (\<lambda>interval.
     and_then (config_integer environ ''LOGGER_MAX_EVENT_BYTES'' 65536 1024 1048576) (\<lambda>maxb.
     and_then (config_integer environ ''LOGGER_PROJECTION_INTERVAL_MS'' 1000 100 60000) (\<lambda>ms.
     and_then (config_integer environ ''PORT'' 8090 1 65535) (\<lambda>p.
     Inr \<lparr>ledger_file = env_or environ ''LOGGER_LEDGER_FILE'' ''/var/lib/logger/ledger.jsonl'',
          signing_key_file = key,
          signing_key_id = env_or environ ''LOGGER_SIGNING_KEY_ID'' ''logger-signing-key'',
          cfg_logger_id = lid, clients_file = clients, cfg_checkpoint_interval = interval,
          cfg_max_event_bytes = maxb, projection_dir = environ ''LOGGER_PROJECTION_DIR'',
          projection_interval_ms = ms, host = env_or environ ''HOST'' ''0.0.0.0'', port = p\<rparr>)))))))"

section \<open>Start\<close>

definition signer_load :: "string \<Rightarrow> string \<Rightarrow> error + signer" where
  "signer_load kid lid =
     and_then (validate_identifier kid ''logger signing key ID'') (\<lambda>_.
     and_then (validate_identifier lid ''logger identity'') (\<lambda>_.
     Inr \<lparr>key_id = kid, logger_id = lid\<rparr>))"

definition public_descriptor :: "string \<Rightarrow> signer \<Rightarrow> json" where
  "public_descriptor pem sg = JObj [(''algorithm'', JStr ''Ed25519''), (''keyId'', JStr (key_id sg)),
     (''loggerIdentity'', JStr (logger_id sg)), (''publicKeyPem'', JStr pem)]"

text \<open>
  \<open>AppState::from_config\<close> on the contents of the files the configuration names: the PEM text of the
  public key, the text of the ledger and the parsed clients.
\<close>

definition from_config ::
  "logger_env \<Rightarrow> config \<Rightarrow> string \<Rightarrow> string \<Rightarrow> client_spec list \<Rightarrow> error + (signer \<times> server)" where
  "from_config P cfg pem raw specs =
     and_then (signer_load (signing_key_id cfg) (cfg_logger_id cfg)) (\<lambda>sg.
     and_then (store_open P sg (of_nat (cfg_checkpoint_interval cfg)) (projection_dir cfg \<noteq> None) raw) (\<lambda>st.
     and_then (authorizer_load specs) (\<lambda>cs.
     Inr (sg, \<lparr>srv_store = st, authorizer = cs, public_key = public_descriptor pem sg, srv_ready = True,
       max_event_bytes = cfg_max_event_bytes cfg, appends = 0, duplicates = 0, rejected = 0,
       projection_success = 0, projection_failures = 0\<rparr>))))"

end
