(* ===== verification/Json_Codec.thy ===== *)
theory Json_Codec
  imports Json
begin

text \<open>
  A concrete printer and reader of JSON values, on which the laws the components assume of \<open>serde_json\<close>
  hold: printed values read back, printed text is a single line. It instantiates the parameters of the
  components in their sample states.
\<close>

section \<open>Printing\<close>

definition esc :: "char \<Rightarrow> string" where
  "esc c = (if c = NL then [CHR 0x5C, CHR ''n'']
            else if c = CHR 0x22 \<or> c = CHR 0x5C then [CHR 0x5C, c] else [c])"

definition enc_str :: "string \<Rightarrow> string" where
  "enc_str s = CHR 0x22 # concat (map esc s) @ [CHR 0x22]"

function enc :: "json \<Rightarrow> string" where
  "enc (JArr vs) = CHR ''['' # concat (map enc vs) @ [CHR '']'']"
| "enc (JObj kvs) = CHR ''{'' # concat (map (\<lambda>(k, v). enc_str k @ enc v) kvs) @ [CHR ''}'']"
| "enc JNull = ''n''"
| "enc (JBool b) = (if b then ''t'' else ''f'')"
| "enc (JNum n) = CHR ''#'' # show_nat (unat n) @ [CHR '';'']"
| "enc (JNeg n) = CHR ''-'' # show_nat (unat n) @ [CHR '';'']"
| "enc (JFloat t) = CHR ''.'' # enc_str t"
| "enc (JStr s) = enc_str s"
  by pat_completeness auto
termination enc
proof (relation "measure size", goal_cases)
  case (2 vs v)
  then show ?case by (induction vs) auto
next
  case (3 kvs x k v)
  then show ?case using size_json_member [of k v kvs] by simp
qed simp

section \<open>Reading\<close>

fun dec_str :: "string \<Rightarrow> (string \<times> string) option" where
  "dec_str [] = None"
| "dec_str [c] = (if c = CHR 0x22 then Some ([], []) else None)"
| "dec_str (c # d # cs) =
     (if c = CHR 0x22 then Some ([], d # cs)
      else if c = CHR 0x5C
      then map_option (\<lambda>(s, r). ((if d = CHR ''n'' then NL else d) # s, r)) (dec_str cs)
      else map_option (\<lambda>(s, r). (c # s, r)) (dec_str (d # cs)))"

fun dec :: "nat \<Rightarrow> string \<Rightarrow> (json \<times> string) option"
  and dec_list :: "nat \<Rightarrow> string \<Rightarrow> (json list \<times> string) option"
  and dec_obj :: "nat \<Rightarrow> string \<Rightarrow> ((string \<times> json) list \<times> string) option" where
  "dec 0 s = None"
| "dec (Suc n) s = (case s of [] \<Rightarrow> None | c # cs \<Rightarrow>
     if c = CHR ''n'' then Some (JNull, cs)
     else if c = CHR ''t'' then Some (JBool True, cs)
     else if c = CHR ''f'' then Some (JBool False, cs)
     else if c = CHR ''#''
     then map_option (\<lambda>(d, r). (JNum (of_nat (digits_value d)), r)) (split_once CHR '';'' cs)
     else if c = CHR ''-''
     then map_option (\<lambda>(d, r). (JNeg (of_nat (digits_value d)), r)) (split_once CHR '';'' cs)
     else if c = CHR ''.'' then map_option (\<lambda>(t, r). (JFloat t, r)) (dec_str (tl cs))
     else if c = CHR 0x22 then map_option (\<lambda>(t, r). (JStr t, r)) (dec_str cs)
     else if c = CHR ''['' then map_option (\<lambda>(vs, r). (JArr vs, r)) (dec_list n cs)
     else if c = CHR ''{'' then map_option (\<lambda>(kvs, r). (JObj kvs, r)) (dec_obj n cs)
     else None)"
| "dec_list 0 s = None"
| "dec_list (Suc n) s = (case s of [] \<Rightarrow> None | c # cs \<Rightarrow>
     if c = CHR '']'' then Some ([], cs)
     else (case dec n s of None \<Rightarrow> None | Some (v, r) \<Rightarrow>
       map_option (\<lambda>(vs, r'). (v # vs, r')) (dec_list n r)))"
| "dec_obj 0 s = None"
| "dec_obj (Suc n) s = (case s of [] \<Rightarrow> None | c # cs \<Rightarrow>
     if c = CHR ''}'' then Some ([], cs)
     else (case dec_str cs of None \<Rightarrow> None | Some (k, r) \<Rightarrow>
       (case dec n r of None \<Rightarrow> None | Some (v, r') \<Rightarrow>
          map_option (\<lambda>(kvs, r''). ((k, v) # kvs, r'')) (dec_obj n r'))))"

lemma dec_str_enc: "dec_str (concat (map esc s) @ CHR 0x22 # rest) = Some (s, rest)"
proof (induction s)
  case Nil
  then show ?case by (cases rest) simp_all
next
  case (Cons c s)
  have ne: "concat (map esc s) @ CHR 0x22 # rest \<noteq> []" by simp
  show ?case
  proof (cases "c = NL \<or> c = CHR 0x22 \<or> c = CHR 0x5C")
    case True
    then show ?thesis using Cons by (auto simp: esc_def)
  next
    case False
    then have "esc c = [c]" by (simp add: esc_def)
    then show ?thesis using Cons False ne
      by (cases "concat (map esc s) @ CHR 0x22 # rest") simp_all
  qed
qed

lemma show_nat_no_semicolon: "CHR '';'' \<notin> set (show_nat n)"
  using show_nat_digits [of n] by (auto simp: list_all_iff is_ascii_digit_def byte_of_def)

lemma enc_hd:
  "\<exists>c cs. enc v = c # cs \<and> c \<noteq> CHR '']'' \<and> c \<noteq> CHR ''}''"
  by (cases v) (auto simp: enc_str_def)

definition dec_ok :: "json \<Rightarrow> bool" where
  "dec_ok v \<longleftrightarrow> (\<forall>n rest. length (enc v) \<le> n \<longrightarrow> dec n (enc v @ rest) = Some (v, rest))"

lemma dec_list_ok:
  "list_all dec_ok vs \<Longrightarrow> length (concat (map enc vs)) < n \<Longrightarrow>
     dec_list n (concat (map enc vs) @ CHR '']'' # rest) = Some (vs, rest)"
proof (induction vs arbitrary: n)
  case Nil
  then show ?case by (cases n) simp_all
next
  case (Cons v vs)
  obtain m where n: "n = Suc m" using Cons.prems(2) by (cases n) auto
  obtain c cs where e: "enc v = c # cs" "c \<noteq> CHR '']''" using enc_hd [of v] by blast
  have v: "dec m (enc v @ t) = Some (v, t)" for t
    using Cons.prems n by (simp add: dec_ok_def)
  have "dec_list m (concat (map enc vs) @ CHR '']'' # rest) = Some (vs, rest)"
    using Cons.IH [of m] Cons.prems n e(1) by simp
  then show ?case using n v e by simp
qed

lemma dec_obj_ok:
  "list_all (\<lambda>(k, v). dec_ok v) kvs \<Longrightarrow>
     length (concat (map (\<lambda>(k, v). enc_str k @ enc v) kvs)) < n \<Longrightarrow>
     dec_obj n (concat (map (\<lambda>(k, v). enc_str k @ enc v) kvs) @ CHR ''}'' # rest) = Some (kvs, rest)"
proof (induction kvs arbitrary: n)
  case Nil
  then show ?case by (cases n) simp_all
next
  case (Cons p kvs)
  obtain k v where p: "p = (k, v)" by force
  obtain m where n: "n = Suc m" using Cons.prems(2) by (cases n) auto
  have v: "dec m (enc v @ t) = Some (v, t)" for t
    using Cons.prems n p by (simp add: dec_ok_def)
  have "dec_obj m (concat (map (\<lambda>(k, v). enc_str k @ enc v) kvs) @ CHR ''}'' # rest) = Some (kvs, rest)"
    using Cons.IH [of m] Cons.prems n p by (simp add: enc_str_def)
  then show ?case using n v p by (simp add: enc_str_def dec_str_enc)
qed

lemma dec_okI:
  assumes "\<And>n rest. length (enc v) \<le> Suc n \<Longrightarrow> dec (Suc n) (enc v @ rest) = Some (v, rest)"
  shows "dec_ok v"
  unfolding dec_ok_def
proof (intro allI impI)
  fix n rest
  assume n: "length (enc v) \<le> n"
  then obtain m where "n = Suc m" using enc_hd [of v] by (cases n) auto
  then show "dec n (enc v @ rest) = Some (v, rest)" using assms n by blast
qed

lemma dec_enc: "dec_ok v"
proof (induction v rule: enc.induct)
  case (1 vs)
  then have "list_all dec_ok vs" by (simp add: list_all_iff)
  then show ?case by (intro dec_okI) (simp add: dec_list_ok)
next
  case (2 kvs)
  then have "list_all (\<lambda>(k, v). dec_ok v) kvs" by (auto simp: list_all_iff)
  then show ?case by (intro dec_okI) (simp add: dec_obj_ok)
next
  case (5 n)
  show ?case
    by (intro dec_okI) (simp add: split_once_app show_nat_no_semicolon digits_value_show)
next
  case (6 n)
  show ?case
    by (intro dec_okI) (simp add: split_once_app show_nat_no_semicolon digits_value_show)
next
  case (7 t)
  show ?case by (intro dec_okI) (simp add: enc_str_def dec_str_enc)
next
  case (8 s)
  show ?case by (intro dec_okI) (simp add: enc_str_def dec_str_enc)
qed (intro dec_okI, simp)+

definition parse_json :: "string \<Rightarrow> json option" where
  "parse_json s = (case dec (length s) s of Some (v, []) \<Rightarrow> Some v | _ \<Rightarrow> None)"

lemma parse_enc: "parse_json (enc v) = Some v"
  using dec_enc [of v] unfolding dec_ok_def parse_json_def
  by (metis (no_types, lifting) append_Nil2 le_refl list.simps(4) old.prod.case option.simps(5))

lemma enc_no_newline: "NL \<notin> set (enc v)"
proof (induction v rule: enc.induct)
  case (5 n)
  then show ?case using show_nat_plain [of "unat n"] by (auto simp: list_all_iff plain_char_def)
next
  case (6 n)
  then show ?case using show_nat_plain [of "unat n"] by (auto simp: list_all_iff plain_char_def)
qed (auto simp: enc_str_def esc_def split: if_splits)

section \<open>Records\<close>

definition members :: "json \<Rightarrow> (string \<times> json) list" where
  "members v = (case v of JObj kvs \<Rightarrow> kvs | _ \<Rightarrow> [])"

definition member :: "json \<Rightarrow> string \<Rightarrow> json" where
  "member v k = (case map_of (members v) k of None \<Rightarrow> JNull | Some x \<Rightarrow> x)"

definition str_of :: "json \<Rightarrow> string" where
  "str_of v = (case v of JStr s \<Rightarrow> s | _ \<Rightarrow> [])"

definition num_of :: "json \<Rightarrow> 64 word" where
  "num_of v = (case v of JNum n \<Rightarrow> n | _ \<Rightarrow> 0)"

definition items_of :: "json \<Rightarrow> json list" where
  "items_of v = (case v of JArr vs \<Rightarrow> vs | _ \<Rightarrow> [])"

definition opt_of :: "(json \<Rightarrow> 'a) \<Rightarrow> json \<Rightarrow> 'a option" where
  "opt_of f v = (if v = JNull then None else Some (f v))"

lemmas of_simps = str_of_def num_of_def items_of_def opt_of_def

end
