(* ===== verification/Ledger_Instance.thy ===== *)
theory Ledger_Instance
  imports Ledger_Props Json_Codec
begin

text \<open>
  A concrete environment for the ledger: the JSON codec of \<open>Json_Codec\<close>, an identity digest, and
  signatures that repeat the message. It shows that the laws hold of an actual codec and gives the sample
  stores something to run on.
\<close>

section \<open>Records\<close>

definition artifact_of :: "json \<Rightarrow> artifact_reference" where
  "artifact_of v = \<lparr>uri = str_of (member v ''uri''), digest = opt_of str_of (member v ''digest''),
     ref_size = opt_of num_of (member v ''size''), media_type = opt_of str_of (member v ''mediaType'')\<rparr>"

definition accepted_of :: "json \<Rightarrow> accepted_event" where
  "accepted_of v = \<lparr>accepted = \<lparr>event_id = str_of (member v ''eventId''),
       session_id = str_of (member v ''sessionId''), event_type = str_of (member v ''eventType''),
       payload_digest = str_of (member v ''payloadDigest''),
       artifact_references = map artifact_of (items_of (member v ''artifactReferences''))\<rparr>,
     producer_id = str_of (member v ''producerId'')\<rparr>"

definition entry_of :: "json \<Rightarrow> entry" where
  "entry_of v = \<lparr>entry_body = \<lparr>eb_log_id = str_of (member v ''logId''),
       eb_sequence = num_of (member v ''sequence''), eb_previous_hash = str_of (member v ''previousHash''),
       eb_committed_at = str_of (member v ''committedAt''),
       eb_producer_id = str_of (member v ''producerId''), eb_event_id = str_of (member v ''eventId''),
       eb_event_type = str_of (member v ''eventType''),
       eb_payload_digest = str_of (member v ''payloadDigest''),
       eb_artifact_references = map artifact_of (items_of (member v ''artifactReferences''))\<rparr>,
     entry_hash = str_of (member v ''entryHash'')\<rparr>"

definition signature_of :: "json \<Rightarrow> signature" where
  "signature_of v = \<lparr>algorithm = str_of (member v ''algorithm''), sig_key_id = str_of (member v ''keyId''),
     sig_value = str_of (member v ''signature'')\<rparr>"

definition checkpoint_from :: "json \<Rightarrow> checkpoint" where
  "checkpoint_from v = \<lparr>checkpoint_body = \<lparr>cb_api_version = str_of (member v ''apiVersion''),
       cb_kind = str_of (member v ''kind''), cb_checkpoint_id = str_of (member v ''checkpointId''),
       cb_log_id = str_of (member v ''logId''), cb_sequence = num_of (member v ''sequence''),
       cb_entry_hash = str_of (member v ''entryHash''), cb_created_at = str_of (member v ''createdAt''),
       cb_logger_identity = str_of (member v ''loggerIdentity'')\<rparr>,
     logger_signature = signature_of (member v ''loggerSignature'')\<rparr>"

definition record_of :: "json \<Rightarrow> ledger_record" where
  "record_of v = \<lparr>lr_api_version = str_of (member v ''apiVersion''), lr_kind = str_of (member v ''kind''),
     lr_request_digest = str_of (member v ''requestDigest''),
     lr_accepted_event = accepted_of (member v ''acceptedEvent''),
     lr_entry = entry_of (member v ''entry''),
     lr_checkpoint = opt_of checkpoint_from (member v ''checkpoint'')\<rparr>"

lemma member_canonical:
  "distinct (map fst kvs) \<Longrightarrow>
     member (canonical_value (JObj kvs)) k
       = (case map_of kvs k of None \<Rightarrow> JNull | Some v \<Rightarrow> canonical_value v)"
  by (simp add: member_def members_def map_of_canonical split: option.split)

lemma artifact_of_json: "artifact_of (canonical_value (artifact_json r)) = r"
proof -
  have d: "distinct (map fst ([(''uri'', JStr (uri r))] @ opt_member ''digest'' JStr (digest r)
     @ opt_member ''size'' JNum (ref_size r) @ opt_member ''mediaType'' JStr (media_type r)))"
    by (simp add: set_opt_member)
  show ?thesis
    unfolding artifact_json_def artifact_of_def member_canonical [OF d]
    by (cases "digest r"; cases "ref_size r"; cases "media_type r")
      (simp_all add: of_simps map_add_def)
qed

lemma accepted_of_json: "accepted_of (canonical_value (accepted_json a)) = a"
  by (simp del: canonical_value.simps(2) add: accepted_json_def event_members_def accepted_of_def
      member_canonical of_simps comp_def artifact_of_json)

lemma entry_of_json: "entry_of (canonical_value (entry_json e)) = e"
  by (simp del: canonical_value.simps(2) add: entry_json_def entry_body_members_def entry_of_def
      member_canonical of_simps comp_def artifact_of_json)

lemma checkpoint_from_json: "checkpoint_from (canonical_value (checkpoint_json c)) = c"
  by (simp del: canonical_value.simps(2) add: checkpoint_json_def checkpoint_body_members_def
      checkpoint_from_def signature_json_def signature_of_def member_canonical of_simps)

lemma record_of_json: "record_of (canonical_value (record_json r)) = r"
proof (cases "lr_checkpoint r")
  case None
  then show ?thesis
    by (simp del: canonical_value.simps(2) add: record_json_def record_of_def member_canonical
        of_simps opt_member_def accepted_of_json entry_of_json)
next
  case (Some c)
  have "canonical_value (checkpoint_json c) \<noteq> JNull" by (simp add: checkpoint_json_def)
  with Some show ?thesis
    by (simp del: canonical_value.simps(2) add: record_json_def record_of_def member_canonical
        of_simps opt_member_def accepted_of_json entry_of_json checkpoint_from_json)
qed

section \<open>The environment\<close>

definition sample_env :: logger_env where
  "sample_env = \<lparr>to_vec = enc, from_slice = (\<lambda>s. map_option record_of (parse_json s)),
     sha_hex = (\<lambda>s. s), sign_b64 = (\<lambda>m. m), verify_b64 = (\<lambda>m s. s = m), rfc3339 = (\<lambda>s. s \<noteq> [])\<rparr>"

lemma sample_env_ok: "env_ok sample_env"
proof -
  have "inj enc" by (rule injI) (metis option.inject parse_enc)
  moreover have "enc v \<noteq> []" for v using enc_hd [of v] by auto
  ultimately show ?thesis
    by (simp add: env_ok_def sample_env_def enc_no_newline bytes_def canonical_bytes_def parse_enc
        record_of_json)
qed

end
