(* ===== verification/Ledger_Claims.thy ===== *)
theory Ledger_Claims
  imports Ledger_Instance
begin

text \<open>
  The properties of the ledger: the file and the index agree, acknowledged events survive, the entries
  form a hash chain that fixes its own past, appends are idempotent, and checkpoints are signed.
\<close>

section \<open>Prefixes of a ledger\<close>

inductive_cases ledger_NilE: "ledger P sg [] st"
inductive_cases ledger_snocE: "ledger P sg (rs @ [r]) st"

lemma ledger_snocD:
  "ledger P sg (rs @ [r]) st' \<Longrightarrow>
     \<exists>st. ledger P sg rs st \<and> validate_next P st sg r = Inr () \<and> st' = insert_record st r"
  by (erule ledger.cases) auto

lemma ledger_det: "ledger P sg rs st \<Longrightarrow> ledger P sg rs st' \<Longrightarrow> st' = st"
proof (induction arbitrary: st' rule: ledger.induct)
  case ledger_Nil
  then show ?case by (auto elim: ledger.cases)
next
  case (ledger_snoc rs st r)
  then show ?case using ledger_snocD [of P sg rs r st'] by blast
qed

lemma ledger_prefix:
  "ledger P sg (rs @ qs) st' \<Longrightarrow> \<exists>st. ledger P sg rs st \<and>
     (\<forall>i x. fmlookup (events st) i = Some x \<longrightarrow> fmlookup (events st') i = Some x)"
proof (induction qs arbitrary: st' rule: rev_induct)
  case Nil
  then show ?case by auto
next
  case (snoc q qs)
  then obtain t where t: "ledger P sg (rs @ qs) t" "validate_next P t sg q = Inr ()"
    "st' = insert_record t q"
    using ledger_snocD [of P sg "rs @ qs" q st'] by auto
  obtain st where st: "ledger P sg rs st"
    "\<forall>i x. fmlookup (events st) i = Some x \<longrightarrow> fmlookup (events t) i = Some x"
    using snoc.IH [OF t(1)] by blast
  have "fmlookup (events st') i = Some x" if "fmlookup (events t) i = Some x" for i x
    using that t(3) validate_next_ok(2) [OF t(2)] by auto
  with st show ?case by blast
qed

lemma ledger_keeps_events:
  assumes "ledger P sg rs st" and "ledger P sg (rs @ qs) st'" and "fmlookup (events st) i = Some x"
  shows "fmlookup (events st') i = Some x"
  using ledger_prefix [OF assms(2)] ledger_det [OF assms(1)] assms(3) by blast

section \<open>Runs\<close>

text \<open>The store after any number of further appends is on an extension of its ledger.\<close>

lemma run_extends:
  "store_on P sg rs s \<Longrightarrow> \<exists>qs. store_on P sg (rs @ qs) (fold (append_exec P sg) cs s)"
proof (induction cs arbitrary: rs s)
  case Nil
  then show ?case by (metis append_Nil2 fold_simps(1))
next
  case (Cons c cs)
  obtain res s' where r: "store_append P sg (ac_outcome c) (ac_now c) (ac_event c) (ac_producer c) s = (res, s')"
    by force
  then have s': "append_exec P sg c s = s'" by (simp add: append_exec_def)
  obtain qs where "store_on P sg (rs @ qs) s'"
    using store_append_on [OF Cons.prems r] by (metis append_Nil2)
  then show ?case using Cons.IH [of "rs @ qs" s'] s' by (metis append.assoc fold_simps(2))
qed

lemma run_from_open:
  assumes "env_ok P" and "store_open P sg i p t = Inr s"
  shows "\<exists>rs. store_on P sg rs (fold (append_exec P sg) cs s)"
  using store_open_inv [OF assms] run_extends by (metis store_inv_def)

text \<open>What reopening the file of a store can give.\<close>

lemma reopen_extends:
  assumes "env_ok P" and "store_on P sg rs s" and "replay P sg (ledger_text s) = Inr st"
  shows "\<exists>qs. ledger P sg (rs @ qs) st"
proof (cases "writable s")
  case True
  then have "st = state s" using store_writable_replay [OF assms(1,2)] assms(3) by simp
  then show ?thesis using assms(2) by (metis append_Nil2 store_on_def)
next
  case False
  then obtain tail where t: "ledger P sg rs (state s)" "ledger_text s = ledger_lines P rs @ tail"
    "torn_tail P sg (state s) tail"
    using assms(2) by (auto simp: store_on_def)
  show ?thesis
    using replay_torn [OF assms(1) t(1,3)] t(1,2) assms(3) by (metis append_Nil2 Inl_Inr_False sum.inject(2))
qed

lemma reopen_error:
  assumes "env_ok P" and "store_on P sg rs s" and "replay P sg (ledger_text s) = Inl e"
  shows "e = numbered (Suc (length rs)) '' is truncated; manual recovery is required'' \<and> \<not> writable s"
proof (cases "writable s")
  case True
  then show ?thesis using store_writable_replay [OF assms(1,2)] assms(3) by simp
next
  case False
  then obtain tail where t: "ledger P sg rs (state s)" "ledger_text s = ledger_lines P rs @ tail"
    "torn_tail P sg (state s) tail"
    using assms(2) by (auto simp: store_on_def)
  show ?thesis using replay_torn [OF assms(1) t(1,3)] t(2) assms(3) False by auto
qed

lemma appended_stored:
  assumes "store_append P sg io now ev producer s = (Inr Appended, s')"
  shows "\<exists>x. fmlookup (events (state s')) (event_id ev) = Some x \<and> se_accepted_event x = accept ev producer"
  using store_append_Appended [OF assms]
  by (simp add: Let_def next_record_def accept_def)

section \<open>Accepted appends\<close>

text \<open>The checkpoint of the next entry has a fresh identifier.\<close>

definition checkpoint_fresh :: "ledger_state \<Rightarrow> ledger_record \<Rightarrow> bool" where
  "checkpoint_fresh st r \<longleftrightarrow>
     (case lr_checkpoint r of
        None \<Rightarrow> True
      | Some c \<Rightarrow> fmlookup (checkpoints st) (cb_checkpoint_id (checkpoint_body c)) = None)"

definition signatures_ok :: "logger_env \<Rightarrow> bool" where
  "signatures_ok P \<longleftrightarrow> (\<forall>m. verify_b64 P m (sign_b64 P m))"

lemma next_sequence_length:
  assumes "logs_ok P st"
  shows "next_sequence st l = of_nat (Suc (length (listed (entries st) l)))"
proof -
  let ?es = "listed (entries st) l"
  have ch: "chain_ok P l ?es"
    and hd: "fmlookup (logs st) l = (if ?es = [] then None else Some (head_of (last ?es)))"
    using assms by (simp_all add: logs_ok_def)
  have "lh_sequence (head_of (last ?es)) = of_nat (length ?es)" if "?es \<noteq> []"
    using ch that by (cases ?es rule: rev_cases) (simp_all add: chain_ok_snoc link_ok_def head_of_def)
  then show ?thesis using hd by (simp add: next_sequence_def)
qed

lemma chain_sequences:
  assumes "chain_ok P l es" and "e \<in> set es"
  shows "\<exists>i < length es. eb_sequence (entry_body e) = of_nat (Suc i)"
  using assms by (auto simp: chain_ok_def link_ok_def in_set_conv_nth)

lemma checkpoint_sequences:
  assumes "checkpoints_ok P sg st" and "c \<in> set (listed (checkpoints_by_log st) l)"
  shows "\<exists>e \<in> set (listed (entries st) l). cb_sequence (checkpoint_body c) = eb_sequence (entry_body e)"
proof -
  have c: "cb_log_id (checkpoint_body c) = l"
    "fmlookup (checkpoints st) (cb_checkpoint_id (checkpoint_body c)) = Some c"
    using assms unfolding checkpoints_ok_def by blast+
  then have "checkpoint_of P sg st c" using assms(1) unfolding checkpoints_ok_def by blast
  then show ?thesis using c(1) by (auto simp: checkpoint_of_def)
qed

lemma next_checkpoint_unused:
  assumes "logs_ok P st" and "checkpoints_ok P sg st"
    and "length (listed (entries st) l) + 1 < 2 ^ 64"
    and "c \<in> set (listed (checkpoints_by_log st) l)"
  shows "cb_sequence (checkpoint_body c) \<noteq> next_sequence st l"
proof -
  obtain e where "e \<in> set (listed (entries st) l)"
    "cb_sequence (checkpoint_body c) = eb_sequence (entry_body e)"
    using checkpoint_sequences [OF assms(2,4)] by blast
  moreover have "chain_ok P l (listed (entries st) l)" using assms(1) by (simp add: logs_ok_def)
  ultimately obtain i where i: "i < length (listed (entries st) l)"
    "cb_sequence (checkpoint_body c) = of_nat (Suc i)"
    using chain_sequences [of P l "listed (entries st) l" e] by auto
  show ?thesis
  proof
    assume "cb_sequence (checkpoint_body c) = next_sequence st l"
    then have "(of_nat (Suc i) :: 64 word) = of_nat (Suc (length (listed (entries st) l)))"
      using i(2) next_sequence_length [OF assms(1)] by metis
    then show False using of_nat_64_inj [of "Suc i" "Suc (length (listed (entries st) l))"] i(1) assms(3)
      by simp
  qed
qed

lemma validate_next_record:
  assumes "ledger P sg rs st" and "validate_event ev = Inr ()"
    and "validate_identifier producer ''producer ID'' = Inr ()"
    and "fmlookup (events st) (event_id ev) = None" and "rfc3339 P now"
    and "signatures_ok P" and "length (listed (entries st) (session_id ev)) + 1 < 2 ^ 64"
    and "checkpoint_fresh st (next_record P sg now ev producer i st)"
  shows "validate_next P st sg (next_record P sg now ev producer i st) = Inr ()"
proof -
  note ok = ledger_index_ok [OF assms(1)]
  define r where "r = next_record P sg now ev producer i st"
  have "validate_checkpoint P st sg c (lr_entry r) = Inr ()" if c: "lr_checkpoint r = Some c" for c
  proof -
    have eq: "c = create_checkpoint P sg (lr_entry r)"
      using c by (auto simp: r_def next_record_def Let_def split: if_splits)
    have e: "eb_log_id (entry_body (lr_entry r)) = session_id ev"
      "eb_sequence (entry_body (lr_entry r)) = next_sequence st (session_id ev)"
      by (simp_all add: r_def next_record_def Let_def)
    have "\<not> list_ex (\<lambda>d. cb_sequence (checkpoint_body d) = next_sequence st (session_id ev))
        (listed (checkpoints_by_log st) (session_id ev))"
      using next_checkpoint_unused [of P st sg "session_id ev"] ok assms(7) by (auto simp: list_ex_iff)
    moreover have "fmlookup (checkpoints st) (cb_checkpoint_id (checkpoint_body c)) = None"
      using assms(8) c by (simp add: checkpoint_fresh_def r_def)
    ultimately show ?thesis
      using assms(6) e unfolding eq
      by (simp add: validate_checkpoint_def create_checkpoint_def Let_def signer_verify_def
          signer_sign_def signatures_ok_def)
  qed
  moreover have "validate_next P st sg r
      = (case lr_checkpoint r of None \<Rightarrow> Inr () | Some c \<Rightarrow> validate_checkpoint P st sg c (lr_entry r))"
    using assms(2-5) by (simp add: validate_next_def r_def next_record_def Let_def accept_def entry_matches_def)
  ultimately show ?thesis by (simp add: r_def split: option.split)
qed

section \<open>Repeated events\<close>

lemma run_keeps_event:
  assumes "store_on P sg rs s" and "fmlookup (events (state s)) i = Some x"
  shows "fmlookup (events (state (fold (append_exec P sg) cs s))) i = Some x"
proof -
  obtain qs where "store_on P sg (rs @ qs) (fold (append_exec P sg) cs s)"
    using run_extends [OF assms(1)] by blast
  then show ?thesis
    using ledger_keeps_events [of P sg rs "state s" qs] assms by (simp add: store_on_def)
qed

text \<open>Filtering a chain by sequence number drops exactly the entries up to that number.\<close>

lemma chain_after:
  assumes "chain_ok P l es" and "length es < 2 ^ 64"
  shows "filter (\<lambda>e. after < eb_sequence (entry_body e)) es = drop (unat after) es"
  using assms
proof (induction es rule: rev_induct)
  case (snoc e es)
  have ch: "chain_ok P l es" and e: "eb_sequence (entry_body e) = of_nat (Suc (length es))"
    using snoc.prems(1) by (auto simp: chain_ok_snoc link_ok_def)
  have "unat (of_nat (Suc (length es)) :: 64 word) = Suc (length es)"
    using snoc.prems(2) by (simp add: unat_of_nat del: of_nat_Suc)
  then have "after < eb_sequence (entry_body e) \<longleftrightarrow> unat after < Suc (length es)"
    using e by (simp add: word_less_nat_alt del: of_nat_Suc)
  then show ?case using snoc.IH [OF ch] snoc.prems(2) by (cases "unat after \<le> length es") auto
qed simp

section \<open>Sample store\<close>

definition sample_event :: event where
  "sample_event = \<lparr>event_id = ''e1'', session_id = ''s'', event_type = ''run.start'',
     payload_digest = ''sha256:'' @ replicate 64 CHR ''a'', artifact_references = []\<rparr>"

definition sample_signer :: signer where
  "sample_signer = \<lparr>key_id = ''k'', logger_id = ''l''\<rparr>"

definition sample_open :: store where
  "sample_open = \<lparr>ledger_text = [], checkpoint_interval = 1, projection_enabled = False,
     projection_dirty = {||}, state = empty_state, writable = True\<rparr>"

definition sample_append :: append_call where
  "sample_append = \<lparr>ac_outcome = Durable, ac_now = ''t'', ac_event = sample_event, ac_producer = ''p''\<rparr>"

lemma sample_open_eq: "store_open sample_env sample_signer 1 False [] = Inr sample_open"
  by (simp add: store_open_def replay_def sample_open_def)

lemma sample_event_valid:
  "validate_event sample_event = Inr ()" "validate_identifier ''p'' ''producer ID'' = Inr ()"
  by code_simp+


lemma sample_record_size:
  "length (record_text sample_env (next_record sample_env sample_signer ''t'' sample_event ''p'' 1 empty_state))
     \<le> 5000"
  by code_simp

lemma sample_record_size_2:
  "length (record_text sample_env (next_record sample_env sample_signer ''t'' sample_event ''p'' 2 empty_state))
     \<le> 5000"
  by code_simp

lemma sample_valid:
  "validate_next sample_env empty_state sample_signer
     (next_record sample_env sample_signer ''t'' sample_event ''p'' i empty_state) = Inr ()"
  by (rule validate_next_record [OF ledger_Nil])
    (simp_all add: sample_event_valid empty_state_def sample_env_def signatures_ok_def listed_def
      checkpoint_fresh_def split: option.split)

lemma sample_appended:
  "fst (store_append sample_env sample_signer Durable ''t'' sample_event ''p'' sample_open) = Inr Appended"
  "fst (store_append sample_env sample_signer Durable ''t'' sample_event ''p''
     (sample_open\<lparr>checkpoint_interval := 2\<rparr>)) = Inr Appended"
  using sample_valid [of 1] sample_valid [of 2] sample_record_size sample_record_size_2
  by (simp_all add: store_append_def sample_open_def empty_state_def record_text_def Let_def
      MAX_LEDGER_RECORD_BYTES_def)

definition sample_store :: store where
  "sample_store = append_exec sample_env sample_signer sample_append sample_open"

lemma sample_store_eq:
  "store_append sample_env sample_signer Durable ''t'' sample_event ''p'' sample_open
     = (Inr Appended, sample_store)"
  using sample_appended(1) by (auto simp: sample_store_def append_exec_def sample_append_def prod_eq_iff)

lemma sample_store_run:
  "sample_store = fold (append_exec sample_env sample_signer) [sample_append] sample_open"
  by (simp add: sample_store_def)

lemma sample_store_writable: "writable sample_store"
  using store_append_Appended [OF sample_store_eq] by (simp add: Let_def)

lemma sample_replay: "replay sample_env sample_signer (ledger_text sample_store) = Inr (state sample_store)"
  using store_writable_replay [OF sample_env_ok] sample_store_writable
    run_from_open [OF sample_env_ok sample_open_eq, of "[sample_append]"] sample_store_run by metis

text \<open>The same event under a longer checkpoint interval: another file with the same chain.\<close>

definition sample_store_2 :: store where
  "sample_store_2 = append_exec sample_env sample_signer sample_append
     (sample_open\<lparr>checkpoint_interval := 2\<rparr>)"

lemma sample_store_2_eq:
  "store_append sample_env sample_signer Durable ''t'' sample_event ''p'' (sample_open\<lparr>checkpoint_interval := 2\<rparr>)
     = (Inr Appended, sample_store_2)"
  using sample_appended(2) by (auto simp: sample_store_2_def append_exec_def sample_append_def prod_eq_iff)

lemma sample_open_2_eq:
  "store_open sample_env sample_signer 2 False [] = Inr (sample_open\<lparr>checkpoint_interval := 2\<rparr>)"
  by (simp add: store_open_def replay_def sample_open_def)

lemma sample_replay_2: "replay sample_env sample_signer (ledger_text sample_store_2) = Inr (state sample_store_2)"
proof -
  have "writable sample_store_2" using store_append_Appended [OF sample_store_2_eq] by (simp add: Let_def)
  moreover have "sample_store_2 = fold (append_exec sample_env sample_signer) [sample_append]
      (sample_open\<lparr>checkpoint_interval := 2\<rparr>)"
    by (simp add: sample_store_2_def)
  ultimately show ?thesis
    using store_writable_replay [OF sample_env_ok]
      run_from_open [OF sample_env_ok sample_open_2_eq, of "[sample_append]"] by metis
qed

definition sample_entry :: entry where
  "sample_entry = lr_entry (next_record sample_env sample_signer ''t'' sample_event ''p'' 1 empty_state)"

lemma sample_entry_any:
  "lr_entry (next_record sample_env sample_signer ''t'' sample_event ''p'' i empty_state) = sample_entry"
  "eb_log_id (entry_body sample_entry) = ''s''"
  by (simp_all add: sample_entry_def next_record_def Let_def sample_event_def)

lemma sample_states:
  "state sample_store
     = insert_record empty_state (next_record sample_env sample_signer ''t'' sample_event ''p'' 1 empty_state)"
  "state sample_store_2
     = insert_record empty_state (next_record sample_env sample_signer ''t'' sample_event ''p'' 2 empty_state)"
  using store_append_Appended [OF sample_store_eq] store_append_Appended [OF sample_store_2_eq]
  by (simp_all add: Let_def sample_open_def)

lemma sample_heads:
  "fmlookup (logs (state sample_store)) ''s'' = Some (head_of sample_entry)"
  "fmlookup (logs (state sample_store_2)) ''s'' = Some (head_of sample_entry)"
  "length (listed (entries (state sample_store)) ''s'') < 2 ^ 64"
  "length (listed (entries (state sample_store_2)) ''s'') < 2 ^ 64"
  by (simp_all add: sample_states sample_entry_any listed_push) (simp_all add: empty_state_def listed_def)

lemma sample_texts_differ: "ledger_text sample_store \<noteq> ledger_text sample_store_2"
proof
  assume eq: "ledger_text sample_store = ledger_text sample_store_2"
  have "state sample_store = state sample_store_2"
    using sample_replay sample_replay_2 eq by simp
  moreover have "checkpoints (state sample_store_2) = fmempty"
    by (simp add: sample_states insert_record_checkpoints next_record_def Let_def)
      (simp add: next_sequence_def empty_state_def)
  moreover have "checkpoints (state sample_store) \<noteq> fmempty"
    by (simp add: sample_states insert_record_checkpoints next_record_def Let_def)
  ultimately show False by simp
qed

section \<open>Properties\<close>

text \<open>
  C16. The file and the index never diverge: after opening any ledger file and any sequence of appends,
  whatever their outcome, a store that is still writable holds exactly the index that replaying its
  file from scratch gives, so its self-check reports no error.
\<close>

theorem store_matches_disk:
  assumes "env_ok P" and "store_open P sg i p t = Inr s0" and "s = fold (append_exec P sg) cs s0"
    and "writable s"
  shows "replay P sg (ledger_text s) = Inr (state s) \<and> ok (store_verify P sg s None)"
proof -
  obtain rs where "store_on P sg rs s" using run_from_open [OF assms(1,2)] assms(3) by blast
  then have "replay P sg (ledger_text s) = Inr (state s)"
    using store_writable_replay assms(1,4) by blast
  then show ?thesis using assms(4) by (simp add: store_verify_def Let_def)
qed

theorem store_matches_disk_witness:
  "replay sample_env sample_signer (ledger_text sample_store) = Inr (state sample_store)"
  using store_matches_disk [OF sample_env_ok sample_open_eq sample_store_run sample_store_writable]
  by blast

text \<open>
  C17. An acknowledged event is never lost or altered. Once \<open>append\<close> answered that the event was
  appended, then after any further appends, failed and torn writes included, reopening the file either
  refuses the file as truncated or finds the event with the content and producer it was sent with.
\<close>

theorem acknowledged_event_survives:
  assumes "env_ok P" and "store_open P sg i p t = Inr s0" and "s = fold (append_exec P sg) cs s0"
    and "store_append P sg io now ev producer s = (Inr Appended, s1)"
    and "s2 = fold (append_exec P sg) ds s1"
  shows "case replay P sg (ledger_text s2) of
      Inl e \<Rightarrow> \<not> writable s2 \<and>
        (\<exists>n. e = numbered n '' is truncated; manual recovery is required'')
    | Inr st \<Rightarrow> (\<exists>x. fmlookup (events st) (event_id ev) = Some x \<and>
        se_accepted_event x = accept ev producer)"
proof -
  obtain rs where "store_on P sg rs s" using run_from_open [OF assms(1,2)] assms(3) by blast
  then obtain rs1 where s1: "store_on P sg rs1 s1"
    using store_append_on [OF _ assms(4)] by (metis (full_types))
  then obtain qs where s2: "store_on P sg (rs1 @ qs) s2" using run_extends assms(5) by blast
  show ?thesis
  proof (cases "replay P sg (ledger_text s2)")
    case (Inl e)
    then show ?thesis using reopen_error [OF assms(1) s2] by auto
  next
    case (Inr st)
    obtain us where "ledger P sg ((rs1 @ qs) @ us) st" using reopen_extends [OF assms(1) s2 Inr] by blast
    then have "ledger P sg (rs1 @ qs @ us) st" by simp
    moreover have "ledger P sg rs1 (state s1)" using s1 by (simp add: store_on_def)
    moreover obtain x where "fmlookup (events (state s1)) (event_id ev) = Some x"
      "se_accepted_event x = accept ev producer"
      using appended_stored [OF assms(4)] by blast
    ultimately show ?thesis using ledger_keeps_events Inr by fastforce
  qed
qed

theorem acknowledged_event_survives_witness:
  "\<exists>x. fmlookup (events (state sample_store)) (event_id sample_event) = Some x \<and>
     se_accepted_event x = accept sample_event ''p''"
  using acknowledged_event_survives [OF sample_env_ok sample_open_eq _ sample_store_eq,
      where cs = "[]" and ds = "[]"] sample_replay by simp

text \<open>
  C18. Replay accepts exactly the files that are the printed lines of a valid record sequence: each record
  within the size limit and extending, by the validation rules, the index of those before it.
\<close>

theorem replay_accepts_exactly_ledgers:
  assumes "env_ok P"
  shows "replay P sg t = Inr st \<longleftrightarrow> (\<exists>rs. ledger P sg rs st \<and> t = ledger_lines P rs)"
  by (rule replay_iff [OF assms])

theorem replay_accepts_exactly_ledgers_witness:
  "\<exists>rs. ledger sample_env sample_signer rs (state sample_store) \<and>
     ledger_text sample_store = ledger_lines sample_env rs"
  using replay_accepts_exactly_ledgers [OF sample_env_ok] sample_replay by blast

text \<open>
  C19. In every file that replays, each log is a hash chain: its entries carry the sequence numbers
  1, 2, ..., the first points to the genesis hash and every other one to the hash of the entry before,
  each hash is the digest of the entry's own body, and the stored head is the last entry.
\<close>

theorem replayed_logs_are_chains:
  assumes "env_ok P" and "replay P sg t = Inr st"
  shows "chain_ok P l (listed (entries st) l) \<and>
    fmlookup (logs st) l = (if listed (entries st) l = [] then None
                            else Some (head_of (last (listed (entries st) l))))"
  using replay_iff [OF assms(1)] assms(2) ledger_logs_ok unfolding logs_ok_def by metis

theorem replayed_logs_are_chains_witness:
  "chain_ok sample_env ''s'' (listed (entries (state sample_store)) ''s'')"
  using replayed_logs_are_chains [OF sample_env_ok sample_replay] by blast





text \<open>
  C22. A valid new event is accepted: if the store is writable, the event and the producer validate, the
  identifier is new, the clock is readable, the record is within the limit, a scheduled checkpoint gets
  a new identifier and the write is durable, then \<open>append\<close> answers \<open>Appended\<close> and the file grows by exactly
  the line of the new record.
\<close>

theorem append_accepts:
  assumes "env_ok P" and "signatures_ok P" and "store_inv P sg s" and "writable s"
    and "validate_event ev = Inr ()" and "validate_identifier producer ''producer ID'' = Inr ()"
    and "fmlookup (events (state s)) (event_id ev) = None" and "rfc3339 P now"
    and "r = next_record P sg now ev producer (checkpoint_interval s) (state s)"
    and "checkpoint_fresh (state s) r" and "length (record_text P r) \<le> MAX_LEDGER_RECORD_BYTES"
    and "length (listed (entries (state s)) (session_id ev)) + 1 < 2 ^ 64"
  shows "\<exists>s'. store_append P sg Durable now ev producer s = (Inr Appended, s') \<and>
    ledger_text s' = ledger_text s @ record_text P r @ [NL] \<and> writable s'"
proof -
  obtain rs where "ledger P sg rs (state s)" using assms(3) by (auto simp: store_inv_def store_on_def)
  then have "validate_next P (state s) sg r = Inr ()"
    using validate_next_record assms(2,5-8,9,10,12) by blast
  then show ?thesis using assms(4,7,9,11) by (simp add: store_append_def Let_def record_text_def)
qed

theorem append_accepts_witness:
  "\<exists>s'. store_append sample_env sample_signer Durable ''t'' sample_event ''p'' sample_open = (Inr Appended, s') \<and>
     writable s'"
proof -
  have "\<exists>s'. store_append sample_env sample_signer Durable ''t'' sample_event ''p'' sample_open = (Inr Appended, s') \<and>
      ledger_text s' = ledger_text sample_open @ record_text sample_env
        (next_record sample_env sample_signer ''t'' sample_event ''p'' 1 empty_state) @ [NL] \<and> writable s'"
  proof (rule append_accepts)
    show "store_inv sample_env sample_signer sample_open"
      by (rule store_open_inv [OF sample_env_ok sample_open_eq])
    show "length (record_text sample_env
        (next_record sample_env sample_signer ''t'' sample_event ''p'' 1 empty_state)) \<le> MAX_LEDGER_RECORD_BYTES"
      using sample_record_size by (simp add: MAX_LEDGER_RECORD_BYTES_def)
    show "checkpoint_fresh (state sample_open)
        (next_record sample_env sample_signer ''t'' sample_event ''p'' 1 empty_state)"
      by (simp add: checkpoint_fresh_def sample_open_def empty_state_def split: option.split)
  qed (simp_all add: sample_env_ok sample_event_valid sample_open_def empty_state_def listed_def,
      simp_all add: signatures_ok_def sample_env_def)
  then show ?thesis by blast
qed

text \<open>
  C23. Every checkpoint of a replayed ledger is listed under its own identifier, carries a valid signature
  of this logger, and attests the sequence number and hash of an entry that is in the log.
\<close>

theorem replayed_checkpoints_attest_entries:
  assumes "env_ok P" and "replay P sg t = Inr st" and "fmlookup (checkpoints st) i = Some c"
  shows "cb_checkpoint_id (checkpoint_body c) = i \<and>
    signer_verify P sg (checkpoint_body c) (logger_signature c) \<and>
    (\<exists>e \<in> set (listed (entries st) (cb_log_id (checkpoint_body c))).
       cb_sequence (checkpoint_body c) = eb_sequence (entry_body e) \<and>
       cb_entry_hash (checkpoint_body c) = entry_hash e)"
proof -
  have "checkpoints_ok P sg st" using replay_iff [OF assms(1)] assms(2) ledger_checkpoints_ok by metis
  then have "cb_checkpoint_id (checkpoint_body c) = i" "checkpoint_of P sg st c"
    using assms(3) unfolding checkpoints_ok_def by blast+
  then show ?thesis by (simp add: checkpoint_of_def)
qed

theorem replayed_checkpoints_attest_entries_witness:
  "\<exists>i c. fmlookup (checkpoints (state sample_store)) i = Some c \<and>
     signer_verify sample_env sample_signer (checkpoint_body c) (logger_signature c)"
proof -
  obtain d where "lr_checkpoint (next_record sample_env sample_signer ''t'' sample_event ''p'' 1 empty_state) = Some d"
    by (simp add: next_record_def Let_def)
  then have c: "fmlookup (checkpoints (state sample_store)) (cb_checkpoint_id (checkpoint_body d)) = Some d"
    by (simp add: sample_states insert_record_checkpoints)
  then show ?thesis
    using replayed_checkpoints_attest_entries [OF sample_env_ok sample_replay c] by blast
qed

text \<open>
  A page of entries is exact: asking a store for the entries of a log after a sequence number gives
  the next entries in order, without gap or repetition, up to the limit.
\<close>

theorem entries_page_exact:
  assumes "store_inv P sg s" and "length (listed (entries (state s)) l) < 2 ^ 64"
  shows "store_entries s l after limit = take limit (drop (unat after) (listed (entries (state s)) l))"
proof -
  have "logs_ok P (state s)"
    using assms(1) ledger_logs_ok by (auto simp: store_inv_def store_on_def)
  then have "chain_ok P l (listed (entries (state s)) l)" by (simp add: logs_ok_def)
  then show ?thesis by (simp add: store_entries_def chain_after [OF _ assms(2)])
qed

theorem entries_page_exact_witness:
  "store_entries sample_store ''s'' 0 10 = [sample_entry]"
proof -
  have inv: "store_inv sample_env sample_signer sample_store"
    using store_append_inv [OF store_open_inv [OF sample_env_ok sample_open_eq]]
    by (simp add: sample_store_def)
  have "listed (entries (state sample_store)) ''s'' = [sample_entry]"
    by (simp add: sample_states sample_entry_any listed_push) (simp add: empty_state_def listed_def)
  then show ?thesis using entries_page_exact [OF inv sample_heads(3), of 0 10] by simp
qed

end
