(* ===== verification/Logger_Server_Props.thy ===== *)
theory Logger_Server_Props
  imports Logger_Server Ledger_Claims
begin

text \<open>
  The correctness of the ledger's HTTP front. The locale \<open>append_store\<close> is the contract the handlers
  rely on; its interpretation on the ledger discharges it. The properties say who can change the ledger,
  what an acknowledgement means, that a ready server has an intact ledger, and who can read a log.
\<close>

section \<open>The contract of the store\<close>

locale append_store =
  fixes append :: "'c \<Rightarrow> event \<Rightarrow> string \<Rightarrow> ('s, store_error, append_result) cmd"
    and holds :: "'s \<Rightarrow> event \<Rightarrow> string \<Rightarrow> bool"
    and usable :: "'s \<Rightarrow> bool"
    and inv :: "'s \<Rightarrow> bool"
  assumes append_inv: "inv s \<Longrightarrow> append c ev p s = (r, s') \<Longrightarrow> inv s'"
    and ack_holds: "inv s \<Longrightarrow> append c ev p s = (Inr a, s') \<Longrightarrow> holds s' ev p"
    and holds_stable: "inv s \<Longrightarrow> holds s ev p \<Longrightarrow> append c ev' p' s = (r, s') \<Longrightarrow> holds s' ev p"
    and usable_unless_internal:
      "usable s \<Longrightarrow> append c ev p s = (r, s') \<Longrightarrow> \<not> usable s' \<Longrightarrow> \<exists>m. r = Inl (Internal m)"
begin

lemma later_inv: "inv s \<Longrightarrow> inv (fold (\<lambda>(c, ev, p) s. snd (append c ev p s)) xs s)"
proof (induction xs arbitrary: s)
  case (Cons x xs)
  obtain c ev p where x: "x = (c, ev, p)" by (cases x) auto
  have "inv (snd (append c ev p s))" using append_inv [OF Cons.prems] by (metis prod.collapse)
  then show ?case using Cons.IH x by simp
qed simp

lemma later_holds:
  "inv s \<Longrightarrow> holds s e q \<Longrightarrow> holds (fold (\<lambda>(c, ev, p) s. snd (append c ev p s)) xs s) e q"
proof (induction xs arbitrary: s)
  case (Cons x xs)
  obtain c ev p where x: "x = (c, ev, p)" by (cases x) auto
  have "inv (snd (append c ev p s))" using append_inv [OF Cons.prems(1)] by (metis prod.collapse)
  moreover have "holds (snd (append c ev p s)) e q"
    using holds_stable [OF Cons.prems(1,2)] by (metis prod.collapse)
  ultimately show ?case using Cons.IH x by simp
qed simp

lemma acknowledged_stays:
  "inv s \<Longrightarrow> append c ev p s = (Inr a, s') \<Longrightarrow>
     holds (fold (\<lambda>(c, ev, p) s. snd (append c ev p s)) xs s') ev p"
  using later_holds append_inv ack_holds by blast

end

definition committed :: "logger_env \<Rightarrow> store \<Rightarrow> event \<Rightarrow> string \<Rightarrow> bool" where
  "committed P s ev p \<longleftrightarrow>
     (\<exists>x. fmlookup (events (state s)) (event_id ev) = Some x \<and>
        se_request_digest x = sha256 P (accepted_json (accept ev p)))"

definition append_with ::
  "logger_env \<Rightarrow> signer \<Rightarrow> write_outcome \<times> string \<Rightarrow> event \<Rightarrow> string \<Rightarrow> (store, store_error, append_result) cmd" where
  "append_with P sg c = store_append P sg (fst c) (snd c)"

lemma store_append_committed:
  "store_append P sg io now ev p s = (Inr a, s') \<Longrightarrow> committed P s' ev p"
  by (auto simp: store_append_def committed_def next_record_def Let_def accept_def
      split: if_splits option.splits sum.splits write_outcome.splits)

lemma store_append_events:
  assumes "store_append P sg io now ev p s = (r, s')" and "fmlookup (events (state s)) i = Some x"
  shows "fmlookup (events (state s')) i = Some x"
proof (cases "r = Inr Appended")
  case True
  then show ?thesis
    using store_append_Appended [of P sg io now ev p s s'] assms
    by (auto simp: Let_def next_record_def accept_def)
next
  case False
  then show ?thesis
    using assms by (auto simp: store_append_def Let_def
        split: if_splits option.splits sum.splits write_outcome.splits)
qed

lemma store_append_usable:
  "writable s \<Longrightarrow> store_append P sg io now ev p s = (r, s') \<Longrightarrow> \<not> writable s' \<Longrightarrow> \<exists>m. r = Inl (Internal m)"
  by (auto simp: store_append_def Let_def
      split: if_splits option.splits sum.splits write_outcome.splits)

interpretation ledger_append: append_store "append_with P sg" "committed P" writable "store_inv P sg"
  for P sg
proof unfold_locales
  fix s c ev p r s'
  assume "store_inv P sg s" and a: "append_with P sg c ev p s = (r, s')"
  then have "store_inv P sg (append_exec P sg
      \<lparr>ac_outcome = fst c, ac_now = snd c, ac_event = ev, ac_producer = p\<rparr> s)"
    by (intro store_append_inv)
  then show "store_inv P sg s'" using a by (simp add: append_exec_def append_with_def)
next
  fix s c ev p a s'
  assume "append_with P sg c ev p s = (Inr a, s')"
  then show "committed P s' ev p" by (simp add: append_with_def store_append_committed)
next
  fix s ev p c ev' p' r s'
  assume "committed P s ev p" and a: "append_with P sg c ev' p' s = (r, s')"
  then show "committed P s' ev p"
    unfolding committed_def append_with_def using store_append_events by metis
next
  fix s c ev p r s'
  assume "writable s" "append_with P sg c ev p s = (r, s')" "\<not> writable s'"
  then show "\<exists>m. r = Inl (Internal m)" unfolding append_with_def by (rule store_append_usable)
qed

section \<open>Authentication\<close>

lemma select_client_in:
  "foldl (\<lambda>selected c. if d = token_digest c then Some c else selected) a cs = Some x \<Longrightarrow>
     x \<in> set cs \<and> token_digest x = d \<or> a = Some x"
  by (induction cs arbitrary: a) (auto split: if_splits)

lemma select_client_none:
  "d \<notin> token_digest ` set cs \<Longrightarrow>
     foldl (\<lambda>selected c. if d = token_digest c then Some c else selected) a cs = a"
  by (induction cs arbitrary: a) auto

lemma select_client_unique:
  "distinct (map token_digest cs) \<Longrightarrow> x \<in> set cs \<Longrightarrow> token_digest x = d \<Longrightarrow>
     foldl (\<lambda>selected c. if d = token_digest c then Some c else selected) a cs = Some x"
proof (induction cs arbitrary: a)
  case (Cons c cs)
  show ?case
  proof (cases "x = c")
    case True
    then have "d \<notin> token_digest ` set cs" using Cons.prems by auto
    then show ?thesis using True Cons.prems(3) by (simp add: select_client_none)
  next
    case False
    then show ?thesis using Cons by auto
  qed
qed simp

lemma authenticate_ok:
  "authenticate sha cs h = Inr c \<longleftrightarrow>
     (\<exists>t. bearer_token h = Some t \<and>
        foldl (\<lambda>selected c. if sha t = token_digest c then Some c else selected) None cs = Some c)"
  by (auto simp: authenticate_def cmd_simps split: option.splits)

lemma authenticate_in:
  "authenticate sha cs h = Inr c \<Longrightarrow>
     c \<in> set cs \<and> (\<exists>t. bearer_token h = Some t \<and> sha t = token_digest c)"
  using select_client_in [of _ None cs c] by (auto simp: authenticate_ok)

lemma load_clients_ok:
  "load_clients ids ds specs = Inr cs \<Longrightarrow>
     distinct (map client_id cs) \<and> distinct (map token_digest cs) \<and>
     client_id ` set cs \<inter> ids = {} \<and> token_digest ` set cs \<inter> ds = {} \<and>
     list_all (\<lambda>c. permissions c \<subseteq> {''append'', ''read'', ''verify''} \<and>
       list_all pattern_ok (sessions c) \<and> list_all pattern_ok (event_types c)) cs"
proof (induction ids ds specs arbitrary: cs rule: load_clients.induct)
  case (2 ids ds spec rest)
  then obtain d perms types sess cs' where
    l: "spec_id spec \<notin> ids" "decode_digest (token_sha256 spec) = Inr d" "d \<notin> ds"
    "validate_permissions (spec_permissions spec) (spec_id spec) = Inr perms"
    "validate_patterns (spec_event_types spec) (''logger client '' @ spec_id spec @ '' eventTypes'') = Inr types"
    "validate_patterns (spec_sessions spec) (''logger client '' @ spec_id spec @ '' sessions'') = Inr sess"
    "load_clients (insert (spec_id spec) ids) (insert d ds) rest = Inr cs'"
    "cs = \<lparr>client_id = spec_id spec, token_digest = d, permissions = perms, event_types = types,
           sessions = sess\<rparr> # cs'"
    by (auto simp: cmd_simps)
  have "perms \<subseteq> {''append'', ''read'', ''verify''}"
    using l(4) by (auto simp: validate_permissions_def list_ex_iff split: if_splits)
  moreover have "list_all pattern_ok types" "list_all pattern_ok sess"
    using l(5,6) by (auto simp: validate_patterns_def split: if_splits)
  ultimately show ?case using "2.IH" [OF l(7)] l(1,3,8) by auto
qed simp

text \<open>The client a specification stands for, in the list \<open>load_clients\<close> builds.\<close>

lemma load_clients_specified:
  "load_clients ids ds specs = Inr cs \<Longrightarrow> spec \<in> set specs \<Longrightarrow>
     \<exists>c \<in> set cs. client_id c = spec_id spec \<and> decode_digest (token_sha256 spec) = Inr (token_digest c) \<and>
       permissions c = set (spec_permissions spec) \<and> event_types c = spec_event_types spec \<and>
       sessions c = spec_sessions spec"
proof (induction ids ds specs arbitrary: cs rule: load_clients.induct)
  case (2 ids ds sp rest)
  then obtain d perms types sess cs' where
    l: "decode_digest (token_sha256 sp) = Inr d"
    "validate_permissions (spec_permissions sp) (spec_id sp) = Inr perms"
    "validate_patterns (spec_event_types sp) (''logger client '' @ spec_id sp @ '' eventTypes'') = Inr types"
    "validate_patterns (spec_sessions sp) (''logger client '' @ spec_id sp @ '' sessions'') = Inr sess"
    "load_clients (insert (spec_id sp) ids) (insert d ds) rest = Inr cs'"
    "cs = \<lparr>client_id = spec_id sp, token_digest = d, permissions = perms, event_types = types,
           sessions = sess\<rparr> # cs'"
    by (auto simp: cmd_simps)
  show ?case
  proof (cases "spec = sp")
    case True
    have "perms = set (spec_permissions sp)" using l(2) by (auto simp: validate_permissions_def split: if_splits)
    moreover have "types = spec_event_types sp" "sess = spec_sessions sp"
      using l(3,4) by (auto simp: validate_patterns_def split: if_splits)
    ultimately show ?thesis using True l(1,6) by simp
  next
    case False
    then show ?thesis using "2.prems"(2) "2.IH" [OF l(5)] l(6) by simp
  qed
qed simp

section \<open>Handlers\<close>

lemma map_err_ok [cmd_simps]: "map_err f r = Inr x \<longleftrightarrow> r = Inr x"
  by (auto simp: map_err_def split: sum.splits)

lemma authorize_ok [cmd_simps]:
  "authorize E s h perm = Inr c \<longleftrightarrow>
     authenticate (token_sha E) (authorizer s) h = Inr c \<and> perm \<in> permissions c"
  by (auto simp: authorize_def cmd_simps client_require_def)

lemma authorize_session_ok [cmd_simps]: "authorize_session c v = Inr u \<longleftrightarrow> matches_any (sessions c) v"
  by (simp add: authorize_session_def cmd_simps)

lemma authorize_event_ok [cmd_simps]: "authorize_event c v = Inr u \<longleftrightarrow> matches_any (event_types c) v"
  by (simp add: authorize_event_def cmd_simps)

lemma read_client_ok [cmd_simps]:
  "read_client E s h l = Inr c \<longleftrightarrow> validate_identifier l ''logId'' = Inr () \<and>
     authenticate (token_sha E) (authorizer s) h = Inr c \<and> ''read'' \<in> permissions c \<and>
     matches_any (sessions c) l"
  by (auto simp: read_client_def cmd_simps)

definition may_append :: "server_env \<Rightarrow> server \<Rightarrow> string option \<Rightarrow> event \<Rightarrow> client \<Rightarrow> bool" where
  "may_append E s h ev c \<longleftrightarrow>
     authenticate (token_sha E) (authorizer s) h = Inr c \<and> ''append'' \<in> permissions c \<and>
     matches_any (sessions c) (session_id ev) \<and> matches_any (event_types c) (event_type ev)"

lemma events_request_ok:
  "events_request E s h body = Inr (ev, c) \<Longrightarrow>
     srv_ready s \<and> may_append E s h ev c \<and> parse_event E body = Some ev \<and> validate_event ev = Inr () \<and>
     length body \<le> max_event_bytes s"
  by (auto simp: events_request_def cmd_simps may_append_def split: if_splits)

text \<open>Every request but an append or a verification leaves the store and the ready flag alone.\<close>

definition same_core :: "server \<Rightarrow> server \<Rightarrow> bool" where
  "same_core s s' \<longleftrightarrow> srv_store s' = srv_store s \<and> srv_ready s' = srv_ready s \<and> authorizer s' = authorizer s"

lemma response_policy_core:
  "response_policy h s = (r, s') \<Longrightarrow> \<exists>t. h s = (r, t) \<and> same_core t s'"
  by (auto simp: response_policy_def same_core_def Let_def split: prod.splits if_splits)

lemma router_read_core:
  assumes "router E q s = (r, s')" and "\<And>io now h b. q \<noteq> Events io now h b" and "\<And>h b. q \<noteq> Verify h b"
  shows "same_core s s'"
  using assms response_policy_core [of _ s r s'] unfolding router_def
  by (cases q) (auto simp: ready_handler_def health_handler_def public_key_handler_def head_handler_def entries_handler_def checkpoints_handler_def
      checkpoint_handler_def metrics_handler_def lift_r_def ret_c_def same_core_def dest!: response_policy_core)

lemma events_handler_cases:
  assumes "events_handler E io now h body s = (r, t)"
  shows "t = s \<and> isl r \<or>
    (\<exists>ev c res st. events_request E s h body = Inr (ev, c) \<and>
       store_append (ledger_env E) (srv_signer E) io now ev (client_id c) (srv_store s) = (res, st) \<and>
       srv_store t = st \<and> authorizer t = authorizer s \<and>
       srv_ready t = (srv_ready s \<and> (\<forall>m. res \<noteq> Inl (Internal m))) \<and>
       (isl r \<longleftrightarrow> isl res))"
  using assms
  by (auto simp: events_handler_def split: sum.splits prod.splits store_error.splits append_result.splits)

lemma verify_handler_cases:
  assumes "verify_handler E h body s = (r, t)"
  shows "t = s \<or> (\<exists>l. srv_store t = srv_store s \<and> authorizer t = authorizer s \<and>
    srv_ready t = ok (store_verify (ledger_env E) (srv_signer E) (srv_store s) l))"
  using assms by (auto simp: verify_handler_def Let_def split: sum.splits)

definition server_inv :: "server_env \<Rightarrow> server \<Rightarrow> bool" where
  "server_inv E s \<longleftrightarrow> store_inv (ledger_env E) (srv_signer E) (srv_store s) \<and>
     (srv_ready s \<longrightarrow> writable (srv_store s))"

lemma store_verify_writable: "ok (store_verify P sg s l) \<Longrightarrow> writable s"
  by (auto simp: store_verify_def Let_def split: sum.splits if_splits)

lemma same_core_inv: "same_core s s' \<Longrightarrow> server_inv E s \<Longrightarrow> server_inv E s'"
  by (simp add: same_core_def server_inv_def)

lemma router_inv:
  assumes "router E q s = (r, s')" and "server_inv E s"
  shows "server_inv E s'"
proof (cases "\<exists>io now h b. q = Events io now h b")
  case True
  then obtain io now h b where q: "q = Events io now h b" by blast
  obtain t where t: "events_handler E io now h b s = (r, t)" "same_core t s'"
    using assms(1) response_policy_core [of _ s r s'] by (auto simp: router_def q)
  have "server_inv E t"
    using events_handler_cases [OF t(1)] assms(2)
  proof (elim disjE exE conjE)
    fix ev c res st
    assume a: "store_append (ledger_env E) (srv_signer E) io now ev (client_id c) (srv_store s) = (res, st)"
      and st: "srv_store t = st" "srv_ready t = (srv_ready s \<and> (\<forall>m. res \<noteq> Inl (Internal m)))"
    have a': "append_with (ledger_env E) (srv_signer E) (io, now) ev (client_id c) (srv_store s) = (res, st)"
      using a by (simp add: append_with_def)
    show "server_inv E t"
      using assms(2) st ledger_append.append_inv [OF _ a'] ledger_append.usable_unless_internal [OF _ a']
      unfolding server_inv_def by blast
  qed simp
  then show ?thesis using same_core_inv t(2) by blast
next
  case False
  show ?thesis
  proof (cases "\<exists>h b. q = Verify h b")
    case True
    then obtain h b where q: "q = Verify h b" by blast
    obtain t where t: "verify_handler E h b s = (r, t)" "same_core t s'"
      using assms(1) response_policy_core [of _ s r s'] by (auto simp: router_def q)
    have "server_inv E t"
      using verify_handler_cases [OF t(1)] assms(2) store_verify_writable by (auto simp: server_inv_def)
    then show ?thesis using same_core_inv t(2) by blast
  next
    case no_verify: False
    then show ?thesis using router_read_core [OF assms(1)] False same_core_inv assms(2) by blast
  qed
qed

interpretation logger_server: command_system "\<lambda>q s. snd (router E q s)" "\<lambda>_. True" "server_inv E" for E
  by unfold_locales (metis prod.collapse router_inv)

lemma router_committed:
  assumes "committed (ledger_env E) (srv_store s) ev p" and "router E q s = (r, s')"
  shows "committed (ledger_env E) (srv_store s') ev p"
proof (cases "\<exists>io now h b. q = Events io now h b")
  case True
  then obtain io now h b where q: "q = Events io now h b" by blast
  obtain t where t: "events_handler E io now h b s = (r, t)" "same_core t s'"
    using assms(2) response_policy_core [of _ s r s'] by (auto simp: router_def q)
  have "committed (ledger_env E) (srv_store t) ev p"
    using events_handler_cases [OF t(1)] assms(1) store_append_events unfolding committed_def by metis
  then show ?thesis using t(2) by (simp add: same_core_def)
next
  case False
  show ?thesis
  proof (cases "\<exists>h b. q = Verify h b")
    case True
    then obtain h b where q: "q = Verify h b" by blast
    obtain t where t: "verify_handler E h b s = (r, t)" "same_core t s'"
      using assms(2) response_policy_core [of _ s r s'] by (auto simp: router_def q)
    then show ?thesis using verify_handler_cases [OF t(1)] assms(1) by (auto simp: same_core_def)
  next
    case no_verify: False
    then show ?thesis using router_read_core [OF assms(2)] False assms(1) by (auto simp: same_core_def)
  qed
qed

lemma router_run_committed:
  "committed (ledger_env E) (srv_store s) ev p \<Longrightarrow>
     committed (ledger_env E) (srv_store (fold (\<lambda>q s. snd (router E q s)) qs s)) ev p"
proof (induction qs arbitrary: s)
  case (Cons q qs)
  have "committed (ledger_env E) (srv_store (snd (router E q s))) ev p"
    using router_committed [OF Cons.prems] by (metis prod.collapse)
  then show ?case using Cons.IH by simp
qed simp

lemma store_open_writable: "store_open P sg i p t = Inr s \<Longrightarrow> writable s"
  by (auto simp: store_open_def cmd_simps)

text \<open>The log whose data a response discloses.\<close>

definition payload_log :: "payload \<Rightarrow> string option" where
  "payload_log p = (case p of
       Head_Body h \<Rightarrow> Some (lh_log_id h)
     | Entries_Body l _ \<Rightarrow> Some l
     | Checkpoints_Body l _ \<Rightarrow> Some l
     | Checkpoint_Body c \<Rightarrow> Some (cb_log_id (checkpoint_body c))
     | _ \<Rightarrow> None)"

definition request_header :: "request \<Rightarrow> string option" where
  "request_header q = (case q of
       Events _ _ h _ \<Rightarrow> h | Healthz \<Rightarrow> None | Readyz \<Rightarrow> None | Public_Key \<Rightarrow> None | Head h _ \<Rightarrow> h | Entries h _ _ _ \<Rightarrow> h
     | Checkpoints h _ _ _ \<Rightarrow> h | Get_Checkpoint h _ \<Rightarrow> h | Verify h _ \<Rightarrow> h | Metrics h \<Rightarrow> h)"

definition may_read :: "server_env \<Rightarrow> server \<Rightarrow> string option \<Rightarrow> string \<Rightarrow> bool" where
  "may_read E s h l \<longleftrightarrow>
     (\<exists>c \<in> set (authorizer s). authenticate (token_sha E) (authorizer s) h = Inr c \<and>
        ''read'' \<in> permissions c \<and> matches_any (sessions c) l)"

lemma may_readI:
  "authenticate (token_sha E) (authorizer s) h = Inr c \<Longrightarrow> ''read'' \<in> permissions c \<Longrightarrow>
     matches_any (sessions c) l \<Longrightarrow> may_read E s h l"
  using authenticate_in [of "token_sha E" "authorizer s" h c] by (auto simp: may_read_def)

lemma store_head_log: "store_inv P sg s \<Longrightarrow> store_head s l = Some h \<Longrightarrow> lh_log_id h = l"
proof -
  assume "store_inv P sg s" and h: "store_head s l = Some h"
  then have ok: "logs_ok P (state s)" using ledger_logs_ok by (auto simp: store_inv_def store_on_def)
  let ?es = "listed (entries (state s)) l"
  have "?es \<noteq> []" "h = head_of (last ?es)" "chain_ok P l ?es"
    using ok h unfolding logs_ok_def store_head_def by (metis option.distinct(1) option.inject)+
  then show ?thesis
    by (cases ?es rule: rev_cases) (simp_all add: chain_ok_snoc link_ok_def head_of_def)
qed

lemma read_client_may_read: "read_client E s h l = Inr c \<Longrightarrow> may_read E s h l"
  by (auto simp: read_client_def authorize_def map_err_def client_require_def authorize_session_def cmd_simps
      intro: may_readI split: sum.splits)

lemma head_handler_reads:
  assumes "store_inv P sg (srv_store s)" and "head_handler E h i s = (Inr (code, p), t)"
    and "payload_log p = Some l"
  shows "may_read E s h l"
proof -
  obtain c x where "read_client E s h i = Inr c" and x: "store_head (srv_store s) i = Some x" "p = Head_Body x"
    using assms(2) by (auto simp: head_handler_def cmd_simps)
  then show ?thesis
    using store_head_log [OF assms(1) x(1)] assms(3) read_client_may_read by (auto simp: payload_log_def)
qed

lemma checkpoint_handler_reads:
  assumes "checkpoint_handler E h i s = (Inr (code, p), t)" and "payload_log p = Some l"
  shows "may_read E s h l"
proof -
  obtain c m v where a: "authorize E s h ''read'' = Inr c" and m: "checkpoint_session (srv_store s) i = Some m"
    and b: "map_err from_auth (authorize_session c m) = Inr ()" and v: "store_checkpoint (srv_store s) i = Some v"
    and p: "p = Checkpoint_Body v"
    using assms(1) by (auto simp: checkpoint_handler_def cmd_simps)
  have "m = l" using m v p assms(2) by (auto simp: checkpoint_session_def store_checkpoint_def payload_log_def)
  then show ?thesis
    using a b by (auto simp: authorize_def map_err_def client_require_def authorize_session_def cmd_simps
        intro: may_readI split: sum.splits)
qed

lemma other_payloads:
  assumes "router E q s = (Inr (code, p), s')" and "payload_log p = Some l"
  shows "(\<exists>h i. q = Head h i) \<or> (\<exists>h i a n. q = Entries h i a n) \<or>
    (\<exists>h i a n. q = Checkpoints h i a n) \<or> (\<exists>h i. q = Get_Checkpoint h i)"
proof (cases q)
  case (Events io now h b)
  then obtain t where "events_handler E io now h b s = (Inr (code, p), t)"
    using assms(1) response_policy_core [of _ s "Inr (code, p)" s'] by (auto simp: router_def)
  then show ?thesis
    using assms(2) by (auto simp: events_handler_def payload_log_def
        split: sum.splits prod.splits store_error.splits append_result.splits)
next
  case (Verify h b)
  then obtain t where "verify_handler E h b s = (Inr (code, p), t)"
    using assms(1) response_policy_core [of _ s "Inr (code, p)" s'] by (auto simp: router_def)
  then show ?thesis
    using assms(2) by (auto simp: verify_handler_def payload_log_def Let_def split: sum.splits)
qed (use assms in \<open>auto simp: router_def ready_handler_def health_handler_def public_key_handler_def metrics_handler_def cmd_simps payload_log_def
       dest!: response_policy_core split: if_splits\<close>)

section \<open>Token digests\<close>

definition hex_digit :: "nat \<Rightarrow> char" where
  "hex_digit n = (if n < 10 then char_of (48 + n) else char_of (87 + n))"

definition hex_byte :: "8 word \<Rightarrow> string" where
  "hex_byte b = [hex_digit (unat b div 16), hex_digit (unat b mod 16)]"

definition hex_text :: "8 word list \<Rightarrow> string" where
  "hex_text bs = concat (map hex_byte bs)"

lemma byte_of_hex_digit: "n < 16 \<Longrightarrow> byte_of (hex_digit n) = (if n < 10 then 48 + n else 87 + n)"
  by (simp add: byte_of_def hex_digit_def)

lemma nibble_hex: "n < 16 \<Longrightarrow> nibble (hex_digit n) = Inr (of_nat n)"
  by (auto simp: nibble_def byte_of_hex_digit)

lemma lower_hex_digit: "n < 16 \<Longrightarrow> lower_hex (hex_digit n)"
  by (auto simp: lower_hex_def is_ascii_hexdigit_def is_ascii_digit_def is_ascii_uppercase_def
      byte_of_hex_digit)

lemma nibbles_byte:
  "push_bit 4 (of_nat (unat b div 16)) OR of_nat (unat b mod 16) = (b :: 8 word)"
proof (rule bit_word_eqI)
  fix n
  assume n: "n < LENGTH(8)"
  have hi: "unat b div 16 = drop_bit 4 (unat b)" by (simp add: drop_bit_eq_div)
  have lo: "unat b mod 16 = take_bit 4 (unat b)" by (simp add: take_bit_eq_mod)
  show "bit (push_bit 4 (of_nat (unat b div 16)) OR of_nat (unat b mod 16) :: 8 word) n = bit b n"
    using n unfolding hi lo
    by (auto simp: bit_or_iff bit_push_bit_iff bit_of_nat_iff bit_drop_bit_eq bit_take_bit_iff
        bit_unsigned_iff)
qed

lemma decode_pairs_hex: "decode_pairs (hex_text bs) = Inr bs"
proof (induction bs)
  case (Cons b bs)
  have "unat b < 256" using unsigned_less [of b] by simp
  then have "unat b div 16 < 16" "unat b mod 16 < 16" by auto
  then show ?case
    using Cons by (simp add: hex_text_def hex_byte_def nibble_hex nibbles_byte)
qed (simp add: hex_text_def)

lemma hex_text_lower: "list_all lower_hex (hex_text bs)"
proof (induction bs)
  case (Cons b bs)
  have "unat b < 256" using unsigned_less [of b] by simp
  then show ?case using Cons by (simp add: hex_text_def hex_byte_def lower_hex_digit)
qed (simp add: hex_text_def)

lemma length_hex_text: "length (hex_text bs) = 2 * length bs"
  by (induction bs) (simp_all add: hex_text_def hex_byte_def)

lemma decode_digest_hex: "length bs = 32 \<Longrightarrow> decode_digest (''sha256:'' @ hex_text bs) = Inr bs"
  by (simp add: decode_digest_def length_hex_text hex_text_lower decode_pairs_hex del: append.simps)

section \<open>Sample server\<close>

definition sample_client :: client where
  "sample_client = \<lparr>client_id = ''p'', token_digest = [1], permissions = {''append'', ''read''},
     event_types = [''run.*''], sessions = [''s'']\<rparr>"

definition sample_server_env :: server_env where
  "sample_server_env = \<lparr>ledger_env = sample_env, srv_signer = sample_signer, token_sha = (\<lambda>_. [1]),
     parse_event = (\<lambda>b. if b = ''E'' then Some sample_event else None), parse_verify = (\<lambda>_. Some None)\<rparr>"

definition sample_server :: server where
  "sample_server = \<lparr>srv_store = sample_open, authorizer = [sample_client], public_key = JNull, srv_ready = True,
     max_event_bytes = 1024, appends = 0, duplicates = 0, rejected = 0, projection_success = 0,
     projection_failures = 0\<rparr>"

definition sample_header :: "string option" where
  "sample_header = Some (''Bearer '' @ replicate 20 CHR ''a'')"

definition sample_post :: request where
  "sample_post = Events Durable ''t'' sample_header ''E''"

lemma sample_authenticate:
  "authenticate (token_sha sample_server_env) [sample_client] sample_header = Inr sample_client"
proof -
  have "bearer_token sample_header = Some (replicate 20 CHR ''a'')" by code_simp
  then show ?thesis by (simp add: authenticate_def sample_server_env_def sample_client_def)
qed

lemma sample_events_request:
  "events_request sample_server_env sample_server sample_header ''E'' = Inr (sample_event, sample_client)"
proof -
  have "matches_any [''s''] ''s''" "matches_any [''run.*''] ''run.start''" by code_simp+
  then show ?thesis
    using sample_authenticate sample_event_valid(1)
    by (simp add: events_request_def sample_server_def authorize_def client_require_def map_err_def
        authorize_session_def authorize_event_def)
      (simp add: sample_client_def sample_server_env_def sample_event_def)
qed

lemma sample_post_eq:
  "router sample_server_env sample_post sample_server
     = (Inr (204, No_Content), sample_server\<lparr>srv_store := sample_store, appends := 1\<rparr>)"
proof -
  have "store_append sample_env sample_signer Durable ''t'' sample_event (client_id sample_client)
      (srv_store sample_server) = (Inr Appended, sample_store)"
    using sample_store_eq by (simp add: sample_client_def sample_server_def)
  then have "events_handler sample_server_env Durable ''t'' sample_header ''E'' sample_server
      = (Inr (204, No_Content), sample_server\<lparr>srv_store := sample_store, appends := 1\<rparr>)"
    using sample_events_request
    by (simp add: events_handler_def sample_server_env_def) (simp add: sample_server_def)
  then show ?thesis by (simp add: router_def sample_post_def response_policy_def)
qed

lemma sample_server_inv: "server_inv sample_server_env sample_server"
  using store_open_inv [OF sample_env_ok sample_open_eq]
  by (simp add: server_inv_def sample_server_def sample_server_env_def sample_open_def)

lemma sample_read_eq:
  "router sample_server_env (Entries sample_header ''s'' None None) sample_server
     = (Inr (200, Entries_Body ''s'' []), sample_server)"
proof -
  have "matches_any [''s''] ''s''" by code_simp
  moreover have "validate_identifier ''s'' ''logId'' = Inr ()" by code_simp
  ultimately have "read_client sample_server_env sample_server sample_header ''s'' = Inr sample_client"
    using sample_authenticate
    by (simp add: read_client_def sample_server_def authorize_def client_require_def map_err_def
        authorize_session_def) (simp add: sample_client_def)
  moreover have "store_entries (srv_store sample_server) ''s'' 0 100 = []"
    by (simp add: sample_server_def sample_open_def store_entries_def empty_state_def listed_def)
  ultimately show ?thesis
    by (simp add: router_def entries_handler_def lift_r_def list_query_def response_policy_def)
qed

section \<open>Properties\<close>

text \<open>
  C24. Only an authorized append changes the ledger file. If handling a request changes it, the request
  posted an event that validates, while the server was ready, under a bearer token of a client that has
  the append permission and is authorized for the session and the type of the event; and the file only
  grew, by the line of that event under that client's identifier or a part of it.
\<close>

theorem only_authorized_append_writes:
  assumes "router E q s = (r, s')" and "ledger_text (srv_store s') \<noteq> ledger_text (srv_store s)"
  shows "\<exists>io now h body ev c n. q = Events io now h body \<and> srv_ready s \<and> parse_event E body = Some ev \<and>
    validate_event ev = Inr () \<and> may_append E s h ev c \<and>
    ledger_text (srv_store s') = ledger_text (srv_store s) @ take n (record_text (ledger_env E)
      (next_record (ledger_env E) (srv_signer E) now ev (client_id c)
        (checkpoint_interval (srv_store s)) (state (srv_store s))) @ [NL])"
proof -
  have "\<not> same_core s s'" using assms(2) by (auto simp: same_core_def)
  moreover have "q \<noteq> Verify h b" for h b
  proof
    assume q: "q = Verify h b"
    obtain t where "verify_handler E h b s = (r, t)" "same_core t s'"
      using assms(1) response_policy_core [of _ s r s'] by (auto simp: router_def q)
    then show False using verify_handler_cases [of E h b s r t] assms(2) by (auto simp: same_core_def)
  qed
  ultimately obtain io now h b where q: "q = Events io now h b"
    using router_read_core [OF assms(1)] by blast
  obtain t where t: "events_handler E io now h b s = (r, t)" "same_core t s'"
    using assms(1) response_policy_core [of _ s r s'] by (auto simp: router_def q)
  have "t \<noteq> s" using assms(2) t(2) by (auto simp: same_core_def)
  then obtain ev c res where e: "events_request E s h b = Inr (ev, c)"
    "store_append (ledger_env E) (srv_signer E) io now ev (client_id c) (srv_store s) = (res, srv_store t)"
    using events_handler_cases [OF t(1)] by blast
  define x where "x = record_text (ledger_env E) (next_record (ledger_env E) (srv_signer E) now ev
    (client_id c) (checkpoint_interval (srv_store s)) (state (srv_store s))) @ [NL]"
  have "\<exists>n. ledger_text (srv_store t) = ledger_text (srv_store s) @ take n x"
  proof (cases res)
    case (Inl err)
    then show ?thesis
      using store_append_error [OF e(2) [unfolded Inl]] by (auto simp: Let_def x_def)
  next
    case (Inr a)
    show ?thesis
    proof (cases a)
      case Appended
      then show ?thesis
        using store_append_Appended [OF e(2) [unfolded Inr Appended]]
        by (intro exI [of _ "length x"]) (simp add: Let_def x_def)
    next
      case Duplicate
      then show ?thesis
        using store_append_Duplicate [OF e(2) [unfolded Inr Duplicate]] by (intro exI [of _ 0]) simp
    qed
  qed
  then show ?thesis
    using q e(1) events_request_ok [OF e(1)] t(2) unfolding same_core_def x_def by metis
qed

theorem only_authorized_append_writes_witness:
  "\<exists>io now h body ev c. sample_post = Events io now h body \<and>
     parse_event sample_server_env body = Some ev \<and> may_append sample_server_env sample_server h ev c"
proof -
  have "ledger_text sample_store \<noteq> ledger_text sample_open"
    using store_append_Appended [OF sample_store_eq] by (simp add: Let_def)
  then show ?thesis
    using only_authorized_append_writes [OF sample_post_eq] by (force simp: sample_server_def)
qed

text \<open>
  C25. A 204 answer to a posted event is a commitment: the ledger then holds the digest of exactly the
  posted event under the identifier of the authenticated client, and keeps it through any further
  requests.
\<close>

theorem acknowledged_post_is_committed:
  assumes "server_inv E s" and "router E (Events io now h body) s = (Inr (204, No_Content), s')"
    and "s2 = fold (\<lambda>q s. snd (router E q s)) qs s'"
  shows "\<exists>ev c. parse_event E body = Some ev \<and> may_append E s h ev c \<and>
    committed (ledger_env E) (srv_store s2) ev (client_id c)"
proof -
  obtain t where t: "events_handler E io now h body s = (Inr (204, No_Content), t)" "same_core t s'"
    using assms(2) response_policy_core [of _ s _ s'] by (auto simp: router_def)
  obtain ev c res where e: "events_request E s h body = Inr (ev, c)" "\<not> isl res"
    "store_append (ledger_env E) (srv_signer E) io now ev (client_id c) (srv_store s) = (res, srv_store t)"
    using events_handler_cases [OF t(1)] by auto
  have inv': "server_inv E s'" using router_inv [OF assms(2,1)] .
  have "committed (ledger_env E) (srv_store t) ev (client_id c)"
    using e(2,3) store_append_committed by (metis isl_def sum.exhaust)
  then have "committed (ledger_env E) (srv_store s') ev (client_id c)" using t(2) by (simp add: same_core_def)
  then have "committed (ledger_env E) (srv_store s2) ev (client_id c)"
    unfolding assms(3) by (rule router_run_committed)
  then show ?thesis using events_request_ok [OF e(1)] by blast
qed

theorem acknowledged_post_is_committed_witness:
  "\<exists>ev (c :: client). parse_event sample_server_env ''E'' = Some ev \<and>
     committed (ledger_env sample_server_env) sample_store ev (client_id c)"
  using acknowledged_post_is_committed [OF sample_server_inv sample_post_eq [unfolded sample_post_def] refl,
      of "[]"] by auto



text \<open>
  C27. A log is only shown to clients allowed to read it: a response that contains a head, entries or
  checkpoints of a log went to an authenticated client with the read permission whose session patterns
  cover that log.
\<close>

theorem reads_are_authorized:
  assumes "server_inv E s" and "router E q s = (Inr (code, p), s')" and "payload_log p = Some l"
  shows "may_read E s (request_header q) l"
  using assms(2) response_policy_core [of _ s "Inr (code, p)" s']
proof (cases q)
  case (Head hd i)
  then obtain t where "head_handler E hd i s = (Inr (code, p), t)"
    using assms(2) response_policy_core [of _ s "Inr (code, p)" s'] by (auto simp: router_def)
  then show ?thesis
    using head_handler_reads [OF _ _ assms(3)] assms(1) Head by (auto simp: server_inv_def request_header_def)
next
  case (Get_Checkpoint hd i)
  then obtain t where "checkpoint_handler E hd i s = (Inr (code, p), t)"
    using assms(2) response_policy_core [of _ s "Inr (code, p)" s'] by (auto simp: router_def)
  then show ?thesis
    using checkpoint_handler_reads [OF _ assms(3)] Get_Checkpoint by (simp add: request_header_def)
next
  case (Entries hd i a n)
  then obtain t where "entries_handler E hd i a n s = (Inr (code, p), t)"
    using assms(2) response_policy_core [of _ s "Inr (code, p)" s'] by (auto simp: router_def)
  then show ?thesis
    using Entries assms(3) read_client_may_read
    by (auto simp: entries_handler_def cmd_simps payload_log_def request_header_def split: prod.splits)
next
  case (Checkpoints hd i a n)
  then obtain t where "checkpoints_handler E hd i a n s = (Inr (code, p), t)"
    using assms(2) response_policy_core [of _ s "Inr (code, p)" s'] by (auto simp: router_def)
  then show ?thesis
    using Checkpoints assms(3) read_client_may_read
    by (auto simp: checkpoints_handler_def cmd_simps payload_log_def request_header_def split: prod.splits)
qed (use other_payloads [OF assms(2,3)] in auto)

theorem reads_are_authorized_witness:
  "router sample_server_env (Entries sample_header ''s'' None None) sample_server
     = (Inr (200, Entries_Body ''s'' []), sample_server) \<and> may_read sample_server_env sample_server sample_header ''s''"
  using reads_are_authorized [OF sample_server_inv sample_read_eq] sample_read_eq
  by (simp add: payload_log_def request_header_def)

text \<open>
  C28. A token authenticates exactly the client it was issued to: after a clients file was loaded, the
  holder of a well-formed token whose SHA-256 is written, in hexadecimal, in the specification of a client
  is that client, with the permissions, event types and sessions of its specification.
\<close>

theorem token_authenticates_its_client:
  assumes "authorizer_load specs = Inr cs" and "spec \<in> set specs" and "length (sha token) = 32"
    and "token_sha256 spec = ''sha256:'' @ hex_text (sha token)"
    and "bearer_token (Some (''Bearer '' @ token)) = Some token"
  shows "\<exists>c. authenticate sha cs (Some (''Bearer '' @ token)) = Inr c \<and> client_id c = spec_id spec \<and>
    permissions c = set (spec_permissions spec) \<and> event_types c = spec_event_types spec \<and>
    sessions c = spec_sessions spec"
proof -
  have l: "load_clients {} {} specs = Inr cs"
    using assms(1) by (auto simp: authorizer_load_def split: if_splits)
  obtain c where c: "c \<in> set cs" "client_id c = spec_id spec"
    "decode_digest (token_sha256 spec) = Inr (token_digest c)"
    "permissions c = set (spec_permissions spec)" "event_types c = spec_event_types spec"
    "sessions c = spec_sessions spec"
    using load_clients_specified [OF l assms(2)] by blast
  have "decode_digest (token_sha256 spec) = Inr (sha token)"
    using decode_digest_hex [OF assms(3)] assms(4) by simp
  then have "token_digest c = sha token" using c(3) by simp
  then have "foldl (\<lambda>selected c. if sha token = token_digest c then Some c else selected) None cs = Some c"
    using load_clients_ok [OF l] c(1) by (intro select_client_unique) auto
  then have "authenticate sha cs (Some (''Bearer '' @ token)) = Inr c"
    using assms(5) by (simp add: authenticate_ok)
  then show ?thesis using c by blast
qed

definition sample_spec :: client_spec where
  "sample_spec = \<lparr>spec_id = ''p'', token_sha256 = ''sha256:'' @ hex_text (replicate 32 1),
     spec_permissions = [''read''], spec_event_types = [''*''], spec_sessions = [''s'']\<rparr>"

theorem token_authenticates_its_client_witness:
  "\<exists>cs c. authorizer_load [sample_spec] = Inr cs \<and>
     authenticate (\<lambda>_. replicate 32 1) cs (Some (''Bearer '' @ replicate 20 CHR ''a'')) = Inr c \<and>
     client_id c = ''p''"
proof -
  have v: "validate_identifier ''p'' ''logger client ID'' = Inr ()" "pattern_ok ''*''" "pattern_ok ''s''"
    by code_simp+
  have d: "decode_digest (''sha256:'' @ hex_text (replicate 32 1)) = Inr (replicate 32 1)"
    by (rule decode_digest_hex) simp
  have l: "authorizer_load [sample_spec] = Inr [\<lparr>client_id = ''p'', token_digest = replicate 32 1,
     permissions = {''read''}, event_types = [''*''], sessions = [''s'']\<rparr>]"
    using v by (simp add: authorizer_load_def sample_spec_def d validate_permissions_def validate_patterns_def
        del: append.simps replicate.simps)
  have b: "bearer_token (Some (''Bearer '' @ replicate 20 CHR ''a'')) = Some (replicate 20 CHR ''a'')"
    by code_simp
  show ?thesis
    using token_authenticates_its_client [OF l _ _ _ b, of sample_spec "\<lambda>_. replicate 32 1"] l
    by (auto simp: sample_spec_def simp del: replicate.simps append.simps)
qed

text \<open>
  C29. The event types the server accepts are those of the published contract, up to the 128 byte limit: the
  hand written scan accepts a text exactly when it is one to sixteen non-empty segments of lower case
  letters and digits joined by single separators, the first segment starting with a letter.
\<close>

theorem event_type_matches_contract:
  "valid_event_type v \<longleftrightarrow> length v \<le> 128 \<and> contract_event_type v"
  by (rule valid_event_type_iff)

end
