(* ===== verification/Rust_Path.thy ===== *)
theory Rust_Path
  imports Prelude
begin

text \<open>
  What the sources use of \<open>std::path\<close> on Unix. A path is its text; \<open>components\<close> reads it the way the
  library does: repeated separators and inner \<open>.\<close> segments do not count, a leading \<open>/\<close> is the root
  component and a leading \<open>.\<close> is kept. Equality and \<open>starts_with\<close> of paths compare components.

  \<open>as_path\<close> of a partly consumed iterator drops such segments at its ends and keeps the inner text, which
  \<open>parent\<close> and \<open>strip_prefix\<close> inherit.
\<close>

datatype component = RootDir | CurDir | ParentDir | Normal string

definition skip_seg :: "string \<Rightarrow> bool" where
  "skip_seg s \<longleftrightarrow> s = [] \<or> s = ''.''"

definition body_component :: "string \<Rightarrow> component" where
  "body_component s = (if s = ''..'' then ParentDir else Normal s)"

definition has_root :: "string \<Rightarrow> bool" where
  "has_root p \<longleftrightarrow> starts_with ''/'' p"

definition segments :: "string \<Rightarrow> string list" where
  "segments p = split_char CHR ''/'' p"

text \<open>The first component that is not a segment of the body, and the segments of the body.\<close>

definition path_start :: "string \<Rightarrow> component option \<times> string list" where
  "path_start p =
     (if has_root p then (Some RootDir, tl (segments p))
      else if p = ''.'' \<or> starts_with ''./'' p then (Some CurDir, tl (segments p))
      else (None, segments p))"

definition body_components :: "string list \<Rightarrow> component list" where
  "body_components segs = map body_component (filter (\<lambda>s. \<not> skip_seg s) segs)"

definition components :: "string \<Rightarrow> component list" where
  "components p =
     (case path_start p of
        (None, segs) \<Rightarrow> body_components segs
      | (Some c, segs) \<Rightarrow> c # body_components segs)"

definition path_eq :: "string \<Rightarrow> string \<Rightarrow> bool" where
  "path_eq p q \<longleftrightarrow> components p = components q"

definition path_starts_with :: "string \<Rightarrow> string \<Rightarrow> bool" where
  "path_starts_with p base \<longleftrightarrow> take (length (components base)) (components p) = components base"

definition path_join :: "string \<Rightarrow> string \<Rightarrow> string" where
  "path_join p q =
     (if has_root q then q
      else if p = [] \<or> last p = CHR ''/'' then p @ q else p @ CHR ''/'' # q)"

definition join_segs :: "string list \<Rightarrow> string" where
  "join_segs segs = join_with ''/'' segs"

definition trim_right :: "string list \<Rightarrow> string list" where
  "trim_right segs = rev (dropWhile skip_seg (rev segs))"

definition trim_both :: "string list \<Rightarrow> string list" where
  "trim_both segs = trim_right (dropWhile skip_seg segs)"

definition render :: "component option \<Rightarrow> string list \<Rightarrow> string" where
  "render c segs =
     (case c of
        Some RootDir \<Rightarrow> CHR ''/'' # join_segs segs
      | Some CurDir \<Rightarrow> (if segs = [] then ''.'' else ''./'' @ join_segs segs)
      | _ \<Rightarrow> join_segs segs)"

definition path_parent :: "string \<Rightarrow> string option" where
  "path_parent p =
     (case path_start p of
        (c, segs) \<Rightarrow>
          if trim_right segs \<noteq> [] then Some (render c (trim_right (butlast (trim_right segs))))
          else if c = Some CurDir then Some [] else None)"

definition path_file_name :: "string \<Rightarrow> string option" where
  "path_file_name p =
     (case rev (components p) of Normal n # _ \<Rightarrow> Some n | _ \<Rightarrow> None)"

fun strip_segs :: "string list \<Rightarrow> component list \<Rightarrow> string list option" where
  "strip_segs segs [] = Some segs"
| "strip_segs [] (y # ys) = None"
| "strip_segs (s # segs) (y # ys) =
     (if skip_seg s then strip_segs segs (y # ys)
      else if body_component s = y then strip_segs segs ys else None)"

definition path_strip_prefix :: "string \<Rightarrow> string \<Rightarrow> string option" where
  "path_strip_prefix p base =
     (case components base of
        [] \<Rightarrow> (case path_start p of (c, segs) \<Rightarrow> Some (render c (trim_right segs)))
      | y # ys \<Rightarrow>
          (case path_start p of
             (None, segs) \<Rightarrow> map_option (\<lambda>r. join_segs (trim_both r)) (strip_segs segs (y # ys))
           | (Some c, segs) \<Rightarrow>
               if c = y then map_option (\<lambda>r. join_segs (trim_both r)) (strip_segs segs ys) else None))"

section \<open>Lemmas\<close>

lemma path_starts_with_iff:
  "path_starts_with p base \<longleftrightarrow> (\<exists>rest. components p = components base @ rest)"
proof
  assume "path_starts_with p base"
  then have "components p = components base @ drop (length (components base)) (components p)"
    unfolding path_starts_with_def by (metis append_take_drop_id)
  then show "\<exists>rest. components p = components base @ rest" by blast
qed (auto simp: path_starts_with_def)

lemma path_starts_with_refl [simp]: "path_starts_with p p"
  by (simp add: path_starts_with_iff)

lemma path_starts_with_trans:
  "path_starts_with p q \<Longrightarrow> path_starts_with q r \<Longrightarrow> path_starts_with p r"
  by (auto simp: path_starts_with_iff)

lemma body_components_append [simp]: "body_components (a @ b) = body_components a @ body_components b"
  by (simp add: body_components_def)

lemma body_components_skip: "list_all skip_seg segs \<Longrightarrow> body_components segs = []"
  by (induction segs) (auto simp: body_components_def)

lemma takeWhile_all: "list_all P (takeWhile P xs)"
  by (induction xs) auto

lemma trim_right_split: "\<exists>t. segs = trim_right segs @ t \<and> list_all skip_seg t"
proof -
  have "segs = rev (takeWhile skip_seg (rev segs) @ dropWhile skip_seg (rev segs))" by simp
  then have "segs = trim_right segs @ rev (takeWhile skip_seg (rev segs))"
    unfolding trim_right_def by (metis rev_append)
  then show ?thesis using takeWhile_all [of skip_seg "rev segs"] by (metis list_all_rev)
qed

lemma body_components_trim_right [simp]: "body_components (trim_right segs) = body_components segs"
proof -
  obtain t where "segs = trim_right segs @ t" "list_all skip_seg t" using trim_right_split by blast
  then show ?thesis by (metis append_Nil2 body_components_append body_components_skip)
qed

lemma body_components_trim_both [simp]: "body_components (trim_both segs) = body_components segs"
proof -
  have "body_components segs = body_components (takeWhile skip_seg segs) @ body_components (dropWhile skip_seg segs)"
    by (metis body_components_append takeWhile_dropWhile_id)
  then show ?thesis by (simp add: trim_both_def body_components_skip takeWhile_all)
qed

lemma strip_segs_components:
  "strip_segs segs cs = Some r \<Longrightarrow> body_components segs = cs @ body_components r"
  by (induction segs cs rule: strip_segs.induct)
    (auto simp: body_components_def split: if_splits)

lemma segments_join: "segs \<noteq> [] \<Longrightarrow> list_all (\<lambda>s. CHR ''/'' \<notin> set s) segs \<Longrightarrow> segments (join_segs segs) = segs"
  using split_char_join [of segs "CHR ''/''"] by (simp add: segments_def join_segs_def list_all_iff)

lemma segments_free: "s \<in> set (segments p) \<Longrightarrow> CHR ''/'' \<notin> set s"
  using split_char_piece [of s "CHR ''/''" p] by (simp add: segments_def)

lemma segments_cons: "segments (CHR ''/'' # p) = [] # segments p"
  using split_char_app [of "CHR ''/''" "[]" p] by (simp add: segments_def)

lemma segments_dot: "segments (''./'' @ p) = ''.'' # segments p"
  using split_char_app [of "CHR ''/''" "''.''" p] by (simp add: segments_def)

lemma path_segments_Nil [simp]: "segments [] = [[]]"
  by (simp add: segments_def split_char_free)

lemma hd_segments_start:
  "has_root p \<Longrightarrow> hd (segments p) = []" "p = ''.'' \<or> starts_with ''./'' p \<Longrightarrow> hd (segments p) = ''.''"
proof -
  show "has_root p \<Longrightarrow> hd (segments p) = []"
    by (auto simp: has_root_def starts_with_iff segments_cons)
  have "segments ''.'' = [''.'']" by (simp add: segments_def split_char_free)
  then show "p = ''.'' \<or> starts_with ''./'' p \<Longrightarrow> hd (segments p) = ''.''"
    using segments_dot by (auto simp: starts_with_iff)
qed

definition start_components :: "component option \<Rightarrow> component list" where
  "start_components c = (case c of None \<Rightarrow> [] | Some x \<Rightarrow> [x])"

lemma components_start:
  "path_start p = (c, segs) \<Longrightarrow> components p = start_components c @ body_components segs"
  by (simp add: components_def start_components_def split: option.splits)

definition start_ok :: "component option \<Rightarrow> string list \<Rightarrow> bool" where
  "start_ok c segs \<longleftrightarrow> list_all (\<lambda>s. CHR ''/'' \<notin> set s) segs \<and> c \<in> {None, Some RootDir, Some CurDir} \<and>
     (c = None \<longrightarrow> segs = [] \<or> \<not> skip_seg (hd segs))"

lemma hd_join_segs: "segs \<noteq> [] \<Longrightarrow> list_all (\<lambda>s. CHR ''/'' \<notin> set s) segs \<Longrightarrow> hd (segments (join_segs segs)) = hd segs"
  by (simp add: segments_join)

lemma components_render:
  assumes "start_ok c segs"
  shows "components (render c segs) = start_components c @ body_components segs"
proof -
  have free: "list_all (\<lambda>s. CHR ''/'' \<notin> set s) segs" using assms by (simp add: start_ok_def)
  consider "c = None" | "c = Some RootDir" | "c = Some CurDir" using assms by (auto simp: start_ok_def)
  then show ?thesis
  proof cases
    case 1
    show ?thesis
    proof (cases "segs = []")
      case True
      have "\<not> has_root []" "\<not> starts_with ''./'' []" by (simp_all add: has_root_def starts_with_def)
      then show ?thesis
        using True 1 by (simp add: render_def join_segs_def components_def path_start_def start_components_def
            body_components_def skip_seg_def)
    next
      case False
      then have "\<not> skip_seg (hd segs)" using assms 1 by (simp add: start_ok_def)
      then have "\<not> has_root (join_segs segs)" "\<not> (join_segs segs = ''.'' \<or> starts_with ''./'' (join_segs segs))"
        using hd_join_segs [OF False free] hd_segments_start [of "join_segs segs"] by (auto simp: skip_seg_def)
      then show ?thesis
        using 1 False free by (simp add: render_def components_def path_start_def segments_join start_components_def)
    qed
  next
    case 2
    then show ?thesis
      using free by (cases "segs = []")
        (simp_all add: render_def join_segs_def components_def path_start_def has_root_def starts_with_def
          segments_cons segments_join [unfolded join_segs_def] start_components_def body_components_def skip_seg_def)
  next
    case 3
    have "starts_with ''./'' (''./'' @ join_segs segs)" by (auto simp: starts_with_iff)
    moreover have "\<not> has_root (''./'' @ join_segs segs)" "\<not> has_root ''.''"
      by (simp_all add: has_root_def starts_with_def)
    ultimately show ?thesis
      using 3 free segments_join [of segs] segments_dot [of "join_segs segs"]
      by (cases "segs = []")
        (auto simp: render_def components_def path_start_def start_components_def body_components_def
          skip_seg_def segments_def split_char_free)
  qed
qed

lemma set_tl_subset: "set (tl xs) \<subseteq> set xs"
  by (cases xs) auto

lemma path_start_segments: "path_start p = (c, segs) \<Longrightarrow> set segs \<subseteq> set (segments p)"
  using set_tl_subset [of "segments p"] by (auto simp: path_start_def split: if_splits)

lemma path_start_ok:
  assumes "path_start p = (c, segs)"
  shows "start_ok c (trim_right segs)"
proof -
  have c: "c \<in> {None, Some RootDir, Some CurDir}"
    using assms by (auto simp: path_start_def split: if_splits)
  note sub = path_start_segments [OF assms]
  obtain t where t: "segs = trim_right segs @ t" "list_all skip_seg t" using trim_right_split by blast
  have "set (trim_right segs) \<subseteq> set segs" using t(1) by (metis Un_upper1 set_append)
  then have free: "list_all (\<lambda>s. CHR ''/'' \<notin> set s) (trim_right segs)"
    using sub segments_free by (auto simp: list_all_iff)
  have "trim_right segs = [] \<or> \<not> skip_seg (hd (trim_right segs))" if "c = None"
  proof (rule ccontr)
    assume "\<not> ?thesis"
    then have ne: "trim_right segs \<noteq> []" and sk: "skip_seg (hd (trim_right segs))" by auto
    have segs: "segs = segments p" "\<not> has_root p" "p \<noteq> ''.''" "\<not> starts_with ''./'' p"
      using assms that by (auto simp: path_start_def split: if_splits)
    have "hd segs = hd (trim_right segs)" using t(1) ne by (metis hd_append2)
    then have sk: "skip_seg (hd (segments p))" using sk segs(1) by simp
    show False
    proof (cases "split_once CHR ''/'' p")
      case None
      then have "segments p = [p]" by (simp add: segments_def split_char.simps)
      then have "p = []" using sk segs(3) by (simp add: skip_seg_def)
      then show False using segs(1) ne by (simp add: trim_right_def skip_seg_def)
    next
      case (Some lr)
      obtain l r where lr: "lr = (l, r)" by (cases lr)
      then have p: "p = l @ CHR ''/'' # r" "CHR ''/'' \<notin> set l" using Some by (auto simp: split_once_Some)
      then have "segments p = l # segments r" by (simp add: segments_def split_char_app)
      then have "l = [] \<or> l = ''.''" using sk by (simp add: skip_seg_def)
      then show False using p(1) segs(2,4) by (auto simp: has_root_def starts_with_iff)
    qed
  qed
  then show ?thesis using c free by (auto simp: start_ok_def)
qed

lemma trim_both_ok:
  assumes "list_all (\<lambda>s. CHR ''/'' \<notin> set s) segs"
  shows "start_ok None (trim_both segs)"
proof -
  define d where "d = dropWhile skip_seg segs"
  obtain t where t: "d = trim_right d @ t" using trim_right_split by blast
  have "set (trim_right d) \<subseteq> set segs"
    using t set_dropWhileD [of _ skip_seg segs] unfolding d_def by (metis UnCI set_append subsetI)
  then have "list_all (\<lambda>s. CHR ''/'' \<notin> set s) (trim_both segs)"
    using assms by (auto simp: trim_both_def d_def list_all_iff)
  moreover have "trim_both segs = [] \<or> \<not> skip_seg (hd (trim_both segs))"
  proof (cases "trim_right d = []")
    case False
    then have "hd (trim_right d) = hd d" "d \<noteq> []" using t by (metis hd_append2, auto simp: trim_right_def)
    then show ?thesis using hd_dropWhile [of skip_seg segs] by (auto simp: trim_both_def d_def)
  qed (simp add: trim_both_def d_def)
  ultimately show ?thesis by (simp add: start_ok_def)
qed

lemma strip_segs_suffix: "strip_segs segs cs = Some r \<Longrightarrow> set r \<subseteq> set segs"
  by (induction segs cs rule: strip_segs.induct) (auto split: if_splits)

text \<open>Stripping a prefix splits the components of the path.\<close>

lemma path_strip_prefix_components:
  assumes "path_strip_prefix p base = Some rel"
  shows "components p = components base @ components rel"
proof -
  obtain c segs where st: "path_start p = (c, segs)" by (cases "path_start p")
  have p: "components p = start_components c @ body_components segs" using components_start [OF st] .
  have free: "list_all (\<lambda>s. CHR ''/'' \<notin> set s) segs"
    using path_start_segments [OF st] segments_free by (auto simp: list_all_iff)
  show ?thesis
  proof (cases "components base")
    case Nil
    then have "rel = render c (trim_right segs)" using assms st by (simp add: path_strip_prefix_def)
    then show ?thesis using Nil p components_render [OF path_start_ok [OF st]] by simp
  next
    case (Cons y ys)
    define cs where "cs = (case c of None \<Rightarrow> y # ys | Some x \<Rightarrow> ys)"
    obtain r where r: "strip_segs segs cs = Some r" "rel = join_segs (trim_both r)"
      and c: "c = None \<or> c = Some y"
      using assms st Cons by (auto simp: path_strip_prefix_def cs_def split: option.splits if_splits)
    have "list_all (\<lambda>s. CHR ''/'' \<notin> set s) r"
      using free strip_segs_suffix [OF r(1)] by (auto simp: list_all_iff)
    then have "components rel = body_components r"
      using components_render [OF trim_both_ok] r(2) by (simp add: render_def start_components_def)
    then show ?thesis
      using p strip_segs_components [OF r(1)] c Cons by (auto simp: cs_def start_components_def)
  qed
qed

lemma set_join_segs: "set (join_segs segs) \<subseteq> insert CHR ''/'' (\<Union>s \<in> set segs. set s)"
  using set_join_with [of "''/''" segs] by (auto simp: join_segs_def)

lemma set_segments: "s \<in> set (segments p) \<Longrightarrow> set s \<subseteq> set p"
  using split_char_piece [of s "CHR ''/''" p] by (simp add: segments_def)

lemma set_trim_right: "set (trim_right segs) \<subseteq> set segs"
  using trim_right_split [of segs] by (metis Un_upper1 set_append)

lemma path_strip_prefix_chars:
  assumes "path_strip_prefix p base = Some rel"
  shows "set rel \<subseteq> insert CHR ''/'' (insert CHR ''.'' (set p))"
proof -
  obtain c segs where st: "path_start p = (c, segs)" by (cases "path_start p")
  have segs: "\<And>s. s \<in> set segs \<Longrightarrow> set s \<subseteq> set p"
    using path_start_segments [OF st] set_segments by blast
  obtain ss where ss: "set ss \<subseteq> set segs" and rel: "set rel \<subseteq> insert CHR ''/'' (insert CHR ''.'' (set (join_segs ss)))"
  proof (cases "components base")
    case Nil
    then have "rel = render c (trim_right segs)" using assms st by (simp add: path_strip_prefix_def)
    then have "set rel \<subseteq> insert CHR ''/'' (insert CHR ''.'' (set (join_segs (trim_right segs))))"
      by (auto simp: render_def split: option.splits component.splits if_splits)
    then show ?thesis using that set_trim_right by blast
  next
    case (Cons y ys)
    then obtain r cs where "strip_segs segs cs = Some r" "rel = join_segs (trim_both r)"
      using assms st by (auto simp: path_strip_prefix_def split: option.splits if_splits)
    moreover have "set (trim_both r) \<subseteq> set r"
      using set_trim_right [of "dropWhile skip_seg r"] set_dropWhileD [of _ skip_seg r]
      by (auto simp: trim_both_def)
    ultimately show ?thesis using that [of "trim_both r"] strip_segs_suffix by blast
  qed
  have "set (join_segs ss) \<subseteq> insert CHR ''/'' (set p)" using set_join_segs [of ss] ss segs by blast
  then show ?thesis using rel by blast
qed

section \<open>Parents\<close>

lemma length_join_segs: "segs \<noteq> [] \<Longrightarrow> length (join_segs segs) = sum_list (map length segs) + length segs - 1"
proof (induction segs)
  case (Cons s segs)
  then show ?case by (cases segs) (simp_all add: join_segs_def)
qed simp

lemma length_join_append: "a \<noteq> [] \<Longrightarrow> length (join_segs a) \<le> length (join_segs (a @ t))"
  using length_join_segs [of a] length_join_segs [of "a @ t"] by simp

lemma length_join_butlast:
  assumes "segs \<noteq> []" and "last segs \<noteq> []" and "butlast segs = a @ b"
  shows "length (join_segs a) < length (join_segs segs)"
proof -
  have segs: "segs = a @ b @ [last segs]" using assms(1,3) by (metis append.assoc append_butlast_last_id)
  have "length (join_segs (a @ b @ [z])) = sum_list (map length a) + sum_list (map length b) + length z
      + length a + length b" for z
    using length_join_segs [of "a @ b @ [z]"] by simp
  from this [of "last segs"] have l: "length (join_segs segs) = sum_list (map length a) + sum_list (map length b) + length (last segs)
      + length a + length b"
    using arg_cong [OF segs, of "\<lambda>x. length (join_segs x)"] by simp
  show ?thesis
  proof (cases "a = []")
    case True
    then show ?thesis using l assms(2) by (simp add: join_segs_def)
  next
    case False
    moreover have "0 < length (last segs)" "0 < length a" using assms(2) False by auto
    ultimately show ?thesis using l length_join_segs [OF False] by linarith
  qed
qed

lemma trim_right_last: "trim_right segs \<noteq> [] \<Longrightarrow> \<not> skip_seg (last (trim_right segs))"
  using hd_dropWhile [of skip_seg "rev segs"] by (simp add: trim_right_def last_rev)

lemma path_of_start: "path_start p = (c, segs) \<Longrightarrow> length p = (case c of None \<Rightarrow> 0 | Some _ \<Rightarrow> 1) + length (join_segs segs) + (if c = Some CurDir \<and> segs \<noteq> [] then 1 else 0)"
proof -
  assume a: "path_start p = (c, segs)"
  have j: "join_segs (segments q) = q" for q by (simp add: join_segs_def segments_def join_split_char)
  show ?thesis
  proof (cases "has_root p")
    case True
    then obtain q where "p = CHR ''/'' # q" by (auto simp: has_root_def starts_with_iff)
    then show ?thesis using a True j [of q] by (auto simp: path_start_def segments_cons)
  next
    case False
    then show ?thesis
      using a j [of p] segments_dot
      by (auto simp: path_start_def starts_with_iff segments_def split_char_free join_segs_def join_split_char
          split: if_splits)
  qed
qed

text \<open>The parent is a shorter text; this is what makes the search for an existing ancestor end.\<close>

lemma length_path_parent:
  assumes "path_parent p = Some q"
  shows "length q < length p"
proof -
  obtain c segs where st: "path_start p = (c, segs)" by (cases "path_start p")
  have c: "c \<in> {None, Some RootDir, Some CurDir}" using st by (auto simp: path_start_def split: if_splits)
  show ?thesis
  proof (cases "trim_right segs = []")
    case True
    then show ?thesis
      using assms st path_of_start [OF st] by (auto simp: path_parent_def split: if_splits)
  next
    case False
    obtain t where t: "segs = trim_right segs @ t" using trim_right_split by blast
    obtain u where u: "butlast (trim_right segs) = trim_right (butlast (trim_right segs)) @ u"
      using trim_right_split by blast
    have "length (join_segs (trim_right (butlast (trim_right segs)))) < length (join_segs (trim_right segs))"
      using length_join_butlast [OF False _ u] trim_right_last [OF False] by (auto simp: skip_seg_def)
    moreover have "length (join_segs (trim_right segs)) \<le> length (join_segs segs)"
      using length_join_append [OF False, of t] t by simp
    moreover have "q = render c (trim_right (butlast (trim_right segs)))" "segs \<noteq> []"
      using assms st False t by (auto simp: path_parent_def)
    ultimately show ?thesis
      using path_of_start [OF st] c by (auto simp: render_def)
  qed
qed

end
