(* ===== verification/Execution.thy ===== *)
theory Execution
  imports State_Config Rust_Path Json_Codec
begin

text \<open>
  One authority step of a session (\<open>runtime/src/execution.rs\<close>): the grants, the execution they configure,
  what it permits, and the single advance \<open>request_mutation\<close> from the read-only execution of a user to a
  bounded mutation execution.

  A \<open>BTreeSet\<close> of texts is a set; the file \<open>active-execution.json\<close> is the state of the commands, as its
  text or its absence. The JSON decoders and the encoder are the parameters \<open>exec_codec\<close>; \<open>codec_ok\<close>
  states that a written document is read back. The message of a decoder is cut at its prefix. Paths and
  texts are UTF-8.

  The lemmas show that writing needs a grant bound to the session and the repository, and that a user
  session advances at most once, to exactly the effects it asked for.
\<close>

section \<open>Data\<close>

definition ACTIVE_EXECUTION_FILE :: string where
  "ACTIVE_EXECUTION_FILE = ''runtime_state/active-execution.json''"

definition ALLOWED_EFFECTS :: "string list" where
  "ALLOWED_EFFECTS = [''reviewed-ops'', ''source-write'']"

record review_mutation_grant =
  g_kind :: string
  g_effects :: "string list"
  g_repository :: string
  g_paths :: "string list"
  review_id :: string
  source_session_id :: string
  source_event_id :: string
  question_sha256 :: string
  granted_to_session_id :: string
  approved_by :: string
  approved_at :: string

record active_execution =
  schema_version :: "32 word"
  a_ordinal :: "32 word"
  a_kind :: string
  a_effects :: "string list"
  a_repository :: string
  a_paths :: "string list"
  a_session_id :: string

record execution =
  exec_scope :: string
  ordinal :: "32 word"
  granted_paths :: "string set"
  source_write :: bool
  reviewed_ops :: bool
  fixed_grant :: bool

record exec_codec =
  decode_grant :: "string \<Rightarrow> review_mutation_grant option"
  decode_active :: "string \<Rightarrow> active_execution option"
  encode_active :: "active_execution \<Rightarrow> string"

definition codec_ok :: "exec_codec \<Rightarrow> bool" where
  "codec_ok C \<longleftrightarrow> (\<forall>a. decode_active C (encode_active C a @ [NL]) = Some a)"

section \<open>Validation\<close>

definition bounded :: "string \<Rightarrow> nat \<Rightarrow> bool" where
  "bounded v n \<longleftrightarrow> trim v \<noteq> [] \<and> length v \<le> n"

definition is_normal :: "component \<Rightarrow> bool" where
  "is_normal c \<longleftrightarrow> (case c of Normal _ \<Rightarrow> True | _ \<Rightarrow> False)"

definition normalized_repo_path :: "string \<Rightarrow> string option" where
  "normalized_repo_path v =
     (if \<not> bounded v 512 then None
      else let normalized = map (\<lambda>c. if c = CHR 0x5C then CHR ''/'' else c) v
      in if has_root normalized \<or> list_ex (\<lambda>c. \<not> is_normal c) (components normalized) then None
         else Some normalized)"

definition normalized_effects :: "string list \<Rightarrow> string set option" where
  "normalized_effects vs =
     (if vs \<noteq> [] \<and> card (set vs) = length vs \<and> set vs \<subseteq> set ALLOWED_EFFECTS then Some (set vs) else None)"

definition validated_paths :: "string list \<Rightarrow> bool \<Rightarrow> string set option" where
  "validated_paths vs write =
     (let paths = set (List.map_filter normalized_repo_path vs)
      in if length vs \<le> 32 \<and> card paths = length vs \<and> write = (vs \<noteq> []) then Some paths else None)"

section \<open>What an execution permits\<close>

definition is_read_only :: "execution \<Rightarrow> bool" where
  "is_read_only x \<longleftrightarrow> \<not> source_write x \<and> \<not> reviewed_ops x"

definition permits_workspace_write :: "execution \<Rightarrow> string \<Rightarrow> string list \<Rightarrow> bool" where
  "permits_workspace_write x rt paths =
     (if exec_scope x = ''human'' then True
      else source_write x \<and> paths \<noteq> [] \<and>
        list_all (\<lambda>p. case Option.bind (path_strip_prefix p rt) normalized_repo_path of
                        None \<Rightarrow> False | Some relative \<Rightarrow> relative \<in> granted_paths x) paths)"

definition permits_reviewed_ops :: "execution \<Rightarrow> bool" where
  "permits_reviewed_ops x \<longleftrightarrow> exec_scope x = ''human'' \<or> reviewed_ops x"

definition permits_mutation_request :: "execution \<Rightarrow> bool" where
  "permits_mutation_request x \<longleftrightarrow> exec_scope x = ''user'' \<and> is_read_only x \<and> \<not> fixed_grant x"

section \<open>Configuration of an execution\<close>

definition exec_read_only :: "string \<Rightarrow> execution" where
  "exec_read_only scope = \<lparr>exec_scope = scope, ordinal = 1, granted_paths = {}, source_write = False,
     reviewed_ops = False, fixed_grant = False\<rparr>"

definition legacy_human :: execution where
  "legacy_human = \<lparr>exec_scope = ''human'', ordinal = 1, granted_paths = {}, source_write = True,
     reviewed_ops = True, fixed_grant = True\<rparr>"

definition from_review_grant ::
  "exec_codec \<Rightarrow> string \<Rightarrow> string \<Rightarrow> string \<Rightarrow> string \<Rightarrow> error + execution" where
  "from_review_grant C scope json session repository =
     and_then (ok_or (decode_grant C json) ''decode approved mutation grant'') (\<lambda>g.
     and_then (ok_or (normalized_effects (g_effects g)) ''approved mutation grant has invalid effects'') (\<lambda>effects.
     and_then (ok_or (validated_paths (g_paths g) (''source-write'' \<in> effects))
       ''approved mutation grant has invalid paths'') (\<lambda>paths.
     let digest = (case strip_prefix ''sha256:'' (question_sha256 g) of None \<Rightarrow> [] | Some d \<Rightarrow> d)
     in if g_kind g \<noteq> ''review-approved-repair'' \<or> g_repository g \<noteq> repository \<or>
           granted_to_session_id g \<noteq> session \<or> \<not> bounded (review_id g) 128 \<or>
           \<not> bounded (source_session_id g) 63 \<or> \<not> bounded (source_event_id g) 128 \<or>
           length digest \<noteq> 64 \<or> \<not> list_all is_ascii_hexdigit digest \<or>
           \<not> bounded (approved_by g) 256 \<or> \<not> bounded (approved_at g) 64
        then Inl ''approved mutation grant is incomplete or bound to another session or repository''
        else Inr \<lparr>exec_scope = scope, ordinal = 1, granted_paths = paths,
                  source_write = ''source-write'' \<in> effects, reviewed_ops = ''reviewed-ops'' \<in> effects,
                  fixed_grant = True\<rparr>)))"

definition from_active_execution ::
  "exec_codec \<Rightarrow> string \<Rightarrow> string \<Rightarrow> string \<Rightarrow> error + execution" where
  "from_active_execution C json session repository =
     and_then (ok_or (decode_active C json) ''decode active execution'') (\<lambda>a.
     and_then (ok_or (normalized_effects (a_effects a)) ''active execution has invalid effects'') (\<lambda>effects.
     and_then (ok_or (validated_paths (a_paths a) (''source-write'' \<in> effects))
       ''active execution has invalid paths'') (\<lambda>paths.
     if schema_version a \<noteq> 1 \<or> a_ordinal a < 2 \<or> a_kind a \<noteq> ''user-requested-mutation'' \<or>
        a_repository a \<noteq> repository \<or> a_session_id a \<noteq> session
     then Inl ''active execution is incomplete or bound to another session or repository''
     else Inr \<lparr>exec_scope = ''user'', ordinal = a_ordinal a, granted_paths = paths,
               source_write = ''source-write'' \<in> effects, reviewed_ops = ''reviewed-ops'' \<in> effects,
               fixed_grant = False\<rparr>)))"

definition configured_from ::
  "exec_codec \<Rightarrow> string \<Rightarrow> string \<Rightarrow> string option \<Rightarrow> string \<Rightarrow> string \<Rightarrow> error + execution" where
  "configured_from C scope initial active session repository =
     (let has_initial = trim initial \<noteq> [] \<and> trim initial \<noteq> ''null''
      in if scope = ''human'' \<and> \<not> has_initial then Inr legacy_human
         else if scope \<in> {''observe'', ''diagnosis-only''} \<and> \<not> has_initial then Inr (exec_read_only scope)
         else if scope = ''user'' \<and> has_initial then from_review_grant C scope initial session repository
         else if scope = ''user''
         then (case active of
                 Some json \<Rightarrow> from_active_execution C json session repository
               | None \<Rightarrow> Inr (exec_read_only scope))
         else if scope \<in> {''human'', ''observe'', ''diagnosis-only''}
         then Inl (''execution scope '' @ scope @ '' must not carry a mutation grant'')
         else Inl ''MULTIAGENT_AUTHORITY_SCOPE is invalid'')"

definition var_or_default :: "env \<Rightarrow> string \<Rightarrow> string" where
  "var_or_default environ name = (case environ name of None \<Rightarrow> [] | Some v \<Rightarrow> v)"

definition bound_repository :: "env \<Rightarrow> string option" where
  "bound_repository environ =
     (case environ ''MULTIAGENT_REPOSITORY_NAME'' of
        Some v \<Rightarrow> Some v | None \<Rightarrow> environ ''MULTIAGENT_SESSION_REPOSITORY'')"

definition configured_scope :: "env \<Rightarrow> string" where
  "configured_scope environ =
     (case environ ''MULTIAGENT_AUTHORITY_SCOPE'' of
        None \<Rightarrow> ''human'' | Some v \<Rightarrow> if v = [] then ''human'' else v)"

definition exec_configured :: "exec_codec \<Rightarrow> env \<Rightarrow> string option \<Rightarrow> error + execution" where
  "exec_configured C environ active =
     configured_from C (configured_scope environ) (var_or_default environ ''MULTIAGENT_MUTATION_GRANT_JSON'')
       active (var_or_default environ ''MULTIAGENT_SESSION'')
       (case bound_repository environ of None \<Rightarrow> [] | Some v \<Rightarrow> v)"

section \<open>The request for a mutation execution\<close>

definition mutation_effects :: "string list \<Rightarrow> bool \<Rightarrow> string list" where
  "mutation_effects paths ops =
     (if paths \<noteq> [] then [''source-write''] else []) @ (if ops then [''reviewed-ops''] else [])"

text \<open>The checks of \<open>request_mutation\<close> and the document it writes.\<close>

definition mutation_document ::
  "exec_codec \<Rightarrow> env \<Rightarrow> string list \<Rightarrow> bool \<Rightarrow> string option \<Rightarrow> error + active_execution" where
  "mutation_document C environ paths ops active =
     and_then (exec_configured C environ active) (\<lambda>current.
     and_then (guard_ok (permits_mutation_request current)
       ''only an initial read-only user execution may request mutation'') (\<lambda>_.
     let normalized = remdups (List.map_filter normalized_repo_path paths)
     in if 32 < length paths \<or> length normalized \<noteq> length paths \<or> (normalized = [] \<and> \<not> ops)
        then Inl ''mutation request requires unique exact repository paths and/or reviewed-ops''
        else and_then (ok_or (bound_repository environ) ''mutation request requires a bound repository'') (\<lambda>repository.
          and_then (ok_or (environ ''MULTIAGENT_SESSION'') ''mutation request requires a bound session'') (\<lambda>session.
          Inr \<lparr>schema_version = 1, a_ordinal = ordinal current + 1, a_kind = ''user-requested-mutation'',
               a_effects = mutation_effects normalized ops, a_repository = repository,
               a_paths = sort normalized, a_session_id = session\<rparr>))))"

definition request_mutation ::
  "exec_codec \<Rightarrow> env \<Rightarrow> string list \<Rightarrow> bool \<Rightarrow> (string option, error, execution) cmd" where
  "request_mutation C environ paths ops =
     bind_c (lift_r (mutation_document C environ paths ops)) (\<lambda>a.
     bind_c (modify_c (\<lambda>_. Some (encode_active C a @ [NL]))) (\<lambda>_.
     lift_r (exec_configured C environ)))"

section \<open>A concrete codec\<close>

text \<open>The documents as JSON, with the codec of \<open>Json_Codec\<close>; the sample session is \<open>s\<close> in repository \<open>r\<close>.\<close>

definition active_json :: "active_execution \<Rightarrow> json" where
  "active_json a = JObj [(''schemaVersion'', JNum (ucast (schema_version a))), (''ordinal'', JNum (ucast (a_ordinal a))),
     (''kind'', JStr (a_kind a)), (''effects'', JArr (map JStr (a_effects a))), (''repository'', JStr (a_repository a)),
     (''paths'', JArr (map JStr (a_paths a))), (''sessionId'', JStr (a_session_id a))]"

definition active_of :: "json \<Rightarrow> active_execution" where
  "active_of v = \<lparr>schema_version = ucast (num_of (member v ''schemaVersion'')),
     a_ordinal = ucast (num_of (member v ''ordinal'')), a_kind = str_of (member v ''kind''),
     a_effects = map str_of (items_of (member v ''effects'')), a_repository = str_of (member v ''repository''),
     a_paths = map str_of (items_of (member v ''paths'')), a_session_id = str_of (member v ''sessionId'')\<rparr>"

definition sample_grant :: review_mutation_grant where
  "sample_grant = \<lparr>g_kind = ''review-approved-repair'', g_effects = [''source-write''], g_repository = ''r'',
     g_paths = [''src/a''], review_id = ''v'', source_session_id = ''t'', source_event_id = ''e'',
     question_sha256 = ''sha256:'' @ replicate 64 CHR ''0'', granted_to_session_id = ''s'', approved_by = ''h'',
     approved_at = ''n''\<rparr>"

definition sample_codec :: exec_codec where
  "sample_codec = \<lparr>decode_grant = (\<lambda>s. if s = ''G'' then Some sample_grant else None),
     decode_active = (\<lambda>s. map_option active_of (parse_json (butlast s))), encode_active = (\<lambda>a. enc (active_json a))\<rparr>"

definition sample_environ :: env where
  "sample_environ = [''MULTIAGENT_AUTHORITY_SCOPE'' \<mapsto> ''user'', ''MULTIAGENT_SESSION'' \<mapsto> ''s'',
     ''MULTIAGENT_REPOSITORY_NAME'' \<mapsto> ''r'']"

lemma ucast_down_up: "ucast (ucast (x :: 32 word) :: 64 word) = x"
  by (rule bit_word_eqI) (simp add: bit_unsigned_iff)

lemma active_of_json: "active_of (active_json a) = a"
  by (simp add: active_of_def active_json_def member_def members_def of_simps comp_def ucast_down_up)

lemma sample_codec_ok: "codec_ok sample_codec"
  by (simp add: codec_ok_def sample_codec_def parse_enc active_of_json)

lemma sample_request:
  "\<exists>active'. request_mutation sample_codec sample_environ [''src/a''] True None = (Inr
     \<lparr>exec_scope = ''user'', ordinal = 2, granted_paths = {''src/a''}, source_write = True,
      reviewed_ops = True, fixed_grant = False\<rparr>, active')"
proof -
  have "fst (request_mutation sample_codec sample_environ [''src/a''] True None) = Inr
     \<lparr>exec_scope = ''user'', ordinal = 2, granted_paths = {''src/a''}, source_write = True,
      reviewed_ops = True, fixed_grant = False\<rparr>" by code_simp
  then show ?thesis by (metis prod.collapse)
qed

section \<open>Repository paths\<close>

definition slashes :: "string \<Rightarrow> string" where
  "slashes v = map (\<lambda>c. if c = CHR 0x5C then CHR ''/'' else c) v"

lemma slashes_id: "CHR 0x5C \<notin> set v \<Longrightarrow> slashes v = v"
  by (auto simp: slashes_def intro: map_idI)

lemma backslash_free: "CHR 0x5C \<notin> set (slashes v)"
  by (auto simp: slashes_def)

lemma trim_slashes: "trim v \<noteq> [] \<Longrightarrow> trim (slashes v) \<noteq> []"
proof (cases "CHR 0x5C \<in> set v")
  case True
  have "CHR ''/'' \<in> set (slashes v)" using True unfolding slashes_def by (force simp: image_iff)
  moreover have "\<not> ws_byte CHR ''/''" by (simp add: ws_byte_def byte_of_def)
  ultimately show ?thesis using trim_keeps by fastforce
qed (simp add: slashes_id)

lemma normalized_repo_path_Some:
  "normalized_repo_path v = Some r \<longleftrightarrow>
     r = slashes v \<and> bounded v 512 \<and> \<not> has_root r \<and> list_all is_normal (components r)"
  by (auto simp: normalized_repo_path_def slashes_def Let_def list_ex_iff list_all_iff split: if_splits)

text \<open>A repository path is a fixed point of the normalization.\<close>

lemma normalized_repo_path_idem:
  assumes "normalized_repo_path v = Some r"
  shows "normalized_repo_path r = Some r"
proof -
  have r: "r = slashes v" "bounded v 512" using assms by (simp_all add: normalized_repo_path_Some)
  then have "bounded r 512" using trim_slashes [of v] by (simp add: bounded_def slashes_def)
  moreover have "slashes r = r" using r(1) backslash_free by (simp add: slashes_id)
  ultimately show ?thesis using assms by (auto simp: normalized_repo_path_Some)
qed

lemma map_filter_total:
  "length (List.map_filter f xs) = length xs \<Longrightarrow> map f xs = map Some (List.map_filter f xs)"
proof (induction xs)
  case (Cons x xs)
  have "length (List.map_filter f xs) \<le> length xs"
    by (simp add: List.map_filter_def)
  then show ?case using Cons by (auto simp: List.map_filter_simps split: option.splits)
qed (simp add: List.map_filter_simps)

lemma map_filter_le: "length (List.map_filter f xs) \<le> length xs"
  by (simp add: List.map_filter_def)

text \<open>Accepted paths are distinct and each is a repository path.\<close>

lemma validated_paths_Some:
  assumes "validated_paths vs write = Some ps"
  shows "write = (vs \<noteq> [])" "length vs \<le> 32" "ps = set (List.map_filter normalized_repo_path vs)"
    "\<forall>v \<in> set vs. \<exists>r \<in> ps. normalized_repo_path v = Some r"
proof -
  let ?m = "List.map_filter normalized_repo_path vs"
  have a: "write = (vs \<noteq> [])" "length vs \<le> 32" "ps = set ?m" and c: "card (set ?m) = length vs"
    using assms by (auto simp: validated_paths_def Let_def split: if_splits)
  have "length vs \<le> length ?m" using c card_length [of ?m] by simp
  then have "map normalized_repo_path vs = map Some ?m"
    using map_filter_le [of normalized_repo_path vs] by (intro map_filter_total) simp
  then have "\<forall>v \<in> set vs. \<exists>r \<in> set ?m. normalized_repo_path v = Some r"
    by (metis (mono_tags, lifting) image_iff list.set_map)
  then show "write = (vs \<noteq> [])" "length vs \<le> 32" "ps = set ?m"
    "\<forall>v \<in> set vs. \<exists>r \<in> ps. normalized_repo_path v = Some r"
    using a by auto
qed

lemma validated_paths_normal:
  assumes "list_all (\<lambda>r. normalized_repo_path r = Some r) rs" and "distinct rs" and "length rs \<le> 32"
  shows "validated_paths rs (rs \<noteq> []) = Some (set rs)"
proof -
  have "List.map_filter normalized_repo_path rs = rs"
    using assms(1) by (induction rs) (auto simp: List.map_filter_simps)
  then show ?thesis using assms(2,3) by (simp add: validated_paths_def distinct_card)
qed

section \<open>Grants\<close>

lemma from_review_grant_Inr:
  assumes "from_review_grant C scope json session repository = Inr x"
  shows "\<exists>g. decode_grant C json = Some g \<and> g_repository g = repository \<and> granted_to_session_id g = session \<and>
    g_kind g = ''review-approved-repair'' \<and> exec_scope x = scope \<and> fixed_grant x \<and>
    source_write x = (''source-write'' \<in> set (g_effects g)) \<and>
    reviewed_ops x = (''reviewed-ops'' \<in> set (g_effects g)) \<and>
    validated_paths (g_paths g) (source_write x) = Some (granted_paths x)"
  using assms by (auto simp: from_review_grant_def cmd_simps Let_def normalized_effects_def split: if_splits)

lemma from_active_execution_Inr:
  assumes "from_active_execution C json session repository = Inr x"
  shows "\<exists>a. decode_active C json = Some a \<and> a_repository a = repository \<and> a_session_id a = session \<and>
    a_kind a = ''user-requested-mutation'' \<and> 2 \<le> a_ordinal a \<and> ordinal x = a_ordinal a \<and>
    exec_scope x = ''user'' \<and> \<not> fixed_grant x \<and> \<not> is_read_only x \<and>
    source_write x = (''source-write'' \<in> set (a_effects a)) \<and>
    reviewed_ops x = (''reviewed-ops'' \<in> set (a_effects a)) \<and>
    validated_paths (a_paths a) (source_write x) = Some (granted_paths x)"
proof -
  obtain a ef ps where a: "decode_active C json = Some a" "normalized_effects (a_effects a) = Some ef"
    "validated_paths (a_paths a) (''source-write'' \<in> ef) = Some ps"
    and c: "\<not> (schema_version a \<noteq> 1 \<or> a_ordinal a < 2 \<or> a_kind a \<noteq> ''user-requested-mutation'' \<or>
        a_repository a \<noteq> repository \<or> a_session_id a \<noteq> session)"
    and x: "x = \<lparr>exec_scope = ''user'', ordinal = a_ordinal a, granted_paths = ps,
               source_write = ''source-write'' \<in> ef, reviewed_ops = ''reviewed-ops'' \<in> ef, fixed_grant = False\<rparr>"
    using assms by (auto simp: from_active_execution_def cmd_simps split: if_splits)
  have ef: "ef = set (a_effects a)" "ef \<noteq> {}" "ef \<subseteq> set ALLOWED_EFFECTS"
    using a(2) by (auto simp: normalized_effects_def split: if_splits)
  obtain e where e: "e \<in> ef" using ef(2) by blast
  then have "e \<in> {''reviewed-ops'', ''source-write''}" using ef(3) by (auto simp: ALLOWED_EFFECTS_def)
  with e have "\<not> is_read_only x" by (auto simp: is_read_only_def x)
  then show ?thesis using a c x ef(1) by auto
qed

text \<open>The four kinds of configured execution.\<close>

lemma configured_from_cases:
  assumes "configured_from C scope initial active session repository = Inr x"
  obtains (human) "scope = ''human''" "x = legacy_human"
    | (observe) "scope \<in> {''observe'', ''diagnosis-only''}" "x = exec_read_only scope"
    | (review) "scope = ''user''" "from_review_grant C scope initial session repository = Inr x"
    | (active) json where "scope = ''user''" "active = Some json"
        "from_active_execution C json session repository = Inr x"
    | (initial) "scope = ''user''" "active = None" "x = exec_read_only ''user''"
  using assms by (auto simp: configured_from_def Let_def split: if_splits option.splits)

text \<open>The document that grants the writes of a session, as the list of its paths.\<close>

definition write_grant :: "exec_codec \<Rightarrow> env \<Rightarrow> string option \<Rightarrow> string list \<Rightarrow> bool" where
  "write_grant C environ active gp \<longleftrightarrow>
     (\<exists>g. decode_grant C (var_or_default environ ''MULTIAGENT_MUTATION_GRANT_JSON'') = Some g \<and>
        granted_to_session_id g = var_or_default environ ''MULTIAGENT_SESSION'' \<and>
        g_repository g = (case bound_repository environ of None \<Rightarrow> [] | Some v \<Rightarrow> v) \<and>
        ''source-write'' \<in> set (g_effects g) \<and> gp = g_paths g) \<or>
     (\<exists>json a. active = Some json \<and> decode_active C json = Some a \<and>
        a_session_id a = var_or_default environ ''MULTIAGENT_SESSION'' \<and>
        a_repository a = (case bound_repository environ of None \<Rightarrow> [] | Some v \<Rightarrow> v) \<and>
        ''source-write'' \<in> set (a_effects a) \<and> gp = a_paths a)"

lemma granted_path_components:
  assumes "permits_workspace_write x rt paths" and "exec_scope x \<noteq> ''human''" and "p \<in> set paths"
    and "validated_paths gp w = Some (granted_paths x)" and "CHR 0x5C \<notin> set p"
  shows "\<exists>q \<in> set gp. components p = components rt @ components (slashes q) \<and>
    list_all is_normal (components (slashes q))"
proof -
  obtain rel r where rel: "path_strip_prefix p rt = Some rel" "normalized_repo_path rel = Some r"
    "r \<in> granted_paths x"
    using assms(1,2,3) by (auto simp: permits_workspace_write_def list_all_iff bind_eq_Some_conv split: option.splits)
  obtain q where q: "q \<in> set gp" "normalized_repo_path q = Some r"
    using rel(3) validated_paths_Some(3) [OF assms(4)] by (auto simp: List.map_filter_def)
  have "CHR 0x5C \<notin> set rel" using path_strip_prefix_chars [OF rel(1)] assms(5) by auto
  then have "rel = r" using rel(2) by (simp add: normalized_repo_path_Some slashes_id)
  moreover have "r = slashes q" "list_all is_normal (components r)"
    using q(2) by (auto simp: normalized_repo_path_Some)
  ultimately show ?thesis using q(1) path_strip_prefix_components [OF rel(1)] by auto
qed

lemma granted_writes:
  assumes "exec_configured C environ active = Inr x" and "configured_scope environ \<noteq> ''human''"
    and "permits_workspace_write x rt paths" and "list_all (\<lambda>p. CHR 0x5C \<notin> set p) paths"
  shows "configured_scope environ = ''user'' \<and> (\<exists>gp. write_grant C environ active gp \<and>
    list_all (\<lambda>p. \<exists>q \<in> set gp. components p = components rt @ components (slashes q) \<and>
      list_all is_normal (components (slashes q))) paths)"
  using assms(1) unfolding exec_configured_def
proof (cases rule: configured_from_cases)
  case review
  then obtain g where g: "decode_grant C (var_or_default environ ''MULTIAGENT_MUTATION_GRANT_JSON'') = Some g"
    "g_repository g = (case bound_repository environ of None \<Rightarrow> [] | Some v \<Rightarrow> v)"
    "granted_to_session_id g = var_or_default environ ''MULTIAGENT_SESSION''"
    "exec_scope x = ''user''" "source_write x = (''source-write'' \<in> set (g_effects g))"
    "validated_paths (g_paths g) (source_write x) = Some (granted_paths x)"
    using from_review_grant_Inr by (metis (no_types, lifting))
  then have "source_write x" using assms(3) by (simp add: permits_workspace_write_def)
  then have "write_grant C environ active (g_paths g)" using g by (auto simp: write_grant_def)
  moreover have "list_all (\<lambda>p. \<exists>q \<in> set (g_paths g). components p = components rt @ components (slashes q) \<and>
      list_all is_normal (components (slashes q))) paths"
    using granted_path_components [OF assms(3) _ _ g(6)] g(4) assms(4) by (simp add: list_all_iff)
  ultimately show ?thesis using review by blast
next
  case (active json)
  then obtain a where a: "decode_active C json = Some a"
    "a_repository a = (case bound_repository environ of None \<Rightarrow> [] | Some v \<Rightarrow> v)"
    "a_session_id a = var_or_default environ ''MULTIAGENT_SESSION''"
    "exec_scope x = ''user''" "source_write x = (''source-write'' \<in> set (a_effects a))"
    "validated_paths (a_paths a) (source_write x) = Some (granted_paths x)"
    using from_active_execution_Inr by (metis (no_types, lifting))
  then have "source_write x" using assms(3) by (simp add: permits_workspace_write_def)
  then have "write_grant C environ (Some json) (a_paths a)" using a by (auto simp: write_grant_def)
  moreover have "list_all (\<lambda>p. \<exists>q \<in> set (a_paths a). components p = components rt @ components (slashes q) \<and>
      list_all is_normal (components (slashes q))) paths"
    using granted_path_components [OF assms(3) _ _ a(6)] a(4) assms(4) by (simp add: list_all_iff)
  ultimately show ?thesis using active by blast
qed (use assms(2,3) in \<open>auto simp: permits_workspace_write_def exec_read_only_def\<close>)


section \<open>The advance\<close>

lemma mutation_effects_ok:
  "paths \<noteq> [] \<or> ops \<Longrightarrow> normalized_effects (mutation_effects paths ops) = Some (set (mutation_effects paths ops))"
  by (auto simp: mutation_effects_def normalized_effects_def ALLOWED_EFFECTS_def)

lemma set_mutation_effects:
  "''source-write'' \<in> set (mutation_effects paths ops) \<longleftrightarrow> paths \<noteq> []"
  "''reviewed-ops'' \<in> set (mutation_effects paths ops) \<longleftrightarrow> ops"
  by (auto simp: mutation_effects_def)

text \<open>What a request checks, and the document it writes.\<close>

definition request_document ::
  "exec_codec \<Rightarrow> env \<Rightarrow> string list \<Rightarrow> bool \<Rightarrow> string option \<Rightarrow> active_execution \<Rightarrow> bool" where
  "request_document C environ paths ops active a \<longleftrightarrow>
     (\<exists>current. exec_configured C environ active = Inr current \<and> permits_mutation_request current \<and>
        ordinal current = 1 \<and> schema_version a = 1 \<and> a_ordinal a = 2 \<and> a_kind a = ''user-requested-mutation'' \<and>
        a_effects a = mutation_effects (map slashes paths) ops \<and> bound_repository environ = Some (a_repository a) \<and>
        environ ''MULTIAGENT_SESSION'' = Some (a_session_id a) \<and> a_paths a = sort (map slashes paths) \<and>
        list_all (\<lambda>p. normalized_repo_path p = Some (slashes p)) paths \<and> distinct (map slashes paths) \<and>
        length paths \<le> 32 \<and> (paths \<noteq> [] \<or> ops))"

lemma normalized_all:
  assumes "length (remdups (List.map_filter normalized_repo_path paths)) = length paths"
  shows "remdups (List.map_filter normalized_repo_path paths) = map slashes paths"
    "list_all (\<lambda>p. normalized_repo_path p = Some (slashes p)) paths" "distinct (map slashes paths)"
proof -
  let ?m = "List.map_filter normalized_repo_path paths"
  have len1: "length ?m = length paths"
    using assms length_remdups_leq [of ?m] map_filter_le [of normalized_repo_path paths] by simp
  have "remdups ?m = ?m" using assms len1 length_remdups_eq [of ?m] by simp
  then have "distinct ?m" using distinct_remdups [of ?m] by simp
  note len = len1 this
  have m: "map normalized_repo_path paths = map Some ?m" by (rule map_filter_total [OF len(1)])
  have p: "normalized_repo_path p = Some (slashes p)" if "p \<in> set paths" for p
  proof -
    have "normalized_repo_path p \<in> set (map normalized_repo_path paths)" using that by simp
    then have "normalized_repo_path p \<in> Some ` set ?m" unfolding m by simp
    then obtain r where "normalized_repo_path p = Some r" by blast
    then show ?thesis by (auto simp: normalized_repo_path_Some)
  qed
  then have "map normalized_repo_path paths = map Some (map slashes paths)" by simp
  then have "map Some ?m = map Some (map slashes paths)" using m by simp
  then have "?m = map slashes paths" unfolding inj_map_eq_map [OF inj_Some] .
  then show "remdups ?m = map slashes paths" "distinct (map slashes paths)"
    using len(2) \<open>remdups ?m = ?m\<close> by simp_all
  show "list_all (\<lambda>p. normalized_repo_path p = Some (slashes p)) paths" using p by (simp add: list_all_iff)
qed

lemma initial_ordinal:
  assumes "exec_configured C environ active = Inr x" and "permits_mutation_request x"
  shows "ordinal x = 1" "configured_scope environ = ''user''" "active = None"
    "trim (var_or_default environ ''MULTIAGENT_MUTATION_GRANT_JSON'') \<in> {[], ''null''}"
proof -
  have r: "exec_scope x = ''user''" "is_read_only x" "\<not> fixed_grant x"
    using assms(2) by (simp_all add: permits_mutation_request_def)
  have "ordinal x = 1 \<and> configured_scope environ = ''user'' \<and> active = None \<and>
      trim (var_or_default environ ''MULTIAGENT_MUTATION_GRANT_JSON'') \<in> {[], ''null''}"
    using assms(1) r from_review_grant_Inr [of C _ _ _ _ x] from_active_execution_Inr [of C _ _ _ x]
    by (auto simp: exec_configured_def configured_from_def Let_def legacy_human_def exec_read_only_def
        split: if_splits option.splits)
  then show "ordinal x = 1" "configured_scope environ = ''user''" "active = None"
    "trim (var_or_default environ ''MULTIAGENT_MUTATION_GRANT_JSON'') \<in> {[], ''null''}" by simp_all
qed

lemma mutation_document_ok:
  assumes "mutation_document C environ paths ops active = Inr a"
  shows "request_document C environ paths ops active a"
proof -
  let ?n = "remdups (List.map_filter normalized_repo_path paths)"
  obtain current where c: "exec_configured C environ active = Inr current" "permits_mutation_request current"
    and l: "length paths \<le> 32" "length ?n = length paths" "?n \<noteq> [] \<or> ops"
    and a: "bound_repository environ = Some (a_repository a)" "environ ''MULTIAGENT_SESSION'' = Some (a_session_id a)"
      "schema_version a = 1" "a_ordinal a = ordinal current + 1" "a_kind a = ''user-requested-mutation''"
      "a_effects a = mutation_effects ?n ops" "a_paths a = sort ?n"
    using assms by (auto simp: mutation_document_def cmd_simps Let_def split: if_splits)
  note n = normalized_all [OF l(2)]
  show ?thesis
    unfolding request_document_def
    using c initial_ordinal(1) [OF c] a l(1,3) n(2,3) unfolding n(1) by auto
qed

lemma request_mutation_cases:
  assumes "request_mutation C environ paths ops active = (r, active')"
  shows "(\<exists>e. r = Inl e) \<and> active' = active \<or>
    (\<exists>a. request_document C environ paths ops active a \<and> active' = Some (encode_active C a @ [NL]) \<and>
       r = exec_configured C environ active')"
proof (cases "mutation_document C environ paths ops active")
  case (Inl e)
  then show ?thesis using assms by (auto simp: request_mutation_def bind_c_def lift_r_def)
next
  case (Inr a)
  then have "active' = Some (encode_active C a @ [NL])" "r = exec_configured C environ active'"
    using assms by (auto simp: request_mutation_def bind_c_def lift_r_def modify_c_def split: sum.splits)
  then show ?thesis using mutation_document_ok [OF Inr] by blast
qed

text \<open>The written document configures exactly the requested execution.\<close>

lemma request_document_configures:
  assumes "codec_ok C" and "request_document C environ paths ops active a"
  shows "exec_configured C environ (Some (encode_active C a @ [NL])) =
    Inr \<lparr>exec_scope = ''user'', ordinal = 2, granted_paths = slashes ` set paths,
         source_write = (paths \<noteq> []), reviewed_ops = ops, fixed_grant = False\<rparr>"
proof -
  obtain current where d: "exec_configured C environ active = Inr current" "permits_mutation_request current"
    "schema_version a = 1" "a_ordinal a = 2" "a_kind a = ''user-requested-mutation''"
    "a_effects a = mutation_effects (map slashes paths) ops" "bound_repository environ = Some (a_repository a)"
    "environ ''MULTIAGENT_SESSION'' = Some (a_session_id a)" "a_paths a = sort (map slashes paths)"
    "list_all (\<lambda>p. normalized_repo_path p = Some (slashes p)) paths" "distinct (map slashes paths)"
    "length paths \<le> 32" "paths \<noteq> [] \<or> ops"
    using assms(2) by (auto simp: request_document_def)
  have i: "configured_scope environ = ''user''"
    "trim (var_or_default environ ''MULTIAGENT_MUTATION_GRANT_JSON'') \<in> {[], ''null''}"
    using initial_ordinal [OF d(1,2)] by simp_all
  have dec: "decode_active C (encode_active C a @ [NL]) = Some a" using assms(1) by (simp add: codec_ok_def)
  have "list_all (\<lambda>r. normalized_repo_path r = Some r) (sort (map slashes paths))"
    using d(10) normalized_repo_path_idem by (auto simp: list_all_iff)
  then have "validated_paths (sort (map slashes paths)) (sort (map slashes paths) \<noteq> []) = Some (set (sort (map slashes paths)))"
    using d(11,12) by (intro validated_paths_normal) simp_all
  moreover have "(sort (map slashes paths) \<noteq> []) = (paths \<noteq> [])"
    by (metis length_0_conv length_map length_sort)
  ultimately have v: "validated_paths (a_paths a) (paths \<noteq> []) = Some (slashes ` set paths)"
    using d(9) by simp
  have e: "normalized_effects (a_effects a) = Some (set (a_effects a))"
    using mutation_effects_ok [of "map slashes paths" ops] d(6,13) by auto
  have s: "''source-write'' \<in> set (a_effects a) \<longleftrightarrow> paths \<noteq> []" "''reviewed-ops'' \<in> set (a_effects a) \<longleftrightarrow> ops"
    using set_mutation_effects [of "map slashes paths" ops] d(6) by auto
  have "from_active_execution C (encode_active C a @ [NL]) (a_session_id a) (a_repository a) =
      Inr \<lparr>exec_scope = ''user'', ordinal = 2, granted_paths = slashes ` set paths,
         source_write = (paths \<noteq> []), reviewed_ops = ops, fixed_grant = False\<rparr>"
    using dec e v s d(3,4,5) by (simp add: from_active_execution_def)
  moreover have "var_or_default environ ''MULTIAGENT_SESSION'' = a_session_id a"
    using d(8) by (simp add: var_or_default_def)
  ultimately show ?thesis
    using i d(7) by (auto simp: exec_configured_def configured_from_def Let_def)
qed


text \<open>
  C31. A mutation request gets exactly what it asks for: when it succeeds the session's execution is the
  second one, in the user scope, with source-write for exactly the requested paths (if any) and
  reviewed-ops exactly if requested, it is what every later process configures from the written state, and
  no further request can succeed: each one fails and leaves the state as it is.
\<close>

theorem mutation_request_exact:
  assumes "codec_ok C" and "request_mutation C environ paths ops active = (Inr x, active')"
  shows "x = \<lparr>exec_scope = ''user'', ordinal = 2, granted_paths = slashes ` set paths,
           source_write = (paths \<noteq> []), reviewed_ops = ops, fixed_grant = False\<rparr> \<and>
    exec_configured C environ active' = Inr x \<and>
    (\<forall>paths' ops'. \<exists>e. request_mutation C environ paths' ops' active' = (Inl e, active'))"
proof -
  obtain a where a: "request_document C environ paths ops active a" "active' = Some (encode_active C a @ [NL])"
    and x: "exec_configured C environ active' = Inr x"
    using request_mutation_cases [OF assms(2)] by auto
  have "\<exists>e. request_mutation C environ paths' ops' active' = (Inl e, active')" for paths' ops'
  proof -
    obtain r s where r: "request_mutation C environ paths' ops' active' = (r, s)" by fastforce
    have "\<not> request_document C environ paths' ops' active' b" for b
      using initial_ordinal(3) [of C environ active'] a(2) by (auto simp: request_document_def)
    then show ?thesis using request_mutation_cases [OF r] r by blast
  qed
  then show ?thesis using request_document_configures [OF assms(1) a(1)] x a(2) by simp
qed

theorem mutation_request_exact_witness:
  "\<exists>active'. exec_configured sample_codec sample_environ active' = Inr
     \<lparr>exec_scope = ''user'', ordinal = 2, granted_paths = {''src/a''}, source_write = True,
      reviewed_ops = True, fixed_grant = False\<rparr> \<and>
    (\<forall>paths' ops'. \<exists>e. request_mutation sample_codec sample_environ paths' ops' active' = (Inl e, active'))"
  using sample_request mutation_request_exact [OF sample_codec_ok] by blast

text \<open>
  A refused request changes nothing: whenever a mutation request fails, for whatever reason, the active
  execution is as before, so a failure never leaves a partly granted session.
\<close>

lemma refused_request_keeps_execution:
  assumes "codec_ok C" and "request_mutation C environ paths ops active = (Inl e, active')"
  shows "active' = active"
  using request_mutation_cases [OF assms(2)] request_document_configures [OF assms(1)] by auto

lemma refused_request_keeps_execution_witness:
  "\<exists>e. request_mutation sample_codec sample_environ [''/etc''] False None = (Inl e, None)"
proof -
  obtain e active' where r: "request_mutation sample_codec sample_environ [''/etc''] False None = (Inl e, active')"
  proof -
    have "fst (request_mutation sample_codec sample_environ [''/etc''] False None)
        = Inl ''mutation request requires unique exact repository paths and/or reviewed-ops''" by code_simp
    then show ?thesis using that by (metis prod.collapse)
  qed
  then show ?thesis using refused_request_keeps_execution [OF sample_codec_ok r] by simp
qed

end
