(* ===== verification/File_Store.thy ===== *)
theory File_Store
  imports State_Config Rust_Path "HOL-Library.AList"
begin

text \<open>
  The state directory as the commands of the control plane see it, and more of the text functions of the
  standard library.

  A file is found under its absolute path, the list of its segments; the association list holds the
  contents of every file. A directory is there as far as it has files: the code never relies on an empty
  one. \<open>display\<close> prints a path and \<open>key_of\<close> reads one back. Contents are UTF-8 text and symbolic links
  are not followed, except by the parameter that stands for \<open>fs::canonicalize\<close>.
\<close>

section \<open>Files\<close>

type_synonym files = "(path \<times> string) list"

definition lookup :: "files \<Rightarrow> path \<Rightarrow> string option" where
  "lookup s p = map_of s p"

definition write_file :: "path \<Rightarrow> string \<Rightarrow> files \<Rightarrow> files" where
  "write_file p t s = AList.update p t s"

definition read_or_empty :: "files \<Rightarrow> path \<Rightarrow> string" where
  "read_or_empty s p = (case lookup s p of None \<Rightarrow> [] | Some t \<Rightarrow> t)"

definition append_to :: "path \<Rightarrow> string \<Rightarrow> files \<Rightarrow> files" where
  "append_to p t s = write_file p (read_or_empty s p @ t) s"

definition is_file :: "files \<Rightarrow> path \<Rightarrow> bool" where
  "is_file s p \<longleftrightarrow> lookup s p \<noteq> None"

text \<open>The names of the directories directly under a directory, in the order of the file list.\<close>

definition subdirs :: "files \<Rightarrow> path \<Rightarrow> string list" where
  "subdirs s dir =
     remdups (List.map_filter (\<lambda>(p, _).
       if take (length dir) p = dir \<and> Suc (length dir) < length p then Some (p ! length dir) else None) s)"

text \<open>Every name directly under a directory.\<close>

definition dir_entries :: "files \<Rightarrow> path \<Rightarrow> string list" where
  "dir_entries s dir =
     remdups (List.map_filter (\<lambda>(p, _).
       if take (length dir) p = dir \<and> length dir < length p then Some (p ! length dir) else None) s)"

definition display :: "path \<Rightarrow> string" where
  "display p = CHR ''/'' # join_segs p"

definition key_of :: "string \<Rightarrow> path" where
  "key_of t = filter (\<lambda>s. \<not> skip_seg s) (segments t)"

definition key_ok :: "path \<Rightarrow> bool" where
  "key_ok p \<longleftrightarrow> p \<noteq> [] \<and> list_all (\<lambda>s. \<not> skip_seg s \<and> CHR ''/'' \<notin> set s) p"

lemma lookup_write [simp]: "lookup (write_file p t s) q = (if q = p then Some t else lookup s q)"
  by (simp add: lookup_def write_file_def update_conv')

lemma lookup_append [simp]:
  "lookup (append_to p t s) q = (if q = p then Some (read_or_empty s p @ t) else lookup s q)"
  by (simp add: append_to_def)

lemma key_of_display: "key_ok p \<Longrightarrow> key_of (display p) = p"
proof -
  assume p: "key_ok p"
  then have "segments (join_segs p) = p" by (intro segments_join) (auto simp: key_ok_def list_all_iff)
  moreover have "filter (\<lambda>s. \<not> skip_seg s) p = p" using p by (simp add: key_ok_def list_all_iff)
  ultimately show ?thesis by (simp add: key_of_def display_def segments_cons skip_seg_def)
qed

section \<open>Text\<close>

text \<open>\<open>split_once\<close> with a text pattern.\<close>

fun split_once_str :: "string \<Rightarrow> string \<Rightarrow> (string \<times> string) option" where
  "split_once_str pat [] = (if pat = [] then Some ([], []) else None)"
| "split_once_str pat (c # cs) =
     (case strip_prefix pat (c # cs) of
        Some r \<Rightarrow> Some ([], r)
      | None \<Rightarrow> map_option (\<lambda>(l, r). (c # l, r)) (split_once_str pat cs))"

text \<open>\<open>split_whitespace\<close>: the non-empty parts between white space.\<close>

function split_ws_from :: "string \<Rightarrow> string \<Rightarrow> string list" where
  "split_ws_from cur s =
     (if s = [] then (if cur = [] then [] else [rev cur])
      else if leading_in white_space s = 0 then split_ws_from (hd s # cur) (tl s)
      else (if cur = [] then [] else [rev cur]) @ split_ws_from [] (drop (leading_in white_space s) s))"
  by pat_completeness auto
termination split_ws_from
proof (relation "measure (\<lambda>(cur, s). length s)", goal_cases)
  case (3 cur s)
  then show ?case by (cases s) simp_all
qed simp_all

declare split_ws_from.simps [simp del]

definition split_whitespace :: "string \<Rightarrow> string list" where
  "split_whitespace s = split_ws_from [] s"

text \<open>\<open>trim_end_matches\<close> with white space and some more characters.\<close>

definition trim_end_with :: "string \<Rightarrow> string \<Rightarrow> string" where
  "trim_end_with extra s = rev (drop_leading (map rev (white_space @ map (\<lambda>c. [c]) extra)) (rev s))"

text \<open>The number of non-overlapping occurrences of a text.\<close>

function count_str :: "string \<Rightarrow> string \<Rightarrow> nat" where
  "count_str pat s =
     (if pat = [] \<or> s = [] then 0
      else case strip_prefix pat s of
        Some r \<Rightarrow> Suc (count_str pat r)
      | None \<Rightarrow> count_str pat (tl s))"
  by pat_completeness auto
termination count_str
proof (relation "measure (\<lambda>(pat, s). length s)", goal_cases)
  case (2 pat s)
  then show ?case by (cases s) simp_all
next
  case (3 pat s r)
  then show ?case by (cases pat) (auto simp: strip_prefix_Some)
qed simp

declare count_str.simps [simp del]

end
