(* ===== verification/Workflow.thy ===== *)
theory Workflow
  imports Execution File_Store
begin

text \<open>
  The lifecycle of a workflow (\<open>runtime/src/workflow.rs\<close>), first part: tables, state file, artifacts,
  reviewer evidence and the two gates. The commands are in \<open>Workflow_Commands\<close>, the completions that only
  the supervisor performs in \<open>Workflow_Complete\<close>.

  The state is the files under the state directory. Environment, user id, clock, SHA-256, JSON,
  \<open>fs::canonicalize\<close> and the diff of the repository are fields of the context \<open>wf_ctx\<close>, as is the completion
  gate of \<open>subagent.rs\<close>. \<open>wf_now C i\<close> is the time stamp read at the \<open>i\<close>-th place of a command that reads one. Messages of the operating system are cut at
  their prefix.
\<close>

section \<open>Constants\<close>

definition PHASES :: "string list" where
  "PHASES = [''pre-implementation'', ''implementation'', ''post-implementation'', ''complete'']"

definition ACTIVE :: "string list" where
  "ACTIVE = [''open'', ''assigned'', ''in-progress'']"

definition TODO_KINDS :: "string list" where
  "TODO_KINDS = [''direct'', ''evidence'', ''decision'']"

definition REVIEW_TYPES :: "string list" where
  "REVIEW_TYPES = [''plan-alignment'', ''read-only-integrity'', ''scope'', ''technical'', ''reflection'']"

definition POST_REVIEWS :: "string list" where
  "POST_REVIEWS = [''scope'', ''technical'', ''reflection'']"

definition ENV_ORDER :: "string list" where
  "ENV_ORDER = [''workflow_id'', ''phase'', ''iteration'', ''original_task'', ''original_task_sha256'',
     ''contract_scout'', ''contract_artifact'', ''contract_artifact_sha256'', ''preimplementation_gate'',
     ''implementation_context'', ''implementation_context_sha256'', ''alignment_review_id'',
     ''iteration_plan_sha256'', ''iteration_worker_count'', ''candidate_diff_hash'', ''reviewed_diff_hash'',
     ''terminal_outcome'', ''human_review_status'', ''human_review_request'', ''human_review_request_sha256'',
     ''human_review_reviewer'', ''human_review_reason'', ''resume_count'', ''created_at'', ''updated_at'']"

definition TODO_HEADER :: string where
  "TODO_HEADER = join_with [TAB] [''todo_id'', ''kind'', ''summary'', ''origin'', ''status'', ''assignment_id'',
     ''resolution'', ''reason_code'', ''reason'', ''evidence'', ''authority'', ''destination'',
     ''resume_condition'', ''iteration'', ''updated_at'']"

definition REVIEW_HEADER :: string where
  "REVIEW_HEADER = join_with [TAB] [''review_id'', ''type'', ''verdict'', ''diff_hash'', ''evidence'',
     ''iteration'', ''recorded_at'', ''reviewer'']"

definition REVIEW_OBLIGATION_HEADER :: string where
  "REVIEW_OBLIGATION_HEADER = join_with [TAB] [''obligation_id'', ''type'', ''trigger'', ''artifact_digest'',
     ''reason'', ''iteration'', ''status'', ''review_id'', ''updated_at'']"

section \<open>Context and paths\<close>

record wf_ctx =
  wf_state_dir :: path
  wf_environ :: env
  wf_uid :: nat
  wf_cwd :: string
  wf_codec :: exec_codec
  wf_sha :: "string \<Rightarrow> string"
  wf_canon :: "string \<Rightarrow> string option"
  wf_diff :: "error + string"
  wf_json :: "string \<Rightarrow> json option"
  wf_print :: "json \<Rightarrow> string"
  wf_gate :: "bool \<Rightarrow> (files, error, unit) cmd"
  wf_now :: "nat \<Rightarrow> string"

type_synonym 'a wf_cmd = "(files, error, 'a) cmd"
type_synonym row = "string list"

definition wf_valid_id :: "string \<Rightarrow> string \<Rightarrow> error + unit" where
  "wf_valid_id label v =
     (if v = [] \<or> \<not> list_all id_char v then Inl (''invalid '' @ label @ '': '' @ v) else Inr ())"

definition wf_base :: "wf_ctx \<Rightarrow> string \<Rightarrow> path" where
  "wf_base C i = wf_state_dir C @ [''workflows'', i, ''lifecycle'']"

definition env_path :: "wf_ctx \<Rightarrow> string \<Rightarrow> path" where
  "env_path C i = wf_base C i @ [''lifecycle.env'']"

definition todos_path :: "wf_ctx \<Rightarrow> string \<Rightarrow> path" where
  "todos_path C i = wf_base C i @ [''todos.tsv'']"

definition reviews_path :: "wf_ctx \<Rightarrow> string \<Rightarrow> path" where
  "reviews_path C i = wf_base C i @ [''reviews.tsv'']"

definition obligations_path :: "wf_ctx \<Rightarrow> string \<Rightarrow> path" where
  "obligations_path C i = wf_base C i @ [''review-obligations.tsv'']"

definition events_path :: "wf_ctx \<Rightarrow> string \<Rightarrow> path" where
  "events_path C i = wf_base C i @ [''events.log'']"

definition lock_path :: "wf_ctx \<Rightarrow> string \<Rightarrow> path" where
  "lock_path C i = wf_base C i @ [''.lock'']"

text \<open>\<open>Store::paths\<close> checks the identifier; \<open>Store::lock\<close> creates the lock file.\<close>

definition wf_lock :: "wf_ctx \<Rightarrow> string \<Rightarrow> unit wf_cmd" where
  "wf_lock C i =
     modify_c (\<lambda>s. if is_file s (lock_path C i) then s else write_file (lock_path C i) [] s)"

text \<open>A path given as text, relative to the current directory.\<close>

definition text_file :: "wf_ctx \<Rightarrow> string \<Rightarrow> path" where
  "text_file C t = key_of (path_join (wf_cwd C) t)"

section \<open>State file and tables\<close>

definition state_value :: "env \<Rightarrow> string \<Rightarrow> string" where
  "state_value st k = (case st k of None \<Rightarrow> [] | Some v \<Rightarrow> v)"

definition insert_all :: "(string \<times> string) list \<Rightarrow> env \<Rightarrow> env" where
  "insert_all kvs st = foldl (\<lambda>st (k, v). st(k \<mapsto> v)) st kvs"

definition env_at :: "files \<Rightarrow> path \<Rightarrow> env" where
  "env_at s p = (case lookup s p of None \<Rightarrow> Map.empty | Some t \<Rightarrow> parse_env t)"

definition wf_read_env :: "wf_ctx \<Rightarrow> string \<Rightarrow> files \<Rightarrow> error + env" where
  "wf_read_env C i s =
     (if is_file s (env_path C i) then Inr (env_at s (env_path C i))
      else Inl (''workflow lifecycle does not exist: '' @ i))"

definition lifecycle_text :: "env \<Rightarrow> string" where
  "lifecycle_text st = env_text (map (\<lambda>k. (k, state_value st k)) ENV_ORDER)"

definition wf_write_env :: "wf_ctx \<Rightarrow> string \<Rightarrow> env \<Rightarrow> unit wf_cmd" where
  "wf_write_env C i st = modify_c (write_file (env_path C i) (lifecycle_text st))"

definition init_table :: "path \<Rightarrow> string \<Rightarrow> unit wf_cmd" where
  "init_table p header = modify_c (\<lambda>s. if is_file s p then s else write_file p (header @ [NL]) s)"

definition read_rows :: "nat \<Rightarrow> files \<Rightarrow> path \<Rightarrow> row list" where
  "read_rows n s p =
     (case lookup s p of
        None \<Rightarrow> []
      | Some t \<Rightarrow> map (parse_fields n) (filter (\<lambda>l. l \<noteq> []) (table_lines t)))"

definition read_todos :: "wf_ctx \<Rightarrow> string \<Rightarrow> files \<Rightarrow> row list" where
  "read_todos C i s = read_rows 15 s (todos_path C i)"

definition read_reviews :: "wf_ctx \<Rightarrow> string \<Rightarrow> files \<Rightarrow> row list" where
  "read_reviews C i s = read_rows 8 s (reviews_path C i)"

definition read_review_obligations :: "wf_ctx \<Rightarrow> string \<Rightarrow> files \<Rightarrow> row list" where
  "read_review_obligations C i s = read_rows 9 s (obligations_path C i)"

definition write_rows :: "path \<Rightarrow> string \<Rightarrow> row list \<Rightarrow> unit wf_cmd" where
  "write_rows p header rows = modify_c (write_file p (table_text header (map encode_fields rows)))"

definition wf_event :: "wf_ctx \<Rightarrow> string \<Rightarrow> string \<Rightarrow> string \<Rightarrow> string \<Rightarrow> unit wf_cmd" where
  "wf_event C i stamp name detail =
     modify_c (append_to (events_path C i) (stamp @ [TAB] @ name @ [TAB] @ detail @ [NL]))"

definition active :: "string \<Rightarrow> bool" where
  "active st \<longleftrightarrow> st \<in> set ACTIVE"

definition active_ids :: "row list \<Rightarrow> string list" where
  "active_ids rows = map (\<lambda>r. r ! 0) (filter (\<lambda>r. active (r ! 4)) rows)"

definition blocking_ids :: "row list \<Rightarrow> string list" where
  "blocking_ids rows =
     map (\<lambda>r. r ! 0) (filter (\<lambda>r. active (r ! 4) \<and> r ! 1 \<in> {''evidence'', ''decision''}) rows)"

section \<open>Arguments\<close>

fun wf_options_from :: "options \<Rightarrow> string list \<Rightarrow> error + options" where
  "wf_options_from out [] = Inr out"
| "wf_options_from out [key] =
     (if \<not> starts_with ''--'' key then Inl (''unexpected argument: '' @ key)
      else Inl (key @ '' requires a value''))"
| "wf_options_from out (key # v # rest) =
     (if \<not> starts_with ''--'' key then Inl (''unexpected argument: '' @ key)
      else wf_options_from (out(key \<mapsto> v)) rest)"

definition wf_options :: "string list \<Rightarrow> error + options" where
  "wf_options args = wf_options_from Map.empty args"

function trim_dashes :: "string \<Rightarrow> string" where
  "trim_dashes s = (case strip_prefix ''--'' s of None \<Rightarrow> s | Some r \<Rightarrow> trim_dashes r)"
  by pat_completeness auto
termination trim_dashes
  by (relation "measure length") (auto simp: strip_prefix_Some)

declare trim_dashes.simps [simp del]

definition wf_required :: "options \<Rightarrow> string \<Rightarrow> error + string" where
  "wf_required opts key =
     (case opts key of
        Some v \<Rightarrow> if v \<noteq> [] then Inr v else Inl (trim_dashes key @ '' requires '' @ key)
      | None \<Rightarrow> Inl (trim_dashes key @ '' requires '' @ key))"

definition wf_opt :: "options \<Rightarrow> string \<Rightarrow> string" where
  "wf_opt opts key = opt_value opts key"

definition wf_one_id :: "string \<Rightarrow> string list \<Rightarrow> error + string" where
  "wf_one_id command args =
     (case args of [i] \<Rightarrow> Inr i | _ \<Rightarrow> Inl (command @ '' requires WORKFLOW_ID''))"

section \<open>Artifacts\<close>

definition validate_artifact_binding :: "wf_ctx \<Rightarrow> files \<Rightarrow> string \<Rightarrow> string \<Rightarrow> string \<Rightarrow> error + unit" where
  "validate_artifact_binding C s label p expected =
     (if p = [] \<and> expected = [] then Inr ()
      else if p = [] \<or> expected = [] then Inl (label @ '' artifact binding is incomplete'')
      else case lookup s (text_file C p) of
        None \<Rightarrow> Inl (label @ '' artifact is missing: '' @ p)
      | Some t \<Rightarrow>
          if wf_sha C t \<noteq> expected then Inl (label @ '' artifact changed after registration'') else Inr ())"

definition validate_original_task :: "wf_ctx \<Rightarrow> files \<Rightarrow> env \<Rightarrow> error + unit" where
  "validate_original_task C s st =
     validate_artifact_binding C s ''original task'' (state_value st ''original_task'')
       (state_value st ''original_task_sha256'')"

definition validate_contract :: "wf_ctx \<Rightarrow> files \<Rightarrow> env \<Rightarrow> error + unit" where
  "validate_contract C s st =
     validate_artifact_binding C s ''contract'' (state_value st ''contract_artifact'')
       (state_value st ''contract_artifact_sha256'')"

definition validate_context :: "wf_ctx \<Rightarrow> files \<Rightarrow> env \<Rightarrow> error + unit" where
  "validate_context C s st =
     and_then (validate_original_task C s st) (\<lambda>_.
     and_then (validate_contract C s st) (\<lambda>_.
     let p = state_value st ''implementation_context''
     in if p = [] then Inl ''implementation gate requires approved implementation context''
        else case lookup s (text_file C p) of
          None \<Rightarrow> Inl (''approved implementation context is missing: '' @ p)
        | Some t \<Rightarrow>
            if wf_sha C t \<noteq> state_value st ''implementation_context_sha256''
            then Inl ''approved implementation context changed after pre-implementation approval''
            else Inr ()))"

definition read_optional_artifact :: "wf_ctx \<Rightarrow> files \<Rightarrow> string \<Rightarrow> error + string" where
  "read_optional_artifact C s p =
     (if p = [] then Inr [] else ok_or (lookup s (text_file C p)) ''read semantic artifact'')"

section \<open>Contract artifacts\<close>

definition contract_rule_field :: "string \<Rightarrow> string \<Rightarrow> string" where
  "contract_rule_field rule key =
     (case List.map_filter (strip_prefix (key @ ''='')) (split_whitespace rule) of
        [] \<Rightarrow> [] | v # _ \<Rightarrow> v)"

definition contract_rule_statement :: "string \<Rightarrow> string" where
  "contract_rule_statement rule =
     (case split_once_str '' statement='' rule of
        None \<Rightarrow> []
      | Some (_, v) \<Rightarrow>
          (case split_once_str '' evidence='' v of None \<Rightarrow> [] | Some (st, _) \<Rightarrow> st))"

definition requires_embedding_rule :: "string \<Rightarrow> bool" where
  "requires_embedding_rule original_task \<longleftrightarrow>
     (let original = to_ascii_lowercase original_task
      in contains_str ''embedded unnecessarily'' original \<or> contains_str ''must not embed'' original \<or>
         contains_str ''should not embed'' original \<or> contains_str ''without embedding'' original)"

definition rule_well_formed :: "string \<Rightarrow> bool" where
  "rule_well_formed rule \<longleftrightarrow>
     contains_str '' id='' rule \<and>
     (contains_str '' polarity=must '' rule \<or> contains_str '' polarity=must-not '' rule) \<and>
     contains_str '' statement='' rule \<and> contains_str '' evidence='' rule"

definition contract_rules :: "string \<Rightarrow> string list" where
  "contract_rules t = filter (\<lambda>l. starts_with ''contract-rule:'' (trim_start l)) (lines t)"

definition positive_rule :: "string list \<Rightarrow> (string \<times> string \<times> string) option" where
  "positive_rule rules =
     map_option (\<lambda>r. (contract_rule_field r ''owner'', contract_rule_field r ''member'',
         contract_rule_field r ''member-type''))
       (find (\<lambda>r. contains_str '' polarity=must '' r \<and> contains_str '' structure=positive '' r) rules)"

definition negative_rule :: "string list \<Rightarrow> (string \<times> string) option" where
  "negative_rule rules =
     map_option (\<lambda>r. (contract_rule_field r ''owner'', contract_rule_field r ''embedded-type''))
       (find (\<lambda>r. contains_str '' polarity=must-not '' r \<and> contains_str '' structure=negative '' r \<and>
         contains_str ''embed'' (to_ascii_lowercase (contract_rule_statement r))) rules)"

definition validate_contract_schema :: "string \<Rightarrow> string \<Rightarrow> error + unit" where
  "validate_contract_schema t original_task =
     (let embedding = requires_embedding_rule original_task; rules = contract_rules t
      in if ''contract-artifact: version=1'' \<notin> set (lines t)
         then Inl ''contract scout artifact is missing `contract-artifact: version=1`''
         else if rules = []
         then (if embedding
               then Inl ''contract scout artifact must contain structured `contract-rule:` lines, including a positive structural rule and a separate `polarity=must-not` rule covering the requested embedding prohibition''
               else Inl ''contract scout artifact must contain at least one `contract-rule:`'')
         else case find (\<lambda>r. \<not> rule_well_formed r) rules of
           Some r \<Rightarrow> Inl (''invalid structured contract rule: '' @ trim r)
         | None \<Rightarrow>
             if \<not> embedding then Inr ()
             else case positive_rule rules of
               None \<Rightarrow> Inl ''contract scout artifact requires a machine-readable positive structural rule with `structure=positive owner=OWNER member=FIELD member-type=TYPE`''
             | Some (owner, field, member_type) \<Rightarrow>
                 (case negative_rule rules of
                    None \<Rightarrow> Inl ''contract scout artifact requires a machine-readable negative structural rule with `structure=negative owner=OWNER embedded-type=TYPE` covering the embedding prohibition''
                  | Some (negative_owner, embedded_type) \<Rightarrow>
                      if owner = [] \<or> field = [] \<or> member_type = [] \<or> negative_owner = [] \<or>
                         embedded_type = [] \<or> owner \<noteq> negative_owner \<or> member_type \<noteq> embedded_type
                      then Inl ''contract scout embedding rules must name one matching owner/type pair and a concrete replacement member''
                      else Inr ()))"

section \<open>Reviewer evidence\<close>

definition reviewer_evidence_required :: "wf_ctx \<Rightarrow> bool" where
  "reviewer_evidence_required C \<longleftrightarrow> lifecycle_enforced (wf_uid C) (wf_environ C)"

definition secure_reviewer_evidence :: "wf_ctx \<Rightarrow> bool" where
  "secure_reviewer_evidence C \<longleftrightarrow>
     wf_environ C ''MULTIAGENT_UID_SANDBOX'' = Some ''1'' \<and>
     wf_environ C ''MULTIAGENT_AUTHORITY_SERVER_CHILD'' = Some ''1''"

definition unwrap_once :: "string \<Rightarrow> string \<Rightarrow> string" where
  "unwrap_once w v =
     (if starts_with w v \<and> ends_with w v \<and> 2 * length w \<le> length v
      then take (length v - 2 * length w) (drop (length w) v) else v)"

definition list_marker :: "string \<Rightarrow> bool" where
  "list_marker p \<longleftrightarrow>
     (case (case strip_suffix ''.'' p of Some n \<Rightarrow> Some n | None \<Rightarrow> strip_suffix '')'' p) of
        None \<Rightarrow> False | Some n \<Rightarrow> n \<noteq> [] \<and> list_all is_ascii_digit n) \<or> p \<in> {''-'', ''*''}"

definition review_marker_matches :: "string \<Rightarrow> string \<Rightarrow> bool" where
  "review_marker_matches line marker \<longleftrightarrow>
     (let v = trim line;
          v = (case split_once CHR '' '' v of
                 None \<Rightarrow> v | Some (p, rest) \<Rightarrow> if list_marker p then trim_start rest else v)
      in unwrap_once ''__'' (unwrap_once ''**'' (unwrap_once ''`'' v)) = marker)"

definition has_marker :: "string \<Rightarrow> string \<Rightarrow> bool" where
  "has_marker message marker \<longleftrightarrow> list_ex (\<lambda>l. review_marker_matches l marker) (lines message)"

definition review_marker :: "string \<Rightarrow> string \<Rightarrow> string \<Rightarrow> string" where
  "review_marker kind verdict diff =
     ''review-record: type='' @ kind @ '' verdict='' @ verdict @ '' diff='' @ diff"

definition evidence_dir :: "wf_ctx \<Rightarrow> string \<Rightarrow> path" where
  "evidence_dir C reviewer = wf_state_dir C @
     [if secure_reviewer_evidence C then ''reviewer-evidence'' else ''subagents'', reviewer]"

definition evidence_env :: "wf_ctx \<Rightarrow> files \<Rightarrow> path \<Rightarrow> env" where
  "evidence_env C s dir = env_at s (dir @ [if secure_reviewer_evidence C then ''evidence.env'' else ''meta.env''])"

definition access_key :: "wf_ctx \<Rightarrow> string" where
  "access_key C = (if secure_reviewer_evidence C then ''access'' else ''codex_access'')"

definition finalized :: "files \<Rightarrow> path \<Rightarrow> bool" where
  "finalized s dir \<longleftrightarrow>
     trim (read_or_empty s (dir @ [''status''])) = ''finalized'' \<and> is_file s (dir @ [''finalized_at''])"

definition validate_reviewer_evidence ::
  "wf_ctx \<Rightarrow> files \<Rightarrow> string \<Rightarrow> string \<Rightarrow> string \<Rightarrow> string \<Rightarrow> string \<Rightarrow> error + unit" where
  "validate_reviewer_evidence C s i reviewer kind verdict diff =
     and_then (wf_valid_id ''reviewer name'' reviewer) (\<lambda>_.
     let secure = secure_reviewer_evidence C; dir = evidence_dir C reviewer; metadata = evidence_env C s dir
     in and_then (guard_ok (state_value metadata ''role'' = ''reviewer'' \<and>
            state_value metadata (access_key C) = ''read-only'')
          (''reviewer evidence must come from a read-only reviewer role: '' @ reviewer)) (\<lambda>_.
        and_then (if secure
          then guard_ok (state_value metadata ''state'' = ''completed'' \<and> state_value metadata ''workflow_id'' = i)
            (''reviewer evidence is not sealed for workflow '' @ i @ '': '' @ reviewer)
          else and_then (ok_or (lookup s (dir @ [''status''])) (''reviewer status is missing: '' @ reviewer)) (\<lambda>_.
            guard_ok (finalized s dir) (''reviewer is not finalized: '' @ reviewer))) (\<lambda>_.
        and_then (ok_or (lookup s (dir @ [''last-message.txt'']))
          (''reviewer final message is missing: '' @ reviewer)) (\<lambda>message.
        let missing = (\<lambda>m. ''reviewer '' @ reviewer @ '' final message is missing marker: '' @ m);
            marker = review_marker kind verdict diff
        in and_then (guard_ok (has_marker message marker) (missing marker)) (\<lambda>_.
           and_then (if kind = ''plan-alignment''
             then let plan_hash = state_value metadata ''iteration_plan_sha256'';
                      task_hash = state_value metadata ''original_task_sha256'';
                      binding = ''plan-alignment-review: plan-sha256='' @ plan_hash @ '' original-task-sha256='' @ task_hash
                        @ '' alignment='' @ (if verdict = ''pass'' then ''aligned'' else ''misaligned'')
                  in if plan_hash = [] \<or> task_hash = []
                     then Inl (''plan-alignment reviewer evidence has no sealed input digests: '' @ reviewer)
                     else guard_ok (has_marker message binding) (missing binding)
             else Inr ()) (\<lambda>_.
           if kind \<in> {''plan-alignment'', ''technical''}
           then and_then (wf_read_env C i s) (\<lambda>st.
             and_then (validate_original_task C s st) (\<lambda>_.
             and_then (validate_contract C s st) (\<lambda>_.
             let contract = state_value st ''contract_artifact_sha256'';
                 cm = ''contract-review: artifact-sha256='' @ contract @ '' verdict=pass''
             in guard_ok (contract = [] \<or> verdict \<noteq> ''pass'' \<or> has_marker message cm) (missing cm))))
           else Inr ()))))))"

definition validate_plan_alignment_evidence ::
  "wf_ctx \<Rightarrow> files \<Rightarrow> string \<Rightarrow> string \<Rightarrow> string \<Rightarrow> error + unit" where
  "validate_plan_alignment_evidence C s i reviewer plan =
     and_then (wf_valid_id ''reviewer name'' reviewer) (\<lambda>_.
     let dir = wf_state_dir C @ [''reviewer-evidence'', reviewer]; metadata = env_at s (dir @ [''evidence.env''])
     in and_then (all_ok (\<lambda>(key, expected). guard_ok (state_value metadata key = expected)
            (''plan-alignment review binding mismatch: '' @ key @ '' expected='' @ expected @ '' actual=''
              @ state_value metadata key))
          [(''workflow_id'', i), (''iteration_plan_sha256'', plan)]) (\<lambda>_.
        let binding = state_value metadata ''alignment_binding_sha256''
        in guard_ok (binding \<noteq> [] \<and>
             (case lookup s (dir @ [''plan-alignment-binding.json'']) of
                None \<Rightarrow> False | Some t \<Rightarrow> wf_sha C t = binding))
             ''plan-alignment review binding evidence is missing or changed''))"

definition unrecorded_reviewer_findings ::
  "wf_ctx \<Rightarrow> files \<Rightarrow> string \<Rightarrow> string \<Rightarrow> row list \<Rightarrow> string list" where
  "unrecorded_reviewer_findings C s i diff reviews =
     (let secure = secure_reviewer_evidence C;
          rt = wf_state_dir C @ [if secure then ''reviewer-evidence'' else ''subagents'']
      in sort (remdups (concat (map (\<lambda>reviewer.
           let dir = rt @ [reviewer]; metadata = evidence_env C s dir;
               workflow = state_value metadata ''workflow_id'';
               message = read_or_empty s (dir @ [''last-message.txt''])
           in if state_value metadata ''role'' \<noteq> ''reviewer'' \<or> state_value metadata (access_key C) \<noteq> ''read-only'' \<or>
                 (workflow \<noteq> [] \<and> workflow \<noteq> i) \<or>
                 (if secure then state_value metadata ''state'' \<noteq> ''completed'' else \<not> finalized s dir)
              then []
              else map (\<lambda>kind. reviewer @ '':'' @ kind) (filter (\<lambda>kind.
                has_marker message (review_marker kind ''findings'' diff) \<and>
                \<not> list_ex (\<lambda>r. r ! 1 = kind \<and> r ! 2 = ''findings'' \<and> r ! 3 = diff \<and> r ! 7 = reviewer) reviews)
                POST_REVIEWS)) (subdirs s rt)))))"

definition active_reviewers :: "wf_ctx \<Rightarrow> files \<Rightarrow> string list" where
  "active_reviewers C s =
     (let secure = secure_reviewer_evidence C;
          rt = wf_state_dir C @ [if secure then ''launch-authorizations'' else ''subagents'']
      in sort (filter (\<lambda>name.
           let dir = rt @ [name]; metadata = env_at s (dir @ [if secure then ''launch.env'' else ''meta.env'']);
               st = (if secure then state_value metadata ''state'' else read_or_empty s (dir @ [''status'']))
           in state_value metadata ''role'' = ''reviewer'' \<and>
              trim st \<in> {''starting'', ''pending'', ''registered'', ''running''}) (subdirs s rt)))"

section \<open>Gates\<close>

definition implementation_gate_state ::
  "wf_ctx \<Rightarrow> string \<Rightarrow> string \<Rightarrow> bool \<Rightarrow> files \<Rightarrow> error + env" where
  "implementation_gate_state C i expected allow_pre s =
     and_then (wf_valid_id ''workflow ID'' i) (\<lambda>_.
     and_then (wf_read_env C i s) (\<lambda>st.
     let phase = state_value st ''phase''
     in and_then (guard_ok (phase = ''implementation'' \<or> allow_pre \<and> phase = ''pre-implementation'')
          (''implementation gate requires phase=implementation, got '' @ phase)) (\<lambda>_.
        and_then (guard_ok (state_value st ''preimplementation_gate'' = ''passed'')
          ''implementation gate has not passed'') (\<lambda>_.
        and_then (validate_context C s st) (\<lambda>_.
        let blockers = blocking_ids (read_todos C i s)
        in and_then (guard_ok (blockers = [])
             (''implementation blocked by active evidence/decision TODOs: '' @ join_with '','' blockers)) (\<lambda>_.
           and_then (guard_ok (expected = [] \<or> expected = state_value st ''iteration_plan_sha256'')
             ''assignment plan digest does not match the active workflow plan'') (\<lambda>_.
           Inr st)))))))"

text \<open>The latest review of every type, in the order of the types.\<close>

definition latest_reviews :: "row list \<Rightarrow> row list" where
  "latest_reviews rows =
     map (\<lambda>t. last (filter (\<lambda>r. r ! 1 = t) rows)) (sort (remdups (map (\<lambda>r. r ! 1) rows)))"

definition required_types :: "row list \<Rightarrow> string list" where
  "required_types obligations =
     (if obligations = [] then sort POST_REVIEWS else sort (remdups (map (\<lambda>r. r ! 1) obligations)))"

definition completion_state :: "wf_ctx \<Rightarrow> string \<Rightarrow> files \<Rightarrow> error + env" where
  "completion_state C i s =
     and_then (wf_valid_id ''workflow ID'' i) (\<lambda>_.
     and_then (wf_read_env C i s) (\<lambda>st.
     let phase = state_value st ''phase''; todos = active_ids (read_todos C i s);
         diff = state_value st ''candidate_diff_hash''; iteration = state_value st ''iteration'';
         reviews = read_reviews C i s;
         latest = latest_reviews (filter (\<lambda>r. r ! 5 = iteration \<and> r ! 3 = diff) reviews);
         findings = map (\<lambda>r. r ! 1) (filter (\<lambda>r. r ! 2 = ''findings'') latest);
         passed = map (\<lambda>r. r ! 1) (filter (\<lambda>r. r ! 2 = ''pass'') latest);
         current = filter (\<lambda>r. r ! 3 = diff \<and> r ! 5 = iteration) (read_review_obligations C i s);
         pending = map (\<lambda>r. r ! 0) (filter (\<lambda>r. r ! 6 \<noteq> ''satisfied'') current);
         required = required_types current;
         missing = filter (\<lambda>k. k \<notin> set passed) required
     in and_then (guard_ok (phase \<in> {''post-implementation'', ''complete''})
          (''completion requires phase=post-implementation, got '' @ phase)) (\<lambda>_.
        and_then (guard_ok (todos = []) (''completion blocked by active TODOs: '' @ join_with '','' todos)) (\<lambda>_.
        and_then (guard_ok (diff \<noteq> []) ''completion requires a candidate diff hash'') (\<lambda>_.
        and_then (guard_ok (findings = [])
          (''completion blocked by current-diff review findings: '' @ join_with '','' findings)) (\<lambda>_.
        and_then (guard_ok (pending = [])
          (''completion blocked by pending review obligations: '' @ join_with '','' pending)) (\<lambda>_.
        and_then (guard_ok (missing = [])
          (''completion requires passing current-diff reviews: '' @ join_with '','' missing)) (\<lambda>_.
        and_then (if \<not> reviewer_evidence_required C then Inr ()
          else let unrecorded = unrecorded_reviewer_findings C s i diff reviews; unfinished = active_reviewers C s
          in and_then (guard_ok (unrecorded = [])
               (''completion blocked by unrecorded reviewer findings: '' @ join_with '','' unrecorded)) (\<lambda>_.
             and_then (guard_ok (unfinished = [])
               (''completion blocked by active reviewers: '' @ join_with '','' unfinished)) (\<lambda>_.
             all_ok (\<lambda>r. and_then (guard_ok (r ! 7 \<noteq> [])
                 (''passing '' @ r ! 1 @ '' review is missing durable reviewer evidence'')) (\<lambda>_.
                 validate_reviewer_evidence C s i (r ! 7) (r ! 1) ''pass'' diff))
               (filter (\<lambda>r. r ! 2 = ''pass'' \<and> r ! 1 \<in> set required) latest)))) (\<lambda>_.
        and_then (validate_context C s st) (\<lambda>_. Inr st))))))))))"

end
