(* ===== verification/Workflow_Commands.thy ===== *)
theory Workflow_Commands
  imports Workflow
begin

text \<open>
  The commands of \<open>multiagent workflow\<close> (\<open>runtime/src/workflow.rs\<close>), each from its arguments to the text it
  prints or its error, and the files it leaves. A command that fails keeps what it wrote before.
\<close>

section \<open>Sequencing\<close>

primrec seq_c :: "('s, 'e, unit) cmd list \<Rightarrow> ('s, 'e, unit) cmd" where
  "seq_c [] = ret_c ()"
| "seq_c (c # cs) = bind_c c (\<lambda>_. seq_c cs)"

definition ensure :: "bool \<Rightarrow> 'e \<Rightarrow> ('s, 'e, unit) cmd" where
  "ensure b e = lift_r (\<lambda>_. guard_ok b e)"

definition open_store :: "wf_ctx \<Rightarrow> string \<Rightarrow> unit wf_cmd" where
  "open_store C i = seq_c [lift_r (\<lambda>_. wf_valid_id ''workflow ID'' i), wf_lock C i]"

definition init_tables :: "wf_ctx \<Rightarrow> string \<Rightarrow> unit wf_cmd" where
  "init_tables C i = seq_c [init_table (todos_path C i) TODO_HEADER, init_table (reviews_path C i) REVIEW_HEADER,
     init_table (obligations_path C i) REVIEW_OBLIGATION_HEADER]"

section \<open>Initialization\<close>

definition resume_workflow :: "wf_ctx \<Rightarrow> string \<Rightarrow> bool \<Rightarrow> string wf_cmd" where
  "resume_workflow C i resume =
     bind_c (lift_r (wf_read_env C i)) (\<lambda>st.
     let phase = state_value st ''phase'';
         count = (case Option.bind (st ''resume_count'') parse_u64 of None \<Rightarrow> 0 | Some n \<Rightarrow> n)
     in bind_c (seq_c [
          ensure resume (''workflow already exists: '' @ i @ ''; use resume mode''),
          ensure (phase \<in> set PHASES) (''persisted workflow has invalid phase: '' @ phase),
          wf_write_env C i (insert_all [(''resume_count'', show_nat (wrap_u64 (count + 1))),
            (''updated_at'', wf_now C 0)] st),
          init_tables C i,
          wf_event C i (wf_now C 1) ''workflow_resumed'' (''phase='' @ phase)]) (\<lambda>_.
        ret_c (unlines [''workflow resumed'' @ [TAB] @ i @ [TAB] @ phase])))"

text \<open>The copy of the task file the environment names, and the fields that bind it.\<close>

definition copy_original_task :: "wf_ctx \<Rightarrow> string \<Rightarrow> (string \<times> string) wf_cmd" where
  "copy_original_task C i =
     (case wf_environ C ''MULTIAGENT_ORIGINAL_TASK_FILE'' of
        None \<Rightarrow> ret_c ([], [])
      | Some source \<Rightarrow>
          if source = [] then ret_c ([], [])
          else bind_c (lift_r (\<lambda>s. ok_or (lookup s (text_file C source))
              (''original task artifact not found: '' @ source))) (\<lambda>bytes.
            let destination = wf_base C i @ [''original-task.md'']
            in bind_c (modify_c (write_file destination bytes)) (\<lambda>_.
               ret_c (display destination, wf_sha C bytes))))"

definition initial_state :: "string \<Rightarrow> string \<Rightarrow> string \<Rightarrow> string \<Rightarrow> env" where
  "initial_state i task task_sha stamp =
     map_of ([(''workflow_id'', i), (''phase'', ''pre-implementation''), (''iteration'', ''1''),
       (''original_task'', task), (''original_task_sha256'', task_sha), (''contract_scout'', []),
       (''contract_artifact'', []), (''contract_artifact_sha256'', []), (''preimplementation_gate'', ''pending''),
       (''implementation_context'', []), (''implementation_context_sha256'', []), (''alignment_review_id'', []),
       (''iteration_plan_sha256'', []), (''iteration_worker_count'', []), (''candidate_diff_hash'', []),
       (''reviewed_diff_hash'', []), (''terminal_outcome'', []), (''human_review_status'', []),
       (''human_review_request'', []), (''human_review_request_sha256'', []), (''human_review_reviewer'', []),
       (''human_review_reason'', []), (''resume_count'', ''0''), (''created_at'', stamp), (''updated_at'', stamp)])"

definition create_workflow :: "wf_ctx \<Rightarrow> string \<Rightarrow> bool \<Rightarrow> string wf_cmd" where
  "create_workflow C i resume =
     bind_c (copy_original_task C i) (\<lambda>(task, task_sha).
     bind_c (seq_c [
       wf_write_env C i (initial_state i task task_sha (wf_now C 0)),
       init_tables C i,
       wf_event C i (wf_now C 1) ''workflow_initialized'' (''resume_requested='' @ (if resume then ''1'' else ''0''))]) (\<lambda>_.
     ret_c (unlines [''workflow initialized'' @ [TAB] @ i @ [TAB] @ ''pre-implementation''])))"

definition initialize_id :: "wf_ctx \<Rightarrow> string \<Rightarrow> bool \<Rightarrow> string wf_cmd" where
  "initialize_id C i resume =
     bind_c (open_store C i) (\<lambda>_. \<lambda>s.
     if is_file s (env_path C i) then resume_workflow C i resume s else create_workflow C i resume s)"

definition wf_initialize :: "wf_ctx \<Rightarrow> string list \<Rightarrow> string wf_cmd" where
  "wf_initialize C args =
     (case args of [i] \<Rightarrow> initialize_id C i False | _ \<Rightarrow> lift_r (\<lambda>_. Inl ''init requires WORKFLOW_ID''))"

definition init_or_resume :: "wf_ctx \<Rightarrow> string list \<Rightarrow> string wf_cmd" where
  "init_or_resume C args =
     (case args of
        [] \<Rightarrow> lift_r (\<lambda>_. Inl ''init-or-resume requires WORKFLOW_ID'')
      | i # rest \<Rightarrow>
          bind_c (lift_r (\<lambda>_. and_then (wf_options rest) (\<lambda>opts. wf_required opts ''--resume''))) (\<lambda>resume.
          bind_c (ensure (resume \<in> {''0'', ''1''}) ''argument --resume: invalid choice'') (\<lambda>_.
          initialize_id C i (resume = ''1''))))"

section \<open>Contract, plan and preparation\<close>

definition contract_evidence :: "wf_ctx \<Rightarrow> string \<Rightarrow> string \<Rightarrow> files \<Rightarrow> error + (path \<times> string)" where
  "contract_evidence C i scout s =
     (let secure = secure_reviewer_evidence C;
          dir = wf_state_dir C @ [if secure then ''contract-evidence'' else ''subagents'', scout];
          metadata = evidence_env C s dir; artifact = dir @ [''last-message.txt'']
      in and_then (guard_ok (state_value metadata ''role'' = ''scout'' \<and>
             state_value metadata (access_key C) = ''read-only'')
           (''contract artifact must come from a read-only scout role: '' @ scout)) (\<lambda>_.
         and_then (if secure
           then guard_ok (state_value metadata ''state'' = ''completed'' \<and> state_value metadata ''workflow_id'' = i)
             (''contract scout evidence is not sealed for workflow '' @ i @ '': '' @ scout)
           else guard_ok (finalized s dir) (''contract scout is not finalized: '' @ scout)) (\<lambda>_.
         and_then (ok_or (lookup s artifact) (''contract scout final message is missing: '' @ scout)) (\<lambda>t.
         Inr (artifact, t)))))"

definition register_contract :: "wf_ctx \<Rightarrow> string list \<Rightarrow> string wf_cmd" where
  "register_contract C args =
     (case args of
        [] \<Rightarrow> lift_r (\<lambda>_. Inl ''contract-register requires WORKFLOW_ID'')
      | i # rest \<Rightarrow>
          bind_c (lift_r (\<lambda>_. and_then (wf_options rest) (\<lambda>opts.
            and_then (wf_required opts ''--scout'') (\<lambda>scout.
            and_then (wf_valid_id ''scout name'' scout) (\<lambda>_. Inr scout))))) (\<lambda>scout.
          bind_c (open_store C i) (\<lambda>_.
          bind_c (lift_r (\<lambda>s. and_then (wf_read_env C i s) (\<lambda>st.
            and_then (guard_ok (state_value st ''phase'' = ''pre-implementation'')
              ''contract-register requires phase=pre-implementation'') (\<lambda>_.
            and_then (contract_evidence C i scout s) (\<lambda>(artifact, t).
            and_then (read_optional_artifact C s (state_value st ''original_task'')) (\<lambda>task.
            and_then (validate_contract_schema t task) (\<lambda>_. Inr (st, artifact, wf_sha C t)))))))) (\<lambda>(st, artifact, digest).
          bind_c (seq_c [
            wf_write_env C i (insert_all [(''contract_scout'', scout), (''contract_artifact'', display artifact),
              (''contract_artifact_sha256'', digest), (''updated_at'', wf_now C 0)] st),
            wf_event C i (wf_now C 1) ''contract_registered''
              (''scout='' @ scout @ [TAB] @ ''artifact_sha256='' @ digest)]) (\<lambda>_.
          ret_c (unlines [''contract registered'' @ [TAB] @ i @ [TAB] @ scout @ [TAB] @ digest]))))))"

definition sha256_text :: "string \<Rightarrow> bool" where
  "sha256_text d \<longleftrightarrow> length d = 64 \<and> list_all is_ascii_hexdigit d"

definition seal_input :: "string list \<Rightarrow> error + (string \<times> nat)" where
  "seal_input rest =
     and_then (wf_options rest) (\<lambda>opts.
     and_then (wf_required opts ''--plan-sha256'') (\<lambda>digest.
     and_then (wf_required opts ''--worker-count'') (\<lambda>count.
     and_then (guard_ok (sha256_text digest)
       ''seal-iteration --plan-sha256 must be a 64-character SHA-256'') (\<lambda>_.
     case parse_u64 count of
       None \<Rightarrow> Inl ''seal-iteration --worker-count must be between 1 and 32''
     | Some n \<Rightarrow> if 1 \<le> n \<and> n \<le> 32 then Inr (digest, n)
         else Inl ''seal-iteration --worker-count must be between 1 and 32''))))"

definition seal_iteration :: "wf_ctx \<Rightarrow> string list \<Rightarrow> string wf_cmd" where
  "seal_iteration C args =
     (case args of
        [] \<Rightarrow> lift_r (\<lambda>_. Inl ''seal-iteration requires WORKFLOW_ID'')
      | i # rest \<Rightarrow>
          bind_c (lift_r (\<lambda>_. seal_input rest)) (\<lambda>(digest, workers).
          bind_c (open_store C i) (\<lambda>_.
          bind_c (lift_r (\<lambda>s. and_then (wf_read_env C i s) (\<lambda>st.
            and_then (guard_ok (state_value st ''phase'' = ''pre-implementation'')
              ''seal-iteration requires phase=pre-implementation'') (\<lambda>_.
            and_then (guard_ok (state_value st ''iteration_plan_sha256'' \<in> {[], digest})
              ''current iteration already has a different sealed plan'') (\<lambda>_. Inr st))))) (\<lambda>st.
          let lower = to_ascii_lowercase digest
          in bind_c (seq_c [
               wf_write_env C i (insert_all [(''iteration_plan_sha256'', lower),
                 (''iteration_worker_count'', show_nat workers), (''updated_at'', wf_now C 0)] st),
               wf_event C i (wf_now C 1) ''iteration_plan_sealed''
                 (''iteration='' @ state_value st ''iteration'' @ [TAB] @ ''plan_sha256='' @ lower @ [TAB]
                  @ ''worker_count='' @ show_nat workers)]) (\<lambda>_.
             ret_c (unlines [''iteration plan sealed'' @ [TAB] @ i @ [TAB] @ lower]))))))"

definition normalize_contract_header :: "string \<Rightarrow> string" where
  "normalize_contract_header v =
     join_with [NL] (map (\<lambda>l.
       if trim_start (dropWhile (\<lambda>c. c = CHR ''#'') (trim_start l)) = ''contract-artifact: version=1''
       then ''contract-artifact: version=1'' else l) (lines v))"

definition contract_bound :: "wf_ctx \<Rightarrow> files \<Rightarrow> env \<Rightarrow> string \<Rightarrow> error + unit" where
  "contract_bound C s st approved =
     (let p = state_value st ''contract_artifact'';
          binding = ''contract-artifact-sha256='' @ state_value st ''contract_artifact_sha256''
      in if p = [] then Inr ()
         else and_then (ok_or (lookup s (text_file C p)) ''read registered contract artifact'') (\<lambda>contract.
           and_then (guard_ok (contains_str (normalize_contract_header contract) (normalize_contract_header approved))
             ''approved implementation context must contain the registered contract artifact; a Markdown heading prefix on the canonical header is ignored'') (\<lambda>_.
           guard_ok (list_ex (\<lambda>l. trim l = binding) (lines approved))
             (''approved implementation context is missing contract binding: '' @ binding))))"

definition prepare_input :: "string list \<Rightarrow> error + (string \<times> string \<times> string)" where
  "prepare_input rest =
     and_then (wf_options rest) (\<lambda>opts.
     and_then (wf_required opts ''--plan-sha256'') (\<lambda>plan.
     and_then (wf_required opts ''--implementation-context'') (\<lambda>context.
     and_then (wf_required opts ''--alignment-review'') (\<lambda>review.
     and_then (wf_valid_id ''review ID'' review) (\<lambda>_. Inr (plan, context, review))))))"

definition prepare_checks ::
  "wf_ctx \<Rightarrow> string \<Rightarrow> string \<Rightarrow> string \<Rightarrow> string \<Rightarrow> files \<Rightarrow> error + (env \<times> string \<times> string)" where
  "prepare_checks C i plan context review s =
     and_then (wf_read_env C i s) (\<lambda>st.
     and_then (guard_ok (state_value st ''phase'' = ''pre-implementation'')
       ''prepare-implementation requires phase=pre-implementation'') (\<lambda>_.
     and_then (ok_or (find (\<lambda>r. r ! 0 = review \<and> r ! 1 = ''plan-alignment'' \<and> r ! 2 = ''pass'') (read_reviews C i s))
       ''prepare-implementation requires an aligned plan review'') (\<lambda>alignment.
     and_then (guard_ok (state_value st ''iteration_plan_sha256'' = plan)
       ''prepare-implementation plan digest does not match the sealed iteration plan'') (\<lambda>_.
     and_then (if secure_reviewer_evidence C then validate_plan_alignment_evidence C s i (alignment ! 7) plan
       else Inr ()) (\<lambda>_.
     let blockers = blocking_ids (read_todos C i s); requested = path_join (wf_cwd C) context
     in and_then (guard_ok (blockers = [])
          (''pre-implementation blocked by active evidence/decision TODOs: '' @ join_with '','' blockers)) (\<lambda>_.
        and_then (ok_or (wf_canon C context) (''approved implementation context not found: '' @ requested)) (\<lambda>canonical.
        and_then (ok_or (lookup s (key_of canonical)) (''approved implementation context not found: '' @ canonical)) (\<lambda>approved.
        and_then (validate_original_task C s st) (\<lambda>_.
        and_then (validate_contract C s st) (\<lambda>_.
        and_then (contract_bound C s st approved) (\<lambda>_.
        Inr (st, canonical, wf_sha C approved))))))))))))"

definition wf_prepare :: "wf_ctx \<Rightarrow> string list \<Rightarrow> string wf_cmd" where
  "wf_prepare C args =
     (case args of
        [] \<Rightarrow> lift_r (\<lambda>_. Inl ''prepare-implementation requires WORKFLOW_ID'')
      | i # rest \<Rightarrow>
          bind_c (lift_r (\<lambda>_. prepare_input rest)) (\<lambda>(plan, context, review).
          bind_c (open_store C i) (\<lambda>_.
          bind_c (lift_r (prepare_checks C i plan context review)) (\<lambda>(st, canonical, digest).
          bind_c (seq_c [
            wf_write_env C i (insert_all [(''preimplementation_gate'', ''passed''),
              (''implementation_context'', canonical), (''implementation_context_sha256'', digest),
              (''alignment_review_id'', review), (''updated_at'', wf_now C 0)] st),
            wf_event C i (wf_now C 1) ''implementation_prepared''
              (''plan_sha256='' @ plan @ [TAB] @ ''review_id='' @ review)]) (\<lambda>_.
          ret_c (unlines [''implementation prepared'' @ [TAB] @ i @ [TAB] @ plan]))))))"

section \<open>Review obligations\<close>

definition ensure_review_obligation ::
  "string \<Rightarrow> string \<Rightarrow> string \<Rightarrow> string \<Rightarrow> string \<Rightarrow> string \<Rightarrow> string \<Rightarrow> row list \<Rightarrow> error + row list" where
  "ensure_review_obligation oid kind trigger digest reason iteration stamp rows =
     (case find (\<lambda>r. r ! 0 = oid) rows of
        Some existing \<Rightarrow>
          if existing ! 1 = kind \<and> existing ! 2 = trigger \<and> existing ! 3 = digest \<and> existing ! 4 = reason \<and>
             existing ! 5 = iteration
          then Inr rows else Inl (''conflicting review obligation: '' @ oid)
      | None \<Rightarrow>
          Inr (rows @ [[oid, kind, trigger, digest, reason, iteration, ''pending'', [], stamp]]))"

definition single_field :: "string \<Rightarrow> bool" where
  "single_field v \<longleftrightarrow> v \<noteq> [] \<and> list_all (\<lambda>c. c \<noteq> TAB \<and> c \<noteq> NL \<and> c \<noteq> CR) v"

definition require_input :: "string list \<Rightarrow> error + (string \<times> string \<times> string \<times> string)" where
  "require_input rest =
     and_then (wf_options rest) (\<lambda>opts.
     and_then (wf_required opts ''--type'') (\<lambda>kind.
     and_then (wf_required opts ''--trigger'') (\<lambda>trigger.
     and_then (wf_required opts ''--artifact-digest'') (\<lambda>digest.
     and_then (wf_required opts ''--reason'') (\<lambda>reason.
     and_then (guard_ok (kind \<in> set POST_REVIEWS) (''invalid post-implementation review type: '' @ kind)) (\<lambda>_.
     and_then (all_ok (\<lambda>(name, v). guard_ok (single_field v) (name @ '' must be a non-empty single-line value''))
       [(''trigger'', trigger), (''artifact digest'', digest), (''reason'', reason)]) (\<lambda>_.
     Inr (kind, trigger, digest, reason))))))))"

definition require_review :: "wf_ctx \<Rightarrow> string list \<Rightarrow> string wf_cmd" where
  "require_review C args =
     (case args of
        i # oid # rest \<Rightarrow>
          bind_c (lift_r (\<lambda>_. and_then (wf_valid_id ''review obligation ID'' oid) (\<lambda>_. require_input rest)))
            (\<lambda>(kind, trigger, digest, reason).
          bind_c (open_store C i) (\<lambda>_.
          bind_c (lift_r (\<lambda>s. and_then (wf_read_env C i s) (\<lambda>st.
            and_then (guard_ok (state_value st ''phase'' \<noteq> ''complete'')
              ''cannot add a review obligation to a completed workflow'') (\<lambda>_.
            ensure_review_obligation oid kind trigger digest reason (state_value st ''iteration'') (wf_now C 0)
              (read_review_obligations C i s))))) (\<lambda>rows.
          bind_c (seq_c [
            write_rows (obligations_path C i) REVIEW_OBLIGATION_HEADER rows,
            wf_event C i (wf_now C 1) ''review_required'' (''obligation_id='' @ oid @ [TAB] @ ''type='' @ kind @ [TAB]
              @ ''artifact_digest='' @ digest)]) (\<lambda>_.
          ret_c (unlines [''review required'' @ [TAB] @ i @ [TAB] @ oid @ [TAB] @ kind])))))
      | _ \<Rightarrow> lift_r (\<lambda>_. Inl ''require-review requires WORKFLOW_ID OBLIGATION_ID''))"

section \<open>Transitions\<close>

definition allowed_transition :: "string \<Rightarrow> string \<Rightarrow> bool" where
  "allowed_transition current target \<longleftrightarrow>
     (current, target) \<in> {(''pre-implementation'', ''implementation''),
       (''implementation'', ''post-implementation''), (''post-implementation'', ''pre-implementation'')}"

definition u64_or :: "nat \<Rightarrow> string \<Rightarrow> nat" where
  "u64_or d v = (case parse_u64 v of None \<Rightarrow> d | Some n \<Rightarrow> n)"

text \<open>The obligations of a candidate diff: a technical review, and a reflection on every iteration after the first.\<close>

definition candidate_obligations :: "wf_ctx \<Rightarrow> string \<Rightarrow> string \<Rightarrow> row list \<Rightarrow> error + row list" where
  "candidate_obligations C iteration diff rows =
     and_then (ensure_review_obligation (''auto-'' @ iteration @ ''-technical'') ''technical'' ''candidate-diff'' diff
       ''source diff requires independent technical validation'' iteration (wf_now C 0) rows) (\<lambda>rows.
     if u64_or 1 iteration > 1
     then ensure_review_obligation (''auto-'' @ iteration @ ''-reflection'') ''reflection'' ''repair-iteration'' diff
       ''repair iterations require comparison of expected and actual outcomes'' iteration (wf_now C 1) rows
     else Inr rows)"

definition reset_iteration :: "env \<Rightarrow> env" where
  "reset_iteration st =
     insert_all [(''implementation_context'', []), (''implementation_context_sha256'', []),
       (''alignment_review_id'', []), (''iteration_plan_sha256'', []), (''iteration_worker_count'', []),
       (''candidate_diff_hash'', []), (''reviewed_diff_hash'', []), (''phase'', ''pre-implementation''),
       (''iteration'', show_nat (wrap_u64 (u64_or 1 (state_value st ''iteration'') + 1))),
       (''preimplementation_gate'', ''pending'')] st"

text \<open>The state after the phase change, before its time stamp.\<close>

definition enter_phase :: "wf_ctx \<Rightarrow> string \<Rightarrow> string \<Rightarrow> env \<Rightarrow> env wf_cmd" where
  "enter_phase C i diff st =
     (if state_value st ''phase'' = ''pre-implementation''
      then bind_c (lift_r (implementation_gate_state C i [] True)) (\<lambda>_.
        ret_c (insert_all [(''phase'', ''implementation'')] st))
      else if state_value st ''phase'' = ''implementation''
      then bind_c (ensure (diff \<noteq> []) ''implementation -> post-implementation requires --diff-hash'') (\<lambda>_.
        bind_c (lift_r (\<lambda>s. candidate_obligations C (state_value st ''iteration'') diff
          (read_review_obligations C i s))) (\<lambda>rows.
        bind_c (write_rows (obligations_path C i) REVIEW_OBLIGATION_HEADER rows) (\<lambda>_.
        ret_c (insert_all [(''phase'', ''post-implementation''), (''candidate_diff_hash'', diff),
          (''reviewed_diff_hash'', [])] st))))
      else bind_c (lift_r (\<lambda>s. guard_ok (active_ids (read_todos C i s) \<noteq> [])
          ''post-implementation -> pre-implementation requires an active TODO'')) (\<lambda>_.
        ret_c (reset_iteration st)))"

definition wf_transition :: "wf_ctx \<Rightarrow> string list \<Rightarrow> string wf_cmd" where
  "wf_transition C args =
     (case args of
        i # target # rest \<Rightarrow>
          bind_c (seq_c [
            ensure (target \<in> set PHASES) (''invalid phase: '' @ target),
            ensure (target \<noteq> ''complete'')
              ''complete is supervisor-owned; request it with `multiagent orchestrator complete`'']) (\<lambda>_.
          bind_c (lift_r (\<lambda>_. wf_options rest)) (\<lambda>opts.
          bind_c (open_store C i) (\<lambda>_.
          bind_c (lift_r (wf_read_env C i)) (\<lambda>st.
          let current = state_value st ''phase''
          in bind_c (ensure (allowed_transition current target)
               (''invalid lifecycle transition: '' @ current @ '' -> '' @ target)) (\<lambda>_.
             bind_c (enter_phase C i (wf_opt opts ''--diff-hash'') st) (\<lambda>st'.
             bind_c (seq_c [
               wf_write_env C i (insert_all [(''updated_at'', wf_now C 2)] st'),
               wf_event C i (wf_now C 3) ''phase_transitioned'' (''from='' @ current @ [TAB] @ ''to='' @ target @ [TAB]
                 @ ''iteration='' @ state_value st' ''iteration'')]) (\<lambda>_.
             ret_c (unlines [''workflow transitioned'' @ [TAB] @ i @ [TAB] @ current @ [TAB] @ target]))))))))
      | _ \<Rightarrow> lift_r (\<lambda>_. Inl ''transition requires WORKFLOW_ID PHASE''))"

section \<open>TODOs\<close>

definition add_todo_input :: "string list \<Rightarrow> error + (string \<times> string \<times> string)" where
  "add_todo_input rest =
     and_then (wf_options rest) (\<lambda>opts.
     and_then (wf_required opts ''--kind'') (\<lambda>kind.
     and_then (wf_required opts ''--summary'') (\<lambda>summary.
     and_then (guard_ok (kind \<in> set TODO_KINDS) (''invalid TODO kind: '' @ kind)) (\<lambda>_.
     Inr (kind, summary, case opts ''--origin'' of None \<Rightarrow> ''orchestrator'' | Some v \<Rightarrow> v)))))"

definition add_todo :: "wf_ctx \<Rightarrow> string list \<Rightarrow> string wf_cmd" where
  "add_todo C args =
     (case args of
        i # todo_id # rest \<Rightarrow>
          bind_c (lift_r (\<lambda>_. and_then (wf_valid_id ''TODO ID'' todo_id) (\<lambda>_. add_todo_input rest)))
            (\<lambda>(kind, summary, origin).
          bind_c (open_store C i) (\<lambda>_.
          bind_c (lift_r (\<lambda>s. and_then (wf_read_env C i s) (\<lambda>st.
            let rows = read_todos C i s
            in and_then (guard_ok (\<not> list_ex (\<lambda>r. r ! 0 = todo_id) rows) (''TODO already exists: '' @ todo_id)) (\<lambda>_.
               Inr (rows @ [[todo_id, kind, summary, origin, ''open'', [], [], [], [], [], [], [], [],
                 state_value st ''iteration'', wf_now C 0]]))))) (\<lambda>rows.
          bind_c (seq_c [
            write_rows (todos_path C i) TODO_HEADER rows,
            wf_event C i (wf_now C 1) ''todo_added'' (''todo_id='' @ todo_id @ [TAB] @ ''kind='' @ kind)]) (\<lambda>_.
          ret_c (unlines [''TODO added'' @ [TAB] @ i @ [TAB] @ todo_id @ [TAB] @ kind])))))
      | _ \<Rightarrow> lift_r (\<lambda>_. Inl ''add-todo requires WORKFLOW_ID TODO_ID''))"

text \<open>Update of the first row with an identifier, which must be active.\<close>

fun update_first :: "('a \<Rightarrow> bool) \<Rightarrow> ('a \<Rightarrow> 'a) \<Rightarrow> 'a list \<Rightarrow> 'a list" where
  "update_first P f [] = []"
| "update_first P f (x # xs) = (if P x then f x # xs else x # update_first P f xs)"

definition set_fields :: "(nat \<times> string) list \<Rightarrow> row \<Rightarrow> row" where
  "set_fields kvs r = foldl (\<lambda>r (k, v). r[k := v]) r kvs"

definition change_todo ::
  "wf_ctx \<Rightarrow> string \<Rightarrow> string \<Rightarrow> error \<Rightarrow> (nat \<times> string) list \<Rightarrow> files \<Rightarrow> error + row list" where
  "change_todo C i todo_id resolved kvs s =
     and_then (wf_read_env C i s) (\<lambda>_.
     let rows = read_todos C i s
     in and_then (ok_or (find (\<lambda>r. r ! 0 = todo_id) rows) (''TODO does not exist: '' @ todo_id)) (\<lambda>r.
        and_then (guard_ok (active (r ! 4)) (resolved @ todo_id)) (\<lambda>_.
        Inr (update_first (\<lambda>r. r ! 0 = todo_id) (set_fields kvs) rows))))"

definition todo_status :: "wf_ctx \<Rightarrow> string list \<Rightarrow> string wf_cmd" where
  "todo_status C args =
     (case args of
        i # todo_id # status # rest \<Rightarrow>
          bind_c (ensure (status \<in> set ACTIVE) (''invalid active TODO status: '' @ status)) (\<lambda>_.
          bind_c (lift_r (\<lambda>_. wf_options rest)) (\<lambda>opts.
          let assignment = wf_opt opts ''--assignment-id''
          in bind_c (ensure (\<not> (status \<in> {''assigned'', ''in-progress''} \<and> assignment = []))
               (''TODO status '' @ status @ '' requires --assignment-id'')) (\<lambda>_.
             bind_c (open_store C i) (\<lambda>_.
             bind_c (lift_r (change_todo C i todo_id ''cannot reactivate resolved TODO without a new TODO: ''
               [(4, status), (5, assignment), (14, wf_now C 0)])) (\<lambda>rows.
             bind_c (seq_c [
               write_rows (todos_path C i) TODO_HEADER rows,
               wf_event C i (wf_now C 1) ''todo_status_changed'' (''todo_id='' @ todo_id @ [TAB] @ ''status='' @ status)]) (\<lambda>_.
             ret_c (unlines [''TODO status'' @ [TAB] @ i @ [TAB] @ todo_id @ [TAB] @ status])))))))
      | _ \<Rightarrow> lift_r (\<lambda>_. Inl ''todo-status requires WORKFLOW_ID TODO_ID STATUS''))"

definition resolve_input :: "string list \<Rightarrow> error + (string \<times> string \<times> options)" where
  "resolve_input rest =
     and_then (wf_options rest) (\<lambda>opts.
     and_then (wf_required opts ''--resolution'') (\<lambda>resolution.
     and_then (wf_required opts ''--evidence'') (\<lambda>evidence.
     and_then (guard_ok (resolution \<in> {''completed'', ''skipped''}) (''invalid TODO resolution: '' @ resolution)) (\<lambda>_.
     let code = wf_opt opts ''--reason-code''
     in and_then (if resolution \<noteq> ''skipped'' then Inr ()
          else and_then (guard_ok (code \<in> {''out-of-scope'', ''unavailable-now''})
              ''skipped TODO requires --reason-code out-of-scope|unavailable-now'') (\<lambda>_.
            and_then (guard_ok (wf_opt opts ''--reason'' \<noteq> [] \<and> wf_opt opts ''--authority'' \<in> {''orchestrator'', ''user''})
              ''skipped TODO requires --reason and --authority orchestrator|user'') (\<lambda>_.
            guard_ok (\<not> (code = ''unavailable-now'' \<and> wf_opt opts ''--destination'' = [] \<and>
                wf_opt opts ''--resume-condition'' = []))
              ''unavailable-now skip requires --destination or --resume-condition''))) (\<lambda>_.
        Inr (resolution, evidence, opts))))))"

definition resolve_todo :: "wf_ctx \<Rightarrow> string list \<Rightarrow> string wf_cmd" where
  "resolve_todo C args =
     (case args of
        i # todo_id # rest \<Rightarrow>
          bind_c (lift_r (\<lambda>_. resolve_input rest)) (\<lambda>(resolution, evidence, opts).
          let code = wf_opt opts ''--reason-code''
          in bind_c (open_store C i) (\<lambda>_.
             bind_c (lift_r (change_todo C i todo_id ''TODO is already resolved: ''
               [(4, resolution), (6, resolution), (7, code), (8, wf_opt opts ''--reason''), (9, evidence),
                (10, wf_opt opts ''--authority''), (11, wf_opt opts ''--destination''),
                (12, wf_opt opts ''--resume-condition''), (14, wf_now C 0)])) (\<lambda>rows.
             bind_c (seq_c [
               write_rows (todos_path C i) TODO_HEADER rows,
               wf_event C i (wf_now C 1) ''todo_resolved'' (''todo_id='' @ todo_id @ [TAB] @ ''resolution='' @ resolution
                 @ [TAB] @ ''reason_code='' @ code)]) (\<lambda>_.
             ret_c (unlines [''TODO resolved'' @ [TAB] @ i @ [TAB] @ todo_id @ [TAB] @ resolution])))))
      | _ \<Rightarrow> lift_r (\<lambda>_. Inl ''resolve-todo requires WORKFLOW_ID TODO_ID''))"

section \<open>Reviews\<close>

definition review_input :: "string list \<Rightarrow> error + (string \<times> string \<times> string \<times> options)" where
  "review_input rest =
     and_then (wf_options rest) (\<lambda>opts.
     and_then (wf_required opts ''--type'') (\<lambda>kind.
     and_then (wf_required opts ''--verdict'') (\<lambda>verdict.
     and_then (wf_required opts ''--evidence'') (\<lambda>evidence.
     and_then (guard_ok (kind \<in> set REVIEW_TYPES) (''invalid review type: '' @ kind)) (\<lambda>_.
     and_then (guard_ok (verdict \<in> {''pass'', ''findings''}) (''invalid review verdict: '' @ verdict)) (\<lambda>_.
     Inr (kind, verdict, evidence, opts)))))))"

definition review_diff :: "env \<Rightarrow> string \<Rightarrow> string \<Rightarrow> error + string" where
  "review_diff st kind requested =
     (if kind = ''plan-alignment''
      then and_then (guard_ok (state_value st ''phase'' = ''pre-implementation'')
        ''plan-alignment review requires phase=pre-implementation'') (\<lambda>_. Inr ''-'')
      else and_then (guard_ok (state_value st ''phase'' = ''post-implementation'')
          (kind @ '' review requires phase=post-implementation'')) (\<lambda>_.
        and_then (guard_ok (requested = state_value st ''candidate_diff_hash'')
          ''post-implementation review diff hash does not match candidate diff'') (\<lambda>_. Inr requested)))"

definition matching_obligation :: "string \<Rightarrow> string \<Rightarrow> string \<Rightarrow> row \<Rightarrow> bool" where
  "matching_obligation kind diff iteration r \<longleftrightarrow>
     r ! 1 = kind \<and> r ! 3 = diff \<and> r ! 5 = iteration \<and> r ! 6 = ''pending''"

definition satisfy_obligations :: "wf_ctx \<Rightarrow> string \<Rightarrow> string \<Rightarrow> string \<Rightarrow> string \<Rightarrow> string \<Rightarrow> unit wf_cmd" where
  "satisfy_obligations C i rid kind diff iteration =
     bind_c (lift_r (\<lambda>s. Inr (read_review_obligations C i s))) (\<lambda>rows.
     let hit = matching_obligation kind diff iteration
     in if list_ex hit rows
        then write_rows (obligations_path C i) REVIEW_OBLIGATION_HEADER (map (\<lambda>r.
          if hit r then set_fields [(6, ''satisfied''), (7, rid), (8, wf_now C 1)] r else r) rows)
        else ret_c ())"

definition record_review :: "wf_ctx \<Rightarrow> string list \<Rightarrow> string wf_cmd" where
  "record_review C args =
     (case args of
        i # rid # rest \<Rightarrow>
          bind_c (lift_r (\<lambda>_. and_then (wf_valid_id ''review ID'' rid) (\<lambda>_. review_input rest)))
            (\<lambda>(kind, verdict, evidence, opts).
          bind_c (open_store C i) (\<lambda>_.
          let reviewer = wf_opt opts ''--reviewer''
          in bind_c (lift_r (\<lambda>s. and_then (wf_read_env C i s) (\<lambda>st.
               and_then (review_diff st kind (wf_opt opts ''--diff-hash'')) (\<lambda>diff.
               and_then (if \<not> reviewer_evidence_required C then Inr ()
                 else and_then (guard_ok (reviewer \<noteq> []) ''reviewer-backed lifecycle requires --reviewer NAME'') (\<lambda>_.
                   validate_reviewer_evidence C s i reviewer kind verdict diff)) (\<lambda>_.
               let rows = read_reviews C i s
               in and_then (guard_ok (\<not> list_ex (\<lambda>r. r ! 0 = rid) rows)
                    (''review already exists: '' @ rid)) (\<lambda>_.
                  Inr (state_value st ''iteration'', diff, rows))))))) (\<lambda>(iteration, diff, rows).
             bind_c (seq_c [
               write_rows (reviews_path C i) REVIEW_HEADER
                 (rows @ [[rid, kind, verdict, diff, evidence, iteration, wf_now C 0, reviewer]]),
               if verdict = ''pass'' \<and> kind \<noteq> ''plan-alignment''
               then satisfy_obligations C i rid kind diff iteration else ret_c (),
               wf_event C i (wf_now C 2) ''review_recorded'' (''review_id='' @ rid @ [TAB] @ ''type='' @ kind @ [TAB]
                 @ ''verdict='' @ verdict @ [TAB] @ ''diff_hash='' @ diff)]) (\<lambda>_.
             ret_c (unlines [''review recorded'' @ [TAB] @ i @ [TAB] @ rid @ [TAB] @ kind @ [TAB] @ verdict])))))
      | _ \<Rightarrow> lift_r (\<lambda>_. Inl ''record-review requires WORKFLOW_ID REVIEW_ID''))"

section \<open>Queries\<close>

definition wf_status :: "wf_ctx \<Rightarrow> string list \<Rightarrow> string wf_cmd" where
  "wf_status C args = lift_r (\<lambda>s.
     and_then (wf_one_id ''status'' args) (\<lambda>i.
     and_then (wf_valid_id ''workflow ID'' i) (\<lambda>_.
     and_then (ok_or (lookup s (env_path C i)) (''workflow lifecycle does not exist: '' @ i)) (\<lambda>t.
     Inr (t @ unlines [''active_todo_count='' @ show_nat (length (active_ids (read_todos C i s))),
       ''review_count='' @ show_nat (length (read_reviews C i s))])))))"

definition wf_value :: "wf_ctx \<Rightarrow> string list \<Rightarrow> string wf_cmd" where
  "wf_value C args = lift_r (\<lambda>s.
     case args of
       [i, key] \<Rightarrow>
         and_then (wf_valid_id ''workflow ID'' i) (\<lambda>_.
         and_then (wf_read_env C i s) (\<lambda>st.
         and_then (ok_or (st key) (''unknown lifecycle field: '' @ key)) (\<lambda>v. Inr (unlines [v]))))
     | _ \<Rightarrow> Inl ''value requires WORKFLOW_ID KEY'')"

definition wf_gate_command :: "wf_ctx \<Rightarrow> string list \<Rightarrow> string wf_cmd" where
  "wf_gate_command C args = lift_r (\<lambda>s.
     case args of
       i # which # rest \<Rightarrow>
         and_then (wf_options rest) (\<lambda>opts.
         if which = ''implementation''
         then and_then (implementation_gate_state C i (wf_opt opts ''--plan-sha256'') False s) (\<lambda>st.
           Inr (unlines [''gate passed'' @ [TAB] @ i @ [TAB] @ ''implementation'' @ [TAB]
             @ state_value st ''iteration_plan_sha256'' @ [TAB] @ state_value st ''implementation_context_sha256'']))
         else if which = ''completion''
         then and_then (completion_state C i s) (\<lambda>st.
           Inr (unlines [''gate passed'' @ [TAB] @ i @ [TAB] @ ''completion'' @ [TAB]
             @ state_value st ''candidate_diff_hash'']))
         else Inl (''invalid gate: '' @ which))
     | _ \<Rightarrow> Inl ''gate requires WORKFLOW_ID implementation|completion'')"

definition completion_ready :: "wf_ctx \<Rightarrow> string list \<Rightarrow> string wf_cmd" where
  "completion_ready C args = lift_r (\<lambda>s.
     and_then (wf_one_id ''completion-check'' args) (\<lambda>i.
     and_then (completion_state C i s) (\<lambda>st.
     Inr (unlines [''completion ready'' @ [TAB] @ i @ [TAB] @ state_value st ''candidate_diff_hash'']))))"

section \<open>The bounded context\<close>

definition MAX_CONTEXT_BYTES :: nat where "MAX_CONTEXT_BYTES = 16 * 1024"
definition MAX_IDENTITIES :: nat where "MAX_IDENTITIES = 64"

text \<open>\<open>char::is_control\<close> on UTF-8 text: U+0000 to U+001F and U+007F, and U+0080 to U+009F in two bytes.\<close>

fun has_control :: "string \<Rightarrow> bool" where
  "has_control [] \<longleftrightarrow> False"
| "has_control (c # cs) \<longleftrightarrow> byte_of c < 32 \<or> byte_of c = 127 \<or>
     byte_of c = 194 \<and> (case cs of [] \<Rightarrow> False | d # _ \<Rightarrow> byte_of d < 160) \<or> has_control cs"

definition bounded_state_label :: "string \<Rightarrow> string \<Rightarrow> error + string" where
  "bounded_state_label v label =
     (if length v > 128 \<or> has_control v then Inl (label @ '' exceeds workflow context bounds'') else Inr v)"

definition bounded_identity_label :: "string \<Rightarrow> string \<Rightarrow> error + string" where
  "bounded_identity_label v label =
     (if v = [] \<or> length v > 64 \<or> \<not> list_all (\<lambda>c. is_ascii_alphanumeric c \<or> c = CHR ''_'' \<or> c = CHR ''-'') v
      then Inl (''invalid '' @ label @ '' in supervisor metadata'') else Inr v)"

definition IDENTITY_STATES :: "string list" where
  "IDENTITY_STATES = [''starting'', ''running'', ''restoring'', ''exited'', ''done'', ''blocked'', ''stopped'',
     ''killed'', ''finalized'']"

definition identity_json :: "files \<Rightarrow> path \<Rightarrow> string \<Rightarrow> error + json" where
  "identity_json s dir name =
     and_then (wf_valid_id ''subagent identity'' name) (\<lambda>_.
     let role = (case env_at s (dir @ [name, ''meta.env'']) ''role'' of None \<Rightarrow> ''unknown'' | Some v \<Rightarrow> v);
         raw = (case lookup s (dir @ [name, ''status'']) of None \<Rightarrow> ''unknown'' | Some t \<Rightarrow> t)
     in and_then (bounded_identity_label role ''identity role'') (\<lambda>role.
        Inr (JObj [(''name'', JStr name), (''role'', JStr role),
          (''status'', JStr (if trim raw \<in> set IDENTITY_STATES then trim raw else ''unknown''))])))"

fun collect_ok :: "('a \<Rightarrow> 'e + 'b) \<Rightarrow> 'a list \<Rightarrow> 'e + 'b list" where
  "collect_ok f [] = Inr []"
| "collect_ok f (x # xs) = and_then (f x) (\<lambda>y. and_then (collect_ok f xs) (\<lambda>ys. Inr (y # ys)))"

lemma collect_ok_Inr: "collect_ok f xs = Inr ys \<longleftrightarrow> list_all2 (\<lambda>x y. f x = Inr y) xs ys"
  by (induction xs arbitrary: ys) (auto simp: and_then_Inr list_all2_Cons1)

text \<open>Every entry of the directory counts against the bound, a plain file included.\<close>

definition typed_identity_context :: "wf_ctx \<Rightarrow> nat \<Rightarrow> files \<Rightarrow> error + json list" where
  "typed_identity_context C bound s =
     (let dir = wf_state_dir C @ [''subagents'']; names = sort (dir_entries s dir)
      in and_then (guard_ok (length names \<le> bound)
           (''workflow has more than '' @ show_nat bound @ '' identities; refusing an incomplete context'')) (\<lambda>_.
         collect_ok (identity_json s dir) (filter (\<lambda>n. n \<in> set (subdirs s dir)) names)))"

definition context_json ::
  "wf_ctx \<Rightarrow> string \<Rightarrow> env \<Rightarrow> string \<Rightarrow> string \<Rightarrow> nat \<Rightarrow> json list \<Rightarrow> files \<Rightarrow> json" where
  "context_json C i st phase iteration task_bytes identities s = JObj [
     (''apiVersion'', JStr ''multiagent.moveindustries.io/v1''), (''kind'', JStr ''WorkflowContext''),
     (''workflowId'', JStr i), (''phase'', JStr phase), (''iteration'', JStr iteration),
     (''stateRevision'', JStr iteration),
     (''originalTask'', JObj [(''path'', JStr (state_value st ''original_task'')),
       (''sha256'', JStr (state_value st ''original_task_sha256'')), (''bytes'', JNum (of_nat task_bytes)),
       (''mediaType'', JStr ''text/plain''), (''truncated'', JBool False)]),
     (''resultCandidate'', JObj [(''path'', JStr (display (wf_state_dir C @ [''orchestrator-result-candidate.md'']))),
       (''mediaType'', JStr ''text/plain''), (''maxBytes'', JNum 6000)]),
     (''activeTodoCount'', JNum (of_nat (length (active_ids (read_todos C i s))))),
     (''reviewCount'', JNum (of_nat (length (read_reviews C i s)))), (''identities'', JArr identities)]"

definition wf_context :: "wf_ctx \<Rightarrow> string list \<Rightarrow> string wf_cmd" where
  "wf_context C args = lift_r (\<lambda>s.
     and_then (wf_one_id ''context'' args) (\<lambda>i.
     and_then (guard_ok (wf_uid C = ORCHESTRATOR_UID)
       ''workflow context is available only to the orchestrator role'') (\<lambda>_.
     and_then (wf_valid_id ''workflow ID'' i) (\<lambda>_.
     and_then (wf_read_env C i s) (\<lambda>st.
     and_then (validate_original_task C s st) (\<lambda>_.
     let p = state_value st ''original_task''
     in and_then (guard_ok (length p \<le> 1024) ''original task artifact path exceeds context bound'') (\<lambda>_.
        and_then (if p = [] then Inl ''inspect original task artifact''
          else ok_or (lookup s (text_file C p)) ''inspect original task artifact'') (\<lambda>task.
        and_then (typed_identity_context C MAX_IDENTITIES s) (\<lambda>identities.
        and_then (bounded_state_label (state_value st ''phase'') ''phase'') (\<lambda>phase.
        and_then (bounded_state_label (state_value st ''iteration'') ''iteration'') (\<lambda>iteration.
        let encoded = wf_print C (context_json C i st phase iteration (length task) identities s)
        in and_then (guard_ok (length encoded \<le> MAX_CONTEXT_BYTES)
             (''workflow context exceeds strict '' @ show_nat MAX_CONTEXT_BYTES @ ''-byte bound'')) (\<lambda>_.
           Inr (unlines [encoded])))))))))))))"

section \<open>What other components read\<close>

record AssignmentContext =
  ac_iteration :: string
  ac_plan_sha256 :: string
  ac_context :: string
  ac_context_sha256 :: string

definition assignment_context :: "wf_ctx \<Rightarrow> string \<Rightarrow> files \<Rightarrow> error + AssignmentContext" where
  "assignment_context C i s =
     and_then (implementation_gate_state C i [] False s) (\<lambda>st.
     Inr \<lparr>ac_iteration = state_value st ''iteration'', ac_plan_sha256 = state_value st ''iteration_plan_sha256'',
       ac_context = state_value st ''implementation_context'',
       ac_context_sha256 = state_value st ''implementation_context_sha256''\<rparr>)"

record SemanticEnvelope =
  se_original_task :: string
  se_original_task_sha256 :: string
  se_contract_artifact :: string
  se_contract_artifact_sha256 :: string
  se_candidate_diff_hash :: string

definition open_state :: "wf_ctx \<Rightarrow> string \<Rightarrow> files \<Rightarrow> error + env" where
  "open_state C i s = and_then (wf_valid_id ''workflow ID'' i) (\<lambda>_. wf_read_env C i s)"

definition semantic_envelope :: "wf_ctx \<Rightarrow> string \<Rightarrow> files \<Rightarrow> error + SemanticEnvelope" where
  "semantic_envelope C i s =
     and_then (open_state C i s) (\<lambda>st.
     and_then (validate_original_task C s st) (\<lambda>_.
     and_then (validate_contract C s st) (\<lambda>_.
     and_then (read_optional_artifact C s (state_value st ''original_task'')) (\<lambda>task.
     and_then (read_optional_artifact C s (state_value st ''contract_artifact'')) (\<lambda>contract.
     Inr \<lparr>se_original_task = task, se_original_task_sha256 = state_value st ''original_task_sha256'',
       se_contract_artifact = contract, se_contract_artifact_sha256 = state_value st ''contract_artifact_sha256'',
       se_candidate_diff_hash = state_value st ''candidate_diff_hash''\<rparr>)))))"

definition sealed_iteration_plan_sha256 :: "wf_ctx \<Rightarrow> string \<Rightarrow> files \<Rightarrow> error + string" where
  "sealed_iteration_plan_sha256 C i s =
     and_then (open_state C i s) (\<lambda>st.
     and_then (guard_ok (state_value st ''phase'' = ''pre-implementation'')
       ''plan-alignment review requires phase=pre-implementation'') (\<lambda>_.
     and_then (guard_ok (sha256_text (state_value st ''iteration_plan_sha256''))
       ''plan-alignment review requires a sealed iteration plan'') (\<lambda>_.
     Inr (state_value st ''iteration_plan_sha256''))))"

record PlanAlignmentBinding =
  pa_content :: string
  pa_sha256 :: string
  pa_plan_sha256 :: string
  pa_original_task_sha256 :: string

definition plan_alignment_binding :: "wf_ctx \<Rightarrow> string \<Rightarrow> string \<Rightarrow> files \<Rightarrow> error + PlanAlignmentBinding" where
  "plan_alignment_binding C i plan s =
     and_then (sealed_iteration_plan_sha256 C i s) (\<lambda>sealed.
     and_then (guard_ok (sealed = plan) ''plan-alignment digest does not match the sealed iteration plan'') (\<lambda>_.
     and_then (semantic_envelope C i s) (\<lambda>e.
     let content = wf_print C (JObj [(''apiVersion'', JStr ''multiagent.moveindustries.io/v1''),
           (''kind'', JStr ''PlanAlignmentBinding''), (''workflowId'', JStr i),
           (''originalTaskSha256'', JStr (se_original_task_sha256 e)), (''iterationPlanSha256'', JStr plan)]) @ [NL]
     in Inr \<lparr>pa_content = content, pa_sha256 = wf_sha C content, pa_plan_sha256 = plan,
          pa_original_task_sha256 = se_original_task_sha256 e\<rparr>)))"

definition pending_review_obligations :: "wf_ctx \<Rightarrow> string \<Rightarrow> string \<Rightarrow> files \<Rightarrow> error + (string \<times> string \<times> string) list" where
  "pending_review_obligations C i diff s =
     and_then (open_state C i s) (\<lambda>st.
     and_then (guard_ok (state_value st ''phase'' = ''post-implementation'')
       ''pending reviews require phase=post-implementation'') (\<lambda>_.
     and_then (guard_ok (diff \<noteq> [] \<and> state_value st ''candidate_diff_hash'' = diff)
       ''pending reviews require the frozen candidate diff hash'') (\<lambda>_.
     Inr (map (\<lambda>r. (r ! 0, r ! 1, r ! 4)) (filter (\<lambda>r. r ! 3 = diff \<and> r ! 5 = state_value st ''iteration'' \<and>
       r ! 6 = ''pending'') (read_review_obligations C i s))))))"

definition active_todos :: "wf_ctx \<Rightarrow> string \<Rightarrow> files \<Rightarrow> error + (string \<times> string \<times> string) list" where
  "active_todos C i s =
     and_then (open_state C i s) (\<lambda>_.
     Inr (map (\<lambda>r. (r ! 0, r ! 1, r ! 2)) (filter (\<lambda>r. active (r ! 4)) (read_todos C i s))))"

definition passing_review_recorded :: "wf_ctx \<Rightarrow> string \<Rightarrow> string \<Rightarrow> string \<Rightarrow> files \<Rightarrow> error + bool" where
  "passing_review_recorded C i rid kind s =
     and_then (open_state C i s) (\<lambda>st.
     Inr (list_ex (\<lambda>r. r ! 0 = rid \<and> r ! 1 = kind \<and> r ! 2 = ''pass'' \<and> r ! 5 = state_value st ''iteration'')
       (read_reviews C i s)))"

definition contract_or_approved_context :: "wf_ctx \<Rightarrow> string \<Rightarrow> files \<Rightarrow> error + bool" where
  "contract_or_approved_context C i s =
     and_then (open_state C i s) (\<lambda>st.
     and_then (validate_original_task C s st) (\<lambda>_.
     and_then (validate_contract C s st) (\<lambda>_.
     Inr (state_value st ''contract_artifact'' \<noteq> [] \<or> state_value st ''preimplementation_gate'' = ''passed''))))"

section \<open>Dispatch\<close>

definition wf_dispatch :: "wf_ctx \<Rightarrow> string \<Rightarrow> string list \<Rightarrow> string wf_cmd" where
  "wf_dispatch C command args =
     (if command = ''init'' then wf_initialize C args
      else if command = ''init-or-resume'' then init_or_resume C args
      else if command = ''status'' then wf_status C args
      else if command = ''context'' then wf_context C args
      else if command = ''contract-register'' then register_contract C args
      else if command = ''seal-iteration'' then seal_iteration C args
      else if command = ''prepare-implementation'' then wf_prepare C args
      else if command = ''transition'' then wf_transition C args
      else if command = ''add-todo'' then add_todo C args
      else if command = ''todo-status'' then todo_status C args
      else if command = ''resolve-todo'' then resolve_todo C args
      else if command = ''require-review'' then require_review C args
      else if command = ''record-review'' then record_review C args
      else if command = ''gate'' then wf_gate_command C args
      else if command = ''completion-check'' then completion_ready C args
      else if command = ''value'' then wf_value C args
      else lift_r (\<lambda>_. Inl (''unknown command: '' @ command)))"

text \<open>\<open>workflow::run\<close>; the usage text is an argument.\<close>

definition workflow_run :: "string \<Rightarrow> wf_ctx \<Rightarrow> string list \<Rightarrow> string wf_cmd" where
  "workflow_run usage C args =
     (case args of
        [] \<Rightarrow> lift_r (\<lambda>_. Inl ''missing command'')
      | command # rest \<Rightarrow>
          if command \<in> {''-h'', ''--help'', ''help''} then ret_c (unlines [usage]) else wf_dispatch C command rest)"

end
