(* ===== verification/Workflow_Complete.thy ===== *)
theory Workflow_Complete
  imports Workflow_Commands
begin

text \<open>
  The completions of a workflow that only the supervisor performs (\<open>runtime/src/workflow.rs\<close>): after source work, after
  reviewed external operations, by a shortcut for work without effect, and by handing a question to a human.

  \<open>wf_gate C False\<close> stands for \<open>subagent::completion_gate_check\<close> and \<open>wf_gate C True\<close> for
  \<open>subagent::external_completion_gate_check\<close>. Directories are listed in the order of the file list.
\<close>

section \<open>Authority\<close>

definition require_supervisor_completion_authority :: "wf_ctx \<Rightarrow> error + unit" where
  "require_supervisor_completion_authority C =
     guard_ok (\<not> (lifecycle_enforced (wf_uid C) (wf_environ C) \<and>
         wf_environ C ''MULTIAGENT_UID_SANDBOX'' = Some ''1'' \<and>
         wf_environ C ''MULTIAGENT_AUTHORITY_SERVER_CHILD'' \<noteq> Some ''1''))
       ''lifecycle completion must execute inside the authority supervisor''"

definition require_observe_authority :: "wf_ctx \<Rightarrow> files \<Rightarrow> error + unit" where
  "require_observe_authority C s =
     and_then (exec_configured (wf_codec C) (wf_environ C) (lookup s (wf_state_dir C @ key_of ACTIVE_EXECUTION_FILE))) (\<lambda>x.
     guard_ok (is_read_only x) ''observe completion requires the current Execution to remain read-only'')"

section \<open>Completion after source work\<close>

definition supervisor_complete :: "wf_ctx \<Rightarrow> string \<Rightarrow> string wf_cmd" where
  "supervisor_complete C i =
     bind_c (lift_r (\<lambda>_. require_supervisor_completion_authority C)) (\<lambda>_.
     bind_c (open_store C i) (\<lambda>_.
     bind_c (lift_r (\<lambda>s. and_then (wf_read_env C i s) (\<lambda>before.
       and_then (guard_ok (state_value before ''phase'' = ''post-implementation'')
         (''supervisor completion requires phase=post-implementation, got '' @ state_value before ''phase'')) (\<lambda>_.
       completion_state C i s)))) (\<lambda>st.
     bind_c (wf_gate C False) (\<lambda>_.
     let diff = state_value st ''candidate_diff_hash''
     in bind_c (seq_c [
          wf_write_env C i (insert_all [(''phase'', ''complete''), (''reviewed_diff_hash'', diff),
            (''terminal_outcome'', ''succeeded''), (''updated_at'', wf_now C 0)] st),
          wf_event C i (wf_now C 1) ''phase_transitioned'' (''from=post-implementation'' @ [TAB] @ ''to=complete'' @ [TAB]
            @ ''iteration='' @ state_value st ''iteration'' @ [TAB] @ ''authority=supervisor'')]) (\<lambda>_.
        ret_c diff)))))"

section \<open>Completion after external operations\<close>

definition source_implementation_started :: "env \<Rightarrow> bool" where
  "source_implementation_started st \<longleftrightarrow>
     state_value st ''preimplementation_gate'' \<notin> {[], ''pending''} \<or>
     list_ex (\<lambda>k. state_value st k \<noteq> []) [''contract_scout'', ''contract_artifact'', ''contract_artifact_sha256'',
       ''implementation_context'', ''implementation_context_sha256'', ''alignment_review_id'',
       ''iteration_plan_sha256'', ''iteration_worker_count'', ''candidate_diff_hash'', ''reviewed_diff_hash'']"

definition receipt_paths :: "wf_ctx \<Rightarrow> files \<Rightarrow> path list" where
  "receipt_paths C s =
     (let dir = wf_state_dir C @ [''operations'']
      in filter (is_file s) (map (\<lambda>n. dir @ [n, ''receipt.json'']) (subdirs s dir)))"

definition receipt_disposition :: "wf_ctx \<Rightarrow> files \<Rightarrow> path \<Rightarrow> error + string" where
  "receipt_disposition C s p =
     and_then (ok_or (Option.bind (lookup s p) (wf_json C))
       (''decode external operation receipt '' @ display p)) (\<lambda>receipt.
     let outcome = member (member (member receipt ''result'') ''structuredContent'') ''outcome'';
         d = member outcome ''disposition''
     in if member outcome ''terminal'' \<noteq> JBool True
        then Inl (''external-only completion requires terminal receipts; '' @ display p @ '' is not terminal'')
        else if d \<in> {JStr ''succeeded'', JStr ''failed'', JStr ''blocked''} then Inr (str_of d)
        else Inl (''external-only completion requires outcome.disposition=succeeded, failed, or blocked; '' @ display p
          @ '' has no recognized terminal disposition''))"

definition external_checks :: "wf_ctx \<Rightarrow> string \<Rightarrow> files \<Rightarrow> error + (env \<times> string list)" where
  "external_checks C i s =
     and_then (wf_read_env C i s) (\<lambda>st.
     and_then (guard_ok (state_value st ''phase'' = ''pre-implementation'')
       (''external-only completion requires phase=pre-implementation, got '' @ state_value st ''phase'')) (\<lambda>_.
     and_then (guard_ok (\<not> source_implementation_started st)
       ''external-only completion cannot bypass a started source implementation lifecycle'') (\<lambda>_.
     and_then (validate_original_task C s st) (\<lambda>_.
     let todos = active_ids (read_todos C i s)
     in and_then (guard_ok (todos = [])
          (''external-only completion blocked by active TODOs: '' @ join_with '','' todos)) (\<lambda>_.
        and_then (collect_ok (receipt_disposition C s) (receipt_paths C s)) (\<lambda>ds.
        and_then (guard_ok (ds \<noteq> [])
          ''external-only completion requires at least one terminal reviewed operation receipt'') (\<lambda>_.
        Inr (st, ds))))))))"

definition supervisor_complete_external :: "wf_ctx \<Rightarrow> string \<Rightarrow> string wf_cmd" where
  "supervisor_complete_external C i =
     bind_c (lift_r (\<lambda>_. require_supervisor_completion_authority C)) (\<lambda>_.
     bind_c (open_store C i) (\<lambda>_.
     bind_c (lift_r (external_checks C i)) (\<lambda>(st, ds).
     bind_c (wf_gate C True) (\<lambda>_.
     let count = (\<lambda>d. count_list ds d); result = ''external-only:'' @ show_nat (count ''succeeded'');
         outcome = (if count ''failed'' + count ''blocked'' > 0 then ''failed'' else ''succeeded'')
     in bind_c (seq_c [
          wf_write_env C i (insert_all [(''phase'', ''complete''), (''candidate_diff_hash'', result),
            (''reviewed_diff_hash'', result), (''terminal_outcome'', outcome), (''updated_at'', wf_now C 0)] st),
          wf_event C i (wf_now C 1) ''phase_transitioned'' (''from=pre-implementation'' @ [TAB] @ ''to=complete'' @ [TAB]
            @ ''iteration='' @ state_value st ''iteration'' @ [TAB] @ ''authority=supervisor'' @ [TAB]
            @ ''route=external-only'' @ [TAB] @ ''terminal_outcome='' @ outcome @ [TAB]
            @ ''operations='' @ show_nat (count ''succeeded'') @ [TAB]
            @ ''failed_operations='' @ show_nat (count ''failed'') @ [TAB]
            @ ''blocked_operations='' @ show_nat (count ''blocked''))]) (\<lambda>_.
        ret_c result)))))"

section \<open>Shortcuts\<close>

definition shortcut_checks :: "wf_ctx \<Rightarrow> string \<Rightarrow> files \<Rightarrow> error + env" where
  "shortcut_checks C i s =
     and_then (wf_read_env C i s) (\<lambda>st.
     and_then (guard_ok (state_value st ''phase'' = ''pre-implementation'')
       (''shortcut completion requires phase=pre-implementation, got '' @ state_value st ''phase'')) (\<lambda>_.
     and_then (guard_ok (\<not> source_implementation_started st)
       ''shortcut completion cannot bypass a started source lifecycle'') (\<lambda>_.
     and_then (validate_original_task C s st) (\<lambda>_.
     let todos = active_ids (read_todos C i s)
     in and_then (guard_ok (todos = []) (''shortcut completion blocked by active TODOs: '' @ join_with '','' todos)) (\<lambda>_.
        and_then (wf_diff C) (\<lambda>diff.
        and_then (guard_ok (diff = []) ''shortcut completion requires an unchanged repository diff'') (\<lambda>_.
        and_then (guard_ok (receipt_paths C s = [])
          ''shortcut completion forbids external operation receipts'') (\<lambda>_.
        and_then (guard_ok (dir_entries s (wf_state_dir C @ [''operations'', ''requests'']) = [])
          ''shortcut completion forbids reviewed operation requests'') (\<lambda>_.
        Inr st)))))))))"

definition shortcut_completion_state :: "wf_ctx \<Rightarrow> string \<Rightarrow> env wf_cmd" where
  "shortcut_completion_state C i =
     bind_c (lift_r (shortcut_checks C i)) (\<lambda>st. bind_c (wf_gate C True) (\<lambda>_. ret_c st))"

definition workflow_launches :: "wf_ctx \<Rightarrow> string \<Rightarrow> files \<Rightarrow> (string \<times> env) list" where
  "workflow_launches C i s =
     (let dir = wf_state_dir C @ [''launch-authorizations'']
      in filter (\<lambda>(_, m). state_value m ''workflow_id'' = i)
           (map (\<lambda>n. (n, env_at s (dir @ [n, ''launch.env'']))) (subdirs s dir)))"

definition result_path :: "wf_ctx \<Rightarrow> path" where
  "result_path C = wf_state_dir C @ [''orchestrator-result.md'']"

definition shortcut_result_hash :: "wf_ctx \<Rightarrow> files \<Rightarrow> error + string" where
  "shortcut_result_hash C s =
     and_then (ok_or (lookup s (result_path C)) ''shortcut completion requires the persisted orchestrator result'') (\<lambda>t.
     Inr (wf_sha C t))"

definition complete_shortcut :: "wf_ctx \<Rightarrow> string \<Rightarrow> env \<Rightarrow> string \<Rightarrow> string \<Rightarrow> unit wf_cmd" where
  "complete_shortcut C i st route result = seq_c [
     wf_write_env C i (insert_all [(''phase'', ''complete''), (''candidate_diff_hash'', result),
       (''reviewed_diff_hash'', result), (''terminal_outcome'', ''succeeded''), (''updated_at'', wf_now C 2)] st),
     wf_event C i (wf_now C 3) ''phase_transitioned'' (''from=pre-implementation'' @ [TAB] @ ''to=complete'' @ [TAB]
       @ ''iteration='' @ state_value st ''iteration'' @ [TAB] @ ''authority=supervisor'' @ [TAB] @ ''route='' @ route)]"

definition finish_shortcut :: "wf_ctx \<Rightarrow> string \<Rightarrow> env \<Rightarrow> string \<Rightarrow> string wf_cmd" where
  "finish_shortcut C i st route =
     bind_c (lift_r (shortcut_result_hash C)) (\<lambda>h.
     let result = route @ '':'' @ h
     in bind_c (complete_shortcut C i st route result) (\<lambda>_. ret_c result))"

definition supervisor_complete_direct :: "wf_ctx \<Rightarrow> string \<Rightarrow> string wf_cmd" where
  "supervisor_complete_direct C i =
     bind_c (lift_r (\<lambda>_. require_supervisor_completion_authority C)) (\<lambda>_.
     bind_c (open_store C i) (\<lambda>_.
     bind_c (shortcut_completion_state C i) (\<lambda>st.
     bind_c (lift_r (\<lambda>s. guard_ok (workflow_launches C i s = []) ''direct-response completion forbids role launches'')) (\<lambda>_.
     finish_shortcut C i st ''direct-response''))))"

definition validate_observation_launches :: "(string \<times> env) list \<Rightarrow> error + unit" where
  "validate_observation_launches launches =
     all_ok (\<lambda>(name, m).
       and_then (guard_ok (state_value m ''access'' = ''read-only'')
         (''read-only completion found non-read-only launch: '' @ name)) (\<lambda>_.
       guard_ok (state_value m ''state'' = ''completed'')
         (''read-only completion found unfinished launch: '' @ name))) launches"

definition supervisor_complete_observe :: "wf_ctx \<Rightarrow> string \<Rightarrow> string wf_cmd" where
  "supervisor_complete_observe C i =
     bind_c (lift_r (\<lambda>_. require_supervisor_completion_authority C)) (\<lambda>_.
     bind_c (lift_r (require_observe_authority C)) (\<lambda>_.
     bind_c (open_store C i) (\<lambda>_.
     bind_c (shortcut_completion_state C i) (\<lambda>st.
     bind_c (lift_r (\<lambda>s. validate_observation_launches (workflow_launches C i s))) (\<lambda>_.
     finish_shortcut C i st ''observe'')))))"

definition validate_read_only_launches :: "(string \<times> env) list \<Rightarrow> string option \<Rightarrow> error + unit" where
  "validate_read_only_launches launches reviewer =
     and_then (validate_observation_launches launches) (\<lambda>_.
     and_then (all_ok (\<lambda>(name, m). guard_ok (state_value m ''role'' \<in> {''reader'', ''reviewer''})
       (''read-only completion found unsupported role '' @ state_value m ''role'' @ '': '' @ name)) launches) (\<lambda>_.
     and_then (guard_ok (list_ex (\<lambda>(_, m). state_value m ''role'' = ''reader'') launches)
       ''read-only completion requires at least one completed reader'') (\<lambda>_.
     case reviewer of
       None \<Rightarrow> Inr ()
     | Some r \<Rightarrow> guard_ok (list_ex (\<lambda>(name, m). state_value m ''role'' = ''reviewer'' \<and> name = r) launches)
         (''read-only completion requires completed reviewer launch: '' @ r))))"

definition integrity_evidence :: "wf_ctx \<Rightarrow> string \<Rightarrow> string \<Rightarrow> files \<Rightarrow> error + string" where
  "integrity_evidence C i reviewer s =
     and_then (wf_diff C) (\<lambda>diff.
     let digest = wf_sha C diff; dir = wf_state_dir C @ [''reviewer-evidence'', reviewer];
         evidence = env_at s (dir @ [''evidence.env'']);
         markers = (\<lambda>report verdict. length (filter (\<lambda>l. review_marker_matches l
           (review_marker ''read-only-integrity'' verdict digest)) (lines report)))
     in and_then (guard_ok (state_value evidence ''role'' = ''reviewer'' \<and> state_value evidence ''access'' = ''read-only'' \<and>
            state_value evidence ''workflow_id'' = i \<and> state_value evidence ''state'' = ''completed'')
          ''read-only reviewer evidence is not supervisor-sealed for this workflow'') (\<lambda>_.
        and_then (ok_or (lookup s (dir @ [''last-message.txt''])) ''read read-only reviewer evidence'') (\<lambda>report.
        and_then (guard_ok (wf_sha C report = state_value evidence ''output_sha256'')
          ''read-only reviewer evidence failed its supervisor output seal'') (\<lambda>_.
        and_then (guard_ok (markers report ''pass'' = 1 \<and> markers report ''findings'' = 0)
          ''read-only reviewer evidence requires exactly one passing integrity marker and no findings marker'') (\<lambda>_.
        Inr digest)))))"

definition record_integrity :: "wf_ctx \<Rightarrow> string \<Rightarrow> env \<Rightarrow> string \<Rightarrow> string \<Rightarrow> unit wf_cmd" where
  "record_integrity C i st reviewer digest =
     (let iteration = state_value st ''iteration''; rid = ''read-only-integrity-'' @ iteration
      in bind_c (lift_r (\<lambda>s. Inr (read_reviews C i s))) (\<lambda>rows.
         if list_ex (\<lambda>r. r ! 0 = rid) rows then ret_c ()
         else seq_c [
           write_rows (reviews_path C i) REVIEW_HEADER (rows @ [[rid, ''read-only-integrity'', ''pass'', digest,
             display (wf_state_dir C @ [''reviewer-evidence'', reviewer]), iteration, wf_now C 0, reviewer]]),
           wf_event C i (wf_now C 1) ''review_recorded'' (''review_id='' @ rid @ [TAB] @ ''type=read-only-integrity'' @ [TAB]
             @ ''verdict=pass'' @ [TAB] @ ''diff_hash='' @ digest)]))"

definition supervisor_complete_read_only :: "wf_ctx \<Rightarrow> string \<Rightarrow> string option \<Rightarrow> string wf_cmd" where
  "supervisor_complete_read_only C i reviewer =
     bind_c (lift_r (\<lambda>_. and_then (require_supervisor_completion_authority C) (\<lambda>_.
       case reviewer of None \<Rightarrow> Inr () | Some r \<Rightarrow> wf_valid_id ''read-only reviewer'' r))) (\<lambda>_.
     bind_c (open_store C i) (\<lambda>_.
     bind_c (shortcut_completion_state C i) (\<lambda>st.
     bind_c (lift_r (\<lambda>s. let launches = workflow_launches C i s in
       and_then (guard_ok (launches \<noteq> []) ''read-only completion requires at least one reader launch'') (\<lambda>_.
       validate_read_only_launches launches reviewer))) (\<lambda>_.
     bind_c (case reviewer of
         None \<Rightarrow> ret_c ()
       | Some r \<Rightarrow> bind_c (lift_r (integrity_evidence C i r)) (record_integrity C i st r)) (\<lambda>_.
     finish_shortcut C i st ''read-only'')))))"

section \<open>Questions for a human\<close>

text \<open>The fullwidth question mark U+FF1F in UTF-8.\<close>

definition FULLWIDTH_QUESTION :: string where
  "FULLWIDTH_QUESTION = [CHR 0xEF, CHR 0xBC, CHR 0x9F]"

definition question_marks :: "string \<Rightarrow> nat" where
  "question_marks q = count_str ''?'' q + count_str FULLWIDTH_QUESTION q"

definition ends_in_question :: "string \<Rightarrow> bool" where
  "ends_in_question q \<longleftrightarrow> ends_with ''?'' q \<or> ends_with FULLWIDTH_QUESTION q"

definition validate_bounded_question :: "string \<Rightarrow> error + unit" where
  "validate_bounded_question q =
     guard_ok (q \<noteq> [] \<and> length q \<le> 2000 \<and> 1 \<le> question_marks q \<and> question_marks q \<le> 3 \<and>
         ends_in_question (trim_end_with [CHR ''*'', CHR ''_'', CHR 0x60, CHR 0x22, CHR 0x27, CHR '')'', CHR '']''] q))
       ''repair review requires one bounded question ending with a question mark''"

definition normalize_repair_paths :: "string list \<Rightarrow> bool \<Rightarrow> error + string list" where
  "normalize_repair_paths paths reviewed =
     (if length paths > 32 \<or> paths = [] \<and> \<not> reviewed
      then Inl ''repair review requires an exact repository path or reviewed operations''
      else and_then (all_ok (\<lambda>v. guard_ok (v \<noteq> [] \<and> length v \<le> 512 \<and> \<not> has_root v \<and> list_all is_normal (components v))
          ''repair-review paths must be exact relative repository paths'') paths) (\<lambda>_.
        let normalized = sort (remdups (map slashes paths))
        in and_then (guard_ok (length normalized = length paths) ''repair-review paths must be unique'') (\<lambda>_.
           Inr normalized)))"

definition observe_completion_state :: "wf_ctx \<Rightarrow> string \<Rightarrow> files \<Rightarrow> error + env" where
  "observe_completion_state C i s =
     and_then (wf_read_env C i s) (\<lambda>st.
     and_then (guard_ok (state_value st ''phase'' = ''pre-implementation'')
       ''observe execution is already terminal or entered a mutation lifecycle'') (\<lambda>_.
     and_then (validate_original_task C s st) (\<lambda>_. Inr st)))"

definition request_path :: "wf_ctx \<Rightarrow> string \<Rightarrow> path" where
  "request_path C i = wf_base C i @ [''human-review-request.md'']"

definition repair_paths_path :: "wf_ctx \<Rightarrow> string \<Rightarrow> path" where
  "repair_paths_path C i = wf_base C i @ [''human-review-repair-paths.json'']"

definition effects_path :: "wf_ctx \<Rightarrow> string \<Rightarrow> path" where
  "effects_path C i = wf_base C i @ [''human-review-effects.json'']"

definition string_array :: "wf_ctx \<Rightarrow> string list \<Rightarrow> string" where
  "string_array C vs = wf_print C (JArr (map JStr vs)) @ [NL]"

definition supervisor_request_review :: "wf_ctx \<Rightarrow> string \<Rightarrow> string list \<Rightarrow> bool \<Rightarrow> string wf_cmd" where
  "supervisor_request_review C i paths reviewed =
     bind_c (lift_r (\<lambda>s. and_then (require_supervisor_completion_authority C) (\<lambda>_. require_observe_authority C s))) (\<lambda>_.
     bind_c (open_store C i) (\<lambda>_.
     bind_c (lift_r (\<lambda>s. and_then (observe_completion_state C i s) (\<lambda>st.
       and_then (ok_or (lookup s (result_path C)) ''read persisted repair-review question'') (\<lambda>t.
       and_then (validate_bounded_question (trim t)) (\<lambda>_.
       and_then (normalize_repair_paths paths reviewed) (\<lambda>normalized.
       Inr (st, trim t, normalized))))))) (\<lambda>(st, question, normalized).
     let effects = (if normalized \<noteq> [] then [''source-write''] else []) @ (if reviewed then [''reviewed-ops''] else []);
         request = question @ [NL]; paths_text = string_array C normalized; effects_text = string_array C effects;
         digest = wf_sha C request; paths_digest = wf_sha C paths_text;
         result = ''request-review:'' @ digest
     in bind_c (seq_c [
          modify_c (write_file (request_path C i) request),
          modify_c (write_file (repair_paths_path C i) paths_text),
          modify_c (write_file (effects_path C i) effects_text),
          wf_write_env C i (insert_all [(''phase'', ''complete''), (''candidate_diff_hash'', result),
            (''reviewed_diff_hash'', result), (''terminal_outcome'', ''review_requested''),
            (''human_review_status'', ''pending''), (''human_review_request'', display (request_path C i)),
            (''human_review_request_sha256'', digest),
            (''human_review_repair_paths'', display (repair_paths_path C i)),
            (''human_review_repair_paths_sha256'', paths_digest),
            (''human_review_reviewer'', ''session-self-review''), (''human_review_reason'', ''source-repair''),
            (''updated_at'', wf_now C 0)] st),
          wf_event C i (wf_now C 1) ''human_review_required'' (''from=pre-implementation'' @ [TAB] @ ''to=complete'' @ [TAB]
            @ ''iteration='' @ state_value st ''iteration'' @ [TAB] @ ''authority=supervisor'' @ [TAB] @ ''reason=repair'' @ [TAB]
            @ ''request_sha256='' @ digest @ [TAB] @ ''repair_paths_sha256='' @ paths_digest @ [TAB]
            @ ''effects_sha256='' @ wf_sha C effects_text)]) (\<lambda>_.
        ret_c result))))"

definition labelled_value :: "string \<Rightarrow> string \<Rightarrow> string option" where
  "labelled_value label line =
     (if length label \<le> length line \<and> eq_ignore_ascii_case (take (length label) line) label
      then Some (trim (drop (length label) line)) else None)"

definition report_lines :: "string \<Rightarrow> string list" where
  "report_lines report = filter (\<lambda>l. l \<noteq> []) (map trim (lines report))"

definition review_reason :: "string list \<Rightarrow> string option" where
  "review_reason ls =
     (let first = (case ls of [] \<Rightarrow> [] | l # _ \<Rightarrow> l)
      in if eq_ignore_ascii_case first ''Verdict: HUMAN_REVIEW_REQUIRED'' then Some ''ops-verification''
         else if eq_ignore_ascii_case first ''alignment: misaligned'' then Some ''plan-alignment'' else None)"

definition parse_human_review_request :: "string \<Rightarrow> error + (string \<times> string) option" where
  "parse_human_review_request report =
     (let ls = report_lines report
      in case review_reason ls of
        None \<Rightarrow> Inr None
      | Some reason \<Rightarrow>
          let label = (if reason = ''ops-verification'' then ''Human-review-question:'' else ''user-question:'');
              vs = List.map_filter (labelled_value label) ls;
              is_none = (\<lambda>v. eq_ignore_ascii_case v ''none'');
              questions = filter (\<lambda>v. v \<noteq> [] \<and> \<not> is_none v) vs
          in if reason = ''plan-alignment'' \<and> length vs = 1 \<and> is_none (hd vs) then Inr None
             else case questions of
               [q] \<Rightarrow>
                 if length q > 2000 \<or> question_marks q = 0 \<or> question_marks q > 3 \<or> \<not> ends_in_question q
                 then Inl ''human-review question must be bounded and end with a question mark''
                 else Inr (Some (q, reason))
             | _ \<Rightarrow> Inl ''human-review evidence requires exactly one bounded question'')"

definition reviewer_human_review_question ::
  "wf_ctx \<Rightarrow> string \<Rightarrow> string \<Rightarrow> files \<Rightarrow> error + (string \<times> string) option" where
  "reviewer_human_review_question C i reviewer s =
     and_then (wf_valid_id ''human-review reviewer'' reviewer) (\<lambda>_.
     let dir = wf_state_dir C @ [''reviewer-evidence'', reviewer]; metadata = env_at s (dir @ [''evidence.env''])
     in and_then (guard_ok (state_value metadata ''role'' = ''reviewer'' \<and> state_value metadata ''access'' = ''read-only'' \<and>
            state_value metadata ''workflow_id'' = i \<and> state_value metadata ''state'' = ''completed'')
          ''human review requires supervisor-sealed reviewer evidence for this workflow'') (\<lambda>_.
        and_then (ok_or (lookup s (dir @ [''last-message.txt''])) ''read human-review evidence'') (\<lambda>report.
        and_then (guard_ok (eq_ignore_ascii_case (wf_sha C report) (state_value metadata ''output_sha256''))
          ''human-review evidence failed its supervisor output seal'') (\<lambda>_.
        parse_human_review_request report))))"

definition supervisor_complete_human_review :: "wf_ctx \<Rightarrow> string \<Rightarrow> string \<Rightarrow> string wf_cmd" where
  "supervisor_complete_human_review C i reviewer =
     bind_c (lift_r (\<lambda>s. and_then (require_supervisor_completion_authority C) (\<lambda>_.
       and_then (reviewer_human_review_question C i reviewer s) (\<lambda>q.
       ok_or q ''reviewer evidence does not request human review'')))) (\<lambda>(question, reason).
     bind_c (open_store C i) (\<lambda>_.
     bind_c (lift_r (\<lambda>s. and_then (wf_read_env C i s) (\<lambda>st.
       and_then (guard_ok (state_value st ''phase'' \<noteq> ''complete'')
         ''human-review completion requires an active workflow'') (\<lambda>_.
       and_then (ok_or (lookup s (result_path C)) ''read persisted human-review question'') (\<lambda>persisted.
       and_then (guard_ok (trim persisted = question)
         ''persisted orchestrator result does not match the sealed human-review question'') (\<lambda>_. Inr st)))))) (\<lambda>st.
     let digest = wf_sha C (question @ [NL]); result = ''human-review:'' @ digest
     in bind_c (seq_c [
          modify_c (write_file (request_path C i) (question @ [NL])),
          wf_write_env C i (insert_all [(''phase'', ''complete''), (''candidate_diff_hash'', result),
            (''reviewed_diff_hash'', result), (''terminal_outcome'', ''review_requested''),
            (''human_review_status'', ''pending''), (''human_review_request'', display (request_path C i)),
            (''human_review_request_sha256'', digest), (''human_review_reviewer'', reviewer),
            (''human_review_reason'', reason), (''updated_at'', wf_now C 0)] st),
          wf_event C i (wf_now C 1) ''human_review_required'' (''from='' @ state_value st ''phase'' @ [TAB] @ ''to=complete''
            @ [TAB] @ ''iteration='' @ state_value st ''iteration'' @ [TAB] @ ''authority=supervisor'' @ [TAB]
            @ ''reviewer='' @ reviewer @ [TAB] @ ''reason='' @ reason @ [TAB] @ ''request_sha256='' @ digest)]) (\<lambda>_.
        ret_c result))))"

end
