(* ===== verification/Workflow_Frame.thy ===== *)
theory Workflow_Frame
  imports Workflow_Complete
begin

text \<open>
  How the commands of a workflow act on the lifecycle files. \<open>view C s\<close> is the lifecycle file of every workflow. A
  command \<open>keeps\<close> the view, or it \<open>leads\<close> from a given view to that view or to one of a given set. The rules follow the structure of a command, so what is left of a command is the one write it makes.
\<close>

section \<open>Paths\<close>

lemmas wf_paths = env_path_def todos_path_def reviews_path_def obligations_path_def events_path_def lock_path_def
  request_path_def repair_paths_path_def effects_path_def

lemma wf_base_inj [simp]: "wf_base C i = wf_base C j \<longleftrightarrow> i = j"
  by (simp add: wf_base_def)

lemma env_path_inj [simp]: "env_path C i = env_path C j \<longleftrightarrow> i = j"
  by (simp add: env_path_def)

lemma env_path_other [simp]:
  "env_path C j \<noteq> todos_path C i" "env_path C j \<noteq> reviews_path C i" "env_path C j \<noteq> obligations_path C i"
  "env_path C j \<noteq> events_path C i" "env_path C j \<noteq> lock_path C i" "env_path C j \<noteq> request_path C i"
  "env_path C j \<noteq> repair_paths_path C i" "env_path C j \<noteq> effects_path C i"
  "env_path C j \<noteq> wf_base C i @ [''original-task.md'']"
  by (simp_all add: wf_paths)

section \<open>Views\<close>

definition view :: "wf_ctx \<Rightarrow> files \<Rightarrow> string \<rightharpoonup> string" where
  "view C s = (\<lambda>j. lookup s (env_path C j))"

definition keeps :: "wf_ctx \<Rightarrow> 'a wf_cmd \<Rightarrow> bool" where
  "keeps C m \<longleftrightarrow> (\<forall>s r s'. m s = (r, s') \<longrightarrow> view C s' = view C s)"

definition leads :: "wf_ctx \<Rightarrow> (string \<rightharpoonup> string) \<Rightarrow> (string \<rightharpoonup> string) set \<Rightarrow> 'a wf_cmd \<Rightarrow> bool" where
  "leads C v V m \<longleftrightarrow> (\<forall>s r s'. view C s = v \<longrightarrow> m s = (r, s') \<longrightarrow> view C s' = v \<or> view C s' \<in> V)"

named_theorems frame

lemma keepsD: "keeps C m \<Longrightarrow> m s = (r, s') \<Longrightarrow> view C s' = view C s"
  by (simp add: keeps_def)

lemma keeps_ret [frame]: "keeps C (ret_c x)"
  and keeps_lift [frame]: "keeps C (lift_r f)"
  and keeps_ensure [frame]: "keeps C (ensure b e)"
  by (auto simp: keeps_def ensure_def cmd_simps)

lemma keeps_bind [frame]: "keeps C m \<Longrightarrow> (\<And>x. keeps C (f x)) \<Longrightarrow> keeps C (bind_c m f)"
  unfolding keeps_def by (auto simp: bind_c_def split: prod.splits sum.splits)

lemma keeps_seq [frame]: "keeps C (seq_c [])" "keeps C c \<Longrightarrow> keeps C (seq_c cs) \<Longrightarrow> keeps C (seq_c (c # cs))"
  by (auto intro: frame)

lemma keeps_write: "(\<And>j. p \<noteq> env_path C j) \<Longrightarrow> keeps C (modify_c (write_file p t))"
  by (auto simp: keeps_def view_def cmd_simps fun_eq_iff)

lemma keeps_writes [frame]:
  "keeps C (write_rows (todos_path C i) h rows)" "keeps C (write_rows (reviews_path C i) h rows)"
  "keeps C (write_rows (obligations_path C i) h rows)"
  "keeps C (modify_c (write_file (request_path C i) t))" "keeps C (modify_c (write_file (repair_paths_path C i) t))"
  "keeps C (modify_c (write_file (effects_path C i) t))"
  "keeps C (modify_c (write_file (wf_base C i @ [''original-task.md'']) t))"
  by (auto simp: write_rows_def intro!: keeps_write dest: sym)

lemma keeps_event [frame]: "keeps C (wf_event C i t n d)"
  and keeps_lock [frame]: "keeps C (wf_lock C i)"
  by (auto simp: keeps_def view_def wf_event_def wf_lock_def cmd_simps fun_eq_iff)

lemma keeps_table:
  "(\<And>j. p \<noteq> env_path C j) \<Longrightarrow> keeps C (init_table p h)"
  by (auto simp: keeps_def view_def init_table_def cmd_simps fun_eq_iff)

lemma keeps_tables [frame]: "keeps C (init_tables C i)"
  unfolding init_tables_def by (intro frame keeps_table) (auto dest: sym)

lemma keeps_store [frame]: "keeps C (open_store C i)"
  unfolding open_store_def by (intro frame)

section \<open>Commands that write a lifecycle file\<close>

lemma leads_keeps: "keeps C m \<Longrightarrow> leads C v V m"
  by (auto simp: leads_def dest: keepsD)

lemma leads_bind:
  assumes "keeps C m" and "\<And>x s s'. view C s = v \<Longrightarrow> m s = (Inr x, s') \<Longrightarrow> leads C v V (f x)"
  shows "leads C v V (bind_c m f)"
  unfolding leads_def
proof (intro allI impI)
  fix s r s' assume v: "view C s = v" and run: "bind_c m f s = (r, s')"
  obtain x t where m: "m s = (x, t)" by force
  then have t: "view C t = v" using keepsD [OF assms(1)] v by metis
  show "view C s' = v \<or> view C s' \<in> V"
  proof (cases x)
    case (Inl e)
    then show ?thesis using run m t by (simp add: bind_c_def)
  next
    case (Inr y)
    then have "f y t = (r, s')" using run m by (simp add: bind_c_def)
    then show ?thesis using assms(2) [OF v] m Inr t unfolding leads_def by blast
  qed
qed

lemma leads_write:
  assumes "v(i \<mapsto> lifecycle_text st) \<in> V" and "\<And>x. keeps C (f x)"
  shows "leads C v V (bind_c (wf_write_env C i st) f)"
  unfolding leads_def
proof (intro allI impI)
  fix s r s' assume v: "view C s = v" and run: "bind_c (wf_write_env C i st) f s = (r, s')"
  define t where "t = write_file (env_path C i) (lifecycle_text st) s"
  have "f () t = (r, s')" using run by (simp add: bind_c_def wf_write_env_def modify_c_def t_def)
  then have "view C s' = view C t" using keepsD [OF assms(2)] by blast
  also have "view C t = v(i \<mapsto> lifecycle_text st)" using v by (auto simp: view_def t_def fun_eq_iff)
  finally show "view C s' = v \<or> view C s' \<in> V" using assms(1) by simp
qed

text \<open>Such a prefix, followed by commands that keep the view.\<close>

lemma leads_then:
  assumes "leads C v V m" and "\<And>x. keeps C (f x)"
  shows "leads C v V (bind_c m f)"
  unfolding leads_def
proof (intro allI impI)
  fix s r s' assume v: "view C s = v" and run: "bind_c m f s = (r, s')"
  obtain x t where m: "m s = (x, t)" by force
  have "view C s' = view C t"
    using run m keepsD [OF assms(2)] by (auto simp: bind_c_def split: sum.splits)
  moreover have "view C t = v \<or> view C t \<in> V" using assms(1) v m unfolding leads_def by blast
  ultimately show "view C s' = v \<or> view C s' \<in> V" by simp
qed

lemma leadsD: "leads C (view C s) V m \<Longrightarrow> m s = (r, s') \<Longrightarrow> view C s' = view C s \<or> view C s' \<in> V"
  by (simp add: leads_def)

lemma seq_c_single [simp]: "seq_c [c] = bind_c c (\<lambda>_. ret_c ())"
  by simp

text \<open>A command whose state is read before it is opened.\<close>

lemma read_env_view: "wf_read_env C i s = Inr st \<Longrightarrow> \<exists>t. view C s i = Some t \<and> st = parse_env t"
  by (auto simp: wf_read_env_def view_def is_file_def env_at_def split: if_splits)

end
