(* ===== verification/Workflow_Phases.thy ===== *)
theory Workflow_Phases
  imports Workflow_Frame
begin

text \<open>
  The phases of a workflow as a step relation, and that the commands of \<open>multiagent workflow\<close> follow it: one
  command moves every workflow by at most one step, and no command completes one. Arguments are single lines;
  \<open>diff_hash_completes\<close> shows what happens otherwise.
\<close>

section \<open>The phase machine\<close>

inductive phase_step :: "string option \<Rightarrow> string option \<Rightarrow> bool" where
  stay: "phase_step p p"
| create: "phase_step None (Some ''pre-implementation'')"
| implement: "phase_step (Some ''pre-implementation'') (Some ''implementation'')"
| freeze: "phase_step (Some ''implementation'') (Some ''post-implementation'')"
| repair: "phase_step (Some ''post-implementation'') (Some ''pre-implementation'')"

inductive_cases phase_step_to_complete: "phase_step p (Some ''complete'')"

definition phase_in :: "(string \<rightharpoonup> string) \<Rightarrow> string \<Rightarrow> string option" where
  "phase_in v j = map_option (\<lambda>t. state_value (parse_env t) ''phase'') (v j)"

text \<open>A lifecycle file without carriage returns, as every command writes it.\<close>

definition clean_view :: "(string \<rightharpoonup> string) \<Rightarrow> bool" where
  "clean_view v \<longleftrightarrow> (\<forall>j t. v j = Some t \<longrightarrow> CR \<notin> set t)"

definition clean_env :: "env \<Rightarrow> bool" where
  "clean_env st \<longleftrightarrow> (\<forall>k. single_line (state_value st k))"

text \<open>Time stamps, digests and paths are single lines.\<close>

definition wf_clean :: "wf_ctx \<Rightarrow> bool" where
  "wf_clean C \<longleftrightarrow> (\<forall>n. single_line (wf_now C n)) \<and> (\<forall>t. single_line (wf_sha C t)) \<and>
     (\<forall>t u. wf_canon C t = Some u \<longrightarrow> single_line u) \<and> list_all single_line (wf_state_dir C)"

definition permitted :: "(string \<rightharpoonup> string) \<Rightarrow> (string \<rightharpoonup> string) set" where
  "permitted v = {v'. clean_view v' \<and> (\<forall>j. phase_step (phase_in v j) (phase_in v' j))}"

section \<open>Clean values\<close>

named_theorems clean

lemma single_line_simps [simp]:
  "single_line []" "single_line (s @ t) \<longleftrightarrow> single_line s \<and> single_line t"
  "single_line (c # s) \<longleftrightarrow> c \<noteq> NL \<and> c \<noteq> CR \<and> single_line s"
  by (auto simp: single_line_def)

lemma single_line_show_nat [simp]: "single_line (show_nat n)"
  by (rule field_ok_single_line) simp

lemma single_line_join_segs: "list_all single_line p \<Longrightarrow> single_line (join_segs p)"
  unfolding join_segs_def single_line_def using set_join_with [of "''/''" p] by (auto simp: list_all_iff)

lemma single_line_display: "list_all single_line p \<Longrightarrow> single_line (display p)"
  by (simp add: display_def single_line_join_segs)

lemma single_line_lower: "single_line s \<Longrightarrow> single_line (to_ascii_lowercase s)"
proof -
  have "char_of (of_char x + (32 :: nat)) \<noteq> c"
    if "65 \<le> (of_char x :: nat)" "of_char x \<le> (90 :: nat)" "of_char c < (32 :: nat)" for x c
  proof
    assume "char_of (of_char x + (32 :: nat)) = c"
    then have "of_char c = (of_char x + (32 :: nat)) mod 256" by auto
    then show False using that by simp
  qed
  note low = this [of _ NL] this [of _ CR]
  show "single_line s \<Longrightarrow> single_line (to_ascii_lowercase s)"
    using low by (induction s) (auto simp: to_ascii_lowercase_def is_ascii_uppercase_def byte_of_def)
qed

lemma insert_all_map: "insert_all kvs st = st ++ map_of (rev kvs)"
proof (induction kvs arbitrary: st)
  case (Cons kv kvs)
  obtain a b where kv: "kv = (a, b)" by force
  have "insert_all (kv # kvs) st = insert_all kvs (st(a \<mapsto> b))" by (simp add: insert_all_def kv)
  then show ?case unfolding Cons [of "st(a \<mapsto> b)"] by (auto simp: kv map_add_def fun_eq_iff split: option.splits)
qed (simp add: insert_all_def)

lemma state_value_insert:
  "state_value (insert_all kvs st) k = (case map_of (rev kvs) k of Some v \<Rightarrow> v | None \<Rightarrow> state_value st k)"
  by (simp add: insert_all_map state_value_def map_add_def split: option.split)

lemma clean_insert:
  assumes "clean_env st" and "list_all (\<lambda>(k, v). single_line v) kvs"
  shows "clean_env (insert_all kvs st)"
  unfolding clean_env_def state_value_insert
proof
  fix k
  show "single_line (case map_of (rev kvs) k of Some v \<Rightarrow> v | None \<Rightarrow> state_value st k)"
  proof (cases "map_of (rev kvs) k")
    case None
    then show ?thesis using assms(1) by (simp add: clean_env_def)
  next
    case (Some v)
    then have "(k, v) \<in> set kvs" using map_of_SomeD by fastforce
    then show ?thesis using assms(2) Some by (auto simp: list_all_iff)
  qed
qed

lemma clean_parse_env: "CR \<notin> set t \<Longrightarrow> clean_env (parse_env t)"
  unfolding clean_env_def
proof
  fix k assume t: "CR \<notin> set t"
  show "single_line (state_value (parse_env t) k)"
  proof (cases "parse_env t k")
    case (Some v)
    then have "(k, v) \<in> set (List.map_filter (split_once CHR ''='') (lines t))"
      unfolding parse_env_def by (metis map_of_SomeD set_rev)
    then obtain l where l: "l \<in> set (lines t)" "split_once CHR ''='' l = Some (k, v)"
      by (auto simp: List.map_filter_def)
    then have "set v \<subseteq> set l" by (auto simp: split_once_Some)
    then show ?thesis using l(1) lines_no_newline lines_subset t Some
      by (fastforce simp: state_value_def single_line_def)
  qed (simp add: state_value_def)
qed

lemma clean_view_env: "clean_view v \<Longrightarrow> v i = Some t \<Longrightarrow> clean_env (parse_env t)"
  by (simp add: clean_view_def clean_parse_env)

section \<open>The lifecycle file reads back\<close>

lemma ENV_ORDER_ok: "distinct ENV_ORDER" "list_all (\<lambda>k. single_line k \<and> CHR ''='' \<notin> set k) ENV_ORDER"
  by (simp_all add: ENV_ORDER_def)

lemma read_lifecycle_text:
  assumes "clean_env st"
  shows "parse_env (lifecycle_text st) = (\<lambda>k. if k \<in> set ENV_ORDER then Some (state_value st k) else None)"
proof -
  let ?kvs = "map (\<lambda>k. (k, state_value st k)) ENV_ORDER"
  have "list_all env_entry_ok ?kvs"
    using ENV_ORDER_ok(2) assms by (auto simp: list_all_iff env_entry_ok_def clean_env_def)
  moreover have "distinct (map fst ?kvs)" using ENV_ORDER_ok(1) by (simp add: comp_def)
  ultimately have "parse_env (lifecycle_text st) = map_of ?kvs"
    unfolding lifecycle_text_def by (rule parse_env_text_distinct)
  then show ?thesis by (simp add: map_of_map_restrict restrict_map_def fun_eq_iff)
qed

lemma lifecycle_text_no_CR:
  assumes "clean_env st" shows "CR \<notin> set (lifecycle_text st)"
proof -
  have "single_line (env_line (k, state_value st k))" if "k \<in> set ENV_ORDER" for k
    using that ENV_ORDER_ok(2) assms by (intro env_line_single) (auto simp: list_all_iff env_entry_ok_def clean_env_def)
  then show ?thesis by (auto simp: lifecycle_text_def env_text_def unlines_def single_line_def)
qed

lemma state_value_read: "clean_env st \<Longrightarrow> k \<in> set ENV_ORDER \<Longrightarrow> state_value (parse_env (lifecycle_text st)) k = state_value st k"
  by (simp add: read_lifecycle_text state_value_def)

lemma permitted_write:
  assumes "clean_view v" and "clean_env st" and "phase_step (phase_in v i) (Some (state_value st ''phase''))"
  shows "v(i \<mapsto> lifecycle_text st) \<in> permitted v"
proof -
  have "state_value (parse_env (lifecycle_text st)) ''phase'' = state_value st ''phase''"
    by (rule state_value_read [OF assms(2)]) (simp add: ENV_ORDER_def)
  then have "phase_step (phase_in v j) (phase_in (v(i \<mapsto> lifecycle_text st)) j)" for j
    using assms(3) by (auto simp: phase_in_def intro: stay)
  moreover have "clean_view (v(i \<mapsto> lifecycle_text st))"
    using assms(1) lifecycle_text_no_CR [OF assms(2)] by (auto simp: clean_view_def)
  ultimately show ?thesis by (simp add: permitted_def)
qed

section \<open>Options\<close>

lemma wf_options_from_values:
  "wf_options_from out args = Inr opts \<Longrightarrow> opts k = Some v \<Longrightarrow> out k = Some v \<or> v \<in> set args"
  by (induction out args rule: wf_options_from.induct) (auto split: if_splits)

lemma options_clean:
  assumes "wf_options args = Inr opts" and "list_all single_line args"
  shows "single_line (wf_opt opts k)"
  using wf_options_from_values [of Map.empty args opts k] assms
  by (cases "opts k") (auto simp: wf_options_def wf_opt_def list_all_iff)

lemma required_clean:
  assumes "wf_options args = Inr opts" and "list_all single_line args" and "wf_required opts k = Inr v"
  shows "single_line v"
  using wf_options_from_values [of Map.empty args opts k v] assms
  by (auto simp: wf_options_def wf_required_def list_all_iff split: option.splits if_splits)

section \<open>Every command follows the phases\<close>

text \<open>A state read from a clean view is clean, and its phase is the phase of the view.\<close>

lemma read_clean:
  assumes "wf_read_env C i s = Inr st" and "view C s = v" and "clean_view v"
  shows "clean_env st" and "phase_in v i = Some (state_value st ''phase'')"
  using read_env_view [OF assms(1)] assms(2,3) clean_view_env by (auto simp: phase_in_def)

lemma wf_cleanD [simp]:
  "wf_clean C \<Longrightarrow> single_line (wf_now C n)" "wf_clean C \<Longrightarrow> single_line (wf_sha C t)"
  "wf_clean C \<Longrightarrow> wf_canon C t = Some u \<Longrightarrow> single_line u"
  "wf_clean C \<Longrightarrow> list_all single_line (wf_state_dir C)"
  by (auto simp: wf_clean_def)

text \<open>A write that keeps the phase.\<close>

lemma permitted_same_phase:
  assumes "wf_read_env C i s = Inr st" and "view C s = v" and "clean_view v"
    and "list_all (\<lambda>(k, v). single_line v \<and> k \<noteq> ''phase'') kvs"
  shows "v(i \<mapsto> lifecycle_text (insert_all kvs st)) \<in> permitted v"
proof (rule permitted_write [OF assms(3)])
  have "clean_env st" using read_clean(1) [OF assms(1-3)] .
  then show "clean_env (insert_all kvs st)" using assms(4) by (intro clean_insert) (auto simp: list_all_iff)
  have "map_of (rev kvs) ''phase'' = None" using assms(4) by (auto simp: map_of_eq_None_iff list_all_iff)
  then show "phase_step (phase_in v i) (Some (state_value (insert_all kvs st) ''phase''))"
    using read_clean(2) [OF assms(1-3)] by (simp add: state_value_insert stay)
qed

text \<open>The last lines of a command: one write of the lifecycle file, an event and the printed line.\<close>

lemma leads_publish:
  "v(i \<mapsto> lifecycle_text st) \<in> V \<Longrightarrow>
     leads C v V (bind_c (seq_c [wf_write_env C i st, wf_event C i t n d]) (\<lambda>_. ret_c x))"
  by (auto intro!: leads_then leads_write frame)

lemma leads_lift:
  "(\<And>x s. view C s = v \<Longrightarrow> f s = Inr x \<Longrightarrow> leads C v V (g x)) \<Longrightarrow> leads C v V (bind_c (lift_r f) g)"
  by (rule leads_bind) (auto simp: cmd_simps intro: frame)

lemma leads_open: "leads C v V (g ()) \<Longrightarrow> leads C v V (bind_c (open_store C i) g)"
  by (rule leads_bind) (auto intro: frame)

lemma leads_ensure: "(b \<Longrightarrow> leads C v V (g ())) \<Longrightarrow> leads C v V (bind_c (ensure b e) g)"
  unfolding ensure_def by (rule leads_lift) (simp add: cmd_simps)

lemmas leads_start = leads_lift leads_open leads_ensure

lemma seal_leads:
  assumes v: "clean_view (view C s)" and clean: "wf_clean C" and single: "list_all single_line args"
  shows "leads C (view C s) (permitted (view C s)) (seal_iteration C args)"
proof (cases args)
  case (Cons i rest)
  have digest: "single_line d" if "seal_input rest = Inr (d, n)" for d n
    using that single Cons by (auto simp: seal_input_def cmd_simps split: option.splits if_splits intro: required_clean)
  show ?thesis unfolding seal_iteration_def Cons Let_def list.case
    apply (rule leads_lift, clarsimp simp del: seq_c.simps)
    apply (rule leads_open, rule leads_lift, clarsimp simp: cmd_simps simp del: seq_c.simps)
    apply (rule leads_publish, erule (1) permitted_same_phase [OF _ _ v])
    by (auto simp: clean single_line_lower digest)
qed (simp add: seal_iteration_def leads_keeps frame)

lemma register_leads:
  assumes v: "clean_view (view C s)" and clean: "wf_clean C" and single: "list_all single_line args"
  shows "leads C (view C s) (permitted (view C s)) (register_contract C args)"
proof (cases args)
  case (Cons i rest)
  have scout: "single_line x" if "wf_options rest = Inr opts" "wf_required opts k = Inr x" for opts k x
    using that single Cons by (auto intro: required_clean)
  have artifact: "single_line (display p)" if "contract_evidence C i scout t = Inr (p, u)" "single_line scout" for scout t p u
    using that clean by (auto simp: contract_evidence_def cmd_simps Let_def intro!: single_line_display)
  show ?thesis unfolding register_contract_def Cons Let_def list.case
    apply (rule leads_lift, clarsimp simp: cmd_simps simp del: seq_c.simps)
    apply (rule leads_open, rule leads_lift, clarsimp simp: cmd_simps simp del: seq_c.simps)
    apply (rule leads_publish, erule (1) permitted_same_phase [OF _ _ v])
    by (auto simp: clean dest: scout artifact)
qed (simp add: register_contract_def leads_keeps frame)

lemma prepare_leads:
  assumes v: "clean_view (view C s)" and clean: "wf_clean C" and single: "list_all single_line args"
  shows "leads C (view C s) (permitted (view C s)) (wf_prepare C args)"
proof (cases args)
  case (Cons i rest)
  have input: "single_line r" if "prepare_input rest = Inr (p, c, r)" for p c r
    using that single Cons by (auto simp: prepare_input_def cmd_simps intro: required_clean)
  have checks: "wf_read_env C i t = Inr st \<and> single_line canonical \<and> single_line digest"
    if "prepare_checks C i p c r t = Inr (st, canonical, digest)" for p c r t st canonical digest
    using that clean by (auto simp: prepare_checks_def cmd_simps Let_def)
  show ?thesis unfolding wf_prepare_def Cons Let_def list.case
    apply (rule leads_lift, clarsimp simp del: seq_c.simps)
    apply (rule leads_open, rule leads_lift, clarsimp simp del: seq_c.simps dest!: checks)
    apply (rule leads_publish, erule (1) permitted_same_phase [OF _ _ v])
    by (auto simp: clean dest: input)
qed (simp add: wf_prepare_def leads_keeps frame)

lemma enter_phase_result:
  assumes "enter_phase C i diff st t = (Inr st', t')" and "clean_env st" and "single_line diff"
    and "allowed_transition (state_value st ''phase'') target"
  shows "clean_env st'" and "phase_step (Some (state_value st ''phase'')) (Some (state_value st' ''phase''))"
proof -
  have "st' = insert_all [(''phase'', ''implementation'')] st \<and> state_value st ''phase'' = ''pre-implementation'' \<or>
      st' = insert_all [(''phase'', ''post-implementation''), (''candidate_diff_hash'', diff), (''reviewed_diff_hash'', [])] st \<and>
        state_value st ''phase'' = ''implementation'' \<or>
      st' = reset_iteration st \<and> state_value st ''phase'' = ''post-implementation''"
    using assms(1,4) by (auto simp: enter_phase_def allowed_transition_def cmd_simps split: if_splits)
  then show "clean_env st'" "phase_step (Some (state_value st ''phase'')) (Some (state_value st' ''phase''))"
    using assms(2,3) by (auto simp: reset_iteration_def state_value_insert intro!: clean_insert phase_step.intros)
qed

lemma enter_phase_keeps [frame]: "keeps C (enter_phase C i diff st)"
  unfolding enter_phase_def by (auto intro!: frame)

lemma transition_leads:
  assumes v: "clean_view (view C s)" and clean: "wf_clean C" and single: "list_all single_line args"
  shows "leads C (view C s) (permitted (view C s)) (wf_transition C args)"
proof (cases "\<exists>i target rest. args = i # target # rest")
  case True
  then obtain i target rest where args: "args = i # target # rest" by blast
  have diff: "single_line (wf_opt opts k)" if "wf_options rest = Inr opts" for opts k
    using that single args by (auto intro: options_clean)
  have written: "(view C s)(i \<mapsto> lifecycle_text (insert_all [(''updated_at'', wf_now C 2)] st')) \<in> permitted (view C s)"
    if "wf_options rest = Inr opts" "wf_read_env C i t = Inr st" "view C t = view C s"
      "allowed_transition (state_value st ''phase'') target"
      "enter_phase C i (wf_opt opts ''--diff-hash'') st u = (Inr st', u')" for opts t st st' u u'
  proof -
    note r = read_clean [OF that(2,3) v]
    note e = enter_phase_result [OF that(5) r(1) diff [OF that(1)] that(4)]
    show ?thesis using e r(2) clean
      by (intro permitted_write v clean_insert) (simp_all add: state_value_insert)
  qed
  show ?thesis unfolding wf_transition_def args Let_def list.case
    apply (rule leads_bind, intro frame)
    apply (rule leads_lift, rule leads_open, rule leads_lift, rule leads_ensure)
    apply (rule leads_bind, rule frame)
    by (rule leads_publish, erule (4) written)
next
  case False
  then show ?thesis unfolding wf_transition_def by (auto intro: leads_keeps frame split: list.split)
qed

text \<open>Initialization.\<close>

lemma leads_if_file:
  "(v i \<noteq> None \<Longrightarrow> leads C v V m) \<Longrightarrow> (v i = None \<Longrightarrow> leads C v V n) \<Longrightarrow>
     leads C v V (\<lambda>s. if is_file s (env_path C i) then m s else n s)"
  unfolding leads_def by (metis is_file_def view_def)

lemma copy_task_keeps [frame]: "keeps C (copy_original_task C i)"
  unfolding copy_original_task_def by (auto simp: Let_def intro!: frame split: option.split)

lemma initial_state_clean:
  "single_line i \<Longrightarrow> single_line t \<Longrightarrow> single_line h \<Longrightarrow> single_line w \<Longrightarrow> clean_env (initial_state i t h w)"
  by (auto simp: clean_env_def initial_state_def state_value_def)

lemma create_leads:
  assumes v: "clean_view v" "v i = None" and clean: "wf_clean C" and i: "single_line i"
  shows "leads C v (permitted v) (create_workflow C i b)"
proof -
  have task: "single_line t \<and> single_line h" if "copy_original_task C i u = (Inr (t, h), u')" for t h u u'
    using that clean i by (auto simp: copy_original_task_def Let_def cmd_simps wf_base_def intro!: single_line_display
        split: option.splits if_splits)
  have written: "v(i \<mapsto> lifecycle_text (initial_state i t h (wf_now C 0))) \<in> permitted v" if "single_line t \<and> single_line h" for t h
    using that clean i v
    by (intro permitted_write initial_state_clean) (auto simp: phase_in_def initial_state_def state_value_def intro: create)
  show ?thesis unfolding create_workflow_def
    apply (rule leads_bind, rule frame)
    apply (simp only: split_paired_all prod.case, drule task)
    apply (rule leads_then, simp only: seq_c.simps, rule leads_write, erule written)
    by (intro frame)+
qed

lemma resume_leads:
  assumes v: "clean_view (view C s)" and clean: "wf_clean C"
  shows "leads C (view C s) (permitted (view C s)) (resume_workflow C i b)"
  unfolding resume_workflow_def Let_def
  apply (rule leads_lift, rule leads_then, simp only: seq_c.simps)
   apply (rule leads_ensure, rule leads_ensure, rule leads_write)
    apply (erule (1) permitted_same_phase [OF _ _ v])
  using clean by (auto intro!: frame)

lemma initialize_leads:
  assumes "clean_view (view C s)" and "wf_clean C" and "single_line i"
  shows "leads C (view C s) (permitted (view C s)) (initialize_id C i b)"
  unfolding initialize_id_def using assms by (intro leads_open leads_if_file resume_leads create_leads)

section \<open>Commands that keep every lifecycle file\<close>

lemma keeps_case_prod [frame]: "(\<And>a b. keeps C (f a b)) \<Longrightarrow> keeps C (case p of (a, b) \<Rightarrow> f a b)"
  by (cases p) simp

lemma keeps_commands [frame]:
  "keeps C (wf_status C args)" "keeps C (wf_value C args)" "keeps C (wf_gate_command C args)"
  "keeps C (completion_ready C args)" "keeps C (wf_context C args)"
  unfolding wf_status_def wf_value_def wf_gate_command_def completion_ready_def wf_context_def
  by (rule frame)+

lemma keeps_add_todo [frame]: "keeps C (add_todo C args)"
  unfolding add_todo_def by (auto simp del: seq_c.simps intro!: frame split: list.split)

lemma keeps_todo_status [frame]: "keeps C (todo_status C args)"
  unfolding todo_status_def Let_def by (auto simp del: seq_c.simps intro!: frame split: list.split)

lemma keeps_resolve_todo [frame]: "keeps C (resolve_todo C args)"
  unfolding resolve_todo_def Let_def by (auto simp del: seq_c.simps intro!: frame split: list.split)

lemma keeps_require_review [frame]: "keeps C (require_review C args)"
  unfolding require_review_def by (auto simp del: seq_c.simps intro!: frame split: list.split)

lemma keeps_satisfy [frame]: "keeps C (satisfy_obligations C i rid kind diff iteration)"
  unfolding satisfy_obligations_def Let_def by (auto intro!: frame)

lemma keeps_record_review [frame]: "keeps C (record_review C args)"
  unfolding record_review_def Let_def by (auto simp del: seq_c.simps intro!: frame split: list.split)

section \<open>The dispatcher\<close>

lemma leads_fail: "leads C v V (lift_r f)"
  by (rule leads_keeps) (rule frame)

lemma init_leads:
  assumes "clean_view (view C s)" and "wf_clean C" and "list_all single_line args"
  shows "leads C (view C s) (permitted (view C s)) (wf_initialize C args)"
    and "leads C (view C s) (permitted (view C s)) (init_or_resume C args)"
  unfolding wf_initialize_def init_or_resume_def using assms
  by (auto intro!: leads_start initialize_leads leads_fail split: list.split)

lemma workflow_run_leads:
  assumes "clean_view (view C s)" and "wf_clean C" and "list_all single_line args"
  shows "leads C (view C s) (permitted (view C s)) (workflow_run usage C args)"
proof (cases args)
  case (Cons command rest)
  have "list_all single_line rest" using assms(3) Cons by simp
  note rules = init_leads [OF assms(1,2) this] seal_leads [OF assms(1,2) this] register_leads [OF assms(1,2) this]
    prepare_leads [OF assms(1,2) this] transition_leads [OF assms(1,2) this]
  have "leads C (view C s) (permitted (view C s)) (wf_dispatch C command rest)"
    unfolding wf_dispatch_def by (simp add: rules leads_keeps frame)
  then show ?thesis by (simp add: workflow_run_def Cons leads_keeps frame)
qed (simp add: workflow_run_def leads_keeps frame)

end
