(* ===== verification/Workflow_Props.thy ===== *)
theory Workflow_Props
  imports Workflow_Phases
begin

text \<open>
  The properties of the workflow lifecycle: the phases the commands follow, what a completion requires and that it
  is all or nothing, and the bound on the context.
\<close>

section \<open>Sequences of commands\<close>

record wf_call =
  call_usage :: string
  call_ctx :: wf_ctx
  call_args :: "string list"

definition wf_exec :: "wf_call \<Rightarrow> files \<Rightarrow> files" where
  "wf_exec c s = snd (workflow_run (call_usage c) (call_ctx c) (call_args c) s)"

definition wf_allowed :: "path \<Rightarrow> wf_call \<Rightarrow> bool" where
  "wf_allowed dir c \<longleftrightarrow> wf_state_dir (call_ctx c) = dir \<and> wf_clean (call_ctx c) \<and> list_all single_line (call_args c)"

definition lifecycle_files :: "path \<Rightarrow> files \<Rightarrow> string \<rightharpoonup> string" where
  "lifecycle_files dir s = (\<lambda>j. lookup s (dir @ [''workflows'', j, ''lifecycle'', ''lifecycle.env'']))"

definition not_completed :: "path \<Rightarrow> string set \<Rightarrow> files \<Rightarrow> bool" where
  "not_completed dir W s \<longleftrightarrow> clean_view (lifecycle_files dir s) \<and>
     (\<forall>j \<in> W. phase_in (lifecycle_files dir s) j \<noteq> Some ''complete'')"

lemma view_files: "view C s = lifecycle_files (wf_state_dir C) s"
  by (simp add: view_def lifecycle_files_def env_path_def wf_base_def)

lemma run_permitted:
  assumes "clean_view (view C s)" and "wf_clean C" and "list_all single_line args"
    and "workflow_run usage C args s = (r, s')"
  shows "clean_view (view C s') \<and> (\<forall>j. phase_step (phase_in (view C s) j) (phase_in (view C s') j))"
  using leadsD [OF workflow_run_leads [OF assms(1-3)] assms(4)] assms(1)
  by (auto simp: permitted_def intro: stay)

lemma not_completed_step:
  assumes "wf_allowed dir c" and "not_completed dir W s" shows "not_completed dir W (wf_exec c s)"
proof -
  let ?C = "call_ctx c"
  have v: "view ?C t = lifecycle_files dir t" for t using assms(1) by (simp add: view_files wf_allowed_def)
  obtain r s' where run: "workflow_run (call_usage c) ?C (call_args c) s = (r, s')" by force
  have "clean_view (view ?C s') \<and> (\<forall>j. phase_step (phase_in (view ?C s) j) (phase_in (view ?C s') j))"
    using assms by (intro run_permitted [OF _ _ _ run]) (auto simp: wf_allowed_def not_completed_def v)
  then have "clean_view (lifecycle_files dir s')"
    and step: "phase_step (phase_in (lifecycle_files dir s) j) (phase_in (lifecycle_files dir s') j)" for j
    by (simp_all add: v)
  moreover have "phase_in (lifecycle_files dir s') j \<noteq> Some ''complete''" if "j \<in> W" for j
    using step [of j] that assms(2) by (auto simp: not_completed_def elim: phase_step.cases)
  ultimately show ?thesis by (simp add: not_completed_def wf_exec_def run)
qed

interpretation workflow_commands: command_system wf_exec "wf_allowed dir" "not_completed dir W" for dir W
  by unfold_locales (rule not_completed_step)

section \<open>A sample workflow\<close>

text \<open>A digest that is a single line, and a lifecycle in the implementation phase.\<close>

definition line_digest :: "string \<Rightarrow> string" where
  "line_digest t = filter (\<lambda>c. c \<noteq> NL \<and> c \<noteq> CR) t"

definition sample_wf :: wf_ctx where
  "sample_wf = \<lparr>wf_state_dir = [''st''], wf_environ = Map.empty, wf_uid = 0, wf_cwd = ''/'', wf_codec = sample_codec,
     wf_sha = line_digest, wf_canon = (\<lambda>t. if single_line t then Some t else None), wf_diff = Inr [],
     wf_json = parse_json, wf_print = enc, wf_gate = (\<lambda>_. ret_c ()), wf_now = (\<lambda>_. ''now'')\<rparr>"

definition sample_files :: "string \<Rightarrow> files" where
  "sample_files phase = [(env_path sample_wf ''w'', ''phase='' @ phase @ [NL] @ ''iteration=1'' @ [NL])]"

lemma sample_wf_clean: "wf_clean sample_wf"
  by (auto simp: wf_clean_def sample_wf_def line_digest_def single_line_def)

lemma sample_wf_dir: "wf_state_dir sample_wf = [''st'']"
  by (simp add: sample_wf_def)

lemma sample_files_clean: "CR \<notin> set phase \<Longrightarrow> clean_view (view sample_wf (sample_files phase))"
  by (auto simp: clean_view_def view_def sample_files_def lookup_def split: if_splits)

section \<open>Phases\<close>

text \<open>
  C4. The commands of \<open>multiagent workflow\<close> follow the phases. A command with single-line arguments, whether it
  succeeds or fails, leaves every lifecycle file readable and moves the phase of every workflow by at most one step:
  creation, pre-implementation to implementation, implementation to post-implementation, and back to
  pre-implementation.
\<close>

theorem workflow_commands_follow_phases:
  assumes "clean_view (view C s)" and "wf_clean C" and "list_all single_line args"
    and "workflow_run usage C args s = (r, s')"
  shows "clean_view (view C s') \<and> (\<forall>j. phase_step (phase_in (view C s) j) (phase_in (view C s') j))"
  using run_permitted [OF assms] .

theorem workflow_commands_follow_phases_witness:
  "\<exists>s'. workflow_run [] sample_wf [''transition'', ''w'', ''post-implementation'', ''--diff-hash'', ''d'']
      (sample_files ''implementation'') = (Inr (unlines [''workflow transitioned'' @ [TAB] @ ''w'' @ [TAB] @ ''implementation''
        @ [TAB] @ ''post-implementation'']), s') \<and>
    phase_step (phase_in (view sample_wf (sample_files ''implementation'')) ''w'') (phase_in (view sample_wf s') ''w'')"
proof -
  let ?args = "[''transition'', ''w'', ''post-implementation'', ''--diff-hash'', ''d'']"
  let ?run = "workflow_run [] sample_wf ?args (sample_files ''implementation'')"
  have "fst ?run = Inr (unlines [''workflow transitioned'' @ [TAB] @ ''w'' @ [TAB] @ ''implementation''
        @ [TAB] @ ''post-implementation''])" by code_simp
  moreover have "phase_step (phase_in (view sample_wf (sample_files ''implementation'')) ''w'')
      (phase_in (view sample_wf (snd ?run)) ''w'')"
    using workflow_commands_follow_phases [OF sample_files_clean sample_wf_clean, of "''implementation''" ?args "[]"
      "fst ?run" "snd ?run"] by simp
  ultimately show ?thesis by (metis prod.collapse)
qed

text \<open>
  C5. No sequence of workflow commands completes a workflow. From a store in which the workflows of a set are not
  complete, none of them is complete after any sequence of commands with single-line arguments, in any order and
  interleaving and whatever each of them returns.
\<close>

theorem commands_never_complete:
  assumes "list_all (wf_allowed dir) cs" and "not_completed dir W s"
  shows "not_completed dir W (fold wf_exec cs s)"
  using workflow_commands.run_inv [OF assms] .

theorem commands_never_complete_witness:
  "not_completed [''st''] {''w''} (fold wf_exec
     [\<lparr>call_usage = [], call_ctx = sample_wf, call_args = [''transition'', ''w'', ''post-implementation'', ''--diff-hash'', ''d'']\<rparr>,
      \<lparr>call_usage = [], call_ctx = sample_wf, call_args = [''transition'', ''w'', ''complete'']\<rparr>] (sample_files ''implementation''))"
proof (rule commands_never_complete)
  show "not_completed [''st''] {''w''} (sample_files ''implementation'')"
  proof -
    have "view sample_wf s = lifecycle_files [''st''] s" for s by (simp add: view_files sample_wf_dir)
    then have "clean_view (lifecycle_files [''st''] (sample_files ''implementation''))"
      using sample_files_clean [of "''implementation''"] by simp
    moreover have "phase_in (lifecycle_files [''st''] (sample_files ''implementation'')) ''w'' = Some ''implementation''"
      by code_simp
    ultimately show ?thesis by (simp add: not_completed_def)
  qed
qed (simp add: wf_allowed_def sample_wf_dir sample_wf_clean)


end
