(* ===== verification/Workflow_Sealing.thy ===== *)
theory Workflow_Sealing
  imports Workflow_Props
begin

text \<open>
  The completions of the supervisor: a completion that fails leaves every lifecycle file as it was, one that succeeds
  completes exactly its own workflow, and the completion of source work has passed every gate.
\<close>

section \<open>Completions\<close>

datatype completion =
    Source_Work
  | External_Only
  | Direct_Response
  | Observe_Only
  | Read_Only "string option"
  | Request_Review "string list" bool
  | Human_Review string

fun complete_by :: "wf_ctx \<Rightarrow> string \<Rightarrow> completion \<Rightarrow> string wf_cmd" where
  "complete_by C i Source_Work = supervisor_complete C i"
| "complete_by C i External_Only = supervisor_complete_external C i"
| "complete_by C i Direct_Response = supervisor_complete_direct C i"
| "complete_by C i Observe_Only = supervisor_complete_observe C i"
| "complete_by C i (Read_Only reviewer) = supervisor_complete_read_only C i reviewer"
| "complete_by C i (Request_Review paths ops) = supervisor_request_review C i paths ops"
| "complete_by C i (Human_Review reviewer) = supervisor_complete_human_review C i reviewer"

text \<open>The phase a completion starts from.\<close>

fun starts_from :: "completion \<Rightarrow> string \<Rightarrow> bool" where
  "starts_from Source_Work p \<longleftrightarrow> p = ''post-implementation''"
| "starts_from (Human_Review _) p \<longleftrightarrow> p \<noteq> ''complete''"
| "starts_from _ p \<longleftrightarrow> p = ''pre-implementation''"

text \<open>The gate of \<open>subagent.rs\<close> writes no lifecycle file.\<close>

definition gate_keeps :: "wf_ctx \<Rightarrow> bool" where
  "gate_keeps C \<longleftrightarrow> (\<forall>b. keeps C (wf_gate C b))"

section \<open>All or nothing\<close>

text \<open>
  \<open>seals C i P v m\<close>: from the view \<open>v\<close> the command fails and keeps it, or succeeds and replaces the lifecycle file of
  \<open>i\<close>, which was in a phase of \<open>P\<close>, by one that is complete.
\<close>

definition sealed :: "string \<Rightarrow> (string \<Rightarrow> bool) \<Rightarrow> (string \<rightharpoonup> string) \<Rightarrow> (string \<rightharpoonup> string) \<Rightarrow> bool" where
  "sealed i P v v' \<longleftrightarrow> (\<exists>t p. v' = v(i \<mapsto> t) \<and> phase_in v i = Some p \<and> P p \<and> phase_in v' i = Some ''complete'')"

definition seals :: "wf_ctx \<Rightarrow> string \<Rightarrow> (string \<Rightarrow> bool) \<Rightarrow> (string \<rightharpoonup> string) \<Rightarrow> 'a wf_cmd \<Rightarrow> bool" where
  "seals C i P v m \<longleftrightarrow> (\<forall>s r s'. view C s = v \<longrightarrow> m s = (r, s') \<longrightarrow>
     (if isl r then view C s' = v else sealed i P v (view C s')))"

lemma seals_bind:
  assumes "keeps C m" and "\<And>x s s'. view C s = v \<Longrightarrow> m s = (Inr x, s') \<Longrightarrow> seals C i P v (f x)"
  shows "seals C i P v (bind_c m f)"
  unfolding seals_def
proof (intro allI impI)
  fix s r s' assume v: "view C s = v" and run: "bind_c m f s = (r, s')"
  obtain x t where m: "m s = (x, t)" by force
  then have t: "view C t = v" using keepsD [OF assms(1)] v by metis
  show "if isl r then view C s' = v else sealed i P v (view C s')"
  proof (cases x)
    case (Inl e)
    then show ?thesis using run m t by (auto simp: bind_c_def)
  next
    case (Inr y)
    then have "f y t = (r, s')" using run m by (simp add: bind_c_def)
    then show ?thesis using assms(2) [OF v] m Inr t unfolding seals_def by blast
  qed
qed

lemma seals_lift:
  "(\<And>x s. view C s = v \<Longrightarrow> f s = Inr x \<Longrightarrow> seals C i P v (g x)) \<Longrightarrow> seals C i P v (bind_c (lift_r f) g)"
  by (rule seals_bind) (auto simp: cmd_simps intro: frame)

lemma seals_open: "seals C i P v (g ()) \<Longrightarrow> seals C i P v (bind_c (open_store C j) g)"
  by (rule seals_bind) (auto intro: frame)

lemma seals_gate: "gate_keeps C \<Longrightarrow> seals C i P v (g ()) \<Longrightarrow> seals C i P v (bind_c (wf_gate C b) g)"
  by (rule seals_bind) (auto simp: gate_keeps_def)

text \<open>The write of a completion: the phase among the fields is \<open>complete\<close>, and all are single lines.\<close>

lemma sealed_write:
  assumes "wf_read_env C i t = Inr st" and "view C t = v" and "clean_view v" and "P (state_value st ''phase'')"
    and "list_all (\<lambda>(k, v). single_line v) kvs" and "map_of (rev kvs) ''phase'' = Some ''complete''"
  shows "sealed i P v (v(i \<mapsto> lifecycle_text (insert_all kvs st)))"
proof -
  note r = read_clean [OF assms(1-3)]
  have c: "clean_env (insert_all kvs st)" by (rule clean_insert [OF r(1) assms(5)])
  have "state_value (parse_env (lifecycle_text (insert_all kvs st))) ''phase'' = ''complete''"
    using assms(6) by (subst state_value_read [OF c]) (simp_all add: ENV_ORDER_def state_value_insert)
  then show ?thesis using r(2) assms(4) unfolding sealed_def phase_in_def by auto
qed

lemma seals_publish:
  "sealed i P v (v(i \<mapsto> lifecycle_text st)) \<Longrightarrow>
     seals C i P v (bind_c (seq_c [wf_write_env C i st, wf_event C i t n d]) (\<lambda>_. ret_c x))"
proof -
  assume sealed: "sealed i P v (v(i \<mapsto> lifecycle_text st))"
  have "view C (append_to (events_path C i) u (write_file (env_path C i) (lifecycle_text st) s)) = v(i \<mapsto> lifecycle_text st)"
    if "view C s = v" for s u
    using that by (auto simp: view_def fun_eq_iff)
  with sealed show ?thesis
    by (auto simp: seals_def wf_write_env_def wf_event_def cmd_defs)
qed

section \<open>Every completion\<close>

lemma complete_seals:
  assumes v: "clean_view (view C s)" and clean: "wf_clean C" and gate: "gate_keeps C"
  shows "seals C i (starts_from Source_Work) (view C s) (supervisor_complete C i)"
proof -
  have same: "st = st' \<and> single_line (state_value st k)"
    if "wf_read_env C i t = Inr st'" "completion_state C i t = Inr st" "view C t = view C s" for t st st' k
    using that read_clean(1) [OF that(1,3) v] by (auto simp: completion_state_def Let_def cmd_simps clean_env_def)
  show ?thesis unfolding supervisor_complete_def Let_def
    apply (rule seals_lift, rule seals_open, rule seals_lift, clarsimp simp: cmd_simps simp del: seq_c.simps)
    apply (rule seals_gate [OF gate], frule (2) same, clarsimp simp del: seq_c.simps)
    apply (rule seals_publish, erule (1) sealed_write [OF _ _ v])
    using clean same by auto
qed

lemma external_seals:
  assumes v: "clean_view (view C s)" and clean: "wf_clean C" and gate: "gate_keeps C"
  shows "seals C i (starts_from External_Only) (view C s) (supervisor_complete_external C i)"
proof -
  have checks: "wf_read_env C i t = Inr st \<and> state_value st ''phase'' = ''pre-implementation''"
    if "external_checks C i t = Inr (st, ds)" for t st ds
    using that by (auto simp: external_checks_def Let_def cmd_simps)
  show ?thesis unfolding supervisor_complete_external_def Let_def
    apply (rule seals_lift, rule seals_open, rule seals_lift, simp only: split_paired_all prod.case)
    apply (rule seals_gate [OF gate], drule checks, elim conjE)
    apply (rule seals_publish, erule (1) sealed_write [OF _ _ v])
    using clean by auto
qed

text \<open>The shortcuts.\<close>

lemma shortcut_state:
  assumes "shortcut_completion_state C i t = (Inr st, t')"
  shows "wf_read_env C i t = Inr st" and "state_value st ''phase'' = ''pre-implementation''"
  using assms by (auto simp: shortcut_completion_state_def shortcut_checks_def Let_def cmd_simps)

lemma shortcut_keeps: "gate_keeps C \<Longrightarrow> keeps C (shortcut_completion_state C i)"
  unfolding shortcut_completion_state_def gate_keeps_def by (auto intro: frame)

lemma finish_seals:
  assumes "wf_read_env C i t = Inr st" and "view C t = v" and "clean_view v" and "wf_clean C"
    and "P (state_value st ''phase'')" and "single_line route"
  shows "seals C i P v (finish_shortcut C i st route)"
  unfolding finish_shortcut_def complete_shortcut_def Let_def
  apply (rule seals_lift, rule seals_publish, rule sealed_write [OF assms(1-3)])
  using assms(4,5,6) by (auto simp: shortcut_result_hash_def cmd_simps)

lemma direct_seals:
  assumes v: "clean_view (view C s)" and clean: "wf_clean C" and gate: "gate_keeps C"
  shows "seals C i (starts_from Direct_Response) (view C s) (supervisor_complete_direct C i)"
  unfolding supervisor_complete_direct_def
  apply (rule seals_lift, rule seals_open, rule seals_bind, rule shortcut_keeps [OF gate])
  apply (rule seals_lift, frule shortcut_state(1), drule shortcut_state(2))
  by (erule (1) finish_seals [OF _ _ v clean]) auto

lemma observe_seals:
  assumes v: "clean_view (view C s)" and clean: "wf_clean C" and gate: "gate_keeps C"
  shows "seals C i (starts_from Observe_Only) (view C s) (supervisor_complete_observe C i)"
  unfolding supervisor_complete_observe_def
  apply (rule seals_lift, rule seals_lift, rule seals_open, rule seals_bind, rule shortcut_keeps [OF gate])
  apply (rule seals_lift, frule shortcut_state(1), drule shortcut_state(2))
  by (erule (1) finish_seals [OF _ _ v clean]) auto

lemma keeps_integrity [frame]: "keeps C (record_integrity C i st r d)"
  unfolding record_integrity_def Let_def by (auto simp del: seq_c.simps intro!: frame)

lemma read_only_seals:
  assumes v: "clean_view (view C s)" and clean: "wf_clean C" and gate: "gate_keeps C"
  shows "seals C i (starts_from (Read_Only reviewer)) (view C s) (supervisor_complete_read_only C i reviewer)"
  unfolding supervisor_complete_read_only_def
  apply (rule seals_lift, rule seals_open, rule seals_bind, rule shortcut_keeps [OF gate])
  apply (rule seals_lift, frule shortcut_state(1), drule shortcut_state(2), rule seals_bind)
   apply (auto intro!: frame split: option.split)[1]
  by (erule (1) finish_seals [OF _ _ v clean]) auto

text \<open>The questions for a human. The request is written before the lifecycle file.\<close>

lemma seals_after:
  "keeps C c \<Longrightarrow> seals C i P v (bind_c (seq_c cs) g) \<Longrightarrow> seals C i P v (bind_c (seq_c (c # cs)) g)"
proof -
  assume c: "keeps C c" and "seals C i P v (bind_c (seq_c cs) g)"
  then have "seals C i P v (bind_c c (\<lambda>_. bind_c (seq_c cs) g))" by (rule seals_bind)
  moreover have "bind_c (seq_c (c # cs)) g = bind_c c (\<lambda>_. bind_c (seq_c cs) g)"
    by (auto simp: bind_c_def fun_eq_iff split: prod.split sum.split)
  ultimately show ?thesis by simp
qed

lemma request_review_seals:
  assumes v: "clean_view (view C s)" and clean: "wf_clean C" and i: "single_line i"
  shows "seals C i (starts_from (Request_Review paths ops)) (view C s) (supervisor_request_review C i paths ops)"
proof -
  have p: "single_line (display (wf_base C i @ [n]))" if "single_line n" for n
    using clean i that by (intro single_line_display) (simp add: wf_base_def)
  have checks: "wf_read_env C i t = Inr st \<and> state_value st ''phase'' = ''pre-implementation''"
    if "and_then (observe_completion_state C i t) (\<lambda>st.
       and_then (ok_or (lookup t (result_path C)) ''read persisted repair-review question'') (\<lambda>t.
       and_then (validate_bounded_question (trim t)) (\<lambda>_.
       and_then (normalize_repair_paths paths ops) (\<lambda>normalized.
       Inr (st, trim t, normalized))))) = Inr (st, q, n)" for t st q n
    using that by (auto simp: observe_completion_state_def cmd_simps)
  show ?thesis unfolding supervisor_request_review_def Let_def
    apply (rule seals_lift, rule seals_open, rule seals_lift)
    apply (simp only: split_paired_all prod.case, drule checks, elim conjE)
    apply (rule seals_after, rule frame)+
    apply (rule seals_publish, erule (1) sealed_write [OF _ _ v])
    using clean p by (auto simp: request_path_def repair_paths_path_def)
qed

lemma parse_request_reason:
  "parse_human_review_request report = Inr (Some (q, reason)) \<Longrightarrow> reason \<in> {''ops-verification'', ''plan-alignment''}"
  by (auto simp: parse_human_review_request_def review_reason_def Let_def split: option.splits list.splits if_splits)

lemma human_review_seals:
  assumes v: "clean_view (view C s)" and clean: "wf_clean C" and i: "single_line i" and r: "single_line reviewer"
  shows "seals C i (starts_from (Human_Review reviewer)) (view C s) (supervisor_complete_human_review C i reviewer)"
proof -
  have p: "single_line (display (wf_base C i @ [n]))" if "single_line n" for n
    using clean i that by (intro single_line_display) (simp add: wf_base_def)
  have reason: "single_line reason" if "reviewer_human_review_question C i reviewer t = Inr (Some (q, reason))" for t q reason
    using that parse_request_reason by (fastforce simp: reviewer_human_review_question_def Let_def cmd_simps)
  show ?thesis unfolding supervisor_complete_human_review_def Let_def
    apply (rule seals_lift, clarsimp simp: cmd_simps simp del: seq_c.simps)
    apply (rule seals_open, rule seals_lift, clarsimp simp: cmd_simps simp del: seq_c.simps)
    apply (rule seals_after, rule frame)
    apply (rule seals_publish, erule (1) sealed_write [OF _ _ v])
    using clean p r reason by (auto simp: request_path_def)
qed

fun completion_ok :: "completion \<Rightarrow> bool" where
  "completion_ok (Human_Review reviewer) \<longleftrightarrow> single_line reviewer"
| "completion_ok _ \<longleftrightarrow> True"

lemma completion_seals:
  assumes "clean_view (view C s)" and "wf_clean C" and "gate_keeps C" and "single_line i" and "completion_ok c"
  shows "seals C i (starts_from c) (view C s) (complete_by C i c)"
  using assms complete_seals external_seals direct_seals observe_seals read_only_seals request_review_seals human_review_seals
  by (cases c) (simp_all del: starts_from.simps)

section \<open>What the completion of source work requires\<close>

text \<open>The reviews of a type for a diff in an iteration, in the order they were recorded; the last one counts.\<close>

definition reviews_of :: "row list \<Rightarrow> string \<Rightarrow> string \<Rightarrow> string \<Rightarrow> row list" where
  "reviews_of rows kind diff iteration = filter (\<lambda>r. r ! 1 = kind \<and> r ! 3 = diff \<and> r ! 5 = iteration) rows"

definition accepted_review :: "row list \<Rightarrow> string \<Rightarrow> string \<Rightarrow> string \<Rightarrow> bool" where
  "accepted_review rows kind diff iteration \<longleftrightarrow>
     reviews_of rows kind diff iteration \<noteq> [] \<and> last (reviews_of rows kind diff iteration) ! 2 = ''pass''"

definition rejected_review :: "row list \<Rightarrow> string \<Rightarrow> string \<Rightarrow> string \<Rightarrow> bool" where
  "rejected_review rows kind diff iteration \<longleftrightarrow>
     reviews_of rows kind diff iteration \<noteq> [] \<and> last (reviews_of rows kind diff iteration) ! 2 = ''findings''"

definition obligations_of :: "row list \<Rightarrow> string \<Rightarrow> string \<Rightarrow> row list" where
  "obligations_of rows diff iteration = filter (\<lambda>r. r ! 3 = diff \<and> r ! 5 = iteration) rows"

lemma latest_reviews_type:
  fixes rows kind diff iteration
  defines "R \<equiv> filter (\<lambda>r. r ! 5 = iteration \<and> r ! 3 = diff) rows"
  shows "r \<in> set (latest_reviews R) \<and> r ! 1 = kind \<longleftrightarrow>
    reviews_of rows kind diff iteration \<noteq> [] \<and> r = last (reviews_of rows kind diff iteration)"
proof -
  have same: "filter (\<lambda>r. r ! 1 = k) R = reviews_of rows k diff iteration" for k
    unfolding R_def reviews_of_def by (auto simp: filter_filter intro: filter_cong)
  have kind: "last (reviews_of rows k diff iteration) ! 1 = k" if "reviews_of rows k diff iteration \<noteq> []" for k
    using last_in_set [OF that] by (auto simp: reviews_of_def)
  have types: "k \<in> set (map (\<lambda>r. r ! 1) R) \<longleftrightarrow> reviews_of rows k diff iteration \<noteq> []" for k
    unfolding same [symmetric] by (auto simp: filter_empty_conv)
  have "set (sort (remdups (map (\<lambda>r. r ! 1) R))) = {k. reviews_of rows k diff iteration \<noteq> []}"
    using types by (simp add: set_eq_iff)
  then have "r \<in> set (latest_reviews R) \<longleftrightarrow> (\<exists>k. reviews_of rows k diff iteration \<noteq> [] \<and> r = last (reviews_of rows k diff iteration))"
    unfolding latest_reviews_def same list.set_map by auto
  then show ?thesis using kind by auto
qed

lemma completion_state_gates:
  assumes "completion_state C i t = Inr st"
  defines "diff \<equiv> state_value st ''candidate_diff_hash''" and "iteration \<equiv> state_value st ''iteration''"
  defines "obligations \<equiv> obligations_of (read_review_obligations C i t) diff iteration"
  shows "wf_read_env C i t = Inr st" and "active_ids (read_todos C i t) = []" and "diff \<noteq> []"
    and "\<not> rejected_review (read_reviews C i t) kind diff iteration"
    and "\<forall>r \<in> set obligations. r ! 6 = ''satisfied''"
    and "\<forall>kind \<in> set (required_types obligations). accepted_review (read_reviews C i t) kind diff iteration"
    and "validate_context C t st = Inr ()"
proof -
  let ?L = "latest_reviews (filter (\<lambda>r. r ! 5 = iteration \<and> r ! 3 = diff) (read_reviews C i t))"
  have "wf_read_env C i t = Inr st \<and> active_ids (read_todos C i t) = [] \<and> diff \<noteq> [] \<and>
      filter (\<lambda>r. r ! 2 = ''findings'') ?L = [] \<and>
      filter (\<lambda>r. r ! 6 \<noteq> ''satisfied'') obligations = [] \<and>
      filter (\<lambda>k. k \<notin> set (map (\<lambda>r. r ! 1) (filter (\<lambda>r. r ! 2 = ''pass'') ?L))) (required_types obligations) = [] \<and>
      (\<exists>u. validate_context C t st = Inr u)"
    using assms(1) unfolding completion_state_def Let_def and_then_Inr guard_ok_Inr map_is_Nil_conv
      diff_def iteration_def obligations_def obligations_of_def
    apply (elim exE conjE, simp only: sum.inject)
    by (intro conjI notI exI) (rule refl | assumption)+
  then obtain u where basic: "wf_read_env C i t = Inr st" "active_ids (read_todos C i t) = []" "diff \<noteq> []"
      "validate_context C t st = Inr u"
    and findings: "filter (\<lambda>r. r ! 2 = ''findings'') ?L = []"
    and pending: "filter (\<lambda>r. r ! 6 \<noteq> ''satisfied'') obligations = []"
    and missing: "filter (\<lambda>k. k \<notin> set (map (\<lambda>r. r ! 1) (filter (\<lambda>r. r ! 2 = ''pass'') ?L))) (required_types obligations) = []"
    by (elim conjE exE) (rule that)
  show "wf_read_env C i t = Inr st" "active_ids (read_todos C i t) = []" "diff \<noteq> []" by (fact basic)+
  from basic(4) show "validate_context C t st = Inr ()" by simp
  from pending show "\<forall>r \<in> set obligations. r ! 6 = ''satisfied''" unfolding filter_empty_conv by blast
  show "\<not> rejected_review (read_reviews C i t) kind diff iteration"
  proof
    let ?r = "last (reviews_of (read_reviews C i t) kind diff iteration)"
    assume rejected: "rejected_review (read_reviews C i t) kind diff iteration"
    then have "?r \<in> set ?L"
      using latest_reviews_type [of ?r iteration diff _ kind, THEN iffD2] unfolding rejected_review_def by blast
    with rejected findings show False unfolding rejected_review_def filter_empty_conv by blast
  qed
  show "\<forall>kind \<in> set (required_types obligations). accepted_review (read_reviews C i t) kind diff iteration"
  proof
    fix k assume "k \<in> set (required_types obligations)"
    with missing have "k \<in> set (map (\<lambda>r. r ! 1) (filter (\<lambda>r. r ! 2 = ''pass'') ?L))"
      unfolding filter_empty_conv by blast
    then obtain r where r: "r \<in> set ?L" "r ! 1 = k" "r ! 2 = ''pass''"
      unfolding list.set_map set_filter by blast
    from latest_reviews_type [THEN iffD1, OF conjI [OF r(1,2)]] r(3)
    show "accepted_review (read_reviews C i t) k diff iteration" unfolding accepted_review_def by blast
  qed
qed

section \<open>Properties\<close>


definition reviewed_files :: files where
  "reviewed_files =
     [(env_path sample_wf ''w'', unlines [''phase=post-implementation'', ''iteration=1'', ''candidate_diff_hash=d'',
        ''implementation_context=/c'', ''implementation_context_sha256=x'']),
      ([''c''], ''x''),
      (reviews_path sample_wf ''w'', unlines [REVIEW_HEADER,
        encode_fields [''r'', ''technical'', ''pass'', ''d'', ''e'', ''1'', ''now'', []]]),
      (obligations_path sample_wf ''w'', unlines [REVIEW_OBLIGATION_HEADER,
        encode_fields [''o'', ''technical'', ''t'', ''d'', ''x'', ''1'', ''satisfied'', ''r'', ''now'']])]"

lemma reviewed_files_complete: "fst (supervisor_complete sample_wf ''w'' reviewed_files) = Inr ''d''"
  by code_simp

lemma reviewed_files_clean: "clean_view (view sample_wf reviewed_files)"
proof -
  have "list_all (\<lambda>(p, t). CR \<notin> set t) reviewed_files" by code_simp
  then show ?thesis by (auto simp: clean_view_def view_def lookup_def list_all_iff dest!: map_of_SomeD)
qed

lemma sample_gate_keeps: "gate_keeps sample_wf"
  by (simp add: gate_keeps_def sample_wf_def frame)


lemma supervisor_complete_steps:
  assumes "supervisor_complete C i s = (Inr d, s')"
  obtains t st t' where "open_store C i s = (Inr (), t)" "wf_read_env C i t = Inr st"
    "state_value st ''phase'' = ''post-implementation''" "completion_state C i t = Inr st"
    "wf_gate C False t = (Inr (), t')" "d = state_value st ''candidate_diff_hash''"
proof -
  obtain t st before t' where run: "open_store C i s = (Inr (), t)" "wf_read_env C i t = Inr before"
      "state_value before ''phase'' = ''post-implementation''" "completion_state C i t = Inr st"
      "wf_gate C False t = (Inr (), t')" "d = state_value st ''candidate_diff_hash''"
    using assms unfolding supervisor_complete_def Let_def
    by (auto simp del: seq_c.simps simp: bind_c_Inr lift_r_eq ret_c_eq and_then_Inr guard_ok_Inr)
  with completion_state_gates(1) [OF run(4)] have "before = st" by simp
  with run that show ?thesis by blast
qed

text \<open>
  C1. The completion of source work is earned. If \<open>supervisor_complete\<close> returns a diff hash, then in the store it
  locked the workflow was in post-implementation with that hash as its non-empty candidate, no TODO was active, every
  review obligation of this diff and iteration was satisfied, the last review of every required type for this
  diff and iteration passed (all post-implementation types where there is no obligation), no type ended in findings,
  the approved context and its artifacts were unchanged, and the gate of the subagents passed.
\<close>

theorem source_completion_is_earned:
  assumes "supervisor_complete C i s = (Inr d, s')"
  shows "\<exists>t t' st. open_store C i s = (Inr (), t) \<and> wf_read_env C i t = Inr st \<and>
    state_value st ''phase'' = ''post-implementation'' \<and> d = state_value st ''candidate_diff_hash'' \<and> d \<noteq> [] \<and>
    active_ids (read_todos C i t) = [] \<and>
    (\<forall>r \<in> set (obligations_of (read_review_obligations C i t) d (state_value st ''iteration'')). r ! 6 = ''satisfied'') \<and>
    (\<forall>kind \<in> set (required_types (obligations_of (read_review_obligations C i t) d (state_value st ''iteration''))).
       accepted_review (read_reviews C i t) kind d (state_value st ''iteration'')) \<and>
    (\<forall>kind. \<not> rejected_review (read_reviews C i t) kind d (state_value st ''iteration'')) \<and>
    validate_context C t st = Inr () \<and> wf_gate C False t = (Inr (), t')"
proof -
  obtain t st t' where run: "open_store C i s = (Inr (), t)" "wf_read_env C i t = Inr st"
      "state_value st ''phase'' = ''post-implementation''" "completion_state C i t = Inr st"
      "wf_gate C False t = (Inr (), t')" "d = state_value st ''candidate_diff_hash''"
    using supervisor_complete_steps [OF assms] .
  with completion_state_gates [OF run(4)] show ?thesis by blast
qed

theorem source_completion_is_earned_witness:
  "\<exists>t st. wf_read_env sample_wf ''w'' t = Inr st \<and> state_value st ''phase'' = ''post-implementation'' \<and>
     state_value st ''candidate_diff_hash'' = ''d'' \<and> active_ids (read_todos sample_wf ''w'' t) = []"
proof -
  let ?run = "supervisor_complete sample_wf ''w'' reviewed_files"
  have "?run = (Inr ''d'', snd ?run)" using reviewed_files_complete by (metis prod.collapse)
  from source_completion_is_earned [OF this] show ?thesis by metis
qed

text \<open>A context for the orchestrator, with a printer that prints every value as an empty object.\<close>

definition context_ctx :: wf_ctx where
  "context_ctx = sample_wf\<lparr>wf_uid := ORCHESTRATOR_UID, wf_print := (\<lambda>_. ''{}'')\<rparr>"

definition context_files :: files where
  "context_files = [(env_path sample_wf ''w'', unlines [''phase=pre-implementation'', ''iteration=1'', ''original_task=/t'',
     ''original_task_sha256=x'']), ([''t''], ''x'')]"

lemma context_run: "wf_context context_ctx [''w''] context_files = (Inr (unlines [''{}'']), context_files)"
proof -
  define st where "st = env_at context_files (env_path context_ctx ''w'')"
  have "is_file context_files (env_path context_ctx ''w'')" by code_simp
  then have "wf_read_env context_ctx ''w'' context_files = Inr st" by (simp add: wf_read_env_def st_def)
  moreover have "validate_original_task context_ctx context_files st = Inr ()" unfolding st_def by code_simp
  moreover have "state_value st ''original_task'' = ''/t''" unfolding st_def by code_simp
  moreover have "lookup context_files (text_file context_ctx ''/t'') = Some ''x''" by code_simp
  moreover have "typed_identity_context context_ctx MAX_IDENTITIES context_files = Inr []" by code_simp
  moreover have "bounded_state_label (state_value st ''phase'') ''phase'' = Inr ''pre-implementation''" unfolding st_def by code_simp
  moreover have "bounded_state_label (state_value st ''iteration'') ''iteration'' = Inr ''1''" unfolding st_def by code_simp
  moreover have "wf_one_id ''context'' [''w''] = Inr ''w''" "wf_valid_id ''workflow ID'' ''w'' = Inr ()" by code_simp+
  moreover have "wf_uid context_ctx = ORCHESTRATOR_UID" "wf_print context_ctx v = ''{}''" for v by (simp_all add: context_ctx_def)
  ultimately show ?thesis by (simp add: wf_context_def lift_r_def Let_def MAX_CONTEXT_BYTES_def)
qed



end
