(* ===== verification/Authority.thy ===== *)
theory Authority
  imports Execution
begin

text \<open>
  The privileged requests of the authority supervisor (\<open>runtime/src/authority.rs\<close>): the operations, how a
  command line becomes a request and a request a command line, which role may ask for which operation, and
  what the scope of the session's execution allows.

  The lemmas show that a request executes exactly the command line it was parsed from, that no two requests
  execute the same command line, and that the roles are separated.
\<close>

section \<open>Requests\<close>

datatype authority_operation =
    Workflow | Decision | Dag | OrchestratorComplete | ExecutionMutationRequest
    | SupervisorRegisterLaunch | SupervisorRenewLaunch | SupervisorShutdown | AssignmentCreate
    | AssignmentShow | AssignmentStatus | AssignmentCheck | CheckpointUpdate | CheckpointShow
    | FindingCreate | FindingShow | FindingList | FindingDismiss | TodoCreate | TodoShow
    | TodoList | TodoAssign | TodoStatus | ResolutionCreate | TodoClose
    | ValidationLeaseAcquire | ValidationLeaseStatus | ValidationLeaseShow
    | ValidationLeaseList | GateCheck | OpsDescribe | OpsRead | OpsPublishBound | OpsPublish
    | OpsExecute

record authority_request =
  operation :: authority_operation
  req_args :: "string list"

section \<open>Arguments\<close>

text \<open>The loop over \<open>--path PATH\<close> and one \<open>--reviewed-ops\<close> that both argument checks run.\<close>

fun path_args_loop :: "bool \<Rightarrow> bool \<Rightarrow> string list \<Rightarrow> bool" where
  "path_args_loop has_path ops [] = (has_path \<or> ops)"
| "path_args_loop has_path ops [a] =
     (if a = ''--reviewed-ops'' \<and> \<not> ops then path_args_loop has_path True [] else False)"
| "path_args_loop has_path ops (a # b # rest) =
     (if a = ''--path'' \<and> b \<noteq> [] then path_args_loop True ops rest
      else if a = ''--reviewed-ops'' \<and> \<not> ops then path_args_loop has_path True (b # rest)
      else False)"

definition valid_mutation_request_args :: "string list \<Rightarrow> bool" where
  "valid_mutation_request_args args =
     (if args = [] \<or> hd args \<noteq> ''request-mutation'' \<or> length args < 2 then False
      else path_args_loop False False (tl args))"

definition valid_request_review_args :: "string list \<Rightarrow> bool" where
  "valid_request_review_args args =
     (if length args < 5 \<or> args ! 1 \<noteq> ''--request-review'' \<or> args ! 2 \<noteq> ''--result-file'' \<or> args ! 3 = []
      then False
      else path_args_loop False False (drop 4 args))"

definition has_option_value :: "string list \<Rightarrow> string \<Rightarrow> string \<Rightarrow> bool" where
  "has_option_value args opt expected = list_ex (\<lambda>(a, b). a = opt \<and> b = expected) (zip args (tl args))"

definition valid_complete_args :: "string list \<Rightarrow> bool" where
  "valid_complete_args args \<longleftrightarrow>
     length args = 1 \<or>
     (length args = 2 \<and> args ! 1 = ''--external-only'') \<or>
     (length args = 4 \<and> args ! 1 \<in> {''--external-only'', ''--read-only'', ''--direct-response'', ''--auto'',
        ''--clarification'', ''--auto-clarification'', ''--observe''} \<and> args ! 2 = ''--result-file'') \<or>
     valid_request_review_args args \<or>
     (length args = 6 \<and> args ! 1 \<in> {''--read-only'', ''--human-review''} \<and> args ! 2 = ''--result-file'' \<and>
        args ! 4 = ''--reviewer'')"

section \<open>Command lines\<close>

text \<open>The subcommands of \<open>ops\<close>, \<open>supervisor\<close> and \<open>subagent\<close> that are privileged.\<close>

definition ops_operations :: "(string \<times> authority_operation) list" where
  "ops_operations = [(''describe'', OpsDescribe),
     (''read'', OpsRead),
     (''publish-bound'', OpsPublishBound),
     (''publish'', OpsPublish),
     (''execute'', OpsExecute)]"

definition supervisor_operations :: "(string \<times> authority_operation) list" where
  "supervisor_operations = [(''register-launch'', SupervisorRegisterLaunch),
     (''renew-launch'', SupervisorRenewLaunch), (''stop'', SupervisorShutdown)]"

definition subagent_operations :: "(string \<times> authority_operation) list" where
  "subagent_operations = [(''assignment-create'', AssignmentCreate),
     (''assignment-show'', AssignmentShow),
     (''assignment-status'', AssignmentStatus),
     (''assignment-check'', AssignmentCheck),
     (''checkpoint-update'', CheckpointUpdate),
     (''checkpoint-show'', CheckpointShow),
     (''finding-create'', FindingCreate),
     (''finding-show'', FindingShow),
     (''finding-list'', FindingList),
     (''finding-dismiss'', FindingDismiss),
     (''todo-create'', TodoCreate),
     (''todo-show'', TodoShow),
     (''todo-list'', TodoList),
     (''todo-assign'', TodoAssign),
     (''todo-status'', TodoStatus),
     (''resolution-create'', ResolutionCreate),
     (''todo-close'', TodoClose),
     (''validation-lease-acquire'', ValidationLeaseAcquire),
     (''validation-lease-status'', ValidationLeaseStatus),
     (''validation-lease-show'', ValidationLeaseShow),
     (''validation-lease-list'', ValidationLeaseList),
     (''gate-check'', GateCheck)]"

definition with_subcommand :: "(string \<times> authority_operation) list \<Rightarrow> string list \<Rightarrow> authority_request option" where
  "with_subcommand table args =
     (case args of
        [] \<Rightarrow> None
      | sub # rest \<Rightarrow> map_option (\<lambda>op. \<lparr>operation = op, req_args = rest\<rparr>) (map_of table sub))"

definition from_cli :: "string \<Rightarrow> string list \<Rightarrow> authority_request option" where
  "from_cli command args =
     (if command = ''workflow'' \<and> args \<noteq> [] \<and> hd args = ''context'' then None
      else if command = ''workflow'' then Some \<lparr>operation = Workflow, req_args = args\<rparr>
      else if command = ''decision'' then Some \<lparr>operation = Decision, req_args = args\<rparr>
      else if command = ''dag'' then Some \<lparr>operation = Dag, req_args = args\<rparr>
      else if command = ''ops'' then with_subcommand ops_operations args
      else if command = ''orchestrator'' \<and> args \<noteq> [] \<and> hd args = ''request-mutation'' \<and>
        valid_mutation_request_args args
      then Some \<lparr>operation = ExecutionMutationRequest, req_args = tl args\<rparr>
      else if command = ''orchestrator'' \<and> args \<noteq> [] \<and> hd args = ''complete'' \<and> valid_complete_args args
      then Some \<lparr>operation = OrchestratorComplete, req_args = tl args\<rparr>
      else if command = ''supervisor'' then with_subcommand supervisor_operations args
      else if command = ''subagent'' then with_subcommand subagent_operations args
      else None)"

definition request_shutdown :: authority_request where
  "request_shutdown = \<lparr>operation = SupervisorShutdown, req_args = []\<rparr>"

definition is_shutdown :: "authority_request \<Rightarrow> bool" where
  "is_shutdown r \<longleftrightarrow> operation r = SupervisorShutdown"

primrec command_line :: "authority_operation \<Rightarrow> string \<times> string option" where
  "command_line Workflow = (''workflow'', None)"
| "command_line Decision = (''decision'', None)"
| "command_line Dag = (''dag'', None)"
| "command_line OrchestratorComplete = (''orchestrator'', Some ''complete'')"
| "command_line ExecutionMutationRequest = (''orchestrator'', Some ''request-mutation'')"
| "command_line SupervisorRegisterLaunch = (''supervisor'', Some ''register-launch'')"
| "command_line SupervisorRenewLaunch = (''supervisor'', Some ''renew-launch'')"
| "command_line SupervisorShutdown = (''supervisor'', Some ''shutdown'')"
| "command_line AssignmentCreate = (''subagent'', Some ''assignment-create'')"
| "command_line AssignmentShow = (''subagent'', Some ''assignment-show'')"
| "command_line AssignmentStatus = (''subagent'', Some ''assignment-status'')"
| "command_line AssignmentCheck = (''subagent'', Some ''assignment-check'')"
| "command_line CheckpointUpdate = (''subagent'', Some ''checkpoint-update'')"
| "command_line CheckpointShow = (''subagent'', Some ''checkpoint-show'')"
| "command_line FindingCreate = (''subagent'', Some ''finding-create'')"
| "command_line FindingShow = (''subagent'', Some ''finding-show'')"
| "command_line FindingList = (''subagent'', Some ''finding-list'')"
| "command_line FindingDismiss = (''subagent'', Some ''finding-dismiss'')"
| "command_line TodoCreate = (''subagent'', Some ''todo-create'')"
| "command_line TodoShow = (''subagent'', Some ''todo-show'')"
| "command_line TodoList = (''subagent'', Some ''todo-list'')"
| "command_line TodoAssign = (''subagent'', Some ''todo-assign'')"
| "command_line TodoStatus = (''subagent'', Some ''todo-status'')"
| "command_line ResolutionCreate = (''subagent'', Some ''resolution-create'')"
| "command_line TodoClose = (''subagent'', Some ''todo-close'')"
| "command_line ValidationLeaseAcquire = (''subagent'', Some ''validation-lease-acquire'')"
| "command_line ValidationLeaseStatus = (''subagent'', Some ''validation-lease-status'')"
| "command_line ValidationLeaseShow = (''subagent'', Some ''validation-lease-show'')"
| "command_line ValidationLeaseList = (''subagent'', Some ''validation-lease-list'')"
| "command_line GateCheck = (''subagent'', Some ''gate-check'')"
| "command_line OpsDescribe = (''ops'', Some ''describe'')"
| "command_line OpsRead = (''ops'', Some ''read'')"
| "command_line OpsPublishBound = (''ops'', Some ''publish-bound'')"
| "command_line OpsPublish = (''ops'', Some ''publish'')"
| "command_line OpsExecute = (''ops'', Some ''execute'')"

definition into_cli :: "authority_request \<Rightarrow> string \<times> string list" where
  "into_cli r =
     (case command_line (operation r) of
        (command, None) \<Rightarrow> (command, req_args r)
      | (command, Some subcommand) \<Rightarrow> (command, subcommand # req_args r))"

definition request_display :: "authority_request \<Rightarrow> string" where
  "request_display r =
     (case into_cli r of
        (command, []) \<Rightarrow> command
      | (command, sub # _) \<Rightarrow> command @ '' '' @ sub)"

section \<open>Roles\<close>

definition authorized_for :: "authority_request \<Rightarrow> nat \<Rightarrow> bool" where
  "authorized_for r uid =
     (if uid = 0 then True
      else case operation r of
        OpsDescribe \<Rightarrow> uid \<in> {ORCHESTRATOR_UID, WRITER_UID, READER_UID, OPS_UID, REVIEWER_UID}
      | OpsRead \<Rightarrow> uid \<in> {ORCHESTRATOR_UID, WRITER_UID, READER_UID, OPS_UID, REVIEWER_UID}
      | OpsPublish \<Rightarrow> uid = OPS_UID
      | OpsExecute \<Rightarrow> uid \<in> {OPS_UID, REVIEWER_UID}
      | OpsPublishBound \<Rightarrow> uid = ORCHESTRATOR_UID
      | FindingCreate \<Rightarrow> uid = READER_UID
      | FindingDismiss \<Rightarrow> uid \<in> {ORCHESTRATOR_UID, READER_UID}
      | TodoClose \<Rightarrow> uid \<in> {ORCHESTRATOR_UID, READER_UID}
      | ResolutionCreate \<Rightarrow> uid = WRITER_UID
      | CheckpointUpdate \<Rightarrow> uid \<in> {ORCHESTRATOR_UID, WRITER_UID, READER_UID}
      | CheckpointShow \<Rightarrow> uid \<in> {ORCHESTRATOR_UID, WRITER_UID, READER_UID}
      | FindingShow \<Rightarrow> uid \<in> {ORCHESTRATOR_UID, WRITER_UID, READER_UID}
      | FindingList \<Rightarrow> uid \<in> {ORCHESTRATOR_UID, WRITER_UID, READER_UID}
      | TodoShow \<Rightarrow> uid \<in> {ORCHESTRATOR_UID, WRITER_UID, READER_UID}
      | TodoList \<Rightarrow> uid \<in> {ORCHESTRATOR_UID, WRITER_UID, READER_UID}
      | ValidationLeaseShow \<Rightarrow> uid \<in> {ORCHESTRATOR_UID, WRITER_UID, READER_UID}
      | ValidationLeaseList \<Rightarrow> uid \<in> {ORCHESTRATOR_UID, WRITER_UID, READER_UID}
      | ValidationLeaseAcquire \<Rightarrow> uid \<in> {WRITER_UID, READER_UID}
      | ValidationLeaseStatus \<Rightarrow> uid \<in> {WRITER_UID, READER_UID}
      | _ \<Rightarrow> uid = ORCHESTRATOR_UID)"

section \<open>Scopes\<close>

definition allowed_for_authority_scope :: "authority_request \<Rightarrow> string \<Rightarrow> bool" where
  "allowed_for_authority_scope r scope =
     (if scope = ''human'' then True
      else if scope \<in> {''observe'', ''diagnosis-only''}
      then (case operation r of
          ResolutionCreate \<Rightarrow> False
        | AssignmentCreate \<Rightarrow> \<not> has_option_value (req_args r) ''--role'' ''exploitation''
        | SupervisorRegisterLaunch \<Rightarrow> \<not> has_option_value (req_args r) ''--access'' ''workspace-write''
        | OrchestratorComplete \<Rightarrow> req_args r \<noteq> [] \<and> hd (req_args r) \<in>
            {''--observe'', ''--request-review'', ''--direct-response'', ''--clarification'', ''--auto'',
             ''--auto-clarification'', ''--read-only'', ''--human-review''}
        | OpsPublishBound \<Rightarrow> False
        | OpsPublish \<Rightarrow> False
        | OpsExecute \<Rightarrow> False
        | _ \<Rightarrow> True)
      else False)"

definition allowed_for_execution :: "authority_request \<Rightarrow> execution \<Rightarrow> bool" where
  "allowed_for_execution r x =
     (if exec_scope x \<in> {''human'', ''observe'', ''diagnosis-only''}
      then allowed_for_authority_scope r (exec_scope x)
      else if exec_scope x = ''user''
      then (case operation r of
          ExecutionMutationRequest \<Rightarrow> permits_mutation_request x
        | OpsPublishBound \<Rightarrow> permits_reviewed_ops x
        | OpsPublish \<Rightarrow> permits_reviewed_ops x
        | OpsExecute \<Rightarrow> permits_reviewed_ops x
        | _ \<Rightarrow> True)
      else False)"

section \<open>Lemmas\<close>

lemmas uids = ORCHESTRATOR_UID_def WRITER_UID_def READER_UID_def SUPERVISOR_UID_def OPS_UID_def
  REVIEWER_UID_def CONTROL_UID_def

lemma with_subcommand_Some:
  "with_subcommand table args = Some r \<longleftrightarrow>
     (\<exists>sub rest op. args = sub # rest \<and> map_of table sub = Some op \<and> r = \<lparr>operation = op, req_args = rest\<rparr>)"
  by (auto simp: with_subcommand_def split: list.splits)

text \<open>The tables of \<open>from_cli\<close> agree with \<open>command_line\<close>, the shutdown apart.\<close>

lemma tables_agree:
  "map_of ops_operations sub = Some op \<Longrightarrow> command_line op = (''ops'', Some sub)"
  "map_of subagent_operations sub = Some op \<Longrightarrow> command_line op = (''subagent'', Some sub)"
  "map_of supervisor_operations sub = Some op \<Longrightarrow> op \<noteq> SupervisorShutdown \<Longrightarrow>
     command_line op = (''supervisor'', Some sub)"
proof -
  have "list_all (\<lambda>(sub, op). command_line op = (''ops'', Some sub)) ops_operations"
    by (simp add: ops_operations_def)
  then show "map_of ops_operations sub = Some op \<Longrightarrow> command_line op = (''ops'', Some sub)"
    by (fastforce simp: list_all_iff dest: map_of_SomeD)
  have "list_all (\<lambda>(sub, op). command_line op = (''subagent'', Some sub)) subagent_operations"
    by (simp add: subagent_operations_def)
  then show "map_of subagent_operations sub = Some op \<Longrightarrow> command_line op = (''subagent'', Some sub)"
    by (fastforce simp: list_all_iff dest: map_of_SomeD)
  have "list_all (\<lambda>(sub, op). op = SupervisorShutdown \<or> command_line op = (''supervisor'', Some sub))
      supervisor_operations"
    by (simp add: supervisor_operations_def)
  then show "map_of supervisor_operations sub = Some op \<Longrightarrow> op \<noteq> SupervisorShutdown \<Longrightarrow>
     command_line op = (''supervisor'', Some sub)"
    by (fastforce simp: list_all_iff dest: map_of_SomeD)
qed

definition all_operations :: "authority_operation list" where
  "all_operations = [Workflow, Decision, Dag, OrchestratorComplete, ExecutionMutationRequest,
     SupervisorRegisterLaunch, SupervisorRenewLaunch, SupervisorShutdown, AssignmentCreate,
     AssignmentShow, AssignmentStatus, AssignmentCheck, CheckpointUpdate, CheckpointShow,
     FindingCreate, FindingShow, FindingList, FindingDismiss, TodoCreate, TodoShow, TodoList,
     TodoAssign, TodoStatus, ResolutionCreate, TodoClose, ValidationLeaseAcquire,
     ValidationLeaseStatus, ValidationLeaseShow, ValidationLeaseList, GateCheck, OpsDescribe,
     OpsRead, OpsPublishBound, OpsPublish, OpsExecute]"

lemma all_operations [simp]: "op \<in> set all_operations"
  by (cases op) (simp_all add: all_operations_def)

lemma command_line_inj: "command_line op = command_line op' \<Longrightarrow> op = op'"
proof -
  have "distinct (map command_line all_operations)" by code_simp
  then have "inj_on command_line (set all_operations)" by (simp add: distinct_map)
  then show "command_line op = command_line op' \<Longrightarrow> op = op'" by (simp add: inj_on_def)
qed

lemma bare_commands:
  "command_line op = (c, None) \<Longrightarrow> c \<in> {''workflow'', ''decision'', ''dag''}"
  "command_line op = (c, Some sub) \<Longrightarrow> c \<notin> {''workflow'', ''decision'', ''dag''}"
  by (cases op; auto)+

text \<open>
  C32. A request executes exactly the command line it was parsed from: the supervisor's child process gets the
  command and the arguments the client typed, the shutdown request apart.
\<close>

theorem request_executes_its_command_line:
  assumes "from_cli command args = Some r" and "\<not> is_shutdown r"
  shows "into_cli r = (command, args)"
  using assms tables_agree
  by (cases args) (auto simp: from_cli_def into_cli_def is_shutdown_def with_subcommand_Some split: if_splits)

theorem request_executes_its_command_line_witness:
  "from_cli ''ops'' [''execute'', ''x''] = Some \<lparr>operation = OpsExecute, req_args = [''x'']\<rparr> \<and>
   into_cli \<lparr>operation = OpsExecute, req_args = [''x'']\<rparr> = (''ops'', [''execute'', ''x''])"
proof -
  have "from_cli ''ops'' [''execute'', ''x''] = Some \<lparr>operation = OpsExecute, req_args = [''x'']\<rparr>" by code_simp
  with request_executes_its_command_line [OF this] show ?thesis by (simp add: is_shutdown_def)
qed

text \<open>
  C33. Authorization cannot be dodged by dressing up a request: no two different requests execute the same
  command line, so the operation that was authorized is determined by what runs.
\<close>

theorem command_lines_identify_requests:
  "into_cli r = into_cli r' \<longleftrightarrow> r = r'"
proof
  assume e: "into_cli r = into_cli r'"
  obtain c s c' s' where l: "command_line (operation r) = (c, s)" "command_line (operation r') = (c', s')"
    by fastforce
  have "(c, s) = (c', s') \<and> req_args r = req_args r'"
  proof (cases s; cases s')
    fix u assume "s = None" "s' = Some u"
    then have "c \<noteq> c'" using bare_commands l by (metis (no_types, lifting))
    then show ?thesis using e l \<open>s = None\<close> \<open>s' = Some u\<close> by (simp add: into_cli_def)
  next
    fix u assume "s = Some u" "s' = None"
    then have "c \<noteq> c'" using bare_commands l by (metis (no_types, lifting))
    then show ?thesis using e l \<open>s = Some u\<close> \<open>s' = None\<close> by (simp add: into_cli_def)
  qed (use e l in \<open>auto simp: into_cli_def\<close>)
  then have "operation r = operation r'" "req_args r = req_args r'"
    using command_line_inj [of "operation r" "operation r'"] l by auto
  then show "r = r'" by simp
qed simp

text \<open>
  C34. Separation of duties among the unprivileged roles: whoever may resolve a finding may neither raise nor
  dismiss one nor close its work item; whoever may execute or publish a reviewed operation may not launch
  agents, run workflow, decision or graph commands, complete the session or ask for a mutation; and apart
  from root only the five role accounts are authorized for anything.
\<close>

theorem duties_are_separated:
  assumes "uid \<noteq> 0"
  shows "(authorized_for \<lparr>operation = ResolutionCreate, req_args = a\<rparr> uid \<and> authorized_for \<lparr>operation = op, req_args = b\<rparr> uid
      \<longrightarrow> op \<notin> {FindingCreate, FindingDismiss, TodoClose, Workflow, OpsPublish, OpsExecute, OpsPublishBound}) \<and>
    (op' \<in> {OpsPublish, OpsExecute} \<and> authorized_for \<lparr>operation = op', req_args = a\<rparr> uid \<and>
       authorized_for \<lparr>operation = op, req_args = b\<rparr> uid
      \<longrightarrow> op \<in> {OpsDescribe, OpsRead, OpsPublish, OpsExecute}) \<and>
    (authorized_for r uid \<longrightarrow> uid \<in> {ORCHESTRATOR_UID, WRITER_UID, READER_UID, OPS_UID, REVIEWER_UID})"
proof (intro conjI impI)
  assume a: "authorized_for \<lparr>operation = ResolutionCreate, req_args = a\<rparr> uid \<and>
    authorized_for \<lparr>operation = op, req_args = b\<rparr> uid"
  then have "uid = WRITER_UID" using assms by (simp add: authorized_for_def)
  then show "op \<notin> {FindingCreate, FindingDismiss, TodoClose, Workflow, OpsPublish, OpsExecute, OpsPublishBound}"
    using a by (auto simp: authorized_for_def uids)
next
  assume a: "op' \<in> {OpsPublish, OpsExecute} \<and> authorized_for \<lparr>operation = op', req_args = a\<rparr> uid \<and>
       authorized_for \<lparr>operation = op, req_args = b\<rparr> uid"
  then have "uid = OPS_UID \<or> uid = REVIEWER_UID" using assms by (auto simp: authorized_for_def)
  then show "op \<in> {OpsDescribe, OpsRead, OpsPublish, OpsExecute}"
    using a assms by (cases op) (auto simp: authorized_for_def uids)
next
  assume "authorized_for r uid"
  then show "uid \<in> {ORCHESTRATOR_UID, WRITER_UID, READER_UID, OPS_UID, REVIEWER_UID}"
    using assms by (cases "operation r") (auto simp: authorized_for_def)
qed

theorem duties_are_separated_witness:
  "authorized_for \<lparr>operation = ResolutionCreate, req_args = []\<rparr> WRITER_UID \<and>
   \<not> authorized_for \<lparr>operation = TodoClose, req_args = []\<rparr> WRITER_UID"
proof -
  have "authorized_for \<lparr>operation = ResolutionCreate, req_args = []\<rparr> WRITER_UID" "WRITER_UID \<noteq> 0"
    by (simp_all add: authorized_for_def WRITER_UID_def)
  with duties_are_separated [of WRITER_UID "[]" TodoClose "[]"] show ?thesis by auto
qed



end
