(* ===== verification/Supervisor.thy ===== *)
theory Supervisor
  imports Workflow_Commands Authority
begin

text \<open>
  The authority supervisor (\<open>runtime/src/supervisor.rs\<close>): the registration of a role launch and its life from registered
  to running to completed, the sealing of a role's output as evidence, and the server that answers one request after
  another.

  The state is the files, as for the workflow, and \<open>wf_ctx\<close> gives the environment. The decoder of a request, the
  child process that executes it and the file status of a review binding are arguments. Ownership and modes of
  files are not modelled; the output of a child is UTF-8 text.
\<close>

section \<open>Options and names\<close>

definition sv_valid_name :: "string \<Rightarrow> bool" where
  "sv_valid_name name \<longleftrightarrow>
     name \<noteq> [] \<and> \<not> starts_with ''-'' name \<and> name \<noteq> ''orchestrator'' \<and> list_all id_char name"

definition LAUNCH_FLAGS :: "string list" where
  "LAUNCH_FLAGS = [''--role'', ''--access'', ''--cli'', ''--cli-bin'', ''--instruction-file'', ''--decision-id'',
     ''--plan-id'', ''--plan-sha256'']"

fun sv_pairs :: "options \<Rightarrow> string list \<Rightarrow> error + options" where
  "sv_pairs values (flag # v # rest) =
     (if flag \<notin> set LAUNCH_FLAGS \<or> NL \<in> set v \<or> CR \<in> set v then Inl (''invalid register-launch option: '' @ flag)
      else sv_pairs (values(flag \<mapsto> v)) rest)"
| "sv_pairs values _ = Inr values"

definition sv_parse_options :: "string list \<Rightarrow> error + options" where
  "sv_parse_options args =
     (if length args mod 2 \<noteq> 0 then Inl ''register-launch options require flag/value pairs''
      else sv_pairs Map.empty args)"

definition sv_required_option :: "options \<Rightarrow> string \<Rightarrow> error + string" where
  "sv_required_option values name =
     (case values name of
        Some v \<Rightarrow> if v \<noteq> [] then Inr v else Inl (''register-launch requires '' @ name)
      | None \<Rightarrow> Inl (''register-launch requires '' @ name))"

definition sv_required_field :: "env \<Rightarrow> string \<Rightarrow> error + string" where
  "sv_required_field values name =
     (case values name of
        Some v \<Rightarrow> if v \<noteq> [] then Inr v else Inl (''launch authorization is missing '' @ name)
      | None \<Rightarrow> Inl (''launch authorization is missing '' @ name))"

definition launch_access :: "string \<Rightarrow> string option \<Rightarrow> error + string" where
  "launch_access role requested =
     (let access = (case requested of Some a \<Rightarrow> a
        | None \<Rightarrow> if role = ''worker'' then ''workspace-write'' else ''read-only'')
      in if access \<notin> {''read-only'', ''workspace-write''}
         then Inl ''register-launch access must be read-only or workspace-write''
         else if access = ''workspace-write'' \<and> role \<noteq> ''worker''
         then Inl ''workspace-write access is reserved for implementation workers''
         else if role = ''reader'' \<and> access \<noteq> ''read-only'' then Inl ''reader launches require read-only access''
         else Inr access)"

section \<open>Files of a launch\<close>

definition launch_dir :: "wf_ctx \<Rightarrow> string \<Rightarrow> path" where
  "launch_dir C name = wf_state_dir C @ [''launch-authorizations'', name]"

definition launch_env :: "wf_ctx \<Rightarrow> string \<Rightarrow> path" where
  "launch_env C name = launch_dir C name @ [''launch.env'']"

definition read_env_at :: "files \<Rightarrow> path \<Rightarrow> error + env" where
  "read_env_at s p = read_env (display p) (lookup s p)"

definition workspace_root :: "wf_ctx \<Rightarrow> string option" where
  "workspace_root C = wf_canon C (root (wf_environ C) (wf_cwd C))"

text \<open>Every owned path must exist, below the workspace and different from it.\<close>

definition owned_path :: "wf_ctx \<Rightarrow> string \<Rightarrow> string \<Rightarrow> error + string" where
  "owned_path C rt relative =
     and_then (ok_or (wf_canon C (path_join rt relative))
       (''secure writer owned path must already exist: '' @ path_join rt relative)) (\<lambda>canonical.
     if path_eq canonical rt \<or> \<not> path_starts_with canonical rt
     then Inl (''authorized path escaped the workspace: '' @ relative) else Inr canonical)"

definition read_owned_paths :: "wf_ctx \<Rightarrow> string \<Rightarrow> files \<Rightarrow> error + string list" where
  "read_owned_paths C name s =
     and_then (ok_or (workspace_root C) ''resolve authority workspace'') (\<lambda>rt.
     case lookup s (wf_state_dir C @ [''assignments'', name, ''owned-paths'']) of
       None \<Rightarrow> Inr []
     | Some t \<Rightarrow> collect_ok (owned_path C rt) (filter (\<lambda>l. l \<noteq> []) (lines t)))"

definition write_launch_state :: "wf_ctx \<Rightarrow> string \<Rightarrow> env \<Rightarrow> string \<Rightarrow> unit wf_cmd" where
  "write_launch_state C name metadata st =
     bind_c (lift_r (\<lambda>_. collect_ok (\<lambda>k. and_then (sv_required_field metadata k) (\<lambda>v. Inr (k, v)))
       [''name'', ''role'', ''access'', ''cli'', ''cli_bin'', ''instruction_sha256''])) (\<lambda>kvs.
     modify_c (write_file (launch_env C name) (env_text (kvs @
       map (\<lambda>k. (k, state_value metadata k)) [''workflow_id'', ''iteration_plan_sha256'', ''original_task_sha256'',
         ''alignment_binding_sha256''] @ [(''state'', st)]))))"

section \<open>Registration\<close>

record launch_input =
  li_name :: string
  li_options :: options
  li_role :: string
  li_cli :: string
  li_cli_bin :: string
  li_instruction :: string

definition cli_variable :: "string \<Rightarrow> string" where
  "cli_variable cli = (if cli = ''codex'' then ''CODEX_BIN'' else if cli = ''claude'' then ''CLAUDE_BIN'' else ''QWEN_BIN'')"

definition launch_input_of :: "wf_ctx \<Rightarrow> string list \<Rightarrow> error + launch_input" where
  "launch_input_of C args =
     and_then (case args of [] \<Rightarrow> Inl ''register-launch requires a valid NAME''
       | n # _ \<Rightarrow> if sv_valid_name n then Inr n else Inl ''register-launch requires a valid NAME'') (\<lambda>name.
     and_then (sv_parse_options (tl args)) (\<lambda>opts.
     and_then (sv_required_option opts ''--role'') (\<lambda>role.
     and_then (sv_required_option opts ''--cli'') (\<lambda>cli.
     and_then (sv_required_option opts ''--cli-bin'') (\<lambda>cli_bin.
     and_then (sv_required_option opts ''--instruction-file'') (\<lambda>instruction.
     and_then (guard_ok (role \<in> {''worker'', ''reader'', ''verifier'', ''reviewer'', ''scout'', ''ops''})
       ''register-launch role must be worker, reader, verifier, reviewer, scout, or ops'') (\<lambda>_.
     and_then (guard_ok (cli \<in> {''codex'', ''claude'', ''qwen''})
       ''register-launch backend must be codex, claude, or qwen'') (\<lambda>_.
     and_then (ok_or (wf_environ C (cli_variable cli))
       (''authority supervisor has no configured '' @ cli @ '' binary'')) (\<lambda>expected.
     and_then (guard_ok (cli_bin = expected) ''register-launch binary does not match the launch manifest'') (\<lambda>_.
     Inr \<lparr>li_name = name, li_options = opts, li_role = role, li_cli = cli, li_cli_bin = cli_bin,
       li_instruction = instruction\<rparr>))))))))))"

definition launch_workflow :: "wf_ctx \<Rightarrow> string" where
  "launch_workflow C = (case wf_environ C ''MULTIAGENT_WORKFLOW_ID'' of None \<Rightarrow> [] | Some v \<Rightarrow> v)"

definition is_plan_alignment :: "launch_input \<Rightarrow> bool" where
  "is_plan_alignment li \<longleftrightarrow> li_role li = ''reviewer'' \<and> contains_str ''plan-alignment-reviewer'' (li_name li)"

definition launch_plan_sha :: "wf_ctx \<Rightarrow> launch_input \<Rightarrow> bool \<Rightarrow> files \<Rightarrow> string" where
  "launch_plan_sha C li renew s =
     (let prior = (if renew then env_at s (launch_env C (li_name li)) else Map.empty)
      in case li_options li ''--plan-sha256'' of Some v \<Rightarrow> v | None \<Rightarrow> state_value prior ''iteration_plan_sha256'')"

definition launch_binding :: "wf_ctx \<Rightarrow> launch_input \<Rightarrow> string \<Rightarrow> files \<Rightarrow> error + PlanAlignmentBinding option" where
  "launch_binding C li plan s =
     (if is_plan_alignment li
      then and_then (guard_ok (launch_workflow C \<noteq> [] \<and> plan \<noteq> [])
          ''plan-alignment launch requires workflow and sealed-plan metadata'') (\<lambda>_.
        and_then (plan_alignment_binding C (launch_workflow C) plan s) (\<lambda>b. Inr (Some b)))
      else and_then (guard_ok (li_options li ''--plan-sha256'' = None)
          ''sealed-plan metadata is reserved for the plan-alignment reviewer'') (\<lambda>_. Inr None))"

definition launch_instruction :: "wf_ctx \<Rightarrow> launch_input \<Rightarrow> bool \<Rightarrow> files \<Rightarrow> error + string" where
  "launch_instruction C li renew s =
     (let expected = wf_state_dir C @ [''subagents'', li_name li,
            if renew then ''restore-instruction.txt'' else ''instruction.txt''];
          wrong = ''register-launch instruction must be the persisted subagent instruction: '' @ display expected
      in and_then (guard_ok (wf_canon C (li_instruction li) = wf_canon C (display expected)) wrong) (\<lambda>_.
         ok_or (lookup s (text_file C (li_instruction li))) wrong))"

text \<open>What a writer may own: the paths of its active assignment, which the session's execution must grant.\<close>

definition launch_owned :: "wf_ctx \<Rightarrow> string \<Rightarrow> string \<Rightarrow> files \<Rightarrow> error + string list" where
  "launch_owned C name access s =
     (if access \<noteq> ''workspace-write'' then Inr []
      else let dir = wf_state_dir C @ [''assignments'', name]
        in and_then (guard_ok (is_file s (dir @ [''assignment.env'']))
             (''workspace writer requires a supervisor-owned assignment: '' @ name)) (\<lambda>_.
           and_then (guard_ok (trim (read_or_empty s (dir @ [''status''])) \<notin> {''done'', ''failed'', ''released'', ''cancelled''})
             (''assignment is not active: '' @ name)) (\<lambda>_.
           read_owned_paths C name s)))"

definition launch_granted :: "wf_ctx \<Rightarrow> string \<Rightarrow> string list \<Rightarrow> files \<Rightarrow> error + unit" where
  "launch_granted C access owned s =
     (if access \<noteq> ''workspace-write'' then Inr ()
      else and_then (ok_or (workspace_root C) ''canonicalize repository for writer grant'') (\<lambda>rt.
        and_then (exec_configured (wf_codec C) (wf_environ C)
          (lookup s (wf_state_dir C @ key_of ACTIVE_EXECUTION_FILE))) (\<lambda>x.
        guard_ok (permits_workspace_write x rt owned)
          (''session authority '' @ exec_scope x @ '' does not grant the writer's exact owned paths''))))"

definition launch_renewable ::
  "wf_ctx \<Rightarrow> launch_input \<Rightarrow> bool \<Rightarrow> string \<Rightarrow> PlanAlignmentBinding option \<Rightarrow> files \<Rightarrow> error + unit" where
  "launch_renewable C li renew access binding s =
     (let name = li_name li
      in if dir_entries s (launch_dir C name) \<noteq> []
         then and_then (guard_ok renew (''launch authorization already exists: '' @ name)) (\<lambda>_.
           and_then (read_env_at s (launch_env C name)) (\<lambda>current.
           and_then (guard_ok (current ''state'' = Some ''completed'')
             (''launch authorization is not renewable: '' @ name)) (\<lambda>_.
           and_then (guard_ok (current ''role'' = Some (li_role li) \<and> current ''access'' = Some access \<and>
               current ''cli'' = Some (li_cli li) \<and> current ''cli_bin'' = Some (li_cli_bin li))
             (''renewed launch cannot change role or coding-agent identity: '' @ name)) (\<lambda>_.
           guard_ok (\<not> (is_plan_alignment li \<and> current ''alignment_binding_sha256'' \<noteq> map_option pa_sha256 binding))
             ''renewed plan-alignment launch changed the sealed binding''))))
         else guard_ok (\<not> renew) (''launch authorization does not exist: '' @ name))"

definition bound_instruction :: "string \<Rightarrow> PlanAlignmentBinding option \<Rightarrow> string" where
  "bound_instruction instruction binding =
     (case binding of
        None \<Rightarrow> instruction
      | Some b \<Rightarrow>
          let marker = (\<lambda>a. ''plan-alignment-review: plan-sha256='' @ pa_plan_sha256 b @ '' original-task-sha256=''
                @ pa_original_task_sha256 b @ '' alignment='' @ a)
          in instruction @ unlines [[], [], ''## Supervisor-Generated Plan Alignment Binding'', [],
               ''This binding identifies the exact original task and sealed plan under review. It prevents input substitution but does not define user intent or grant authority.'',
               [], ''alignment-binding-sha256='' @ pa_sha256 b, pa_content b,
               ''Aligned marker: '' @ marker ''aligned'', ''Misaligned marker: '' @ marker ''misaligned''])"

definition launch_metadata ::
  "wf_ctx \<Rightarrow> launch_input \<Rightarrow> string \<Rightarrow> string \<Rightarrow> string \<Rightarrow> PlanAlignmentBinding option \<Rightarrow> (string \<times> string) list" where
  "launch_metadata C li access plan instruction binding =
     [(''name'', li_name li), (''role'', li_role li), (''access'', access), (''workflow_id'', launch_workflow C),
      (''cli'', li_cli li), (''cli_bin'', li_cli_bin li), (''instruction_sha256'', wf_sha C instruction),
      (''iteration_plan_sha256'', plan),
      (''original_task_sha256'', case binding of None \<Rightarrow> [] | Some b \<Rightarrow> pa_original_task_sha256 b),
      (''alignment_binding_sha256'', case binding of None \<Rightarrow> [] | Some b \<Rightarrow> pa_sha256 b),
      (''state'', ''registered'')]"

definition launch_checks ::
  "wf_ctx \<Rightarrow> launch_input \<Rightarrow> bool \<Rightarrow> files \<Rightarrow>
     error + (string \<times> string list \<times> string \<times> string \<times> PlanAlignmentBinding option)" where
  "launch_checks C li renew s =
     (let plan = launch_plan_sha C li renew s
      in and_then (launch_binding C li plan s) (\<lambda>binding.
         and_then (launch_instruction C li renew s) (\<lambda>instruction.
         and_then (launch_access (li_role li) (li_options li ''--access'')) (\<lambda>access.
         and_then (launch_owned C (li_name li) access s) (\<lambda>owned.
         and_then (launch_granted C access owned s) (\<lambda>_.
         and_then (launch_renewable C li renew access binding s) (\<lambda>_.
         Inr (access, owned, plan, instruction, binding))))))))"

definition write_launch ::
  "wf_ctx \<Rightarrow> launch_input \<Rightarrow> string \<Rightarrow> string list \<Rightarrow> string \<Rightarrow> string \<Rightarrow> PlanAlignmentBinding option \<Rightarrow> unit wf_cmd" where
  "write_launch C li access owned plan instruction binding =
     (let dir = launch_dir C (li_name li)
      in seq_c [
          case binding of None \<Rightarrow> ret_c ()
            | Some b \<Rightarrow> modify_c (write_file (dir @ [''plan-alignment-binding.json'']) (pa_content b)),
          modify_c (write_file (dir @ [''instruction.txt'']) instruction),
          modify_c (write_file (launch_env C (li_name li))
            (env_text (launch_metadata C li access plan instruction binding))),
          if owned = [] then ret_c () else modify_c (write_file (dir @ [''owned-paths'']) (unlines owned))])"

definition register_launch :: "wf_ctx \<Rightarrow> string list \<Rightarrow> bool \<Rightarrow> string wf_cmd" where
  "register_launch C args renew =
     bind_c (lift_r (\<lambda>_. launch_input_of C args)) (\<lambda>li.
     bind_c (lift_r (launch_checks C li renew)) (\<lambda>(access, owned, plan, source, binding).
     bind_c (write_launch C li access owned plan (bound_instruction source binding) binding) (\<lambda>_.
     ret_c (unlines [''launch authorized'' @ [TAB] @ li_name li @ [TAB] @ li_role li @ [TAB] @ access]))))"

section \<open>A launch runs and completes\<close>

record launch_authorization =
  la_role :: string
  la_access :: string
  la_workflow_id :: string
  la_cli :: string
  la_cli_bin :: string
  la_instruction :: path
  la_owned_paths :: "string list"

definition claim_checks :: "wf_ctx \<Rightarrow> string \<Rightarrow> files \<Rightarrow> error + (env \<times> launch_authorization)" where
  "claim_checks C name s =
     and_then (read_env_at s (launch_env C name)) (\<lambda>metadata.
     and_then (guard_ok (metadata ''name'' = Some name \<and> metadata ''state'' = Some ''registered'')
       (''launch authorization is missing or already consumed: '' @ name)) (\<lambda>_.
     let instruction = launch_dir C name @ [''instruction.txt'']
     in and_then (ok_or (lookup s instruction) ''read authorized instruction'') (\<lambda>t.
        and_then (guard_ok (metadata ''instruction_sha256'' = Some (wf_sha C t))
          (''authorized instruction hash changed: '' @ name)) (\<lambda>_.
        and_then (read_owned_paths C name s) (\<lambda>owned.
        and_then (sv_required_field metadata ''role'') (\<lambda>role.
        and_then (sv_required_field metadata ''access'') (\<lambda>access.
        and_then (sv_required_field metadata ''cli'') (\<lambda>cli.
        and_then (sv_required_field metadata ''cli_bin'') (\<lambda>cli_bin.
        Inr (metadata, \<lparr>la_role = role, la_access = access, la_workflow_id = state_value metadata ''workflow_id'',
          la_cli = cli, la_cli_bin = cli_bin, la_instruction = instruction, la_owned_paths = owned\<rparr>))))))))))"

definition claim_launch :: "wf_ctx \<Rightarrow> string \<Rightarrow> launch_authorization wf_cmd" where
  "claim_launch C name =
     bind_c (lift_r (claim_checks C name)) (\<lambda>(metadata, authorization).
     bind_c (write_launch_state C name metadata ''running'') (\<lambda>_. ret_c authorization))"

definition launch_requires_writer :: "wf_ctx \<Rightarrow> string \<Rightarrow> files \<Rightarrow> error + bool" where
  "launch_requires_writer C name s =
     and_then (read_env_at s (launch_env C name)) (\<lambda>metadata.
     and_then (guard_ok (metadata ''name'' = Some name \<and> metadata ''state'' = Some ''registered'')
       (''launch authorization is missing or already consumed: '' @ name)) (\<lambda>_.
     Inr (metadata ''role'' = Some ''worker'' \<and> metadata ''access'' = Some ''workspace-write'')))"

definition finish_launch :: "wf_ctx \<Rightarrow> string \<Rightarrow> unit wf_cmd" where
  "finish_launch C name =
     bind_c (lift_r (\<lambda>s. and_then (read_env_at s (launch_env C name)) (\<lambda>metadata.
       and_then (guard_ok (metadata ''state'' = Some ''running'')
         (''launch authorization is not running: '' @ name)) (\<lambda>_. Inr metadata)))) (\<lambda>metadata.
     write_launch_state C name metadata ''completed'')"

end
