(* ===== verification/Supervisor_Server.thy ===== *)
theory Supervisor_Server
  imports Supervisor
begin

text \<open>
  The rest of the authority supervisor (\<open>runtime/src/supervisor.rs\<close>): sealing the output of a role, the client side of
  the socket and the server. A connection is the peer's user id and what can be read from it; \<open>sv_child\<close> is what the
  child process that executes a command line does to the files, with its exit code and the pieces of its two outputs
  in the order they are read.
\<close>

section \<open>Sealing role output\<close>

text \<open>\<open>symlink_metadata\<close> of a file: whether it is a regular file, its owner and its mode.\<close>

record file_status =
  fs_regular :: bool
  fs_owner :: nat
  fs_mode :: nat

definition private_reviewer_file :: "file_status \<Rightarrow> bool" where
  "private_reviewer_file st \<longleftrightarrow> fs_regular st \<and> fs_owner st = REVIEWER_UID \<and> fs_mode st mod 64 = 0"

definition seal_review_binding :: "wf_ctx \<Rightarrow> (path \<Rightarrow> file_status) \<Rightarrow> path \<Rightarrow> path \<Rightarrow> (string \<times> string) list wf_cmd" where
  "seal_review_binding C stat dir trace =
     bind_c (lift_r (\<lambda>s. case lookup s (trace @ [''review-binding.json'']) of
         None \<Rightarrow> Inr None
       | Some t \<Rightarrow> and_then (guard_ok (private_reviewer_file (stat (trace @ [''review-binding.json''])))
           ''ops review binding must be a private reviewer-owned regular file'') (\<lambda>_. Inr (Some t)))) (\<lambda>binding.
     case binding of
       None \<Rightarrow> ret_c []
     | Some t \<Rightarrow> bind_c (modify_c (write_file (dir @ [''review-binding.json'']) t)) (\<lambda>_.
         ret_c [(''binding_sha256'', wf_sha C t)]))"

definition seal_alignment :: "wf_ctx \<Rightarrow> string \<Rightarrow> path \<Rightarrow> (string \<times> string) list wf_cmd" where
  "seal_alignment C name dir =
     bind_c (lift_r (\<lambda>s. and_then (read_env_at s (launch_env C name)) (\<lambda>launch.
       let digest = state_value launch ''alignment_binding_sha256''
       in if digest = [] then Inr None
          else and_then (ok_or (lookup s (launch_dir C name @ [''plan-alignment-binding.json'']))
              ''read supervisor plan-alignment binding'') (\<lambda>t.
            and_then (guard_ok (wf_sha C t = digest)
              ''supervisor plan-alignment binding changed before evidence sealing'') (\<lambda>_.
            Inr (Some (t, launch))))))) (\<lambda>sealed.
     case sealed of
       None \<Rightarrow> ret_c []
     | Some (t, launch) \<Rightarrow> bind_c (modify_c (write_file (dir @ [''plan-alignment-binding.json'']) t)) (\<lambda>_.
         ret_c (map (\<lambda>k. (k, state_value launch k))
           [''iteration_plan_sha256'', ''original_task_sha256'', ''alignment_binding_sha256''])))"

definition seal_role_output ::
  "wf_ctx \<Rightarrow> (path \<Rightarrow> file_status) \<Rightarrow> string \<Rightarrow> string \<Rightarrow> string \<Rightarrow> path \<Rightarrow> path \<Rightarrow> path \<Rightarrow> unit wf_cmd" where
  "seal_role_output C stat name role workflow private_output public_output trace =
     bind_c (lift_r (\<lambda>s. ok_or (lookup s private_output) ''read private role output'')) (\<lambda>t.
     bind_c (modify_c (write_file public_output t)) (\<lambda>_.
     if role \<notin> {''reviewer'', ''scout''} then ret_c ()
     else let dir = wf_state_dir C @ [if role = ''reviewer'' then ''reviewer-evidence'' else ''contract-evidence'', name]
       in bind_c (modify_c (write_file (dir @ [''last-message.txt'']) t)) (\<lambda>_.
          bind_c (if role = ''reviewer''
            then bind_c (seal_review_binding C stat dir trace) (\<lambda>binding.
              bind_c (seal_alignment C name dir) (\<lambda>alignment. ret_c (binding @ alignment)))
            else ret_c []) (\<lambda>extra.
          modify_c (write_file (dir @ [''evidence.env'']) (env_text ([(''name'', name), (''role'', role),
            (''access'', ''read-only''), (''workflow_id'', workflow), (''state'', ''completed''),
            (''completed_at'', wf_now C 0), (''output_sha256'', wf_sha C t)] @ extra)))))))"

section \<open>The client\<close>

definition server_child :: "env \<Rightarrow> bool" where
  "server_child environ \<longleftrightarrow> environ ''MULTIAGENT_AUTHORITY_SERVER_CHILD'' = Some ''1''"

definition authority_client_uid :: "nat \<Rightarrow> bool" where
  "authority_client_uid uid \<longleftrightarrow> uid \<in> {ORCHESTRATOR_UID, WRITER_UID, READER_UID, OPS_UID, REVIEWER_UID}"

text \<open>The request a command line is sent as, if it is not executed in place.\<close>

definition proxy_if_required :: "nat \<Rightarrow> env \<Rightarrow> string \<Rightarrow> string list \<Rightarrow> authority_request option" where
  "proxy_if_required uid environ command args =
     (if command = ''supervisor'' \<and> args \<noteq> [] \<and> hd args = ''stop'' then None
      else if \<not> authority_client_uid uid \<or> server_child environ then None
      else from_cli command args)"

record response =
  rs_code :: int
  rs_stdout :: string
  rs_stderr :: string

definition proxy_exit :: "response \<Rightarrow> int" where
  "proxy_exit r = max 0 (min 255 (rs_code r))"

section \<open>The registered state directory\<close>

text \<open>
  The registry is a file with one path, the state here: \<open>None\<close> if it does not exist. \<open>parent\<close> is the status of its
  directory, \<open>resolved\<close> what \<open>canonicalize\<close> gives for the state directory.
\<close>

definition register_runtime_state :: "nat \<Rightarrow> file_status \<Rightarrow> string option \<Rightarrow> string \<Rightarrow> (string option, error, unit) cmd" where
  "register_runtime_state euid parent resolved st =
     bind_c (ensure (euid = 0) ''registering authority state requires root'') (\<lambda>_.
     bind_c (lift_r (\<lambda>_. ok_or resolved (''canonicalize authority state '' @ st))) (\<lambda>c.
     bind_c (ensure (fs_owner parent = 0 \<and> fs_mode parent div 16 mod 2 = 0 \<and> fs_mode parent div 2 mod 2 = 0)
       ''authority registry directory must be root-owned and non-writable'') (\<lambda>_.
     \<lambda>registry. case registry of
         Some existing \<Rightarrow>
           (if \<not> path_eq (trim existing) c
            then Inl (''another UID-isolated authority state is already registered: '' @ trim existing) else Inr (), registry)
       | None \<Rightarrow> (Inr (), Some (c @ [NL])))))"

definition validate_runtime_state :: "file_status option \<Rightarrow> string option \<Rightarrow> string option \<Rightarrow> string \<Rightarrow> error + unit" where
  "validate_runtime_state status registry resolved st =
     and_then (ok_or status ''trusted authority state is not registered'') (\<lambda>status.
     and_then (guard_ok (fs_owner status = 0 \<and> fs_mode status mod 64 = 0)
       ''trusted authority state registry has unsafe ownership or mode'') (\<lambda>_.
     and_then (ok_or registry ''read trusted authority state'') (\<lambda>expected.
     and_then (ok_or resolved ''canonicalize requested authority state'') (\<lambda>actual.
     guard_ok (path_eq actual (trim expected))
       (''requested state is not the registered authority state: '' @ st)))))"

text \<open>A registered directory validates, and no other directory does.\<close>

lemma registered_state_validates:
  assumes "register_runtime_state euid parent (Some c) st None = (Inr (), registry)" and "trim (c @ [NL]) = c"
    and "fs_owner status = 0" "fs_mode status mod 64 = 0"
  shows "validate_runtime_state (Some status) registry resolved st' = Inr () \<longleftrightarrow>
    (\<exists>d. resolved = Some d \<and> path_eq d c)"
  using assms unfolding register_runtime_state_def validate_runtime_state_def
  by (cases resolved) (auto simp: bind_c_Inr ensure_def cmd_simps split: if_splits)

section \<open>Bounded output\<close>

definition MAX_AUTHORITY_REQUEST_BYTES :: nat where "MAX_AUTHORITY_REQUEST_BYTES = 128 * 1024"
definition MAX_AUTHORITY_OUTPUT_BYTES :: nat where "MAX_AUTHORITY_OUTPUT_BYTES = 64 * 1024"

text \<open>The loop of \<open>read_bounded_output\<close> over what each read returns; an empty read ends it.\<close>

fun read_bounded_loop :: "nat \<Rightarrow> string \<Rightarrow> bool \<Rightarrow> string list \<Rightarrow> string \<times> bool" where
  "read_bounded_loop bound retained truncated [] = (retained, truncated)"
| "read_bounded_loop bound retained truncated (buffer # rest) =
     (if buffer = [] then (retained, truncated)
      else let keep = min (bound - length retained) (length buffer)
        in read_bounded_loop bound (retained @ take keep buffer) (truncated \<or> keep < length buffer) rest)"

definition read_bounded_output :: "string list \<Rightarrow> string \<times> bool" where
  "read_bounded_output reads = read_bounded_loop MAX_AUTHORITY_OUTPUT_BYTES [] False reads"

section \<open>The server\<close>

record child_exit =
  ce_code :: "int option"
  ce_stdout :: "string list"
  ce_stderr :: "string list"

record sup_env =
  sv_ctx :: wf_ctx
  sv_decode :: "string \<Rightarrow> authority_request option"
  sv_child :: "string \<Rightarrow> string list \<Rightarrow> nat \<Rightarrow> (files, error, child_exit) cmd"

definition refuse :: "string \<Rightarrow> response" where
  "refuse message = \<lparr>rs_code = 1, rs_stdout = [], rs_stderr = ''authority supervisor: '' @ message @ [NL]\<rparr>"

definition child_response :: "child_exit \<Rightarrow> response" where
  "child_response x =
     (let (out, out_truncated) = read_bounded_output (ce_stdout x); (err, err_truncated) = read_bounded_output (ce_stderr x)
      in if out_truncated \<or> err_truncated then refuse ''transaction output exceeds the configured byte limit''
         else \<lparr>rs_code = (case ce_code x of None \<Rightarrow> 1 | Some c \<Rightarrow> c), rs_stdout = out, rs_stderr = err\<rparr>)"

definition sv_execute :: "sup_env \<Rightarrow> authority_request \<Rightarrow> nat \<Rightarrow> response wf_cmd" where
  "sv_execute E r uid =
     (case into_cli r of (command, args) \<Rightarrow>
        bind_c (sv_child E command args uid) (\<lambda>x. ret_c (child_response x)))"

definition trusted_peer :: "nat \<Rightarrow> bool" where
  "trusted_peer uid \<longleftrightarrow> uid \<in> {0, ORCHESTRATOR_UID, WRITER_UID, READER_UID, OPS_UID, REVIEWER_UID}"

text \<open>
  One connection: whether the server stops, and the response it writes, if any. An error ends the server. No user id
  means that the credentials of the peer could not be read, no input that reading failed.
\<close>

definition serve_connection :: "sup_env \<Rightarrow> nat option \<Rightarrow> string option \<Rightarrow> (bool \<times> response option) wf_cmd" where
  "serve_connection E peer input =
     (case peer of
        None \<Rightarrow> ret_c (False, None)
      | Some uid \<Rightarrow>
          if \<not> trusted_peer uid then ret_c (False, Some (refuse ''unauthorized peer''))
          else case input of
            None \<Rightarrow> ret_c (False, None)
          | Some sent \<Rightarrow>
              let bytes = take (MAX_AUTHORITY_REQUEST_BYTES + 1) sent
              in if length bytes > MAX_AUTHORITY_REQUEST_BYTES
                 then ret_c (False, Some (refuse ''request exceeds the configured byte limit''))
                 else case sv_decode E bytes of
                   None \<Rightarrow> ret_c (False, Some (refuse ''invalid request: ''))
                 | Some r \<Rightarrow>
                     if is_shutdown r then ret_c (True, Some \<lparr>rs_code = 0, rs_stdout = [], rs_stderr = []\<rparr>)
                     else if \<not> authorized_for r uid
                     then ret_c (False, Some (refuse (''caller uid '' @ show_nat uid @ '' is not authorized for: '' @ request_display r)))
                     else let C = sv_ctx E in
                       bind_c (lift_r (\<lambda>s. exec_configured (wf_codec C) (wf_environ C)
                         (lookup s (wf_state_dir C @ key_of ACTIVE_EXECUTION_FILE)))) (\<lambda>x.
                       if \<not> allowed_for_execution r x
                       then ret_c (False, Some (refuse (''scope '' @ exec_scope x @ '' is not authorized for: '' @ request_display r)))
                       else bind_c (sv_execute E r uid) (\<lambda>answer. ret_c (False, Some answer))))"

text \<open>The loop of \<open>serve\<close> over the connections it accepts, until one stops it or fails.\<close>

fun serve_loop :: "sup_env \<Rightarrow> (nat option \<times> string option) list \<Rightarrow> response option list wf_cmd" where
  "serve_loop E [] = ret_c []"
| "serve_loop E ((peer, input) # rest) =
     bind_c (serve_connection E peer input) (\<lambda>(stop, answer).
     if stop then ret_c [answer] else bind_c (serve_loop E rest) (\<lambda>answers. ret_c (answer # answers)))"

definition sv_serve :: "sup_env \<Rightarrow> (nat option \<times> string option) list \<Rightarrow> response option list wf_cmd" where
  "sv_serve E connections =
     bind_c (ensure (wf_uid (sv_ctx E) = SUPERVISOR_UID)
       (''authority supervisor must run as uid '' @ show_nat SUPERVISOR_UID)) (\<lambda>_.
     serve_loop E connections)"

text \<open>What a child of the server executes of \<open>multiagent supervisor\<close>.\<close>

definition supervisor_child_run :: "wf_ctx \<Rightarrow> string list \<Rightarrow> string wf_cmd" where
  "supervisor_child_run C args =
     (case args of
        command # rest \<Rightarrow>
          if command = ''register-launch'' \<and> server_child (wf_environ C) then register_launch C rest False
          else if command = ''renew-launch'' \<and> server_child (wf_environ C) then register_launch C rest True
          else if command = ''shutdown'' \<and> rest = [] \<and> server_child (wf_environ C) then ret_c []
          else lift_r (\<lambda>_. Inl ''usage: multiagent supervisor stop'')
      | [] \<Rightarrow> lift_r (\<lambda>_. Inl ''usage: multiagent supervisor stop''))"

end
