(* ===== verification/Supervisor_Props.thy ===== *)
theory Supervisor_Props
  imports Supervisor_Server Workflow_Props
begin

text \<open>
  The properties of the authority supervisor: who gets a writer launch, how often a launch is claimed, what a
  connection can change, and what is kept of a child's output.
\<close>

section \<open>Values without line feeds\<close>

lemma state_value_NL: "NL \<notin> set (state_value (parse_env t) k)"
  using parse_env_value by (auto simp: state_value_def split: option.split)

lemma env_at_NL: "NL \<notin> set (state_value (env_at s p) k)"
  by (cases "lookup s p") (simp_all add: env_at_def state_value_NL, simp add: state_value_def)

section \<open>The life of a launch\<close>

definition launch_keys :: "string set" where
  "launch_keys = {''name'', ''role'', ''access'', ''cli'', ''cli_bin'', ''instruction_sha256''}"

definition launch_state :: "wf_ctx \<Rightarrow> string \<Rightarrow> files \<Rightarrow> string option" where
  "launch_state C name s = env_at s (launch_env C name) ''state''"

lemma read_env_at_Inr: "read_env_at s p = Inr m \<longleftrightarrow> (\<exists>t. lookup s p = Some t \<and> m = parse_env t)"
  by (auto simp: read_env_at_def read_env_def split: option.splits)

text \<open>The file that \<open>write_launch_state\<close> leaves, with the name and the state it was given.\<close>

lemma write_launch_state_result:
  assumes "write_launch_state C name (parse_env t) st s = (Inr u, s')" and "CR \<notin> set st" "NL \<notin> set st"
  shows "\<exists>m. lookup s' (launch_env C name) = Some m \<and> parse_env m ''state'' = Some st \<and>
    (\<forall>k \<in> launch_keys.
       parse_env m k = map_option strip_cr (parse_env t k) \<and> (\<exists>v. parse_env t k = Some v \<and> v \<noteq> []))"
proof -
  let ?req = "[''name'', ''role'', ''access'', ''cli'', ''cli_bin'', ''instruction_sha256'']"
  let ?opt = "[''workflow_id'', ''iteration_plan_sha256'', ''original_task_sha256'', ''alignment_binding_sha256'']"
  obtain kvs where kvs: "collect_ok (\<lambda>k. and_then (sv_required_field (parse_env t) k) (\<lambda>v. Inr (k, v))) ?req = Inr kvs"
    and s': "s' = write_file (launch_env C name) (env_text (kvs @ map (\<lambda>k. (k, state_value (parse_env t) k)) ?opt @ [(''state'', st)])) s"
    using assms(1) unfolding write_launch_state_def by (auto simp: bind_c_Inr lift_r_eq modify_c_eq)
  from kvs have "list_all2 (\<lambda>k kv. \<exists>v. kv = (k, v) \<and> parse_env t k = Some v \<and> v \<noteq> []) ?req kvs"
    unfolding collect_ok_Inr
    by (rule list_all2_mono) (auto simp: cmd_simps sv_required_field_def split: option.splits if_splits)
  then obtain n r a c b h where v: "kvs = [(''name'', n), (''role'', r), (''access'', a), (''cli'', c), (''cli_bin'', b),
      (''instruction_sha256'', h)]" "parse_env t ''name'' = Some n" "parse_env t ''role'' = Some r" "parse_env t ''access'' = Some a"
      "parse_env t ''cli'' = Some c" "parse_env t ''cli_bin'' = Some b" "parse_env t ''instruction_sha256'' = Some h"
      "n \<noteq> []" "r \<noteq> []" "a \<noteq> []" "c \<noteq> []" "b \<noteq> []" "h \<noteq> []"
    by (auto simp: list_all2_Cons1)
  let ?all = "kvs @ map (\<lambda>k. (k, state_value (parse_env t) k)) ?opt @ [(''state'', st)]"
  have "list_all env_key_ok ?all"
    using v assms(3) parse_env_value by (auto simp: env_key_ok_def state_value_NL)
  then have m: "parse_env (env_text ?all) = map_of (rev (map (\<lambda>(k, v). (k, strip_cr v)) ?all))"
    by (rule parse_env_text_NL)
  have "lookup s' (launch_env C name) = Some (env_text ?all)" by (simp add: s')
  moreover have "parse_env (env_text ?all) ''state'' = Some st" unfolding m using assms(2) by (simp add: strip_cr_id)
  moreover have "parse_env (env_text ?all) k = map_option strip_cr (parse_env t k) \<and> (\<exists>v. parse_env t k = Some v \<and> v \<noteq> [])"
    if "k \<in> launch_keys" for k
    unfolding m using that v by (auto simp: launch_keys_def)
  ultimately show ?thesis by blast
qed

lemma write_launch_state_total:
  assumes "\<forall>k \<in> launch_keys. \<exists>v. m k = Some v \<and> v \<noteq> []"
  shows "\<exists>s'. write_launch_state C name m st s = (Inr (), s')"
proof -
  have "\<exists>kvs. collect_ok (\<lambda>k. and_then (sv_required_field m k) (\<lambda>v. Inr (k, v)))
      [''name'', ''role'', ''access'', ''cli'', ''cli_bin'', ''instruction_sha256''] = Inr kvs"
    using assms by (auto simp: launch_keys_def sv_required_field_def)
  then show ?thesis by (auto simp: write_launch_state_def bind_c_def lift_r_def modify_c_def)
qed

lemma claim_checks_Inr:
  assumes "claim_checks C name s = Inr (m, a)"
  shows "\<exists>t. lookup s (launch_env C name) = Some t \<and> m = parse_env t \<and> m ''name'' = Some name \<and>
    m ''state'' = Some ''registered''"
  using assms unfolding claim_checks_def by (auto simp: cmd_simps read_env_at_Inr Let_def)

lemma claim_launch_Inr:
  assumes "claim_launch C name s = (Inr a, s')"
  shows "\<exists>t m. lookup s (launch_env C name) = Some t \<and> parse_env t ''name'' = Some name \<and>
    parse_env t ''state'' = Some ''registered'' \<and> lookup s' (launch_env C name) = Some m \<and>
    parse_env m ''state'' = Some ''running'' \<and> (\<forall>k \<in> launch_keys.
       parse_env m k = map_option strip_cr (parse_env t k) \<and> (\<exists>v. parse_env t k = Some v \<and> v \<noteq> []))"
proof -
  obtain m a' s1 where "claim_checks C name s = Inr (m, a')"
    and w: "write_launch_state C name m ''running'' s = (Inr (), s')"
    using assms unfolding claim_launch_def by (auto simp: cmd_simps)
  then obtain t where "lookup s (launch_env C name) = Some t" "m = parse_env t" "m ''name'' = Some name"
    "m ''state'' = Some ''registered''"
    using claim_checks_Inr by blast
  then show ?thesis using write_launch_state_result [of C name t "''running''" s "()" s'] w by auto
qed

lemma claim_needs_registered:
  assumes "lookup s (launch_env C name) = Some t" and "parse_env t ''state'' \<noteq> Some ''registered''"
  shows "claim_launch C name s = (Inl (''launch authorization is missing or already consumed: '' @ name), s)"
    and "launch_requires_writer C name s = Inl (''launch authorization is missing or already consumed: '' @ name)"
proof -
  have "read_env_at s (launch_env C name) = Inr (parse_env t)" using assms(1) by (simp add: read_env_at_Inr)
  then show "claim_launch C name s = (Inl (''launch authorization is missing or already consumed: '' @ name), s)"
    "launch_requires_writer C name s = Inl (''launch authorization is missing or already consumed: '' @ name)"
    using assms(2) by (simp_all add: claim_launch_def claim_checks_def launch_requires_writer_def bind_c_def lift_r_def guard_ok_def)
qed

lemma clean_env_Some: "clean_env m \<Longrightarrow> m k = Some v \<Longrightarrow> CR \<notin> set v"
  unfolding clean_env_def by (drule spec [where x = k]) (simp add: single_line_def state_value_def)

lemma finish_launch_running:
  assumes "lookup s (launch_env C name) = Some t" and "parse_env t ''state'' = Some ''running''"
  shows "finish_launch C name s = write_launch_state C name (parse_env t) ''completed'' s"
  using assms by (simp add: finish_launch_def bind_c_def lift_r_def guard_ok_def read_env_at_def read_env_def)

lemma finish_needs_running:
  assumes "lookup s (launch_env C name) = Some t" and "parse_env t ''state'' \<noteq> Some ''running''"
  shows "finish_launch C name s = (Inl (''launch authorization is not running: '' @ name), s)"
  using assms by (simp add: finish_launch_def bind_c_def lift_r_def guard_ok_def read_env_at_def read_env_def)

text \<open>
  C8. A launch authorization is used once. A claim succeeds only on a registered launch of that name and leaves it
  running; a second claim and a writer query then fail and change nothing; the running launch can always be finished,
  which leaves it completed, and a completed launch is neither claimed nor finished again. The authorization file
  has no carriage return, as \<open>register_launch\<close> writes it.
\<close>

theorem launch_is_claimed_once:
  assumes "claim_launch C name s = (Inr a, s')" and "CR \<notin> set (read_or_empty s (launch_env C name))"
  shows "launch_state C name s = Some ''registered'' \<and> launch_state C name s' = Some ''running'' \<and>
    claim_launch C name s' = (Inl (''launch authorization is missing or already consumed: '' @ name), s') \<and>
    launch_requires_writer C name s' = Inl (''launch authorization is missing or already consumed: '' @ name) \<and>
    (\<exists>s''. finish_launch C name s' = (Inr (), s'') \<and> launch_state C name s'' = Some ''completed'' \<and>
      claim_launch C name s'' = (Inl (''launch authorization is missing or already consumed: '' @ name), s'') \<and>
      finish_launch C name s'' = (Inl (''launch authorization is not running: '' @ name), s''))"
proof -
  obtain t m where t: "lookup s (launch_env C name) = Some t" "parse_env t ''state'' = Some ''registered''"
    and m: "lookup s' (launch_env C name) = Some m" "parse_env m ''state'' = Some ''running''"
      "\<forall>k \<in> launch_keys. parse_env m k = map_option strip_cr (parse_env t k) \<and> (\<exists>v. parse_env t k = Some v \<and> v \<noteq> [])"
    using claim_launch_Inr [OF assms(1)] by (elim exE conjE) (rule that)
  have "clean_env (parse_env t)" using assms(2) t(1) by (intro clean_parse_env) (simp add: read_or_empty_def)
  then have "\<forall>k \<in> launch_keys. \<exists>v. parse_env m k = Some v \<and> v \<noteq> []"
    using m(3) clean_env_Some by (metis option.simps(9) strip_cr_id)
  then obtain s'' where s'': "write_launch_state C name (parse_env m) ''completed'' s' = (Inr (), s'')"
    using write_launch_state_total by blast
  then obtain n where n: "lookup s'' (launch_env C name) = Some n" "parse_env n ''state'' = Some ''completed''"
    using write_launch_state_result [OF s''] by auto
  have f: "finish_launch C name s' = (Inr (), s'')"
    using finish_launch_running [OF m(1,2)] s'' by simp
  show ?thesis
    using t m(1,2) n f claim_needs_registered [OF m(1)] claim_needs_registered [OF n(1)] finish_needs_running [OF n(1)]
    by (simp add: launch_state_def env_at_def)
qed

section \<open>Registration\<close>

lemma sv_pairs_clean:
  assumes "sv_pairs values args = Inr m" and "\<forall>k v. values k = Some v \<longrightarrow> NL \<notin> set v"
  shows "\<forall>k v. m k = Some v \<longrightarrow> NL \<notin> set v"
  using assms
proof (induction "values" args rule: sv_pairs.induct)
  case (1 m0 flag v rest)
  then have ok: "\<not> (flag \<notin> set LAUNCH_FLAGS \<or> NL \<in> set v \<or> CR \<in> set v)" by (metis sum.distinct(1) sv_pairs.simps(1))
  then have "sv_pairs (m0(flag \<mapsto> v)) rest = Inr m" using 1(2) by (simp del: fun_upd_apply)
  moreover have "\<forall>k w. (m0(flag \<mapsto> v)) k = Some w \<longrightarrow> NL \<notin> set w" using ok 1(3) by simp
  ultimately show ?case using 1(1) ok by blast
qed simp_all

lemma required_option_Some: "sv_required_option m k = Inr v \<Longrightarrow> m k = Some v \<and> v \<noteq> []"
  by (auto simp: sv_required_option_def split: option.splits if_splits)

lemma launch_name_Inr:
  "(case args of [] \<Rightarrow> Inl e | n # _ \<Rightarrow> if sv_valid_name n then Inr n else Inl e) = Inr name \<longleftrightarrow>
     (\<exists>rest. args = name # rest \<and> sv_valid_name name)"
  by (auto split: list.splits)

lemma launch_input_facts:
  assumes "launch_input_of C args = Inr li"
  shows "args \<noteq> []" "li_name li = hd args" "sv_valid_name (li_name li)"
    "\<forall>k v. li_options li k = Some v \<longrightarrow> NL \<notin> set v" "li_options li ''--role'' = Some (li_role li)"
    "li_options li ''--cli'' = Some (li_cli li)" "li_options li ''--cli-bin'' = Some (li_cli_bin li)"
    "li_role li \<in> {''worker'', ''reader'', ''verifier'', ''reviewer'', ''scout'', ''ops''}"
proof -
  obtain n rest opts role cli bin instr where a: "args = n # rest" "sv_valid_name n" "sv_parse_options rest = Inr opts"
    "sv_required_option opts ''--role'' = Inr role" "sv_required_option opts ''--cli'' = Inr cli"
    "sv_required_option opts ''--cli-bin'' = Inr bin"
    "role \<in> {''worker'', ''reader'', ''verifier'', ''reviewer'', ''scout'', ''ops''}"
    "li = \<lparr>li_name = n, li_options = opts, li_role = role, li_cli = cli, li_cli_bin = bin, li_instruction = instr\<rparr>"
    using assms unfolding launch_input_of_def and_then_Inr guard_ok_Inr ok_or_Inr launch_name_Inr sum.inject
    by (elim exE conjE) (rule that, assumption+, simp, assumption+, rule sym)
  have "\<forall>k v. opts k = Some v \<longrightarrow> NL \<notin> set v"
    using a(3) sv_pairs_clean [of Map.empty rest opts] by (auto simp: sv_parse_options_def split: if_splits)
  then show "args \<noteq> []" "li_name li = hd args" "sv_valid_name (li_name li)"
    "\<forall>k v. li_options li k = Some v \<longrightarrow> NL \<notin> set v" "li_options li ''--role'' = Some (li_role li)"
    "li_options li ''--cli'' = Some (li_cli li)" "li_options li ''--cli-bin'' = Some (li_cli_bin li)"
    "li_role li \<in> {''worker'', ''reader'', ''verifier'', ''reviewer'', ''scout'', ''ops''}"
    using a required_option_Some by simp_all
qed

lemma launch_checks_facts:
  assumes "launch_checks C li renew s = Inr (access, owned, plan, source, binding)"
  shows "plan = launch_plan_sha C li renew s" "launch_binding C li plan s = Inr binding"
    "launch_access (li_role li) (li_options li ''--access'') = Inr access"
    "launch_owned C (li_name li) access s = Inr owned" "launch_granted C access owned s = Inr ()"
    "launch_renewable C li renew access binding s = Inr ()"
  using assms unfolding launch_checks_def Let_def by (auto simp: cmd_simps)

lemma write_launch_env:
  assumes "write_launch C li access owned plan instruction binding s = (r, s')"
  shows "lookup s' (launch_env C (li_name li)) = Some (env_text (launch_metadata C li access plan instruction binding))"
  using assms unfolding write_launch_def Let_def
  by (cases binding; cases "owned = []") (auto simp: bind_c_def ret_c_def modify_c_def launch_env_def)

lemma register_launch_Inr:
  assumes "register_launch C args renew s = (Inr out, s')"
  shows "\<exists>li access owned plan source binding. launch_input_of C args = Inr li \<and>
    launch_checks C li renew s = Inr (access, owned, plan, source, binding) \<and>
    lookup s' (launch_env C (li_name li)) =
      Some (env_text (launch_metadata C li access plan (bound_instruction source binding) binding))"
proof -
  obtain li access owned plan source binding where i: "launch_input_of C args = Inr li"
    and c: "launch_checks C li renew s = Inr (access, owned, plan, source, binding)"
    and w: "write_launch C li access owned plan (bound_instruction source binding) binding s = (Inr (), s')"
    using assms unfolding register_launch_def by (auto simp: bind_c_Inr lift_r_eq ret_c_eq)
  then show ?thesis using write_launch_env [OF w] by blast
qed

text \<open>Every value of the metadata is free of line feeds, so the file reads back.\<close>

lemma launch_plan_NL:
  "\<forall>k v. li_options li k = Some v \<longrightarrow> NL \<notin> set v \<Longrightarrow> NL \<notin> set (launch_plan_sha C li renew s)"
  using env_at_NL [of s "launch_env C (li_name li)"]
  by (auto simp: launch_plan_sha_def Let_def split: option.split) (simp add: state_value_def)

lemma launch_binding_NL:
  assumes "launch_binding C li plan s = Inr (Some b)" and "\<forall>t. NL \<notin> set (wf_sha C t)"
  shows "NL \<notin> set (pa_sha256 b)" "NL \<notin> set (pa_original_task_sha256 b)"
proof -
  obtain e where e: "semantic_envelope C (launch_workflow C) s = Inr e"
    "pa_original_task_sha256 b = se_original_task_sha256 e" "NL \<notin> set (pa_sha256 b)"
    using assms(1) unfolding launch_binding_def plan_alignment_binding_def Let_def
    using assms(2) by (auto simp: cmd_simps split: if_splits)
  then show "NL \<notin> set (pa_sha256 b)" by simp
  from e(1) have "\<exists>k. se_original_task_sha256 e = state_value (env_at s (env_path C (launch_workflow C))) k"
    unfolding semantic_envelope_def open_state_def wf_read_env_def by (auto simp: cmd_simps split: if_splits)
  then show "NL \<notin> set (pa_original_task_sha256 b)" using e(2) env_at_NL by auto
qed

lemma launch_access_cases:
  "launch_access role requested = Inr access \<Longrightarrow>
     access = ''read-only'' \<or> (access = ''workspace-write'' \<and> role = ''worker'')"
  by (auto simp: launch_access_def Let_def split: if_splits option.splits)

lemma valid_name_line: "sv_valid_name n \<Longrightarrow> NL \<notin> set n \<and> CR \<notin> set n"
  using id_char_plain by (auto simp: sv_valid_name_def list_all_iff plain_char_def)

lemma launch_metadata_ok:
  assumes "launch_input_of C args = Inr li" "launch_checks C li renew s = Inr (access, owned, plan, source, binding)"
    and "\<forall>t. NL \<notin> set (wf_sha C t)" "NL \<notin> set (launch_workflow C)"
  shows "list_all env_key_ok (launch_metadata C li access plan instruction binding)"
proof -
  note i = launch_input_facts [OF assms(1)] and c = launch_checks_facts [OF assms(2)]
  have "NL \<notin> set access" using launch_access_cases [OF c(3)] by auto
  moreover have "NL \<notin> set plan" using launch_plan_NL [OF i(4)] c(1) by simp
  moreover have "NL \<notin> set (li_name li)" using valid_name_line [OF i(3)] by simp
  moreover have "NL \<notin> set (li_role li)" "NL \<notin> set (li_cli li)" "NL \<notin> set (li_cli_bin li)" using i(4-7) by blast+
  moreover have "NL \<notin> set (case binding of None \<Rightarrow> [] | Some b \<Rightarrow> pa_original_task_sha256 b)"
    "NL \<notin> set (case binding of None \<Rightarrow> [] | Some b \<Rightarrow> pa_sha256 b)"
    using launch_binding_NL [of C li plan s] c(2) assms(3) by (cases binding; simp)+
  ultimately show ?thesis using assms(3,4) by (simp add: launch_metadata_def env_key_ok_def)
qed

lemma registered_access:
  assumes "register_launch C args renew s = (Inr out, s')" and "\<forall>t. NL \<notin> set (wf_sha C t)" "NL \<notin> set (launch_workflow C)"
  shows "\<exists>li access owned plan source binding. launch_input_of C args = Inr li \<and>
    launch_checks C li renew s = Inr (access, owned, plan, source, binding) \<and>
    launch_requires_writer C (li_name li) s' = Inr (access = ''workspace-write'')"
proof -
  obtain li access owned plan source binding where i: "launch_input_of C args = Inr li"
    and c: "launch_checks C li renew s = Inr (access, owned, plan, source, binding)"
    and l: "lookup s' (launch_env C (li_name li)) =
      Some (env_text (launch_metadata C li access plan (bound_instruction source binding) binding))"
    using register_launch_Inr [OF assms(1)] by blast
  let ?m = "parse_env (env_text (launch_metadata C li access plan (bound_instruction source binding) binding))"
  have m: "?m = map_of (rev (map (\<lambda>(k, v). (k, strip_cr v)) (launch_metadata C li access plan (bound_instruction source binding) binding)))"
    by (rule parse_env_text_NL [OF launch_metadata_ok [OF i c assms(2,3)]])
  have a: "access = ''read-only'' \<or> (access = ''workspace-write'' \<and> li_role li = ''worker'')"
    using launch_access_cases launch_checks_facts(3) [OF c] by blast
  have n: "strip_cr (li_name li) = li_name li"
    using valid_name_line [OF launch_input_facts(3) [OF i]] by (simp add: strip_cr_id)
  have "?m ''name'' = Some (li_name li)" "?m ''state'' = Some ''registered''" "?m ''role'' = Some (strip_cr (li_role li))"
    "?m ''access'' = Some access"
    unfolding m using a n by (auto simp: launch_metadata_def strip_cr_id)
  then have "launch_requires_writer C (li_name li) s' = Inr (access = ''workspace-write'')"
    using a l by (auto simp: launch_requires_writer_def read_env_at_def read_env_def guard_ok_def strip_cr_id)
  then show ?thesis using i c by blast
qed

lemma owned_path_Inr:
  "owned_path C rt relative = Inr p \<Longrightarrow> path_starts_with p rt \<and> \<not> path_eq p rt"
  by (auto simp: owned_path_def cmd_simps split: if_splits)

lemma read_owned_paths_Inr:
  assumes "read_owned_paths C name s = Inr owned"
  shows "\<exists>rt. workspace_root C = Some rt \<and> (\<forall>p \<in> set owned. path_starts_with p rt \<and> \<not> path_eq p rt)"
proof -
  obtain rt where rt: "workspace_root C = Some rt" and
    "owned = [] \<or> (\<exists>ls. collect_ok (owned_path C rt) ls = Inr owned)"
    using assms unfolding read_owned_paths_def by (auto simp: cmd_simps split: option.splits)
  then have "\<forall>p \<in> set owned. path_starts_with p rt \<and> \<not> path_eq p rt"
    using owned_path_Inr by (fastforce simp: collect_ok_Inr list_all2_conv_all_nth in_set_conv_nth)
  then show ?thesis using rt by blast
qed


section \<open>The server\<close>

lemma read_bounded_loop_eq:
  assumes "length retained \<le> bound" and "truncated \<longrightarrow> length retained = bound"
  shows "read_bounded_loop bound retained truncated reads =
    (take bound (retained @ concat (takeWhile (\<lambda>b. b \<noteq> []) reads)),
     truncated \<or> bound < length (retained @ concat (takeWhile (\<lambda>b. b \<noteq> []) reads)))"
  using assms
proof (induction bound retained truncated reads rule: read_bounded_loop.induct)
  case (2 bound retained truncated buffer rest)
  then show ?case by (auto simp: Let_def min_def)
qed simp

text \<open>
  C38. The bounded reader is exact and never overruns: however the output of a child is cut into reads, it keeps the first
  64 KiB of what comes before the end of the stream, and reports truncation exactly when there was more.
\<close>

theorem read_bounded_output_exact:
  "read_bounded_output reads =
     (let output = concat (takeWhile (\<lambda>b. b \<noteq> []) reads)
      in (take MAX_AUTHORITY_OUTPUT_BYTES output, MAX_AUTHORITY_OUTPUT_BYTES < length output))"
  by (simp add: read_bounded_output_def read_bounded_loop_eq Let_def)

lemma sv_execute_snd: "snd (sv_execute E q uid s) = snd (sv_child E (fst (into_cli q)) (snd (into_cli q)) uid s)"
  by (auto simp: sv_execute_def bind_c_def ret_c_def split: prod.splits sum.splits)

text \<open>
  C7. Only an authorized request changes anything. If a connection leaves the files different, whatever the child does, its
  peer is one of the trusted accounts, it sent a request of at most 128 KiB that decodes, the operation is one its
  account is authorized for and the scope of the configured execution allows, and the change is the one of the child
  that executes exactly the command line of that request.
\<close>

theorem served_changes_are_authorized:
  assumes "serve_connection E peer input s = (r, s')" and "s' \<noteq> s"
  shows "\<exists>uid sent q x. peer = Some uid \<and> trusted_peer uid \<and> input = Some sent \<and>
    length sent \<le> MAX_AUTHORITY_REQUEST_BYTES \<and> sv_decode E sent = Some q \<and> \<not> is_shutdown q \<and> authorized_for q uid \<and>
    exec_configured (wf_codec (sv_ctx E)) (wf_environ (sv_ctx E))
      (lookup s (wf_state_dir (sv_ctx E) @ key_of ACTIVE_EXECUTION_FILE)) = Inr x \<and>
    allowed_for_execution q x \<and> s' = snd (sv_child E (fst (into_cli q)) (snd (into_cli q)) uid s)"
proof -
  let ?C = "sv_ctx E"
  let ?active = "\<lambda>s. exec_configured (wf_codec ?C) (wf_environ ?C) (lookup s (wf_state_dir ?C @ key_of ACTIVE_EXECUTION_FILE))"
  obtain uid sent where p: "peer = Some uid" "trusted_peer uid" "input = Some sent"
    using assms by (auto simp: serve_connection_def ret_c_eq split: option.splits if_splits)
  have len: "length sent \<le> MAX_AUTHORITY_REQUEST_BYTES"
    using assms p by (auto simp: serve_connection_def ret_c_eq Let_def split: if_splits)
  then obtain q where q: "sv_decode E sent = Some q" "\<not> is_shutdown q" "authorized_for q uid"
    using assms p by (auto simp: serve_connection_def ret_c_eq Let_def split: option.splits if_splits)
  then have c: "bind_c (lift_r ?active) (\<lambda>x.
      if \<not> allowed_for_execution q x
      then ret_c (False, Some (refuse (''scope '' @ exec_scope x @ '' is not authorized for: '' @ request_display q)))
      else bind_c (sv_execute E q uid) (\<lambda>answer. ret_c (False, Some answer))) s = (r, s')"
    using assms(1) p len by (simp add: serve_connection_def Let_def)
  then obtain x where x: "?active s = Inr x" "allowed_for_execution q x"
    using assms(2) by (cases "?active s") (auto simp: bind_c_def lift_r_def ret_c_def split: if_splits)
  then have "s' = snd (sv_execute E q uid s)"
    using c by (simp add: bind_c_def lift_r_def ret_c_def split: prod.splits sum.splits)
  then show ?thesis using p len q x by (simp add: sv_execute_snd)
qed

text \<open>
  C39. Every role can stop the supervisor: a shutdown request from any trusted account ends the loop with success and no
  later connection is served, although only root and the orchestrator are authorized for the operation.
\<close>

theorem any_role_stops_the_supervisor:
  assumes "trusted_peer uid" and "length sent \<le> MAX_AUTHORITY_REQUEST_BYTES" and "sv_decode E sent = Some request_shutdown"
  shows "serve_loop E ((Some uid, Some sent) # rest) s = (Inr [Some \<lparr>rs_code = 0, rs_stdout = [], rs_stderr = []\<rparr>], s) \<and>
    (authorized_for request_shutdown uid \<longleftrightarrow> uid = 0 \<or> uid = ORCHESTRATOR_UID)"
  using assms by (auto simp: serve_connection_def request_shutdown_def is_shutdown_def authorized_for_def cmd_defs)

section \<open>Witnesses\<close>

definition writer_ctx :: wf_ctx where
  "writer_ctx = sample_wf\<lparr>wf_cwd := ''/w'', wf_environ := sample_environ(''MULTIAGENT_MUTATION_GRANT_JSON'' \<mapsto> ''G'',
     ''CODEX_BIN'' \<mapsto> ''/c'')\<rparr>"

definition writer_files :: files where
  "writer_files = [([''st'', ''assignments'', ''a'', ''assignment.env''], []),
     ([''st'', ''assignments'', ''a'', ''owned-paths''], unlines [''src/a'']),
     ([''st'', ''subagents'', ''a'', ''instruction.txt''], ''go'')]"

definition writer_args :: "string list" where
  "writer_args = [''a'', ''--role'', ''worker'', ''--cli'', ''codex'', ''--cli-bin'', ''/c'',
     ''--instruction-file'', ''/st/subagents/a/instruction.txt'']"

definition launched_files :: files where
  "launched_files = snd (register_launch writer_ctx writer_args False writer_files)"

lemma writer_registered:
  "\<exists>out. register_launch writer_ctx writer_args False writer_files = (Inr out, launched_files)"
proof -
  have "fst (register_launch writer_ctx writer_args False writer_files) =
      Inr (unlines [''launch authorized'' @ [TAB] @ ''a'' @ [TAB] @ ''worker'' @ [TAB] @ ''workspace-write''])"
    by code_simp
  then show ?thesis unfolding launched_files_def by (metis prod.collapse)
qed


theorem launch_is_claimed_once_witness:
  "\<exists>s'. launch_state writer_ctx ''a'' s' = Some ''running'' \<and>
     (\<exists>s''. finish_launch writer_ctx ''a'' s' = (Inr (), s'') \<and> launch_state writer_ctx ''a'' s'' = Some ''completed'')"
proof -
  have "\<exists>a. fst (claim_launch writer_ctx ''a'' launched_files) = Inr a"
    by (rule exI [where x = "\<lparr>la_role = ''worker'', la_access = ''workspace-write'', la_workflow_id = [], la_cli = ''codex'',
      la_cli_bin = ''/c'', la_instruction = [''st'', ''launch-authorizations'', ''a'', ''instruction.txt''],
      la_owned_paths = [''/w/src/a'']\<rparr>"]) code_simp
  then obtain a s' where "claim_launch writer_ctx ''a'' launched_files = (Inr a, s')" by (metis prod.collapse)
  moreover have "CR \<notin> set (read_or_empty launched_files (launch_env writer_ctx ''a''))" by code_simp
  ultimately show ?thesis using launch_is_claimed_once by blast
qed

definition sample_server :: sup_env where
  "sample_server = \<lparr>sv_ctx = writer_ctx, sv_decode = (\<lambda>t. if t = ''stop'' then Some request_shutdown
     else if t = ''dag'' then Some \<lparr>operation = Dag, req_args = []\<rparr> else None),
     sv_child = (\<lambda>command args uid. bind_c (modify_c (write_file [''ran''] command)) (\<lambda>_.
       ret_c \<lparr>ce_code = Some 0, ce_stdout = [], ce_stderr = []\<rparr>))\<rparr>"

theorem any_role_stops_the_supervisor_witness:
  "serve_loop sample_server [(Some REVIEWER_UID, Some ''stop''), (Some ORCHESTRATOR_UID, Some ''dag'')] [] =
     (Inr [Some \<lparr>rs_code = 0, rs_stdout = [], rs_stderr = []\<rparr>], []) \<and> \<not> authorized_for request_shutdown REVIEWER_UID"
  using any_role_stops_the_supervisor [of REVIEWER_UID "''stop''" sample_server "[(Some ORCHESTRATOR_UID, Some ''dag'')]" "[]"]
  by (simp add: trusted_peer_def sample_server_def MAX_AUTHORITY_REQUEST_BYTES_def uids)

theorem served_changes_are_authorized_witness:
  "serve_connection sample_server (Some ORCHESTRATOR_UID) (Some ''dag'') [] =
     (Inr (False, Some \<lparr>rs_code = 0, rs_stdout = [], rs_stderr = []\<rparr>), [([''ran''], ''dag'')]) \<and>
   (\<exists>q. sv_decode sample_server ''dag'' = Some q \<and> authorized_for q ORCHESTRATOR_UID)"
proof -
  have run: "serve_connection sample_server (Some ORCHESTRATOR_UID) (Some ''dag'') [] =
     (Inr (False, Some \<lparr>rs_code = 0, rs_stdout = [], rs_stderr = []\<rparr>), [([''ran''], ''dag'')])"
  proof -
    let ?x = "\<lparr>exec_scope = ''user'', ordinal = 1, granted_paths = {''src/a''}, source_write = True,
      reviewed_ops = False, fixed_grant = True\<rparr>"
    have "exec_configured sample_codec (wf_environ writer_ctx) None = Inr ?x" by code_simp
    moreover have "allowed_for_execution \<lparr>operation = Dag, req_args = []\<rparr> ?x" by code_simp
    moreover have "child_response \<lparr>ce_code = Some 0, ce_stdout = [], ce_stderr = []\<rparr> = \<lparr>rs_code = 0, rs_stdout = [], rs_stderr = []\<rparr>"
      by (simp add: child_response_def read_bounded_output_def)
    moreover have "wf_codec writer_ctx = sample_codec" by (simp add: writer_ctx_def sample_wf_def)
    ultimately show ?thesis
      by (simp add: serve_connection_def sample_server_def trusted_peer_def MAX_AUTHORITY_REQUEST_BYTES_def is_shutdown_def
        authorized_for_def sv_execute_def into_cli_def cmd_defs write_file_def lookup_def uids)
  qed
  show ?thesis using served_changes_are_authorized [OF run] run by auto
qed

end
