(* ===== verification/Policy.thy ===== *)
theory Policy
  imports Workflow_Commands
begin

text \<open>
  The write policy (\<open>runtime/src/policy.rs\<close>): which paths outside the repository agents may write. The state is the text of
  the policy file, \<open>None\<close> if it does not exist; \<open>policy_ctx\<close> holds the configured paths and what the file system
  answers, which is taken as fixed: \<open>exists\<close>, \<open>is_dir\<close> and \<open>canonicalize\<close>. The lock is not modelled. A command
  gives what it prints and whether it exits with success.
\<close>

section \<open>Paths\<close>

record policy_ctx =
  pl_root :: string
  pl_path :: string
  pl_cwd :: string
  pl_home :: "string option"
  pl_now :: string
  pl_exists :: "string \<Rightarrow> bool"
  pl_is_dir :: "string \<Rightarrow> bool"
  pl_canon :: "string \<Rightarrow> string option"

type_synonym 'a policy_cmd = "(string option, error, 'a) cmd"

definition policy_configured :: "env \<Rightarrow> string \<Rightarrow> string \<times> string" where
  "policy_configured environ cwd =
     (let r = root environ cwd
      in (r, case environ ''MULTIAGENT_WRITE_POLICY'' of
               Some v \<Rightarrow> if v \<noteq> [] then v else path_join r ''docs/write-policy.paths''
             | None \<Rightarrow> path_join r ''docs/write-policy.paths''))"

text \<open>The search for an existing ancestor: the ancestor and the names that were taken off, the last one first.\<close>

function missing_loop :: "(string \<Rightarrow> bool) \<Rightarrow> string list \<Rightarrow> string \<Rightarrow> (string \<times> string list) option" where
  "missing_loop ex missing ancestor =
     (if ex ancestor then Some (ancestor, missing)
      else let missing' = (case path_file_name ancestor of Some n \<Rightarrow> missing @ [n] | None \<Rightarrow> missing)
        in case path_parent ancestor of
             None \<Rightarrow> None
           | Some p \<Rightarrow> missing_loop ex missing' p)"
  by pat_completeness auto
termination missing_loop
  by (relation "measure (\<lambda>(ex, missing, ancestor). length ancestor)") (simp_all add: length_path_parent)

declare missing_loop.simps [simp del]

definition component_text :: "component \<Rightarrow> string" where
  "component_text c = (case c of RootDir \<Rightarrow> ''/'' | CurDir \<Rightarrow> ''.'' | ParentDir \<Rightarrow> ''..'' | Normal n \<Rightarrow> n)"

definition normalize_step :: "string \<Rightarrow> component \<Rightarrow> string" where
  "normalize_step output c =
     (case c of
        ParentDir \<Rightarrow> (case path_parent output of Some p \<Rightarrow> p | None \<Rightarrow> output)
      | CurDir \<Rightarrow> output
      | _ \<Rightarrow> path_join output (component_text c))"

definition normalize_lexically :: "string \<Rightarrow> string" where
  "normalize_lexically p = foldl normalize_step [] (components p)"

definition existing_path :: "policy_ctx \<Rightarrow> string \<Rightarrow> error + string" where
  "existing_path P absolute =
     (if pl_is_dir P absolute then ok_or (pl_canon P absolute) ''canonicalize path''
      else and_then (ok_or (path_parent absolute) (''path has no parent: '' @ absolute)) (\<lambda>parent.
        and_then (ok_or (pl_canon P parent) ''canonicalize path parent'') (\<lambda>c.
        Inr (path_join c (case path_file_name absolute of Some n \<Rightarrow> n | None \<Rightarrow> [])))))"

definition canonical_path :: "policy_ctx \<Rightarrow> string \<Rightarrow> error + string" where
  "canonical_path P path =
     (let absolute = (if has_root path then path else path_join (pl_cwd P) path)
      in if pl_exists P absolute then existing_path P absolute
         else and_then (ok_or (missing_loop (pl_exists P) [] absolute) (''cannot resolve path: '' @ absolute))
           (\<lambda>(ancestor, missing).
           and_then (ok_or (pl_canon P ancestor) ''canonicalize path ancestor'') (\<lambda>base.
           Inr (normalize_lexically (foldl path_join base (rev missing))))))"

definition path_inside :: "string \<Rightarrow> string \<Rightarrow> bool" where
  "path_inside path rt \<longleftrightarrow> path_eq path rt \<or> path_starts_with path rt"

definition broad_approval :: "policy_ctx \<Rightarrow> string \<Rightarrow> string \<Rightarrow> bool" where
  "broad_approval P path rt \<longleftrightarrow>
     list_ex (path_eq path) [''/'', ''/tmp'', ''/private/tmp'', ''/var/tmp'', ''/Users'', ''/home'', ''/opt'', ''/usr'', ''/var'',
       ''/private'', ''/Applications''] \<or>
     (case pl_home P of Some h \<Rightarrow> path_eq path h | None \<Rightarrow> False) \<or>
     (case path_parent rt of Some p \<Rightarrow> path_eq path p | None \<Rightarrow> False)"

section \<open>The policy file\<close>

definition POLICY_TEMPLATE :: string where
  "POLICY_TEMPLATE = unlines [''# Multiagent repo write policy'', ''#'',
     ''# Default allowed write root is $MULTIAGENT_ROOT for the launched session.'',
     ''# Orchestrator-owned: workers should not edit this file directly.'',
     ''# Add approvals only with:'',
     ''#   multiagent policy approve PATH --actor ACTOR --assignment-id ID --reason TEXT [--force]'', ''#'',
     ''# Records are TSV:'',
     ''#   approval<TAB>timestamp<TAB>actor<TAB>assignment_id<TAB>requested_path<TAB>canonical_path<TAB>reason<TAB>force'',
     ''# Blank lines and comments are ignored. Legacy bare absolute path lines are read'',
     ''# for compatibility but new approvals must be structured records.'']"

definition policy_lock :: "policy_ctx \<Rightarrow> unit policy_cmd" where
  "policy_lock P = lift_r (\<lambda>_. and_then (ok_or (path_parent (pl_path P)) (''policy path has no parent: '' @ pl_path P)) (\<lambda>_. Inr ()))"

definition init_locked :: "unit policy_cmd" where
  "init_locked = modify_c (\<lambda>file. case file of Some t \<Rightarrow> Some t | None \<Rightarrow> Some POLICY_TEMPLATE)"

definition policy_init :: "policy_ctx \<Rightarrow> unit policy_cmd" where
  "policy_init P = bind_c (policy_lock P) (\<lambda>_. init_locked)"

definition canonical_root :: "policy_ctx \<Rightarrow> error + string" where
  "canonical_root P = ok_or (pl_canon P (pl_root P)) ''canonicalize write root''"

definition approved_candidate :: "string \<Rightarrow> string option" where
  "approved_candidate raw =
     (let line = trim (takeWhile (\<lambda>c. c \<noteq> CHR ''#'') raw)
      in if line = [] then None
         else if starts_with (''approval'' @ [TAB]) line
         then (let fs = split_char TAB line in if length fs < 6 \<or> fs ! 5 = [] then None else Some (fs ! 5))
         else Some line)"

definition approved_paths :: "policy_ctx \<Rightarrow> string option \<Rightarrow> error + string list" where
  "approved_paths P file =
     (case file of
        None \<Rightarrow> Inr []
      | Some t \<Rightarrow> collect_ok (canonical_path P) (List.map_filter approved_candidate (lines t)))"

section \<open>Commands\<close>

type_synonym outcome = "string \<times> bool"

definition policy_show :: "policy_ctx \<Rightarrow> outcome policy_cmd" where
  "policy_show P =
     bind_c (policy_init P) (\<lambda>_.
     bind_c (lift_r (\<lambda>_. canonical_root P)) (\<lambda>rt.
     bind_c (lift_r (approved_paths P)) (\<lambda>approved.
     let outside = filter (\<lambda>p. \<not> path_inside p rt) approved
     in ret_c (unlines ([''Default write root: '' @ rt, ''Policy file: '' @ pl_path P, ''Approved outside write roots:''] @
          (if outside = [] then [''  (none)''] else map (\<lambda>p. ''  '' @ p) outside)), True))))"

definition path_allowed :: "string \<Rightarrow> string list \<Rightarrow> string \<Rightarrow> bool" where
  "path_allowed rt approved p \<longleftrightarrow> path_inside p rt \<or> list_ex (path_inside p) approved"

definition check_line :: "string \<Rightarrow> string list \<Rightarrow> string \<Rightarrow> string" where
  "check_line rt approved p = (if path_allowed rt approved p then ''allowed'' else ''denied'') @ [TAB] @ p"

definition policy_check :: "policy_ctx \<Rightarrow> string list \<Rightarrow> outcome policy_cmd" where
  "policy_check P paths =
     bind_c (ensure (paths \<noteq> []) ''check requires at least one PATH'') (\<lambda>_.
     bind_c (policy_init P) (\<lambda>_.
     bind_c (lift_r (\<lambda>_. canonical_root P)) (\<lambda>rt.
     bind_c (lift_r (approved_paths P)) (\<lambda>approved.
     bind_c (lift_r (\<lambda>_. collect_ok (canonical_path P) paths)) (\<lambda>resolved.
     ret_c (unlines (map (check_line rt approved) resolved), list_all (path_allowed rt approved) resolved))))))"

record approval =
  ap_actor :: string
  ap_assignment :: string
  ap_reason :: string
  ap_force :: bool

fun approve_options :: "approval \<Rightarrow> string list \<Rightarrow> error + approval" where
  "approve_options a [] = Inr a"
| "approve_options a [arg] =
     (if arg = ''--force'' then Inr (a\<lparr>ap_force := True\<rparr>)
      else if arg \<in> {''--actor'', ''--assignment-id'', ''--reason''} then Inl (arg @ '' requires a value'')
      else Inl (''unknown approve argument: '' @ arg))"
| "approve_options a (arg # v # rest) =
     (if arg = ''--actor'' then approve_options (a\<lparr>ap_actor := v\<rparr>) rest
      else if arg = ''--assignment-id'' then approve_options (a\<lparr>ap_assignment := v\<rparr>) rest
      else if arg = ''--reason'' then approve_options (a\<lparr>ap_reason := v\<rparr>) rest
      else if arg = ''--force'' then approve_options (a\<lparr>ap_force := True\<rparr>) (v # rest)
      else Inl (''unknown approve argument: '' @ arg))"

definition reject_record_field :: "string \<Rightarrow> string \<Rightarrow> error + unit" where
  "reject_record_field label current =
     guard_ok (list_all plain_char current) (label @ '' may not contain tabs or newlines'')"

definition approve_request :: "string list \<Rightarrow> error + (string \<times> approval)" where
  "approve_request args =
     and_then (ok_or (case args of [] \<Rightarrow> None | r # _ \<Rightarrow> Some r) ''approve requires PATH'') (\<lambda>requested.
     and_then (approve_options \<lparr>ap_actor = [], ap_assignment = [], ap_reason = [], ap_force = False\<rparr> (tl args)) (\<lambda>a.
     and_then (guard_ok (ap_actor a \<noteq> []) ''approve requires --actor ACTOR'') (\<lambda>_.
     and_then (guard_ok (ap_assignment a \<noteq> []) ''approve requires --assignment-id ID'') (\<lambda>_.
     and_then (guard_ok (ap_reason a \<noteq> []) ''approve requires --reason TEXT'') (\<lambda>_.
     Inr (requested, a))))))"

definition approval_line :: "policy_ctx \<Rightarrow> string \<Rightarrow> string \<Rightarrow> approval \<Rightarrow> string" where
  "approval_line P requested resolved a =
     join_with [TAB] [''approval'', pl_now P, ap_actor a, ap_assignment a, requested, resolved, ap_reason a,
       if ap_force a then ''1'' else ''0'']"

definition append_approval :: "policy_ctx \<Rightarrow> string \<Rightarrow> string \<Rightarrow> approval \<Rightarrow> outcome policy_cmd" where
  "append_approval P requested resolved a =
     bind_c (lift_r (\<lambda>_. and_then (reject_record_field ''actor'' (ap_actor a)) (\<lambda>_.
       and_then (reject_record_field ''assignment ID'' (ap_assignment a)) (\<lambda>_.
       and_then (reject_record_field ''requested path'' requested) (\<lambda>_.
       reject_record_field ''reason'' (ap_reason a)))))) (\<lambda>_.
     bind_c (lift_r (\<lambda>file. ok_or file ''append write policy'')) (\<lambda>t.
     bind_c (modify_c (\<lambda>_. Some (t @ approval_line P requested resolved a @ [NL]))) (\<lambda>_.
     ret_c (unlines [''approved outside write root: '' @ resolved @ (if ap_force a then '' (forced)'' else [])], True))))"

definition policy_approve :: "policy_ctx \<Rightarrow> string list \<Rightarrow> outcome policy_cmd" where
  "policy_approve P args =
     bind_c (lift_r (\<lambda>_. approve_request args)) (\<lambda>(requested, a).
     bind_c (policy_lock P) (\<lambda>_.
     bind_c init_locked (\<lambda>_.
     bind_c (lift_r (\<lambda>_. canonical_root P)) (\<lambda>rt.
     bind_c (lift_r (\<lambda>_. canonical_path P requested)) (\<lambda>resolved.
     if path_inside resolved rt then ret_c (unlines [''already allowed by default root: '' @ resolved], True)
     else bind_c (lift_r (approved_paths P)) (\<lambda>approved.
       if list_ex (\<lambda>p. path_eq p resolved) approved then ret_c (unlines [''already approved: '' @ resolved], True)
       else bind_c (ensure (\<not> (broad_approval P resolved rt \<and> \<not> ap_force a))
           (''refusing broad outside approval without --force: '' @ resolved)) (\<lambda>_.
         append_approval P requested resolved a)))))))"

definition policy_run :: "string \<Rightarrow> policy_ctx \<Rightarrow> string list \<Rightarrow> outcome policy_cmd" where
  "policy_run usage P args =
     (case args of
        [] \<Rightarrow> ret_c (unlines [usage], True)
      | command # rest \<Rightarrow>
          if command \<in> {''-h'', ''--help''} then ret_c (unlines [usage], True)
          else if command = ''init'' then bind_c (ensure (rest = []) ''init takes no arguments'') (\<lambda>_.
            bind_c (policy_init P) (\<lambda>_. ret_c ([], True)))
          else if command = ''show'' then bind_c (ensure (rest = []) ''show takes no arguments'') (\<lambda>_. policy_show P)
          else if command = ''check'' then policy_check P rest
          else if command = ''approve'' then policy_approve P rest
          else lift_r (\<lambda>_. Inl (''unknown command: '' @ command)))"

end
