(* ===== verification/Policy_Props.thy ===== *)
theory Policy_Props
  imports Policy
begin

text \<open>
  The properties of the write policy: what is approved is allowed afterwards and nothing is withdrawn, and what the
  resolution of a path that does not exist does with its parent components.
\<close>

section \<open>Approval\<close>

lemma approved_paths_append:
  assumes "whole_lines t" and "single_line l" and "approved_candidate l = Some c" and "canonical_path P c = Inr d"
    and "approved_paths P (Some t) = Inr ps"
  shows "approved_paths P (Some (t @ l @ [NL])) = Inr (ps @ [d])"
proof -
  have "lines (t @ l @ [NL]) = lines t @ [l]"
    using assms(1,2) by (simp add: lines_whole_app single_line_def lines_app strip_cr_id)
  then have "List.map_filter approved_candidate (lines (t @ l @ [NL])) = List.map_filter approved_candidate (lines t) @ [c]"
    using assms(3) by (simp add: List.map_filter_def)
  moreover have "list_all2 (\<lambda>x y. canonical_path P x = Inr y) (List.map_filter approved_candidate (lines t)) ps"
    using assms(5) by (simp add: approved_paths_def collect_ok_Inr)
  ultimately show ?thesis
    using assms(4) unfolding approved_paths_def option.case collect_ok_Inr by (simp add: list_all2_appendI)
qed

text \<open>The fields of an approval record, and those that read back.\<close>

definition approval_fields :: "policy_ctx \<Rightarrow> string \<Rightarrow> string \<Rightarrow> approval \<Rightarrow> string list" where
  "approval_fields P requested c a = [pl_now P, ap_actor a, ap_assignment a, requested, c, ap_reason a]"

definition readable_approval :: "policy_ctx \<Rightarrow> string \<Rightarrow> string \<Rightarrow> approval \<Rightarrow> bool" where
  "readable_approval P requested c a \<longleftrightarrow> c \<noteq> [] \<and>
     list_all (list_all (\<lambda>x. plain_char x \<and> x \<noteq> CHR ''#'')) (approval_fields P requested c a)"

lemma list_all_join: "list_all Q sep \<Longrightarrow> list_all (list_all Q) xs \<Longrightarrow> list_all Q (join_with sep xs)"
  by (induction sep xs rule: join_with.induct) auto

lemma last_join: "xs \<noteq> [] \<Longrightarrow> last xs \<noteq> [] \<Longrightarrow> join_with sep xs \<noteq> [] \<and> last (join_with sep xs) = last (last xs)"
  by (induction sep xs rule: join_with.induct) (auto simp: last_append)

lemma approval_line_fields:
  "approval_line P requested c a =
     join_with [TAB] ([''approval''] @ approval_fields P requested c a @ [if ap_force a then ''1'' else ''0''])"
  by (simp add: approval_line_def approval_fields_def)

lemma readable_fields:
  assumes "readable_approval P requested c a" and "\<And>x. plain_char x \<Longrightarrow> x \<noteq> CHR ''#'' \<Longrightarrow> Q x"
  shows "list_all (list_all Q) (approval_fields P requested c a)"
  using assms unfolding readable_approval_def by (auto elim!: list.pred_mono_strong)

lemma approval_line_chars:
  assumes "readable_approval P requested c a" and "\<And>x. plain_char x \<Longrightarrow> x \<noteq> CHR ''#'' \<Longrightarrow> Q x" and "Q TAB"
  shows "list_all Q (approval_line P requested c a)"
proof -
  have "list_all (\<lambda>x. plain_char x \<and> x \<noteq> CHR ''#'') ''approval01''" by (simp add: plain_char_def)
  then have "list_all Q ''approval01''" by (rule list.pred_mono_strong) (use assms(2) in blast)
  then show ?thesis
    unfolding approval_line_fields using readable_fields [OF assms(1,2)] assms(3) by (intro list_all_join) auto
qed

lemma approval_line_single: "readable_approval P requested c a \<Longrightarrow> single_line (approval_line P requested c a)"
  using approval_line_chars [of P requested c a "\<lambda>x. x \<noteq> NL \<and> x \<noteq> CR"]
  by (auto simp: plain_char_def single_line_def list_all_iff)

lemma approved_candidate_line:
  assumes "readable_approval P requested c a"
  shows "approved_candidate (approval_line P requested c a) = Some c"
proof -
  let ?l = "approval_line P requested c a"
  let ?fs = "[''approval''] @ approval_fields P requested c a @ [if ap_force a then ''1'' else ''0'']"
  have "\<forall>f \<in> set (approval_fields P requested c a). TAB \<notin> set f"
    using readable_fields [OF assms, of "\<lambda>x. x \<noteq> TAB"] by (auto simp: plain_char_def list_all_iff)
  then have s: "split_char TAB ?l = ?fs" unfolding approval_line_fields by (intro split_char_join) auto
  have "list_all (\<lambda>x. x \<noteq> CHR ''#'') ?l"
    using approval_line_chars [OF assms] by simp
  then have t: "takeWhile (\<lambda>x. x \<noteq> CHR ''#'') ?l = ?l" by (simp add: list_all_iff takeWhile_eq_all_conv)
  have h: "\<exists>r. ?l = ''approval'' @ [TAB] @ r" by (simp add: approval_line_def)
  have "last ?l = (if ap_force a then CHR ''1'' else CHR ''0'')" unfolding approval_line_fields by (subst last_join [THEN conjunct2]) auto
  then have "trim ?l = ?l" using h by (intro trim_ends) (auto simp: ws_byte_def byte_of_def)
  moreover have "starts_with (''approval'' @ [TAB]) ?l" "?l \<noteq> []" using h by (auto simp: starts_with_def)
  moreover have "length (split_char TAB ?l) = 8" "split_char TAB ?l ! 5 = c" "c \<noteq> []"
    unfolding s using assms by (simp_all add: approval_fields_def readable_approval_def)
  ultimately show ?thesis unfolding approved_candidate_def Let_def t by simp
qed

definition policy_text :: "string option \<Rightarrow> string" where
  "policy_text file = (case file of Some t \<Rightarrow> t | None \<Rightarrow> POLICY_TEMPLATE)"

lemma policy_init_eq: "policy_init P file = (r, file') \<longleftrightarrow>
    (if path_parent (pl_path P) = None then r = Inl (''policy path has no parent: '' @ pl_path P) \<and> file' = file
     else r = Inr () \<and> file' = Some (policy_text file))"
  by (auto simp: policy_init_def policy_lock_def init_locked_def cmd_defs policy_text_def ok_or_def split: option.splits)

text \<open>A successful approval: the path is inside the root, was approved before, or is appended.\<close>

lemma policy_approve_Inr:
  assumes "policy_approve P args file = (Inr out, file')" and "approve_request args = Inr (requested, a)"
    and "canonical_path P requested = Inr c"
  shows "\<exists>rt. canonical_root P = Inr rt \<and> path_parent (pl_path P) \<noteq> None \<and>
    (file' = Some (policy_text file) \<and> (path_inside c rt \<or> (\<exists>ps. approved_paths P file' = Inr ps \<and> list_ex (\<lambda>p. path_eq p c) ps)) \<or>
     file' = Some (policy_text file @ approval_line P requested c a @ [NL]) \<and>
     (\<exists>ps. approved_paths P (Some (policy_text file)) = Inr ps))"
proof -
  obtain rt where rt: "canonical_root P = Inr rt" and p: "path_parent (pl_path P) \<noteq> None"
    using assms(1,2) by (auto simp: policy_approve_def policy_lock_def bind_c_Inr lift_r_eq and_then_Inr ok_or_Inr)
  have "(if path_inside c rt then ret_c (unlines [''already allowed by default root: '' @ c], True)
     else bind_c (lift_r (approved_paths P)) (\<lambda>approved.
       if list_ex (\<lambda>p. path_eq p c) approved then ret_c (unlines [''already approved: '' @ c], True)
       else bind_c (ensure (\<not> (broad_approval P c rt \<and> \<not> ap_force a))
           (''refusing broad outside approval without --force: '' @ c)) (\<lambda>_.
         append_approval P requested c a))) (Some (policy_text file)) = (Inr out, file')"
    using assms rt p by (auto simp: policy_approve_def policy_lock_def init_locked_def cmd_defs policy_text_def ok_or_def split: option.splits)
  then show ?thesis using rt p
    by (auto simp: append_approval_def bind_c_Inr lift_r_eq ret_c_eq modify_c_eq ensure_def ok_or_Inr split: if_splits)
qed

lemma policy_check_result:
  assumes "path_parent (pl_path P) \<noteq> None" and "canonical_root P = Inr rt" and "approved_paths P (Some t) = Inr ps"
  shows "policy_check P paths (Some t) = (Inr (out, ok), file') \<longleftrightarrow>
    (\<exists>cs. paths \<noteq> [] \<and> list_all2 (\<lambda>x y. canonical_path P x = Inr y) paths cs \<and> out = unlines (map (check_line rt ps) cs) \<and>
      ok = list_all (path_allowed rt ps) cs \<and> file' = Some t)"
  using assms unfolding policy_check_def
  by (auto simp: bind_c_Inr lift_r_eq ret_c_eq ensure_def guard_ok_Inr policy_init_eq policy_text_def collect_ok_Inr)

lemma path_allowed_mono: "set ps \<subseteq> set qs \<Longrightarrow> path_allowed rt ps p \<Longrightarrow> path_allowed rt qs p"
  by (auto simp: path_allowed_def list_ex_iff)


section \<open>Paths that do not exist\<close>

text \<open>
  C40. The check loses parent components of a path below a directory that does not exist: with the repository at
  \<open>/w\<close> and no \<open>/w/new\<close>, the path \<open>/w/new/../../etc/x\<close>, which names \<open>/etc/x\<close> once \<open>/w/new\<close> is created, is
  reported as allowed.
\<close>

theorem missing_directory_hides_parents:
  assumes "pl_root P = ''/w''" and "pl_canon P ''/w'' = Some ''/w''" and "pl_exists P ''/w''" and "path_parent (pl_path P) \<noteq> None"
    and "list_all (\<lambda>q. \<not> pl_exists P q) [''/w/new/../../etc/x'', ''/w/new/../../etc'', ''/w/new/../..'', ''/w/new/..'', ''/w/new'']"
    and "approved_paths P (Some (policy_text file)) = Inr ps"
  shows "policy_check P [''/w/new/../../etc/x''] file =
    (Inr (unlines [''allowed'' @ [TAB] @ ''/w/new/etc/x''], True), Some (policy_text file))"
proof -
  have "path_parent ''/w/new/../../etc/x'' = Some ''/w/new/../../etc''" "path_parent ''/w/new/../../etc'' = Some ''/w/new/../..''"
    "path_parent ''/w/new/../..'' = Some ''/w/new/..''" "path_parent ''/w/new/..'' = Some ''/w/new''" "path_parent ''/w/new'' = Some ''/w''"
    "path_file_name ''/w/new/../../etc/x'' = Some ''x''" "path_file_name ''/w/new/../../etc'' = Some ''etc''"
    "path_file_name ''/w/new/../..'' = None" "path_file_name ''/w/new/..'' = None" "path_file_name ''/w/new'' = Some ''new''"
    by code_simp+
  then have m: "missing_loop (pl_exists P) [] ''/w/new/../../etc/x'' = Some (''/w'', [''x'', ''etc'', ''new''])"
    using assms(3,5) by (simp add: missing_loop.simps)
  have n: "normalize_lexically (foldl path_join ''/w'' [''new'', ''etc'', ''x'']) = ''/w/new/etc/x''" "has_root ''/w/new/../../etc/x''"
    by code_simp+
  have i: "path_inside ''/w/new/etc/x'' ''/w''" by code_simp
  have "canonical_path P ''/w/new/../../etc/x'' = Inr ''/w/new/etc/x''"
    using assms(2,5) m n by (simp add: canonical_path_def Let_def)
  moreover have "policy_init P file = (Inr (), Some (policy_text file))" using assms(4) by (simp add: policy_init_eq)
  ultimately show ?thesis
    using assms(1,2,6) i by (simp add: policy_check_def canonical_root_def cmd_defs ensure_def check_line_def path_allowed_def)
qed

section \<open>Witnesses\<close>

definition sample_policy :: policy_ctx where
  "sample_policy = \<lparr>pl_root = ''/w'', pl_path = ''/w/p'', pl_cwd = ''/w'', pl_home = None, pl_now = ''t'',
     pl_exists = (\<lambda>p. p \<in> {''/'', ''/w'', ''/o''}), pl_is_dir = (\<lambda>_. True), pl_canon = Some\<rparr>"

definition approve_args :: "string list" where
  "approve_args = [''/o/x'', ''--actor'', ''a'', ''--assignment-id'', ''i'', ''--reason'', ''r'']"


theorem missing_directory_hides_parents_witness:
  "fst (policy_check sample_policy [''/w/new/../../etc/x''] None) = Inr (unlines [''allowed'' @ [TAB] @ ''/w/new/etc/x''], True) \<and>
   fst (policy_check sample_policy [''/etc/x''] None) = Inr (unlines [''denied'' @ [TAB] @ ''/etc/x''], False)"
proof -
  have "approved_paths sample_policy (Some (policy_text None)) = Inr []"
    "list_all (\<lambda>q. \<not> pl_exists sample_policy q) [''/w/new/../../etc/x'', ''/w/new/../../etc'', ''/w/new/../..'', ''/w/new/..'', ''/w/new'']"
    "path_parent (pl_path sample_policy) \<noteq> None" "pl_exists sample_policy ''/w''"
    "fst (policy_check sample_policy [''/etc/x''] None) = Inr (unlines [''denied'' @ [TAB] @ ''/etc/x''], False)"
    by code_simp+
  moreover have "pl_root sample_policy = ''/w''" "pl_canon sample_policy ''/w'' = Some ''/w''" by (simp_all add: sample_policy_def)
  ultimately show ?thesis using missing_directory_hides_parents [of sample_policy None "[]"] by simp
qed

end
