(* ===== verification/Decision.thy ===== *)
theory Decision
  imports Workflow_Commands
begin

text \<open>
  Decisions (\<open>runtime/src/decision.rs\<close>): a decision is a directory with an environment file for its status, three tables, an
  outcome and an event log. The state is the files; of \<open>wf_ctx\<close> only the state directory and the time stamps are
  used. The lock is not modelled, since each command holds it from its first read to its last write.
\<close>

section \<open>Options and files\<close>

fun dc_options :: "string list \<Rightarrow> options \<Rightarrow> string list \<Rightarrow> error + options" where
  "dc_options allowed opts [] = Inr opts"
| "dc_options allowed opts (raw # rest) =
     (if raw \<in> {''-h'', ''--help''} then Inl ''help requested''
      else case strip_prefix ''--'' raw of
        None \<Rightarrow> Inl (''unknown option: '' @ raw)
      | Some key \<Rightarrow>
          if key \<notin> set allowed then Inl (''unknown option: '' @ raw)
          else case rest of
            [] \<Rightarrow> Inl (raw @ '' requires a value'')
          | v # rest' \<Rightarrow> dc_options allowed (opts(key \<mapsto> v)) rest')"

definition id_and_options :: "string \<Rightarrow> string list \<Rightarrow> string list \<Rightarrow> error + (string \<times> options)" where
  "id_and_options command allowed args =
     (case args of
        [] \<Rightarrow> Inl (command @ '' requires DECISION_ID'')
      | i # rest \<Rightarrow> and_then (dc_options allowed Map.empty rest) (\<lambda>opts. Inr (i, opts)))"

definition dc_required :: "options \<Rightarrow> string \<Rightarrow> string \<Rightarrow> error + string" where
  "dc_required opts key message =
     (case opts key of Some v \<Rightarrow> if v \<noteq> [] then Inr v else Inl message | None \<Rightarrow> Inl message)"

definition dc_reject_newline :: "string \<Rightarrow> string \<Rightarrow> error + unit" where
  "dc_reject_newline label current = guard_ok (single_line current) (label @ '' may not contain newlines'')"

definition dc_reject_all :: "(string \<times> string) list \<Rightarrow> error + unit" where
  "dc_reject_all labelled = all_ok (\<lambda>(label, current). dc_reject_newline label current) labelled"

definition decision_file :: "wf_ctx \<Rightarrow> string \<Rightarrow> string \<Rightarrow> path" where
  "decision_file C i name = wf_state_dir C @ [''decisions'', i, name]"

definition decision_exists :: "wf_ctx \<Rightarrow> string \<Rightarrow> files \<Rightarrow> bool" where
  "decision_exists C i s \<longleftrightarrow> is_file s (decision_file C i ''decision.env'')"

definition decision_status :: "wf_ctx \<Rightarrow> string \<Rightarrow> files \<Rightarrow> error + string" where
  "decision_status C i s =
     and_then (read_env (display (decision_file C i ''decision.env'')) (lookup s (decision_file C i ''decision.env''))) (\<lambda>m.
     ok_or (m ''status'') (''decision status is missing: '' @ i))"

definition require_open :: "wf_ctx \<Rightarrow> string \<Rightarrow> string \<Rightarrow> files \<Rightarrow> error + unit" where
  "require_open C i action s =
     and_then (guard_ok (decision_exists C i s) (''decision does not exist: '' @ i)) (\<lambda>_.
     and_then (decision_status C i s) (\<lambda>st.
     guard_ok (st = ''open'') (''cannot '' @ action @ '' to '' @ st @ '' decision: '' @ i)))"

definition require_status :: "wf_ctx \<Rightarrow> string \<Rightarrow> string \<Rightarrow> string \<Rightarrow> files \<Rightarrow> error + unit" where
  "require_status C i expected action s =
     and_then (guard_ok (decision_exists C i s) (''decision does not exist: '' @ i)) (\<lambda>_.
     and_then (decision_status C i s) (\<lambda>st.
     guard_ok (st = expected) (action @ '' '' @ expected @ '' decisions, got: '' @ st)))"

definition first_column_contains :: "path \<Rightarrow> string \<Rightarrow> files \<Rightarrow> error + bool" where
  "first_column_contains p expected s =
     and_then (ok_or (lookup s p) ''read decision table'') (\<lambda>t.
     Inr (list_ex (\<lambda>l. hd (split_char TAB l) = expected) (drop 1 (lines t))))"

definition append_tsv :: "path \<Rightarrow> string list \<Rightarrow> unit wf_cmd" where
  "append_tsv p fs =
     bind_c (lift_r (\<lambda>s. ok_or (lookup s p) ''append decision table'')) (\<lambda>t.
     modify_c (write_file p (t @ join_with [TAB] fs @ [NL])))"

definition log_event :: "wf_ctx \<Rightarrow> string \<Rightarrow> string \<Rightarrow> string \<Rightarrow> unit wf_cmd" where
  "log_event C i stamp event =
     modify_c (append_to (decision_file C i ''events.log'') (stamp @ [TAB] @ event @ [NL]))"

definition status_line :: "string \<Rightarrow> bool" where
  "status_line l \<longleftrightarrow> starts_with ''status='' l"

definition rewrite_status :: "path \<Rightarrow> string list \<Rightarrow> unit wf_cmd" where
  "rewrite_status p appended =
     bind_c (lift_r (\<lambda>s. ok_or (lookup s p) ''read decision metadata'')) (\<lambda>t.
     modify_c (write_file p (unlines (filter (\<lambda>l. \<not> status_line l) (lines t) @ appended))))"

section \<open>Commands\<close>

definition init_request :: "string list \<Rightarrow> error + (string \<times> string \<times> string)" where
  "init_request args =
     and_then (id_and_options ''init'' [''title'', ''owner''] args) (\<lambda>(i, opts).
     and_then (wf_valid_id ''decision ID'' i) (\<lambda>_.
     and_then (dc_required opts ''title'' ''init requires --title'') (\<lambda>title.
     and_then (dc_reject_all [(''--title'', title), (''--owner'', opt_value opts ''owner'')]) (\<lambda>_.
     Inr (i, title, opt_value opts ''owner'')))))"

definition create_decision :: "wf_ctx \<Rightarrow> string \<Rightarrow> string \<Rightarrow> string \<Rightarrow> string wf_cmd" where
  "create_decision C i title owner =
     bind_c (lift_r (\<lambda>s. guard_ok (\<not> decision_exists C i s) (''decision already exists: '' @ i))) (\<lambda>_.
     bind_c (modify_c (write_file (decision_file C i ''decision.env'') (env_text [(''decision_id'', i), (''title'', title), (''owner'', owner),
       (''status'', ''open''), (''created_at'', wf_now C 0)]))) (\<lambda>_.
     bind_c (modify_c (write_file (decision_file C i ''alternatives.tsv'') (join_with [TAB] [''plan_id'', ''summary'', ''proposed_by'', ''branch'',
       ''assignment_name'', ''expected_outcome'', ''risk'', ''added_at''] @ [NL]))) (\<lambda>_.
     bind_c (modify_c (write_file (decision_file C i ''assumptions.tsv'') (join_with [TAB] [''assumption_id'', ''statement'', ''confidence'',
       ''validation_method'', ''expected_signal'', ''added_at''] @ [NL]))) (\<lambda>_.
     bind_c (modify_c (write_file (decision_file C i ''metrics.tsv'') (join_with [TAB] [''name'', ''expected'', ''actual'', ''recorded_at''] @ [NL]))) (\<lambda>_.
     bind_c (log_event C i (wf_now C 1) (''decision_created'' @ [TAB] @ ''title='' @ title @ [TAB] @ ''owner='' @ owner)) (\<lambda>_.
     ret_c (''decision created'' @ [TAB] @ i @ [TAB] @ title @ [NL])))))))"

definition decision_init :: "wf_ctx \<Rightarrow> string list \<Rightarrow> string wf_cmd" where
  "decision_init C args =
     bind_c (lift_r (\<lambda>_. init_request args)) (\<lambda>(i, title, owner). create_decision C i title owner)"

definition alternative_request :: "string list \<Rightarrow> error + (string \<times> options \<times> string \<times> string \<times> string)" where
  "alternative_request args =
     and_then (id_and_options ''add-alternative'' [''plan-id'', ''summary'', ''proposed-by'', ''branch'',
       ''assignment-name'', ''expected-outcome'', ''risk''] args) (\<lambda>(i, opts).
     and_then (wf_valid_id ''decision ID'' i) (\<lambda>_.
     and_then (dc_required opts ''plan-id'' ''add-alternative requires --plan-id'') (\<lambda>plan.
     and_then (dc_required opts ''summary'' ''add-alternative requires --summary'') (\<lambda>summary.
     and_then (dc_required opts ''proposed-by'' ''add-alternative requires --proposed-by'') (\<lambda>by.
     and_then (wf_valid_id ''plan ID'' plan) (\<lambda>_.
     and_then (dc_reject_all [(''--plan-id'', plan), (''--summary'', summary), (''--proposed-by'', by),
       (''--branch'', opt_value opts ''branch''), (''--assignment-name'', opt_value opts ''assignment-name''),
       (''--expected-outcome'', opt_value opts ''expected-outcome''), (''--risk'', opt_value opts ''risk'')]) (\<lambda>_.
     Inr (i, opts, plan, summary, by))))))))"

definition append_alternative :: "wf_ctx \<Rightarrow> string \<Rightarrow> options \<Rightarrow> string \<Rightarrow> string \<Rightarrow> string \<Rightarrow> string wf_cmd" where
  "append_alternative C i opts plan summary by =
     bind_c (lift_r (require_open C i ''add alternatives'')) (\<lambda>_.
     let p = decision_file C i ''alternatives.tsv''
     in bind_c (lift_r (first_column_contains p plan)) (\<lambda>taken.
        bind_c (ensure (\<not> taken) (''plan ID already exists: '' @ plan)) (\<lambda>_.
        bind_c (append_tsv p [plan, summary, by, opt_value opts ''branch'', opt_value opts ''assignment-name'',
          opt_value opts ''expected-outcome'', opt_value opts ''risk'', wf_now C 0]) (\<lambda>_.
        bind_c (log_event C i (wf_now C 1) (''alternative_added'' @ [TAB] @ ''plan_id='' @ plan @ [TAB] @ ''proposed_by='' @ by)) (\<lambda>_.
        ret_c (''alternative added'' @ [TAB] @ i @ [TAB] @ plan @ [TAB] @ summary @ [NL]))))))"

definition add_alternative :: "wf_ctx \<Rightarrow> string list \<Rightarrow> string wf_cmd" where
  "add_alternative C args =
     bind_c (lift_r (\<lambda>_. alternative_request args)) (\<lambda>(i, opts, plan, summary, by). append_alternative C i opts plan summary by)"

definition assumption_request :: "string list \<Rightarrow> error + (string \<times> options \<times> string \<times> string)" where
  "assumption_request args =
     and_then (id_and_options ''add-assumption'' [''assumption-id'', ''statement'', ''confidence'',
       ''validation-method'', ''expected-signal''] args) (\<lambda>(i, opts).
     and_then (wf_valid_id ''decision ID'' i) (\<lambda>_.
     and_then (dc_required opts ''assumption-id'' ''add-assumption requires --assumption-id'') (\<lambda>aid.
     and_then (dc_required opts ''statement'' ''add-assumption requires --statement'') (\<lambda>statement.
     and_then (wf_valid_id ''assumption ID'' aid) (\<lambda>_.
     and_then (dc_reject_all [(''--assumption-id'', aid), (''--statement'', statement),
       (''--confidence'', opt_value opts ''confidence''), (''--validation-method'', opt_value opts ''validation-method''),
       (''--expected-signal'', opt_value opts ''expected-signal'')]) (\<lambda>_.
     Inr (i, opts, aid, statement)))))))"

definition append_assumption :: "wf_ctx \<Rightarrow> string \<Rightarrow> options \<Rightarrow> string \<Rightarrow> string \<Rightarrow> string wf_cmd" where
  "append_assumption C i opts aid statement =
     bind_c (lift_r (require_open C i ''add assumptions'')) (\<lambda>_.
     let p = decision_file C i ''assumptions.tsv''
     in bind_c (lift_r (first_column_contains p aid)) (\<lambda>taken.
        bind_c (ensure (\<not> taken) (''assumption ID already exists: '' @ aid)) (\<lambda>_.
        bind_c (append_tsv p [aid, statement, opt_value opts ''confidence'', opt_value opts ''validation-method'',
          opt_value opts ''expected-signal'', wf_now C 0]) (\<lambda>_.
        bind_c (log_event C i (wf_now C 1) (''assumption_added'' @ [TAB] @ ''assumption_id='' @ aid)) (\<lambda>_.
        ret_c (''assumption added'' @ [TAB] @ i @ [TAB] @ aid @ [TAB] @ statement @ [NL]))))))"

definition add_assumption :: "wf_ctx \<Rightarrow> string list \<Rightarrow> string wf_cmd" where
  "add_assumption C args =
     bind_c (lift_r (\<lambda>_. assumption_request args)) (\<lambda>(i, opts, aid, statement). append_assumption C i opts aid statement)"

definition commit_request :: "string list \<Rightarrow> error + (string \<times> options \<times> string \<times> string)" where
  "commit_request args =
     and_then (id_and_options ''commit'' [''selected-plan'', ''reason'', ''rollback-policy'', ''reflection-due''] args) (\<lambda>(i, opts).
     and_then (wf_valid_id ''decision ID'' i) (\<lambda>_.
     and_then (dc_required opts ''selected-plan'' ''commit requires --selected-plan'') (\<lambda>plan.
     and_then (dc_required opts ''reason'' ''commit requires --reason'') (\<lambda>reason.
     and_then (wf_valid_id ''plan ID'' plan) (\<lambda>_.
     and_then (dc_reject_all [(''--selected-plan'', plan), (''--reason'', reason),
       (''--rollback-policy'', opt_value opts ''rollback-policy''), (''--reflection-due'', opt_value opts ''reflection-due'')]) (\<lambda>_.
     Inr (i, opts, plan, reason)))))))"

definition commit_decision :: "wf_ctx \<Rightarrow> string \<Rightarrow> options \<Rightarrow> string \<Rightarrow> string \<Rightarrow> string wf_cmd" where
  "commit_decision C i opts plan reason =
     bind_c (lift_r (require_open C i ''commit'')) (\<lambda>_.
     bind_c (lift_r (first_column_contains (decision_file C i ''alternatives.tsv'') plan)) (\<lambda>known.
     bind_c (ensure known (''selected plan does not exist: '' @ plan)) (\<lambda>_.
     bind_c (rewrite_status (decision_file C i ''decision.env'') [''status=committed'', ''committed_at='' @ wf_now C 0]) (\<lambda>_.
     bind_c (modify_c (write_file (decision_file C i ''outcome.env'') (env_text [(''selected_plan'', plan), (''reason'', reason),
       (''rollback_policy'', opt_value opts ''rollback-policy''), (''reflection_due'', opt_value opts ''reflection-due''),
       (''committed_at'', wf_now C 1), (''status'', ''implementation'')]))) (\<lambda>_.
     bind_c (log_event C i (wf_now C 2) (''decision_committed'' @ [TAB] @ ''selected_plan='' @ plan @ [TAB] @ ''reason='' @ reason)) (\<lambda>_.
     ret_c (''decision committed'' @ [TAB] @ i @ [TAB] @ plan @ [TAB] @ reason @ [NL])))))))"

definition decision_commit :: "wf_ctx \<Rightarrow> string list \<Rightarrow> string wf_cmd" where
  "decision_commit C args =
     bind_c (lift_r (\<lambda>_. commit_request args)) (\<lambda>(i, opts, plan, reason). commit_decision C i opts plan reason)"

definition metric_request :: "string list \<Rightarrow> error + (string \<times> string \<times> string \<times> string)" where
  "metric_request args =
     and_then (id_and_options ''record-metric'' [''name'', ''expected'', ''actual''] args) (\<lambda>(i, opts).
     and_then (wf_valid_id ''decision ID'' i) (\<lambda>_.
     and_then (dc_required opts ''name'' ''record-metric requires --name'') (\<lambda>name.
     and_then (dc_reject_all [(''--name'', name), (''--expected'', opt_value opts ''expected''), (''--actual'', opt_value opts ''actual'')]) (\<lambda>_.
     Inr (i, name, opt_value opts ''expected'', opt_value opts ''actual'')))))"

definition append_metric :: "wf_ctx \<Rightarrow> string \<Rightarrow> string \<Rightarrow> string \<Rightarrow> string \<Rightarrow> string wf_cmd" where
  "append_metric C i name expected actual =
     bind_c (lift_r (require_status C i ''committed'' ''can only record metrics for'')) (\<lambda>_.
     bind_c (append_tsv (decision_file C i ''metrics.tsv'') [name, expected, actual, wf_now C 0]) (\<lambda>_.
     bind_c (log_event C i (wf_now C 1) (''metric_recorded'' @ [TAB] @ ''name='' @ name @ [TAB] @ ''expected='' @ expected @ [TAB] @
       ''actual='' @ actual)) (\<lambda>_.
     ret_c (''metric recorded'' @ [TAB] @ i @ [TAB] @ name @ [TAB] @ ''expected='' @ expected @ [TAB] @ ''actual='' @ actual @ [NL]))))"

definition record_metric :: "wf_ctx \<Rightarrow> string list \<Rightarrow> string wf_cmd" where
  "record_metric C args =
     bind_c (lift_r (\<lambda>_. metric_request args)) (\<lambda>(i, name, expected, actual). append_metric C i name expected actual)"

definition reflect_request :: "string list \<Rightarrow> error + (string \<times> string \<times> string \<times> string)" where
  "reflect_request args =
     and_then (id_and_options ''reflect'' [''recommendation'', ''reason'', ''follow-up-assignment''] args) (\<lambda>(i, opts).
     and_then (wf_valid_id ''decision ID'' i) (\<lambda>_.
     and_then (dc_required opts ''recommendation'' ''reflect requires --recommendation'') (\<lambda>recommendation.
     and_then (dc_required opts ''reason'' ''reflect requires --reason'') (\<lambda>reason.
     and_then (guard_ok (recommendation \<in> {''continue'', ''adjust'', ''rollback'', ''pivot''})
       (''invalid recommendation: '' @ recommendation @ '' (expected continue|adjust|rollback|pivot)'')) (\<lambda>_.
     and_then (dc_reject_all [(''--recommendation'', recommendation), (''--reason'', reason),
       (''--follow-up-assignment'', opt_value opts ''follow-up-assignment'')]) (\<lambda>_.
     Inr (i, recommendation, reason, opt_value opts ''follow-up-assignment'')))))))"

definition reflect_decision :: "wf_ctx \<Rightarrow> string \<Rightarrow> string \<Rightarrow> string \<Rightarrow> string \<Rightarrow> string wf_cmd" where
  "reflect_decision C i recommendation reason follow_up =
     bind_c (lift_r (require_status C i ''committed'' ''can only reflect on'')) (\<lambda>_.
     bind_c (rewrite_status (decision_file C i ''decision.env'') [''status=reflected'', ''reflected_at='' @ wf_now C 0]) (\<lambda>_.
     let p = decision_file C i ''outcome.env''
     in bind_c (lift_r (\<lambda>s. ok_or (lookup s p) (''no outcome record found: '' @ i))) (\<lambda>outcome.
        bind_c (modify_c (write_file p (outcome @ env_text [(''recommendation'', recommendation), (''reflection_reason'', reason),
          (''follow_up_assignment'', follow_up), (''reflected_at'', wf_now C 1), (''status'', ''reflected'')]))) (\<lambda>_.
        bind_c (log_event C i (wf_now C 2) (''decision_reflected'' @ [TAB] @ ''recommendation='' @ recommendation @ [TAB] @ ''reason='' @ reason @
          [TAB] @ ''follow_up='' @ follow_up)) (\<lambda>_.
        ret_c (''decision reflected'' @ [TAB] @ i @ [TAB] @ recommendation @ [TAB] @ reason @ [NL]))))))"

definition decision_reflect :: "wf_ctx \<Rightarrow> string list \<Rightarrow> string wf_cmd" where
  "decision_reflect C args =
     bind_c (lift_r (\<lambda>_. reflect_request args)) (\<lambda>(i, recommendation, reason, follow_up). reflect_decision C i recommendation reason follow_up)"

section \<open>Reports\<close>

definition print_section :: "string \<Rightarrow> string \<Rightarrow> bool \<Rightarrow> string" where
  "print_section label t header_only_empty =
     [NL] @ label @ '':'' @ [NL] @
     (if t = [] \<or> (header_only_empty \<and> length (lines t) \<le> 1) then ''(none)'' @ [NL] else t)"

definition decision_show :: "wf_ctx \<Rightarrow> string list \<Rightarrow> files \<Rightarrow> error + string" where
  "decision_show C args s =
     and_then (ok_or (case args of [] \<Rightarrow> None | i # _ \<Rightarrow> Some i) ''show requires DECISION_ID'') (\<lambda>i.
     and_then (wf_valid_id ''decision ID'' i) (\<lambda>_.
     and_then (guard_ok (decision_exists C i s) (''decision does not exist: '' @ i)) (\<lambda>_.
     let t = (\<lambda>name. read_or_empty s (decision_file C i name))
     in Inr (''Decision: '' @ i @ [NL] @ replicate 50 CHR ''='' @ [NL] @
          print_section ''Metadata'' (t ''decision.env'') False @
          print_section ''Alternatives'' (t ''alternatives.tsv'') True @
          print_section ''Assumptions'' (t ''assumptions.tsv'') True @
          print_section ''Metrics'' (t ''metrics.tsv'') True @
          (if is_file s (decision_file C i ''outcome.env'') then print_section ''Outcome'' (t ''outcome.env'') False else []) @
          print_section ''Events'' (t ''events.log'') False))))"

definition decision_row :: "wf_ctx \<Rightarrow> files \<Rightarrow> string \<Rightarrow> string" where
  "decision_row C s i =
     (let m = env_at s (decision_file C i ''decision.env'')
      in join_with [TAB] [i, (case m ''status'' of Some v \<Rightarrow> v | None \<Rightarrow> ''unknown''), opt_value m ''title'', opt_value m ''owner'',
           opt_value m ''created_at''])"

definition decision_list :: "wf_ctx \<Rightarrow> files \<Rightarrow> string" where
  "decision_list C s =
     unlines (join_with [TAB] [''DECISION_ID'', ''STATUS'', ''TITLE'', ''OWNER'', ''CREATED_AT''] #
       map (decision_row C s) (filter (\<lambda>i. decision_exists C i s) (sort (subdirs s (wf_state_dir C @ [''decisions''])))))"

definition decision_run :: "string \<Rightarrow> wf_ctx \<Rightarrow> string list \<Rightarrow> string wf_cmd" where
  "decision_run usage C args =
     (case args of
        [] \<Rightarrow> lift_r (\<lambda>_. Inl ''missing command'')
      | command # rest \<Rightarrow>
          if command \<in> {''-h'', ''--help'', ''help''} then ret_c (unlines [usage])
          else if command = ''init'' then decision_init C rest
          else if command = ''add-alternative'' then add_alternative C rest
          else if command = ''add-assumption'' then add_assumption C rest
          else if command = ''commit'' then decision_commit C rest
          else if command = ''record-metric'' then record_metric C rest
          else if command = ''reflect'' then decision_reflect C rest
          else if command = ''show'' then lift_r (decision_show C rest)
          else if command = ''list'' then lift_r (\<lambda>s. Inr (decision_list C s))
          else lift_r (\<lambda>_. Inl (''unknown command: '' @ command)))"

end
