(* ===== verification/Decision_Props.thy ===== *)
theory Decision_Props
  imports Decision
begin

text \<open>
  The life of a decision: no sequence of commands takes a status back, and a committed or reflected decision names one of
  its own alternatives.
\<close>

section \<open>Commands seen through a view\<close>

text \<open>
  A command is followed through what a view shows of its state: \<open>reaches v V m\<close> says that \<open>m\<close>, started where the view shows
  \<open>v\<close>, ends where it shows an element of \<open>V\<close>, in success and in failure.
\<close>

locale viewed =
  fixes shown :: "'s \<Rightarrow> 'v"
begin

definition reaches :: "'v \<Rightarrow> 'v set \<Rightarrow> ('s, 'e, 'a) cmd \<Rightarrow> bool" where
  "reaches v V m \<longleftrightarrow> (\<forall>s r s'. shown s = v \<longrightarrow> m s = (r, s') \<longrightarrow> shown s' \<in> V)"

lemma reaches_ret: "v \<in> V \<Longrightarrow> reaches v V (ret_c x)"
  by (simp add: reaches_def ret_c_eq)

lemma reaches_lift: "v \<in> V \<Longrightarrow> reaches v V (lift_r f)"
  by (simp add: reaches_def lift_r_eq)

lemma reaches_check:
  assumes "v \<in> V" and "\<And>s x. shown s = v \<Longrightarrow> f s = Inr x \<Longrightarrow> reaches v V (g x)"
  shows "reaches v V (bind_c (lift_r f) g)"
  unfolding reaches_def
proof (intro allI impI)
  fix s r s' assume s: "shown s = v" and run: "bind_c (lift_r f) g s = (r, s')"
  show "shown s' \<in> V"
  proof (cases "f s")
    case (Inl e)
    then show ?thesis using run s assms(1) by (simp add: bind_c_def lift_r_def)
  next
    case (Inr x)
    then have "g x s = (r, s')" using run by (simp add: bind_c_def lift_r_def)
    then show ?thesis using assms(2) [OF s Inr] s unfolding reaches_def by blast
  qed
qed

lemma reaches_modify: "(\<And>s. shown s = v \<Longrightarrow> shown (h s) \<in> V) \<Longrightarrow> reaches v V (modify_c h)"
  by (simp add: reaches_def modify_c_eq)

lemma reaches_modify_then:
  assumes "\<And>s. shown s = v \<Longrightarrow> shown (h s) = w" and "reaches w V (g ())"
  shows "reaches v V (bind_c (modify_c h) g)"
  using assms by (auto simp: reaches_def bind_c_def modify_c_def)

lemma reaches_keep_then:
  assumes "\<And>s. shown (h s) = shown s" and "reaches v V (g ())"
  shows "reaches v V (bind_c (modify_c h) g)"
  using assms by (auto simp: reaches_def bind_c_def modify_c_def)

lemma reachesD: "reaches v V m \<Longrightarrow> shown s = v \<Longrightarrow> m s = (r, s') \<Longrightarrow> shown s' \<in> V"
  by (simp add: reaches_def)

end

section \<open>Decisions\<close>

text \<open>What the commands depend on: of every decision the metadata, the alternatives and the outcome.\<close>

definition decision_view :: "wf_ctx \<Rightarrow> files \<Rightarrow> string \<Rightarrow> string option \<times> string option \<times> string option" where
  "decision_view C s i = (lookup s (decision_file C i ''decision.env''), lookup s (decision_file C i ''alternatives.tsv''),
     lookup s (decision_file C i ''outcome.env''))"

interpretation decisions: viewed "decision_view C" for C .

definition status_of :: "string option \<times> string option \<times> string option \<Rightarrow> string option" where
  "status_of d = (case fst d of Some t \<Rightarrow> parse_env t ''status'' | None \<Rightarrow> None)"

definition lists_plan :: "string \<Rightarrow> string \<Rightarrow> bool" where
  "lists_plan t plan \<longleftrightarrow> list_ex (\<lambda>l. hd (split_char TAB l) = plan) (drop 1 (lines t))"

definition outcome_ok :: "string option \<times> string option \<times> string option \<Rightarrow> bool" where
  "outcome_ok d \<longleftrightarrow> (\<exists>alternatives outcome plan. snd d = (Some alternatives, Some outcome) \<and> whole_lines outcome \<and>
     parse_env outcome ''selected_plan'' = Some plan \<and> lists_plan alternatives plan)"

definition decision_ok :: "string option \<times> string option \<times> string option \<Rightarrow> bool" where
  "decision_ok d \<longleftrightarrow> (\<forall>t. fst (snd d) = Some t \<longrightarrow> whole_lines t) \<and>
     (status_of d \<in> {Some ''committed'', Some ''reflected''} \<longrightarrow> outcome_ok d)"

inductive decision_step :: "string option \<Rightarrow> string option \<Rightarrow> bool" where
  unchanged: "decision_step st st"
| opened: "decision_step None (Some ''open'')"
| committed: "decision_step (Some ''open'') (Some ''committed'')"
| reflected: "decision_step (Some ''committed'') (Some ''reflected'')"

text \<open>The decisions a command may leave behind.\<close>

definition advanced :: "(string \<Rightarrow> string option \<times> string option \<times> string option) \<Rightarrow>
    (string \<Rightarrow> string option \<times> string option \<times> string option) set" where
  "advanced v = {w. \<forall>i. decision_ok (w i) \<and> decision_step (status_of (v i)) (status_of (w i))}"

lemma advanced_refl: "\<forall>i. decision_ok (v i) \<Longrightarrow> v \<in> advanced v"
  by (simp add: advanced_def decision_step.unchanged)

lemma advanced_update:
  assumes "\<forall>i. decision_ok (v i)" and "decision_ok d" and "decision_step (status_of (v i)) (status_of d)"
  shows "v(i := d) \<in> advanced v"
  using assms by (simp add: advanced_def decision_step.unchanged)

lemma decision_file_inj [simp]: "decision_file C i n = decision_file C j m \<longleftrightarrow> i = j \<and> n = m"
  by (simp add: decision_file_def)

lemma view_write [simp]:
  "decision_view C (write_file (decision_file C i ''decision.env'') t s) = (decision_view C s)(i := (Some t, snd (decision_view C s i)))"
  "decision_view C (write_file (decision_file C i ''alternatives.tsv'') t s) =
     (decision_view C s)(i := (fst (decision_view C s i), Some t, snd (snd (decision_view C s i))))"
  "decision_view C (write_file (decision_file C i ''outcome.env'') t s) =
     (decision_view C s)(i := (fst (decision_view C s i), fst (snd (decision_view C s i)), Some t))"
  "n \<notin> {''decision.env'', ''alternatives.tsv'', ''outcome.env''} \<Longrightarrow>
     decision_view C (write_file (decision_file C i n) t s) = decision_view C s"
  by (auto simp: fun_eq_iff decision_view_def)

lemma view_log [simp]: "decision_view C (append_to (decision_file C i ''events.log'') t s) = decision_view C s"
  by (simp add: append_to_def)

section \<open>What the writes leave\<close>

lemma parse_env_whole:
  assumes "whole_lines t" and "list_all env_entry_ok kvs" and "k \<notin> fst ` set kvs"
  shows "parse_env (t @ env_text kvs) k = parse_env t k"
proof -
  have "map_of (rev kvs) k = None" using assms(3) by (simp add: map_of_eq_None_iff)
  then show ?thesis using assms(1,2) by (simp add: parse_env_whole_app parse_env_text map_add_def)
qed

lemma status_key: "split_once CHR ''='' l = Some (''status'', v) \<Longrightarrow> status_line l"
  by (auto simp: split_once_Some status_line_def starts_with_iff)

lemma status_line_strip: "status_line (strip_cr l) \<Longrightarrow> status_line l"
  by (cases l rule: rev_cases) (auto simp: strip_cr_def status_line_def starts_with_iff split: if_splits)

lemma rewritten_status:
  assumes "single_line v" and "single_line w" and "CHR ''='' \<notin> set k" and "k \<noteq> ''status''" and "single_line k"
  shows "parse_env (unlines (filter (\<lambda>l. \<not> status_line l) (lines t) @ [''status='' @ v, k @ ''='' @ w])) ''status'' = Some v"
proof -
  let ?kept = "filter (\<lambda>l. \<not> status_line l) (lines t)"
  have "lines (unlines (?kept @ [''status='' @ v, k @ ''='' @ w])) = map strip_cr ?kept @ [''status='' @ v, k @ ''='' @ w]"
    using lines_no_newline [of _ t] assms
    by (subst lines_unlines_NL) (auto simp: list_all_iff single_line_def strip_cr_id)
  moreover have "(''status'', u) \<notin> set (List.map_filter (split_once CHR ''='') (map strip_cr ?kept))" for u
    using status_key status_line_strip by (fastforce simp: List.map_filter_def)
  then have "map_of (rev (List.map_filter (split_once CHR ''='') (map strip_cr ?kept))) ''status'' = None"
    by (auto simp: map_of_eq_None_iff)
  moreover have "split_once CHR ''='' (''status='' @ v) = Some (''status'', v)" "split_once CHR ''='' (k @ ''='' @ w) = Some (k, w)"
    using split_once_app [of "CHR ''=''" "''status''" v] split_once_app [OF assms(3), of w] by simp_all
  ultimately show ?thesis
    using assms(4) by (simp add: parse_env_def List.map_filter_def)
qed

section \<open>Commands\<close>

lemma reject_all_ok: "dc_reject_all labelled = Inr u \<longleftrightarrow> (\<forall>lc \<in> set labelled. single_line (snd lc))"
  by (auto simp: dc_reject_all_def dc_reject_newline_def all_ok_Inr guard_ok_Inr)

lemma valid_id_line: "wf_valid_id label i = Inr u \<Longrightarrow> single_line i"
  using id_char_plain by (auto simp: wf_valid_id_def list_all_iff plain_char_def single_line_def split: if_splits)

definition dc_clock :: "wf_ctx \<Rightarrow> bool" where
  "dc_clock C \<longleftrightarrow> (\<forall>n. single_line (wf_now C n))"

lemma init_request_facts:
  assumes "init_request args = Inr (i, title, owner)"
  shows "single_line i" "single_line title" "single_line owner"
  using assms valid_id_line unfolding init_request_def by (auto simp: and_then_Inr reject_all_ok)

lemma key_lines [simp]:
  "env_entry_ok (k, v) \<longleftrightarrow> CHR ''='' \<notin> set k \<and> single_line k \<and> single_line v"
  by (auto simp: env_entry_ok_def)

lemma create_reaches:
  assumes "\<forall>i. decision_ok (v i)" and "dc_clock C" and "single_line i" "single_line title" "single_line owner"
  shows "decisions.reaches C v (advanced v) (create_decision C i title owner)"
proof -
  let ?env = "env_text [(''decision_id'', i), (''title'', title), (''owner'', owner), (''status'', ''open''), (''created_at'', wf_now C 0)]"
  have st: "parse_env ?env ''status'' = Some ''open''"
    using assms(2-5) by (subst parse_env_text) (auto simp: dc_clock_def single_line_def)
  have final: "fst (v i) = None \<Longrightarrow> v(i := (Some ?env, Some (h @ [NL]), u)) \<in> advanced v" for h u
    using st by (intro advanced_update [OF assms(1)]) (auto simp: decision_ok_def status_of_def intro: decision_step.opened)
  have none: "decision_view C s = v \<Longrightarrow> guard_ok (\<not> decision_exists C i s) e = Inr u \<Longrightarrow> fst (v i) = None" for s e and u :: unit
    by (auto simp: guard_ok_Inr decision_exists_def is_file_def decision_view_def)
  show ?thesis
    unfolding create_decision_def log_event_def
    apply (rule decisions.reaches_check [OF advanced_refl [OF assms(1)]])
    apply (rule decisions.reaches_modify_then, simp only: view_write)
    apply (rule decisions.reaches_modify_then, simp only: view_write)
    apply (rule decisions.reaches_keep_then, simp)
    apply (rule decisions.reaches_keep_then, simp)
    apply (rule decisions.reaches_keep_then, simp)
    apply (simp only: fun_upd_upd fun_upd_same fst_conv snd_conv)
    apply (rule decisions.reaches_ret, rule final, rule none, assumption+)
    done
qed

lemma bind_assoc: "bind_c (bind_c m f) g = bind_c m (\<lambda>x. bind_c (f x) g)"
  by (auto simp: bind_c_def fun_eq_iff split: prod.splits sum.splits)

lemma require_status_ok:
  assumes "require_status C i st action s = Inr u" and "decision_view C s = v"
  shows "status_of (v i) = Some st"
  using assms by (auto simp: require_status_def decision_status_def status_of_def decision_view_def read_env_def cmd_simps split: option.splits)

lemma require_open_ok:
  assumes "require_open C i action s = Inr u" and "decision_view C s = v"
  shows "status_of (v i) = Some ''open''"
  using assms by (auto simp: require_open_def decision_status_def status_of_def decision_view_def read_env_def cmd_simps split: option.splits)

lemma alternative_reaches:
  assumes "\<forall>i. decision_ok (v i)"
  shows "decisions.reaches C v (advanced v) (append_alternative C i opts plan summary proposer)"
proof -
  have final: "v(i := (fst (v i), Some (t @ r @ [NL]), snd (snd (v i)))) \<in> advanced v" if "status_of (v i) = Some ''open''" for t r
    using that by (intro advanced_update [OF assms]) (auto simp: decision_ok_def status_of_def intro: decision_step.unchanged)
  show ?thesis
    unfolding append_alternative_def append_tsv_def log_event_def ensure_def Let_def bind_assoc
    apply (rule decisions.reaches_check [OF advanced_refl [OF assms]])
    apply (drule require_open_ok, assumption)
    apply (intro decisions.reaches_check advanced_refl assms)
    apply (rule decisions.reaches_modify_then, simp only: view_write)
    apply (rule decisions.reaches_keep_then, simp)
    apply (rule decisions.reaches_ret, rule final, assumption)
    done
qed

lemma assumption_reaches:
  assumes "\<forall>i. decision_ok (v i)"
  shows "decisions.reaches C v (advanced v) (append_assumption C i opts aid statement)"
  unfolding append_assumption_def append_tsv_def log_event_def ensure_def Let_def bind_assoc
  apply (intro decisions.reaches_check advanced_refl assms)
  apply (rule decisions.reaches_keep_then, simp)
  apply (rule decisions.reaches_keep_then, simp)
  apply (rule decisions.reaches_ret, rule advanced_refl, rule assms)
  done

lemma metric_reaches:
  assumes "\<forall>i. decision_ok (v i)"
  shows "decisions.reaches C v (advanced v) (append_metric C i name expected actual)"
  unfolding append_metric_def append_tsv_def log_event_def bind_assoc
  apply (intro decisions.reaches_check advanced_refl assms)
  apply (rule decisions.reaches_keep_then, simp)
  apply (rule decisions.reaches_keep_then, simp)
  apply (rule decisions.reaches_ret, rule advanced_refl, rule assms)
  done

lemma whole_env_text: "whole_lines (env_text kvs)"
  unfolding env_text_def by (rule whole_lines_simps)

lemma plan_listed:
  assumes "first_column_contains (decision_file C i ''alternatives.tsv'') plan s = Inr known" "decision_view C s = v" "guard_ok known e = Inr u"
  shows "\<exists>a. fst (snd (v i)) = Some a \<and> lists_plan a plan"
  using assms by (auto simp: first_column_contains_def lists_plan_def decision_view_def cmd_simps)

lemma outcome_read:
  assumes "decision_view C s = v(i := (d, snd (v i)))" "ok_or (lookup s (decision_file C i ''outcome.env'')) e = Inr t"
  shows "snd (snd (v i)) = Some t"
proof -
  have "snd (snd (decision_view C s i)) = Some t" using assms(2) by (simp add: decision_view_def ok_or_Inr)
  then show ?thesis using assms(1) by simp
qed

lemma commit_reaches:
  assumes "\<forall>i. decision_ok (v i)" and "dc_clock C" and "single_line plan" "single_line reason"
    "single_line (opt_value opts ''rollback-policy'')" "single_line (opt_value opts ''reflection-due'')"
  shows "decisions.reaches C v (advanced v) (commit_decision C i opts plan reason)"
proof -
  let ?out = "env_text [(''selected_plan'', plan), (''reason'', reason), (''rollback_policy'', opt_value opts ''rollback-policy''),
    (''reflection_due'', opt_value opts ''reflection-due''), (''committed_at'', wf_now C 1), (''status'', ''implementation'')]"
  have o: "parse_env ?out ''selected_plan'' = Some plan"
    using assms(2-6) by (subst parse_env_text) (auto simp: dc_clock_def single_line_def)
  let ?env = "\<lambda>t. unlines (filter (\<lambda>l. \<not> status_line l) (lines t) @ [''status=committed'', ''committed_at='' @ wf_now C 0])"
  have e: "parse_env (?env t) ''status'' = Some ''committed''" for t
    using rewritten_status [of "''committed''" "wf_now C 0" "''committed_at''" t] assms(2) by (simp add: dc_clock_def single_line_def)
  have final: "v(i := (Some (?env t), fst (snd (v i)), Some ?out)) \<in> advanced v"
    if "status_of (v i) = Some ''open''" "\<exists>a. fst (snd (v i)) = Some a \<and> lists_plan a plan" for t
    using that o e assms(1) whole_env_text by (intro advanced_update [OF assms(1)])
      (auto simp: decision_ok_def outcome_ok_def status_of_def simp del: unlines_append filter_append intro: decision_step.committed)
  show ?thesis
    unfolding commit_decision_def rewrite_status_def log_event_def ensure_def bind_assoc
    apply (rule decisions.reaches_check [OF advanced_refl [OF assms(1)]])
    apply (drule require_open_ok, assumption)
    apply (rule decisions.reaches_check [OF advanced_refl [OF assms(1)]])
    apply (rule decisions.reaches_check [OF advanced_refl [OF assms(1)]])
    apply (rule decisions.reaches_check [OF advanced_refl [OF assms(1)]])
    apply (rule decisions.reaches_modify_then, simp only: view_write)
    apply (rule decisions.reaches_modify_then, simp only: view_write)
    apply (rule decisions.reaches_keep_then, simp)
    apply (simp only: fun_upd_upd fun_upd_same fst_conv snd_conv)
    apply (rule decisions.reaches_ret, rule final, assumption)
    apply (rule plan_listed, assumption+)
    done
qed

lemma reflect_reaches:
  assumes "\<forall>i. decision_ok (v i)" and "dc_clock C" and "single_line recommendation" "single_line reason" "single_line follow_up"
  shows "decisions.reaches C v (advanced v) (reflect_decision C i recommendation reason follow_up)"
proof -
  let ?more = "env_text [(''recommendation'', recommendation), (''reflection_reason'', reason), (''follow_up_assignment'', follow_up),
    (''reflected_at'', wf_now C 1), (''status'', ''reflected'')]"
  have o: "parse_env (t @ ?more) ''selected_plan'' = parse_env t ''selected_plan''" if "whole_lines t" for t
    using that assms(2-5) by (intro parse_env_whole) (auto simp: dc_clock_def single_line_def)
  let ?env = "\<lambda>t. unlines (filter (\<lambda>l. \<not> status_line l) (lines t) @ [''status=reflected'', ''reflected_at='' @ wf_now C 0])"
  have e: "parse_env (?env t) ''status'' = Some ''reflected''" for t
    using rewritten_status [of "''reflected''" "wf_now C 0" "''reflected_at''" t] assms(2) by (simp add: dc_clock_def single_line_def)
  have ok: "decision_ok (v i)" using assms(1) by blast
  have half: "v(i := (Some (?env t), snd (v i))) \<in> advanced v" if "status_of (v i) = Some ''committed''" for t
    using that e ok by (intro advanced_update [OF assms(1)])
      (auto simp: decision_ok_def outcome_ok_def status_of_def simp del: unlines_append filter_append intro: decision_step.reflected)
  have final: "v(i := (Some (?env t), fst (snd (v i)), Some (u @ ?more))) \<in> advanced v"
    if "status_of (v i) = Some ''committed''" "snd (snd (v i)) = Some u" for t u
    using that e o ok whole_env_text by (intro advanced_update [OF assms(1)])
      (auto simp: decision_ok_def outcome_ok_def status_of_def simp del: unlines_append filter_append intro: decision_step.reflected)
  show ?thesis
    unfolding reflect_decision_def rewrite_status_def log_event_def Let_def bind_assoc
    apply (rule decisions.reaches_check [OF advanced_refl [OF assms(1)]])
    apply (drule require_status_ok, assumption)
    apply (rule decisions.reaches_check [OF advanced_refl [OF assms(1)]])
    apply (rule decisions.reaches_modify_then, simp only: view_write)
    apply (rule decisions.reaches_check, rule half, assumption)
    apply (rule decisions.reaches_modify_then, simp only: view_write)
    apply (rule decisions.reaches_keep_then, simp)
    apply (simp only: fun_upd_upd fun_upd_same fst_conv snd_conv)
    apply (rule decisions.reaches_ret, rule final, assumption)
    apply (rule outcome_read, assumption+)
    done
qed

lemma request_facts:
  "commit_request args = Inr (i, opts, plan, reason) \<Longrightarrow> single_line plan \<and> single_line reason \<and>
     single_line (opt_value opts ''rollback-policy'') \<and> single_line (opt_value opts ''reflection-due'')"
  "reflect_request args = Inr (i, recommendation, reason', follow_up) \<Longrightarrow>
     single_line recommendation \<and> single_line reason' \<and> single_line follow_up"
  unfolding commit_request_def reflect_request_def by (auto simp: and_then_Inr reject_all_ok)

lemma run_reaches:
  assumes "\<forall>i. decision_ok (v i)" and "dc_clock C"
  shows "decisions.reaches C v (advanced v) (decision_run usage C args)"
proof -
  note refl = advanced_refl [OF assms(1)] and check = decisions.reaches_check [OF advanced_refl [OF assms(1)]]
  have "decisions.reaches C v (advanced v) (decision_init C rest)" for rest
    unfolding decision_init_def
    by (rule check, simp only: split_paired_all prod.case, rule create_reaches [OF assms]) (erule init_request_facts)+
  moreover have "decisions.reaches C v (advanced v) (add_alternative C rest)" for rest
    unfolding add_alternative_def
    by (rule check, simp only: split_paired_all prod.case, rule alternative_reaches [OF assms(1)])
  moreover have "decisions.reaches C v (advanced v) (add_assumption C rest)" for rest
    unfolding add_assumption_def
    by (rule check, simp only: split_paired_all prod.case, rule assumption_reaches [OF assms(1)])
  moreover have "decisions.reaches C v (advanced v) (decision_commit C rest)" for rest
    unfolding decision_commit_def
    by (rule check, simp only: split_paired_all prod.case, rule commit_reaches [OF assms]) (drule request_facts, simp)+
  moreover have "decisions.reaches C v (advanced v) (record_metric C rest)" for rest
    unfolding record_metric_def
    by (rule check, simp only: split_paired_all prod.case, rule metric_reaches [OF assms(1)])
  moreover have "decisions.reaches C v (advanced v) (decision_reflect C rest)" for rest
    unfolding decision_reflect_def
    by (rule check, simp only: split_paired_all prod.case, rule reflect_reaches [OF assms]) (drule request_facts, simp)+
  ultimately show ?thesis
    unfolding decision_run_def
    by (cases args) (simp_all add: decisions.reaches_lift decisions.reaches_ret refl)
qed

text \<open>Any number of commands, each with its own clock and arguments, on one state directory.\<close>

definition decision_exec :: "string \<Rightarrow> wf_ctx \<times> string list \<Rightarrow> files \<Rightarrow> files" where
  "decision_exec usage c s = snd (decision_run usage (fst c) (snd c) s)"

definition decision_call :: "wf_ctx \<Rightarrow> wf_ctx \<times> string list \<Rightarrow> bool" where
  "decision_call D c \<longleftrightarrow> wf_state_dir (fst c) = wf_state_dir D \<and> dc_clock (fst c)"

definition decisions_ok :: "wf_ctx \<Rightarrow> files \<Rightarrow> bool" where
  "decisions_ok D s \<longleftrightarrow> (\<forall>i. decision_ok (decision_view D s i))"

lemma decision_view_dir: "wf_state_dir C = wf_state_dir D \<Longrightarrow> decision_view C = decision_view D"
  by (simp add: fun_eq_iff decision_view_def decision_file_def)

lemma exec_advances:
  assumes "decision_call D c" and "decisions_ok D s"
  shows "decision_view D (decision_exec usage c s) \<in> advanced (decision_view D s)"
proof -
  have v: "decision_view (fst c) = decision_view D" using assms(1) by (intro decision_view_dir) (simp add: decision_call_def)
  obtain r s' where run: "decision_run usage (fst c) (snd c) s = (r, s')" by force
  have "decisions.reaches (fst c) (decision_view D s) (advanced (decision_view D s)) (decision_run usage (fst c) (snd c))"
    using assms by (intro run_reaches) (simp_all add: decisions_ok_def decision_call_def)
  then have "decision_view (fst c) s' \<in> advanced (decision_view D s)" by (rule decisions.reachesD [where s = s]) (simp add: v, rule run)
  then show ?thesis by (simp add: decision_exec_def run v)
qed

interpretation decision_commands: command_system "decision_exec usage" "decision_call D" "decisions_ok D" for usage D
  using exec_advances by unfold_locales (auto simp: decisions_ok_def advanced_def)

text \<open>
  C9. Decisions only move forward and commit to what was proposed. After any sequence of decision commands with any
  arguments on an empty state directory, successful or not, one more command moves the status of every decision by at
  most one step, from absent to open to committed to reflected, and every decision that is committed or reflected
  has an outcome whose selected plan is a row of its own table of alternatives. Time stamps are single lines.
\<close>

theorem decisions_commit_to_alternatives:
  assumes "list_all (decision_call D) (calls @ [c])"
    and "s = fold (decision_exec usage) calls []" and "s' = decision_exec usage c s"
  shows "decision_step (status_of (decision_view D s i)) (status_of (decision_view D s' i)) \<and>
    (status_of (decision_view D s' i) \<in> {Some ''committed'', Some ''reflected''} \<longrightarrow>
      (\<exists>alternatives outcome plan. lookup s' (decision_file D i ''alternatives.tsv'') = Some alternatives \<and>
         lookup s' (decision_file D i ''outcome.env'') = Some outcome \<and> parse_env outcome ''selected_plan'' = Some plan \<and>
         lists_plan alternatives plan))"
proof -
  have "decisions_ok D []" by (auto simp: decisions_ok_def decision_view_def decision_ok_def status_of_def lookup_def)
  then have "decisions_ok D s" unfolding assms(2) using assms(1) by (intro decision_commands.run_inv) simp_all
  then have "decision_view D s' \<in> advanced (decision_view D s)" unfolding assms(3) using assms(1) by (intro exec_advances) simp_all
  then have ok: "decision_ok (decision_view D s' i)" and st: "decision_step (status_of (decision_view D s i)) (status_of (decision_view D s' i))"
    by (simp_all add: advanced_def)
  have "outcome_ok (decision_view D s' i)" if "status_of (decision_view D s' i) \<in> {Some ''committed'', Some ''reflected''}"
    using ok that unfolding decision_ok_def by blast
  then show ?thesis using st by (auto simp: outcome_ok_def decision_view_def)
qed

section \<open>Witness\<close>

definition decision_ctx :: wf_ctx where
  "decision_ctx = \<lparr>wf_state_dir = [''st''], wf_environ = Map.empty, wf_uid = 0, wf_cwd = ''/'', wf_codec = sample_codec,
     wf_sha = (\<lambda>_. []), wf_canon = Some, wf_diff = Inr [],
     wf_json = (\<lambda>_. None), wf_print = (\<lambda>_. []), wf_gate = (\<lambda>_. ret_c ()), wf_now = (\<lambda>_. ''now'')\<rparr>"

definition decision_calls :: "(wf_ctx \<times> string list) list" where
  "decision_calls = [(decision_ctx, [''init'', ''d'', ''--title'', ''t'']),
     (decision_ctx, [''add-alternative'', ''d'', ''--plan-id'', ''p'', ''--summary'', ''x'', ''--proposed-by'', ''a''])]"

definition commit_call :: "wf_ctx \<times> string list" where
  "commit_call = (decision_ctx, [''commit'', ''d'', ''--selected-plan'', ''p'', ''--reason'', ''r''])"

theorem decisions_commit_to_alternatives_witness:
  "\<exists>s. status_of (decision_view decision_ctx s ''d'') = Some ''committed'' \<and>
     (\<exists>alternatives outcome plan. lookup s (decision_file decision_ctx ''d'' ''alternatives.tsv'') = Some alternatives \<and>
         lookup s (decision_file decision_ctx ''d'' ''outcome.env'') = Some outcome \<and> parse_env outcome ''selected_plan'' = Some plan \<and>
         lists_plan alternatives plan)"
proof -
  have "list_all (decision_call decision_ctx) (decision_calls @ [commit_call])"
    by (simp add: decision_calls_def commit_call_def decision_call_def decision_ctx_def dc_clock_def single_line_def)
  moreover have "status_of (decision_view decision_ctx (decision_exec [] commit_call (fold (decision_exec []) decision_calls [])) ''d'') =
      Some ''committed''"
    by code_simp
  ultimately show ?thesis
    using decisions_commit_to_alternatives [of decision_ctx decision_calls commit_call _ "[]" _ "''d''"] by blast
qed

end
