(* ===== verification/Session_Control.thy ===== *)
theory Session_Control
  imports Supervisor_Server
begin

text \<open>
  The setuid session control (\<open>runtime/src/session_control.rs\<close>): the control account looks at, types into and stops the
  terminal of one session. The state is the list of tmux command lines that were run, with what was sent to their
  standard input; \<open>sc_tmux\<close> is what tmux answers, \<open>sc_stat\<close> the status of a socket. Dropping the privileges is the
  argument \<open>sc_drop\<close>, the pause between paste and submit is not modelled.
\<close>

record socket_status =
  so_socket :: bool
  so_owner :: nat
  so_group :: nat
  so_mode :: nat

record session_env =
  sc_uid :: nat
  sc_euid :: nat
  sc_environ :: env
  sc_canon :: "string \<Rightarrow> string option"
  sc_tmux_file :: "file_status option"
  sc_stat :: "string \<Rightarrow> socket_status option"
  sc_stdin :: "string option"
  sc_drop :: "error + unit"
  sc_tmux :: "string list \<Rightarrow> string \<Rightarrow> error + int option"

type_synonym 'a session_cmd = "((string list \<times> string) list, error, 'a) cmd"

definition STATE_ROOT :: string where "STATE_ROOT = ''/var/lib/multiagent/state''"
definition MAX_INPUT_BYTES :: nat where "MAX_INPUT_BYTES = 32768"

definition session_usage :: error where
  "session_usage = ''usage: multiagent session-control SESSION status|capture LINES|submit|stop''"

definition session_char :: "char \<Rightarrow> bool" where
  "session_char c \<longleftrightarrow> is_ascii_lowercase c \<or> is_ascii_digit c"

definition valid_session_id :: "string \<Rightarrow> bool" where
  "valid_session_id session \<longleftrightarrow> session \<noteq> [] \<and> length session \<le> 63 \<and> session_char (session ! 0) \<and>
     list_all (\<lambda>c. session_char c \<or> c = CHR ''-'') session"

definition validate_session_id :: "string \<Rightarrow> error + unit" where
  "validate_session_id session = guard_ok (valid_session_id session) ''invalid session id''"

definition canonical_state_root :: "session_env \<Rightarrow> error + string" where
  "canonical_state_root E =
     and_then (ok_or (sc_environ E ''MULTIAGENT_STATE_DIR'') ''session-control requires MULTIAGENT_STATE_DIR'') (\<lambda>configured.
     and_then (ok_or (sc_canon E configured) ''resolve session-control state root'') (\<lambda>resolved.
     if path_eq resolved STATE_ROOT then Inr resolved else Inl (''session-control state root must be '' @ STATE_ROOT)))"

definition group_other_writable :: "nat \<Rightarrow> bool" where
  "group_other_writable mode \<longleftrightarrow> mode div 16 mod 2 = 1 \<or> mode div 2 mod 2 = 1"

definition validate_tmux_binary :: "session_env \<Rightarrow> error + unit" where
  "validate_tmux_binary E =
     and_then (ok_or (sc_tmux_file E) ''inspect trusted tmux binary'') (\<lambda>st.
     guard_ok (fs_regular st \<and> fs_owner st = 0 \<and> \<not> group_other_writable (fs_mode st))
       ''trusted tmux binary must be root-owned and non-writable'')"

definition validate_socket :: "session_env \<Rightarrow> string \<Rightarrow> error + unit" where
  "validate_socket E socket =
     and_then (ok_or (sc_stat E socket) ''inspect orchestrator tmux socket'') (\<lambda>st.
     guard_ok (so_socket st \<and> so_owner st = ORCHESTRATOR_UID \<and> so_group st = ROLE_GID \<and> so_mode st div 2 mod 2 = 0)
       ''orchestrator tmux socket has invalid ownership or permissions'')"

definition parse_capture_lines :: "string \<Rightarrow> error + nat" where
  "parse_capture_lines v =
     and_then (ok_or (parse_u64 v) ''capture lines must be an integer'') (\<lambda>n.
     if 1 \<le> n \<and> n \<le> 5000 then Inr n else Inl ''capture lines must be between 1 and 5000'')"

definition status_code :: "int option \<Rightarrow> nat" where
  "status_code code = (case code of Some c \<Rightarrow> if 0 \<le> c \<and> c \<le> 255 then nat c else 1 | None \<Rightarrow> 1)"

definition call_tmux :: "session_env \<Rightarrow> string list \<Rightarrow> string \<Rightarrow> int option session_cmd" where
  "call_tmux E args input = (\<lambda>calls. (sc_tmux E args input, calls @ [(args, input)]))"

definition run_tmux :: "session_env \<Rightarrow> string \<Rightarrow> string list \<Rightarrow> nat session_cmd" where
  "run_tmux E socket args = bind_c (call_tmux E ([''-S'', socket] @ args) []) (\<lambda>code. ret_c (status_code code))"

definition session_submit :: "session_env \<Rightarrow> string \<Rightarrow> string \<Rightarrow> string \<Rightarrow> nat session_cmd" where
  "session_submit E socket session input =
     bind_c (call_tmux E [''-S'', socket, ''load-buffer'', ''-''] input) (\<lambda>loaded.
     if loaded \<noteq> Some 0 then ret_c (status_code loaded)
     else let target = session @ '':orchestrator''
       in bind_c (call_tmux E [''-S'', socket, ''paste-buffer'', ''-d'', ''-t'', target] []) (\<lambda>pasted.
          if pasted \<noteq> Some 0 then ret_c (status_code pasted)
          else run_tmux E socket [''send-keys'', ''-t'', target, ''C-m'']))"

definition session_socket :: "string \<Rightarrow> string \<Rightarrow> string" where
  "session_socket state_root session = path_join (path_join (path_join state_root ''sessions'') session) ''runtime_state/tmux.sock''"

definition capture_lines :: "string list \<Rightarrow> error + nat option" where
  "capture_lines args =
     (if args ! 1 \<in> {''status'', ''submit'', ''stop''} \<and> length args = 2 then Inr None
      else if args ! 1 = ''capture'' \<and> length args = 3 then and_then (parse_capture_lines (args ! 2)) (\<lambda>n. Inr (Some n))
      else Inl session_usage)"

definition session_input :: "session_env \<Rightarrow> string \<Rightarrow> error + string" where
  "session_input E action =
     (if action = ''submit''
      then and_then (ok_or (sc_stdin E) ''read submitted session input'') (\<lambda>sent.
        let input = take (MAX_INPUT_BYTES + 1) sent
        in if input = [] \<or> length input > MAX_INPUT_BYTES then Inl ''submitted session input must contain 1 to 32768 bytes''
           else Inr input)
      else Inr [])"

definition session_action :: "session_env \<Rightarrow> string \<Rightarrow> string \<Rightarrow> string list \<Rightarrow> nat session_cmd" where
  "session_action E socket session args =
     bind_c (lift_r (\<lambda>_. validate_socket E socket)) (\<lambda>_.
     bind_c (lift_r (\<lambda>_. capture_lines args)) (\<lambda>n.
     bind_c (lift_r (\<lambda>_. session_input E (args ! 1))) (\<lambda>input.
     bind_c (lift_r (\<lambda>_. sc_drop E)) (\<lambda>_.
     let target = session @ '':orchestrator''
     in if args ! 1 = ''status'' then run_tmux E socket [''has-session'', ''-t'', target]
        else if args ! 1 = ''capture''
        then run_tmux E socket [''capture-pane'', ''-p'', ''-J'', ''-S'', ''-'' @ show_nat (case n of Some k \<Rightarrow> k | None \<Rightarrow> 0), ''-t'', target]
        else if args ! 1 = ''submit'' then session_submit E socket session input
        else run_tmux E socket [''kill-session'', ''-t'', session]))))"

definition session_run_linux :: "session_env \<Rightarrow> string list \<Rightarrow> nat session_cmd" where
  "session_run_linux E args =
     bind_c (ensure (sc_uid E = CONTROL_UID \<and> sc_euid E = 0)
       ''session-control requires the trusted control UID through the setuid launcher'') (\<lambda>_.
     bind_c (ensure (sc_environ E ''MULTIAGENT_UID_SANDBOX'' = Some ''1'') ''session-control requires MULTIAGENT_UID_SANDBOX=1'') (\<lambda>_.
     bind_c (ensure (length args \<ge> 2) session_usage) (\<lambda>_.
     bind_c (lift_r (\<lambda>_. validate_session_id (args ! 0))) (\<lambda>_.
     bind_c (lift_r (\<lambda>_. validate_tmux_binary E)) (\<lambda>_.
     bind_c (lift_r (\<lambda>_. canonical_state_root E)) (\<lambda>state_root.
     let socket = session_socket state_root (args ! 0)
     in if args ! 1 = ''status'' \<and> sc_stat E socket = None then ret_c 1
        else session_action E socket (args ! 0) args))))))"

section \<open>Lemmas\<close>

lemma session_char_simps [simp]: "\<not> session_char CHR ''/''" "\<not> session_char CHR ''.''" "\<not> session_char CHR '':''"
  by (simp_all add: session_char_def is_ascii_lowercase_def is_ascii_digit_def byte_of_def)

text \<open>A session id is one path segment and one tmux target, so a socket stays in its own session directory.\<close>

lemma session_id_segment:
  assumes "valid_session_id session"
  shows "CHR ''/'' \<notin> set session" "CHR '':'' \<notin> set session" "segments session = [session]" "\<not> skip_seg session" "session \<noteq> ''..''"
proof -
  have c: "CHR ''/'' \<notin> set session" "CHR '':'' \<notin> set session" "CHR ''.'' \<notin> set session"
    using assms by (auto simp: valid_session_id_def list_all_iff)
  then show "CHR ''/'' \<notin> set session" "CHR '':'' \<notin> set session" "segments session = [session]" "\<not> skip_seg session" "session \<noteq> ''..''"
    using assms by (auto simp: segments_def split_char_free skip_seg_def valid_session_id_def)
qed

lemma capture_bounds: "parse_capture_lines v = Inr n \<Longrightarrow> 1 \<le> n \<and> n \<le> 5000"
  by (auto simp: parse_capture_lines_def and_then_Inr split: if_splits)

text \<open>
  Whatever the arguments, tmux is only run by the control account with a valid session id, on the socket of that session
  under the state root, and is given at most 32768 bytes.
\<close>

lemma tmux_calls:
  assumes "run_tmux E socket args calls = (r, calls')"
  shows "calls' = calls @ [([''-S'', socket] @ args, [])]"
  using assms by (auto simp: run_tmux_def call_tmux_def bind_c_def ret_c_def split: sum.splits)

definition calls_on :: "string \<Rightarrow> (string list \<times> string) list \<Rightarrow> bool" where
  "calls_on socket calls \<longleftrightarrow> list_all (\<lambda>(args, input). take 2 args = [''-S'', socket] \<and> length input \<le> MAX_INPUT_BYTES) calls"

lemma submit_calls:
  assumes "session_submit E socket session input calls = (r, calls')" and "length input \<le> MAX_INPUT_BYTES"
  shows "\<exists>more. calls' = calls @ more \<and> calls_on socket more"
proof (cases "sc_tmux E [''-S'', socket, ''load-buffer'', ''-''] input = Inr (Some 0) \<and>
    sc_tmux E [''-S'', socket, ''paste-buffer'', ''-d'', ''-t'', session @ '':orchestrator''] [] = Inr (Some 0)")
  case True
  then have "run_tmux E socket [''send-keys'', ''-t'', session @ '':orchestrator'', ''C-m'']
      (calls @ [([''-S'', socket, ''load-buffer'', ''-''], input),
        ([''-S'', socket, ''paste-buffer'', ''-d'', ''-t'', session @ '':orchestrator''], [])]) = (r, calls')"
    using assms(1) by (simp add: session_submit_def call_tmux_def bind_c_def Let_def)
  from tmux_calls [OF this] show ?thesis using assms(2) by (simp add: calls_on_def)
next
  case False
  then show ?thesis
    using assms by (auto simp: session_submit_def call_tmux_def bind_c_def ret_c_def Let_def calls_on_def split: sum.splits if_splits)
qed

lemma action_calls:
  assumes "session_action E socket session args calls = (r, calls')"
  shows "\<exists>more. calls' = calls @ more \<and> calls_on socket more"
proof -
  have one: "run_tmux E socket as calls = (r, calls') \<Longrightarrow> ?thesis" for as
    using tmux_calls by (fastforce simp: calls_on_def)
  have sub: "session_submit E socket session input calls = (r, calls') \<Longrightarrow> session_input E ''submit'' = Inr input \<Longrightarrow> ?thesis" for input
    by (rule submit_calls) (auto simp: session_input_def and_then_Inr Let_def split: if_splits)
  show ?thesis
    using assms one sub unfolding session_action_def Let_def
    by (auto simp: bind_c_def lift_r_def calls_on_def split: sum.splits if_splits)
qed

lemma session_control_confined:
  assumes "session_run_linux E args [] = (r, calls)" and "calls \<noteq> []"
  shows "sc_uid E = CONTROL_UID \<and> valid_session_id (args ! 0) \<and>
    (\<exists>state_root. path_eq state_root STATE_ROOT \<and> calls_on (session_socket state_root (args ! 0)) calls)"
proof -
  obtain rt where g: "sc_uid E = CONTROL_UID" "valid_session_id (args ! 0)" "canonical_state_root E = Inr rt"
      "session_action E (session_socket rt (args ! 0)) (args ! 0) args [] = (r, calls)"
    using assms unfolding session_run_linux_def Let_def validate_session_id_def
    by (auto simp: bind_c_def lift_r_def ensure_def guard_ok_def ret_c_def split: sum.splits if_splits)
  moreover have "path_eq rt STATE_ROOT" using g(3) by (auto simp: canonical_state_root_def and_then_Inr split: if_splits)
  ultimately show ?thesis using action_calls [OF g(4)] by auto
qed

end
