(* ===== verification/Snapshot.thy ===== *)
theory Snapshot
  imports File_Store Json
begin

text \<open>
  The canonical diff of a repository (\<open>runtime/src/snapshot.rs\<close>): what git reports as changed since a base
  commit, followed by a diff of every untracked file that was not there at the start of the run.

  Git is not part of the sources: \<open>sn_git\<close> gives the outcome of a command line in a directory, or nothing where it
  cannot be run. \<open>sn_leaf\<close> stands for the test that a path is a file or a symbolic link, \<open>sn_read\<close> reads a
  file, \<open>sn_sha\<close> is SHA-256 in hexadecimal and \<open>sn_print\<close> prints JSON.
\<close>

section \<open>Text\<close>

text \<open>\<open>String::from_utf8_lossy\<close>: whether the text starts with a character, and the length of it or of what is replaced.\<close>

definition continuation :: "nat \<Rightarrow> nat \<Rightarrow> nat \<Rightarrow> string \<Rightarrow> bool" where
  "continuation i lo hi t \<longleftrightarrow> i < length t \<and> lo \<le> byte_of (t ! i) \<and> byte_of (t ! i) \<le> hi"

definition utf8_step :: "string \<Rightarrow> bool \<times> nat" where
  "utf8_step t =
     (let b = byte_of (hd t); follows = (\<lambda>i. continuation i 128 191 t)
      in if b < 128 then (True, 1)
         else if 194 \<le> b \<and> b \<le> 223 then (if follows 1 then (True, 2) else (False, 1))
         else if 224 \<le> b \<and> b \<le> 239 then
           (if \<not> continuation 1 (if b = 224 then 160 else 128) (if b = 237 then 159 else 191) t then (False, 1)
            else if follows 2 then (True, 3) else (False, 2))
         else if 240 \<le> b \<and> b \<le> 244 then
           (if \<not> continuation 1 (if b = 240 then 144 else 128) (if b = 244 then 143 else 191) t then (False, 1)
            else if \<not> follows 2 then (False, 2)
            else if follows 3 then (True, 4) else (False, 3))
         else (False, 1))"

lemma utf8_step_pos: "0 < snd (utf8_step t)"
  by (simp add: utf8_step_def Let_def)

function from_utf8_lossy :: "string \<Rightarrow> string" where
  "from_utf8_lossy t =
     (if t = [] then []
      else case utf8_step t of (ok, n) \<Rightarrow>
        (if ok then take n t else [CHR 0xEF, CHR 0xBF, CHR 0xBD]) @ from_utf8_lossy (drop n t))"
  by pat_completeness auto
termination from_utf8_lossy
proof (relation "measure length", goal_cases)
  case (2 t ok n)
  have "0 < n" using utf8_step_pos [of t] 2(2) by (metis snd_conv)
  with 2(1) show ?case by simp
qed simp

declare from_utf8_lossy.simps [simp del]

section \<open>Processes and context\<close>

record process_output =
  po_code :: "int option"
  po_stdout :: string
  po_stderr :: string

type_synonym git = "string \<Rightarrow> string list \<Rightarrow> process_output option"

definition po_success :: "process_output \<Rightarrow> bool" where
  "po_success p \<longleftrightarrow> po_code p = Some 0"

record snap_ctx =
  sn_git :: git
  sn_leaf :: "string \<Rightarrow> bool"
  sn_read :: "string \<Rightarrow> string option"
  sn_environ :: env
  sn_sha :: "string \<Rightarrow> string"
  sn_print :: "json \<Rightarrow> string"

text \<open>Components are ordered as the standard library orders them: by kind, and names by their bytes.\<close>

primrec component_rank :: "component \<Rightarrow> nat" where
  "component_rank RootDir = 0"
| "component_rank CurDir = 1"
| "component_rank ParentDir = 2"
| "component_rank (Normal n) = 3"

primrec component_name :: "component \<Rightarrow> string" where
  "component_name RootDir = []"
| "component_name CurDir = []"
| "component_name ParentDir = []"
| "component_name (Normal n) = n"

instantiation component :: linorder
begin

definition less_eq_component :: "component \<Rightarrow> component \<Rightarrow> bool" where
  "a \<le> b \<longleftrightarrow> component_rank a < component_rank b \<or>
     component_rank a = component_rank b \<and> component_name a \<le> component_name b"

definition less_component :: "component \<Rightarrow> component \<Rightarrow> bool" where
  "a < b \<longleftrightarrow> component_rank a < component_rank b \<or>
     component_rank a = component_rank b \<and> component_name a < component_name b"

instance
proof
  fix a b c :: component
  show "a < b \<longleftrightarrow> a \<le> b \<and> \<not> b \<le> a" by (auto simp: less_eq_component_def less_component_def)
  show "a \<le> a" by (simp add: less_eq_component_def)
  show "a \<le> b \<Longrightarrow> b \<le> c \<Longrightarrow> a \<le> c" by (auto simp: less_eq_component_def)
  show "a \<le> b \<or> b \<le> a" by (auto simp: less_eq_component_def)
  show "a \<le> b \<Longrightarrow> b \<le> a \<Longrightarrow> a = b" by (cases a; cases b) (auto simp: less_eq_component_def)
qed

end

section \<open>The diff\<close>

definition git_error :: "string \<Rightarrow> string \<Rightarrow> error" where
  "git_error fallback stderr = (let message = trim (from_utf8_lossy stderr) in if message = [] then fallback else message)"

definition is_framework_internal_path :: "string \<Rightarrow> bool" where
  "is_framework_internal_path p \<longleftrightarrow> (case components p of c # _ \<Rightarrow> c = Normal ''.multiagent'' | [] \<Rightarrow> False)"

definition baseline_untracked :: "snap_ctx \<Rightarrow> error + string list" where
  "baseline_untracked N =
     (case sn_environ N ''MULTIAGENT_BASELINE_UNTRACKED_FILE'' of
        None \<Rightarrow> Inr []
      | Some p \<Rightarrow>
          if p = [] then Inr []
          else and_then (ok_or (sn_read N p) (''read baseline untracked file '' @ p)) (\<lambda>t.
            Inr (filter (\<lambda>l. l \<noteq> []) (lines t))))"

definition kept_untracked :: "snap_ctx \<Rightarrow> string \<Rightarrow> string list \<Rightarrow> string \<Rightarrow> bool" where
  "kept_untracked N rt baseline p \<longleftrightarrow>
     from_utf8_lossy p \<notin> set baseline \<and> \<not> is_framework_internal_path p \<and> sn_leaf N (path_join rt p)"

definition untracked_paths :: "snap_ctx \<Rightarrow> string \<Rightarrow> error + string list" where
  "untracked_paths N rt =
     and_then (ok_or (sn_git N rt [''ls-files'', ''--others'', ''--exclude-standard'', ''-z'']) ''list untracked files'') (\<lambda>out.
     and_then (guard_ok (po_success out) (git_error ''git ls-files failed'' (po_stderr out))) (\<lambda>_.
     and_then (baseline_untracked N) (\<lambda>baseline.
     Inr (sort_key components (filter (kept_untracked N rt baseline)
       (filter (\<lambda>p. p \<noteq> []) (split_char (CHR 0x00) (po_stdout out))))))))"

definition untracked_diff :: "snap_ctx \<Rightarrow> string \<Rightarrow> string \<Rightarrow> error + string" where
  "untracked_diff N rt p =
     and_then (ok_or (sn_git N rt [''diff'', ''--no-index'', ''--binary'', ''--'', ''/dev/null'', p]) (''run git diff for '' @ p)) (\<lambda>out.
     and_then (guard_ok (po_code out \<in> {Some 0, Some 1})
       (git_error (''git diff failed for untracked path '' @ p) (po_stderr out))) (\<lambda>_.
     Inr (po_stdout out)))"

fun extend_diff :: "snap_ctx \<Rightarrow> string \<Rightarrow> string \<Rightarrow> string list \<Rightarrow> error + string" where
  "extend_diff N rt diff [] = Inr diff"
| "extend_diff N rt diff (p # ps) = and_then (untracked_diff N rt p) (\<lambda>d. extend_diff N rt (diff @ d) ps)"

definition canonical_diff :: "snap_ctx \<Rightarrow> string \<Rightarrow> string \<Rightarrow> error + string" where
  "canonical_diff N rt base =
     and_then (ok_or (sn_git N rt [''diff'', base, ''--binary'', ''--ignore-submodules=all'', ''--'']) ''run git diff'') (\<lambda>out.
     and_then (guard_ok (po_success out) (git_error ''git diff failed'' (po_stderr out))) (\<lambda>_.
     and_then (untracked_paths N rt) (\<lambda>ps. extend_diff N rt (po_stdout out) ps)))"

section \<open>Changed paths\<close>

definition changed_of_line :: "string \<Rightarrow> string list" where
  "changed_of_line l =
     (case strip_prefix ''diff --git a/'' l of
        None \<Rightarrow> []
      | Some rest \<Rightarrow>
          (case split_once_str '' b/'' rest of
             None \<Rightarrow> []
           | Some (old_path, new_path) \<Rightarrow>
               filter (\<lambda>p. p \<noteq> [] \<and> p \<noteq> ''/dev/null'') [old_path, trim (hd (split_char TAB new_path))]))"

definition changed_paths :: "string \<Rightarrow> string list" where
  "changed_paths diff = sort (remdups (concat (map changed_of_line (lines diff))))"

text \<open>\<open>Path::extension\<close>: the text after the last dot of the file name, if there is something before that dot.\<close>

definition path_extension :: "string \<Rightarrow> string option" where
  "path_extension p =
     (case path_file_name p of
        None \<Rightarrow> None
      | Some n \<Rightarrow>
          (let after = rev (takeWhile (\<lambda>c. c \<noteq> CHR ''.'') (rev n)); before = rev (dropWhile (\<lambda>c. c \<noteq> CHR ''.'') (rev n))
           in if length before \<le> 1 then None else Some after))"

definition SOURCE_EXTENSIONS :: "string list" where
  "SOURCE_EXTENSIONS = [''c'', ''cc'', ''cpp'', ''go'', ''h'', ''hpp'', ''java'', ''js'', ''jsx'', ''kt'', ''m'', ''mm'', ''php'',
     ''py'', ''pyi'', ''pyx'', ''rb'', ''rs'', ''scala'', ''swift'', ''ts'', ''tsx'']"

definition is_source :: "string \<Rightarrow> bool" where
  "is_source p \<longleftrightarrow> (case path_extension p of Some e \<Rightarrow> e \<in> set SOURCE_EXTENSIONS | None \<Rightarrow> False)"

definition is_test_path :: "string \<Rightarrow> bool" where
  "is_test_path p \<longleftrightarrow>
     (let parts = split_char CHR ''/'' p; name = to_ascii_lowercase (last parts)
      in list_ex (\<lambda>c. c \<in> {''test'', ''tests'', ''__tests__''}) parts \<or>
         starts_with ''test_'' name \<or> ends_with ''_test.go'' name \<or>
         list_ex (\<lambda>suffix. ends_with suffix name)
           [''.test.ts'', ''.test.tsx'', ''.spec.ts'', ''.spec.tsx'', ''.test.js'', ''.spec.js''])"

definition is_ignored :: "string \<Rightarrow> bool" where
  "is_ignored p \<longleftrightarrow> list_ex (\<lambda>d. starts_with d p) [''.cache/'', ''.gomodcache/'', ''node_modules/'', ''vendor/'']"

section \<open>The command\<close>

record Snapshot =
  final_diff_sha256 :: string
  changed_files :: nat
  snapshot_paths :: "string list"
  changed_code_paths :: "string list"

definition capture :: "snap_ctx \<Rightarrow> string \<Rightarrow> string \<Rightarrow> error + Snapshot" where
  "capture N rt base =
     and_then (canonical_diff N rt base) (\<lambda>bytes.
     let diff = from_utf8_lossy bytes; changed = changed_paths diff
     in Inr \<lparr>final_diff_sha256 = sn_sha N bytes,
          changed_files = length (filter (starts_with ''diff --git a/'') (lines diff)),
          snapshot_paths = changed,
          changed_code_paths = filter (\<lambda>p. is_source p \<and> \<not> is_test_path p \<and> \<not> is_ignored p) changed\<rparr>)"

definition snapshot_json :: "Snapshot \<Rightarrow> json" where
  "snapshot_json x = JObj [(''final_diff_sha256'', JStr (final_diff_sha256 x)),
     (''changed_files'', JNum (of_nat (changed_files x))),
     (''changed_paths'', JArr (map JStr (snapshot_paths x))),
     (''changed_code_paths'', JArr (map JStr (changed_code_paths x)))]"

fun snapshot_options :: "string option \<times> string \<times> string \<Rightarrow> string list \<Rightarrow> error + (string option \<times> string \<times> string)" where
  "snapshot_options (rt, base, format) [] = Inr (rt, base, format)"
| "snapshot_options (rt, base, format) (opt # rest) =
     (if opt \<notin> {''--root'', ''--base'', ''--format''} then Inl (''unknown option: '' @ opt)
      else case rest of
        [] \<Rightarrow> Inl (opt @ '' requires a value'')
      | v # rest' \<Rightarrow>
          snapshot_options
            (if opt = ''--root'' then (Some v, base, format)
             else if opt = ''--base'' then (rt, v, format) else (rt, base, v)) rest')"

definition snapshot_run :: "snap_ctx \<Rightarrow> string list \<Rightarrow> error + string" where
  "snapshot_run N args =
     and_then (snapshot_options (None, ''HEAD'', ''json'') args) (\<lambda>(rt, base, format).
     and_then (ok_or rt ''snapshot requires --root DIR'') (\<lambda>rt.
     and_then (guard_ok (format \<in> {''json'', ''shell''}) (''invalid format: '' @ format @ '' (expected json|shell)'')) (\<lambda>_.
     and_then (capture N rt base) (\<lambda>x.
     Inr (if format = ''shell'' then final_diff_sha256 x @ '' '' @ show_nat (changed_files x) @ [NL]
          else sn_print N (snapshot_json x) @ [NL])))))"

end
