(* ===== verification/Subagent.thy ===== *)
theory Subagent
  imports Policy Decision Workflow_Complete Snapshot
begin

text \<open>
  Subagents (\<open>runtime/src/subagent.rs\<close>): the context of the commands, names and options, and the assignments of
  repository paths to agents with their checkpoints and worktrees.

  The state is the files of the state directory. \<open>sa_ctx\<close> adds to the context of the workflow commands git, what the
  file system answers about the repository, the modification times, the pretty printer of \<open>serde_json\<close> and the
  child process of a validation run with what other processes write while it runs. A command locks the directory
  of its kind from its first relevant read to its last write; the model creates the lock file. Git leaves the files
  of the state directory alone.
\<close>

section \<open>Context and files\<close>

datatype child_end = Exited "int option" | Overdue

record sa_ctx =
  sa_wf :: wf_ctx
  sa_snap :: snap_ctx
  sa_exists :: "string \<Rightarrow> bool"
  sa_is_dir :: "string \<Rightarrow> bool"
  sa_mtime :: "path \<Rightarrow> nat"
  sa_pretty :: "json \<Rightarrow> string"
  sa_child :: "string \<Rightarrow> string list \<Rightarrow> nat \<Rightarrow> (child_end \<times> string \<times> string) option"
  sa_during :: "files \<Rightarrow> files"

abbreviation sa_environ :: "sa_ctx \<Rightarrow> env" where
  "sa_environ A \<equiv> wf_environ (sa_wf A)"

abbreviation sa_state :: "sa_ctx \<Rightarrow> path" where
  "sa_state A \<equiv> wf_state_dir (sa_wf A)"

abbreviation sa_now :: "sa_ctx \<Rightarrow> nat \<Rightarrow> string" where
  "sa_now A \<equiv> wf_now (sa_wf A)"

abbreviation put :: "path \<Rightarrow> string \<Rightarrow> unit wf_cmd" where
  "put p t \<equiv> modify_c (write_file p t)"

definition config_root :: "sa_ctx \<Rightarrow> string" where
  "config_root A = root (sa_environ A) (wf_cwd (sa_wf A))"

definition sa_root :: "sa_ctx \<Rightarrow> error + string" where
  "sa_root A = ok_or (wf_canon (sa_wf A) (config_root A)) ''canonicalize MULTIAGENT_ROOT''"

definition path_there :: "files \<Rightarrow> path \<Rightarrow> bool" where
  "path_there s p \<longleftrightarrow> list_ex (\<lambda>(q, _). take (length p) q = p) s"

definition create_dir :: "path \<Rightarrow> error \<Rightarrow> unit wf_cmd" where
  "create_dir p e = lift_r (\<lambda>s. guard_ok (\<not> is_file s p) e)"

definition sa_lock :: "path \<Rightarrow> unit wf_cmd" where
  "sa_lock base = modify_c (\<lambda>s. if is_file s (base @ [''.lock'']) then s else write_file (base @ [''.lock'']) [] s)"

definition remove_file :: "path \<Rightarrow> files \<Rightarrow> files" where
  "remove_file p s = AList.delete p s"

definition read_or :: "string \<Rightarrow> files \<Rightarrow> path \<Rightarrow> string" where
  "read_or absent s p = (case lookup s p of None \<Rightarrow> absent | Some t \<Rightarrow> t)"

definition sa_read_env :: "files \<Rightarrow> path \<Rightarrow> error + env" where
  "sa_read_env s p = read_env (display p) (lookup s p)"

definition sorted_directories :: "files \<Rightarrow> path \<Rightarrow> string list" where
  "sorted_directories s base = sort (subdirs s base)"

definition nonempty_lines :: "string \<Rightarrow> string list" where
  "nonempty_lines t = filter (\<lambda>l. l \<noteq> []) (lines t)"

section \<open>Names and options\<close>

definition validate_name :: "string \<Rightarrow> error + unit" where
  "validate_name name =
     (if name = [] \<or> hd name = CHR ''-'' \<or> \<not> list_all id_char name then Inl (''invalid subagent name: '' @ name)
      else if name = ''orchestrator'' then Inl (''reserved subagent name: '' @ name)
      else Inr ())"

type_synonym sa_options = "string \<rightharpoonup> string list"

fun repeated_options :: "string list \<Rightarrow> sa_options \<Rightarrow> string list \<Rightarrow> error + sa_options" where
  "repeated_options repeatable opts [] = Inr opts"
| "repeated_options repeatable opts (key # rest) =
     (if \<not> starts_with ''--'' key then Inl (''unknown argument: '' @ key)
      else case rest of
        [] \<Rightarrow> Inl (key @ '' requires a value'')
      | v # rest' \<Rightarrow>
          repeated_options repeatable
            (if key \<notin> set repeatable \<and> opts key \<noteq> None then opts(key \<mapsto> [v])
             else opts(key \<mapsto> (case opts key of None \<Rightarrow> [] | Some vs \<Rightarrow> vs) @ [v])) rest')"

definition option_first :: "sa_options \<Rightarrow> string \<Rightarrow> string" where
  "option_first opts key = (case opts key of Some (v # _) \<Rightarrow> v | _ \<Rightarrow> [])"

definition option_required :: "sa_options \<Rightarrow> string \<Rightarrow> error \<Rightarrow> error + string" where
  "option_required opts key message =
     (let v = option_first opts key in if v = [] then Inl message else Inr v)"

text \<open>The first argument, which is not empty.\<close>

definition first_argument :: "error \<Rightarrow> string list \<Rightarrow> error + string" where
  "first_argument message args = (case args of v # _ \<Rightarrow> if v \<noteq> [] then Inr v else Inl message | [] \<Rightarrow> Inl message)"

definition one_name :: "string \<Rightarrow> string list \<Rightarrow> error + string" where
  "one_name command args =
     (case args of
        [v] \<Rightarrow> and_then (validate_name v) (\<lambda>_. Inr v)
      | _ \<Rightarrow> Inl (command @ '' requires '' @ (if starts_with ''finding'' command then ''FINDING_ID'' else ''TODO_ID'')))"

definition one_agent :: "string \<Rightarrow> string list \<Rightarrow> error + string" where
  "one_agent command args =
     (case args of
        [v] \<Rightarrow> and_then (validate_name v) (\<lambda>_. Inr v)
      | _ \<Rightarrow> Inl (command @ '' requires NAME''))"

definition reject_newline :: "string \<Rightarrow> string \<Rightarrow> error + unit" where
  "reject_newline label v = guard_ok (NL \<notin> set v) (label @ '' may not contain newlines'')"

definition reject_newlines :: "(string \<times> string) list \<Rightarrow> error + unit" where
  "reject_newlines labelled = all_ok (\<lambda>(label, v). reject_newline label v) labelled"

definition push_unique :: "string list \<Rightarrow> string \<Rightarrow> string list" where
  "push_unique output v = (if v \<in> set output then output else output @ [v])"

definition csv_unique :: "string \<Rightarrow> string list" where
  "csv_unique raw = foldl push_unique [] (filter (\<lambda>v. v \<noteq> []) (map trim (split_char CHR '','' raw)))"

section \<open>Git\<close>

definition git_output :: "sa_ctx \<Rightarrow> string \<Rightarrow> string list \<Rightarrow> error + string" where
  "git_output A rt args =
     and_then (ok_or (sn_git (sa_snap A) rt args) ''run git'') (\<lambda>out.
     and_then (guard_ok (po_success out) (''git '' @ join_with '' '' args @ '' failed: '' @ trim (from_utf8_lossy (po_stderr out)))) (\<lambda>_.
     Inr (trim (from_utf8_lossy (po_stdout out)))))"

definition commit_revision :: "string \<Rightarrow> string" where
  "commit_revision requested = requested @ ''^{commit}''"

definition resolve_named_commit :: "sa_ctx \<Rightarrow> string \<Rightarrow> string \<Rightarrow> string \<Rightarrow> error + string" where
  "resolve_named_commit A rt requested label =
     (if requested = [] then git_output A rt [''rev-parse'', ''HEAD'']
      else case git_output A rt [''rev-parse'', commit_revision requested] of
        Inl _ \<Rightarrow> Inl (''invalid '' @ label @ '' commit: '' @ requested)
      | Inr v \<Rightarrow> Inr v)"

definition resolve_commit :: "sa_ctx \<Rightarrow> string \<Rightarrow> string \<Rightarrow> error + string" where
  "resolve_commit A rt requested =
     and_then (ok_or (sn_git (sa_snap A) rt [''rev-parse'', if requested = [] then ''HEAD'' else commit_revision requested])
       ''run git rev-parse'') (\<lambda>out.
     and_then (guard_ok (po_success out)
       (if requested = [] then ''cannot resolve HEAD'' else ''invalid start commit: '' @ requested)) (\<lambda>_.
     Inr (trim (from_utf8_lossy (po_stdout out)))))"

section \<open>Owned paths\<close>

text \<open>The search for an existing ancestor, which gives up at a path without a file name.\<close>

function existing_ancestor :: "(string \<Rightarrow> bool) \<Rightarrow> string list \<Rightarrow> string \<Rightarrow> (string \<times> string list) option" where
  "existing_ancestor ex missing ancestor =
     (if ex ancestor then Some (ancestor, missing)
      else case path_file_name ancestor of
        None \<Rightarrow> None
      | Some n \<Rightarrow>
          (case path_parent ancestor of
             None \<Rightarrow> None
           | Some p \<Rightarrow> existing_ancestor ex (missing @ [n]) p))"
  by pat_completeness auto
termination existing_ancestor
  by (relation "measure (\<lambda>(ex, missing, ancestor). length ancestor)") (simp_all add: length_path_parent)

declare existing_ancestor.simps [simp del]

definition canonicalize_missing :: "sa_ctx \<Rightarrow> string \<Rightarrow> error + string" where
  "canonicalize_missing A p =
     (if sa_exists A p then ok_or (wf_canon (sa_wf A) p) ''canonicalize assigned path''
      else and_then (ok_or (existing_ancestor (sa_exists A) [] p) (''cannot resolve assigned path: '' @ p))
        (\<lambda>(ancestor, missing).
        and_then (ok_or (wf_canon (sa_wf A) ancestor) ''canonicalize assigned path'') (\<lambda>base.
        Inr (normalize_lexically (foldl path_join base (rev missing))))))"

definition trim_slashes :: "string \<Rightarrow> string" where
  "trim_slashes t = rev (dropWhile (\<lambda>c. c = CHR ''/'') (rev t))"

definition normalize_repo_path :: "sa_ctx \<Rightarrow> string \<Rightarrow> string \<Rightarrow> error + string" where
  "normalize_repo_path A rt requested =
     and_then (canonicalize_missing A (if has_root requested then requested else path_join rt requested)) (\<lambda>resolved.
     and_then (guard_ok (path_eq resolved rt \<or> path_starts_with resolved rt)
       (''assigned path is outside MULTIAGENT_ROOT: '' @ requested)) (\<lambda>_.
     and_then (ok_or (path_strip_prefix resolved rt) ''assigned path is outside MULTIAGENT_ROOT'') (\<lambda>relative.
     and_then (guard_ok (relative \<noteq> []) ''assigned path may not be the whole repo root'') (\<lambda>_.
     Inr (trim_slashes relative)))))"

definition slash_suffix :: "string \<Rightarrow> string \<Rightarrow> bool" where
  "slash_suffix base t \<longleftrightarrow> (case strip_prefix base t of Some r \<Rightarrow> starts_with ''/'' r | None \<Rightarrow> False)"

definition paths_overlap :: "string \<Rightarrow> string \<Rightarrow> bool" where
  "paths_overlap left right \<longleftrightarrow> left = right \<or> slash_suffix right left \<or> slash_suffix left right"

section \<open>Assignments\<close>

definition ASSIGNMENT_ROLES :: "string list" where
  "ASSIGNMENT_ROLES = [''exploitation'', ''exploration'', ''reflection'', ''architecture'', ''qa'', ''verifier'', ''scout'']"

definition TERMINAL_STATUSES :: "string list" where
  "TERMINAL_STATUSES = [''done'', ''completed'', ''closed'', ''cancelled'', ''canceled'', ''failed'', ''released'', ''skipped'']"

definition assignments_dir :: "sa_ctx \<Rightarrow> path" where
  "assignments_dir A = sa_state A @ [''assignments'']"

definition assignment_file :: "sa_ctx \<Rightarrow> string \<Rightarrow> string \<Rightarrow> path" where
  "assignment_file A name f = assignments_dir A @ [name, f]"

definition require_assignment :: "sa_ctx \<Rightarrow> string \<Rightarrow> files \<Rightarrow> error + unit" where
  "require_assignment A name s =
     and_then (validate_name name) (\<lambda>_.
     guard_ok (is_file s (assignment_file A name ''assignment.env'')) (''no assignment for agent: '' @ name))"

record AssignmentOptions =
  ao_name :: string
  ao_assignment_id :: string
  ao_branch :: string
  ao_owned :: "string list"
  ao_status :: string
  ao_start_commit :: string
  ao_role :: string
  ao_decision_id :: string
  ao_plan_id :: string
  ao_workflow_id :: string
  ao_node_id :: string
  ao_depends_on :: string

fun assignment_values :: "options \<times> string list \<Rightarrow> string list \<Rightarrow> error + (options \<times> string list)" where
  "assignment_values (opts, owned) [] = Inr (opts, owned)"
| "assignment_values (opts, owned) [key] = Inl (''unknown assignment-create argument: '' @ key)"
| "assignment_values (opts, owned) (key # v # rest) =
     (if key = ''--owned'' then assignment_values (opts, owned @ [v]) rest
      else if key \<in> {''--assignment-id'', ''--branch'', ''--status'', ''--start-commit'', ''--role'', ''--decision-id'',
          ''--plan-id'', ''--workflow-id'', ''--node-id'', ''--depends-on''}
        then assignment_values (opts(key \<mapsto> v), owned) rest
      else Inl (''unknown assignment-create argument: '' @ key))"

definition parse_assignment :: "string list \<Rightarrow> error + AssignmentOptions" where
  "parse_assignment args =
     and_then (first_argument ''assignment-create requires NAME'' args) (\<lambda>name.
     and_then (assignment_values (Map.empty, []) (tl args)) (\<lambda>(opts, owned).
     and_then (dc_required opts ''--assignment-id'' ''assignment-create requires --assignment-id ID'') (\<lambda>i.
     and_then (dc_required opts ''--branch'' ''assignment-create requires --branch BRANCH'') (\<lambda>branch.
     let text_of = (\<lambda>key absent. case opts key of None \<Rightarrow> absent | Some v \<Rightarrow> v)
     in Inr \<lparr>ao_name = name, ao_assignment_id = i, ao_branch = branch, ao_owned = owned,
          ao_status = text_of ''--status'' ''assigned'', ao_start_commit = text_of ''--start-commit'' [],
          ao_role = text_of ''--role'' ''exploitation'', ao_decision_id = text_of ''--decision-id'' [],
          ao_plan_id = text_of ''--plan-id'' [], ao_workflow_id = text_of ''--workflow-id'' [],
          ao_node_id = text_of ''--node-id'' [], ao_depends_on = text_of ''--depends-on'' []\<rparr>))))"

definition owned_values :: "string list \<Rightarrow> string list" where
  "owned_values groups = filter (\<lambda>v. v \<noteq> []) (map trim (concat (map (split_char CHR '','') groups)))"

definition owned_set :: "sa_ctx \<Rightarrow> string \<Rightarrow> string list \<Rightarrow> error + string list" where
  "owned_set A rt groups =
     and_then (collect_ok (normalize_repo_path A rt) (owned_values groups)) (\<lambda>ps. Inr (sort (remdups ps)))"

definition read_only_role :: "string \<Rightarrow> bool" where
  "read_only_role role \<longleftrightarrow> role \<in> {''verifier'', ''scout''}"

definition assignment_status_of :: "sa_ctx \<Rightarrow> files \<Rightarrow> string \<Rightarrow> string" where
  "assignment_status_of A s name = trim (read_or ''unknown'' s (assignment_file A name ''status''))"

definition owned_paths_of :: "sa_ctx \<Rightarrow> files \<Rightarrow> string \<Rightarrow> string list" where
  "owned_paths_of A s name = nonempty_lines (read_or_empty s (assignment_file A name ''owned-paths''))"

definition reject_overlap_with :: "sa_ctx \<Rightarrow> string \<Rightarrow> string list \<Rightarrow> files \<Rightarrow> string \<Rightarrow> error + unit" where
  "reject_overlap_with A new_name new_owned s name =
     (if name = new_name then Inr ()
      else let status = assignment_status_of A s name
        in if status \<in> set TERMINAL_STATUSES then Inr ()
           else and_then (sa_read_env s (assignment_file A name ''assignment.env'')) (\<lambda>metadata.
             if metadata ''role'' \<in> {Some ''verifier'', Some ''scout''} then Inr ()
             else all_ok (\<lambda>left. all_ok (\<lambda>right. guard_ok (\<not> paths_overlap left right)
                 (''active assignment owned-path overlap: new='' @ new_name @ '' path='' @ left @ '' existing='' @ name
                   @ '' status='' @ status @ '' existing_path='' @ right)) (owned_paths_of A s name)) new_owned))"

definition reject_overlap :: "sa_ctx \<Rightarrow> string \<Rightarrow> string \<Rightarrow> string list \<Rightarrow> files \<Rightarrow> error + unit" where
  "reject_overlap A new_name new_role new_owned s =
     (if read_only_role new_role then Inr ()
      else all_ok (reject_overlap_with A new_name new_owned s) (subdirs s (assignments_dir A)))"

definition assignment_workflow :: "sa_ctx \<Rightarrow> AssignmentOptions \<Rightarrow> files \<Rightarrow> error + (string \<times> AssignmentContext option)" where
  "assignment_workflow A opts s =
     (let enforced = lifecycle_enforced (wf_uid (sa_wf A)) (sa_environ A) \<and> ao_role opts = ''exploitation'';
          w = (if enforced \<and> ao_workflow_id opts = [] then state_value (sa_environ A) ''MULTIAGENT_WORKFLOW_ID''
               else ao_workflow_id opts)
      in if enforced
         then and_then (guard_ok (w \<noteq> []) ''lifecycle enforcement requires --workflow-id for exploitation assignments'') (\<lambda>_.
           case assignment_context (sa_wf A) w s of
             Inl _ \<Rightarrow> Inl (''workflow implementation gate rejected assignment for workflow '' @ w)
           | Inr c \<Rightarrow> Inr (w, Some c))
         else Inr (w, None))"

definition assignment_entries ::
  "sa_ctx \<Rightarrow> AssignmentOptions \<Rightarrow> string \<Rightarrow> string \<Rightarrow> string \<Rightarrow> AssignmentContext option \<Rightarrow> (string \<times> string) list" where
  "assignment_entries A opts rt start_commit w c =
     (let var = (\<lambda>key absent. case sa_environ A key of None \<Rightarrow> absent | Some v \<Rightarrow> v);
          worker_cli = var ''WORKER_CLI'' ''claude'';
          bound = (\<lambda>f. case c of None \<Rightarrow> [] | Some x \<Rightarrow> f x)
      in [(''agent_name'', ao_name opts), (''assignment_id'', ao_assignment_id opts), (''branch'', ao_branch opts),
          (''start_commit'', start_commit), (''created_at'', sa_now A 0), (''root'', rt), (''worker_cli'', worker_cli),
          (''subagent_cli'', var ''SUBAGENT_CLI'' worker_cli), (''verifier_cli'', var ''VERIFIER_CLI'' ''codex''),
          (''role'', ao_role opts), (''decision_id'', ao_decision_id opts), (''plan_id'', ao_plan_id opts),
          (''iteration'', bound ac_iteration), (''iteration_plan_sha256'', bound ac_plan_sha256),
          (''implementation_context'', bound ac_context), (''implementation_context_sha256'', bound ac_context_sha256),
          (''workflow_id'', w), (''node_id'', ao_node_id opts), (''depends_on'', ao_depends_on opts)])"

text \<open>What \<open>assignment_create\<close> checks and collects under the lock, and what it then writes.\<close>

definition assignment_checks ::
  "sa_ctx \<Rightarrow> AssignmentOptions \<Rightarrow> string \<Rightarrow> files \<Rightarrow> error + (string list \<times> string \<times> string \<times> AssignmentContext option)" where
  "assignment_checks A opts rt s =
     and_then (owned_set A rt (ao_owned opts)) (\<lambda>owned.
     and_then (guard_ok (owned \<noteq> []) ''assignment must own at least one path'') (\<lambda>_.
     and_then (reject_overlap A (ao_name opts) (ao_role opts) owned s) (\<lambda>_.
     and_then (resolve_commit A rt (ao_start_commit opts)) (\<lambda>start_commit.
     and_then (assignment_workflow A opts s) (\<lambda>(w, c).
     Inr (owned, start_commit, w, c))))))"

definition write_assignment ::
  "sa_ctx \<Rightarrow> AssignmentOptions \<Rightarrow> string \<Rightarrow> string list \<times> string \<times> string \<times> AssignmentContext option \<Rightarrow> string wf_cmd" where
  "write_assignment A opts rt checked =
     (case checked of (owned, start_commit, w, c) \<Rightarrow>
        let name = ao_name opts
        in bind_c (create_dir (assignments_dir A @ [name]) ''create assignment directory'') (\<lambda>_.
           bind_c (put (assignment_file A name ''assignment.env'') (env_text (assignment_entries A opts rt start_commit w c))) (\<lambda>_.
           bind_c (put (assignment_file A name ''owned-paths'') (unlines owned)) (\<lambda>_.
           bind_c (put (assignment_file A name ''status'') (unlines [ao_status opts])) (\<lambda>_.
           ret_c (unlines [join_with [TAB] [''assignment created'', name, ao_assignment_id opts, ao_branch opts]]))))))"

definition assignment_request :: "sa_ctx \<Rightarrow> string list \<Rightarrow> error + (AssignmentOptions \<times> string)" where
  "assignment_request A args =
     and_then (parse_assignment args) (\<lambda>opts.
     and_then (validate_name (ao_name opts)) (\<lambda>_.
     and_then (guard_ok (ao_role opts \<in> set ASSIGNMENT_ROLES) (''invalid role '' @ [CHR 0x27] @ ao_role opts @ [CHR 0x27]
       @ '' (expected exploitation|exploration|reflection|architecture|qa|verifier|scout)'')) (\<lambda>_.
     and_then (sa_root A) (\<lambda>rt. Inr (opts, rt)))))"

definition assignment_create :: "sa_ctx \<Rightarrow> string list \<Rightarrow> string wf_cmd" where
  "assignment_create A args =
     bind_c (lift_r (\<lambda>_. assignment_request A args)) (\<lambda>(opts, rt).
     bind_c (sa_lock (assignments_dir A)) (\<lambda>_.
     bind_c (lift_r (assignment_checks A opts rt)) (\<lambda>checked.
     write_assignment A opts rt checked)))"

definition indented :: "string \<Rightarrow> string list" where
  "indented t = map (\<lambda>l. ''  '' @ l) (lines t)"

definition assignment_show :: "sa_ctx \<Rightarrow> string list \<Rightarrow> string wf_cmd" where
  "assignment_show A args =
     lift_r (\<lambda>s.
       and_then (one_agent ''assignment-show'' args) (\<lambda>name.
       and_then (require_assignment A name s) (\<lambda>_.
       and_then (ok_or (lookup s (assignment_file A name ''owned-paths'')) ''read owned paths'') (\<lambda>owned.
       Inr (read_or_empty s (assignment_file A name ''assignment.env'') @
         unlines ([''status='' @ trim_end (read_or (unlines [''unknown'']) s (assignment_file A name ''status''))]
           @ (case lookup s (assignment_file A name ''checkpoint.env'') of
                None \<Rightarrow> [] | Some t \<Rightarrow> ''checkpoint='' # indented t)
           @ ''owned_paths='' # indented owned))))))"

definition status_request :: "string list \<Rightarrow> error + (string \<times> string)" where
  "status_request args =
     (case args of
        [name, status] \<Rightarrow> and_then (reject_newline ''status'' status) (\<lambda>_. Inr (name, status))
      | _ \<Rightarrow> Inl ''assignment-status requires NAME STATUS'')"

definition assignment_status :: "sa_ctx \<Rightarrow> string list \<Rightarrow> string wf_cmd" where
  "assignment_status A args =
     bind_c (lift_r (\<lambda>_. status_request args)) (\<lambda>(name, status).
     bind_c (lift_r (require_assignment A name)) (\<lambda>_.
     bind_c (sa_lock (assignments_dir A)) (\<lambda>_.
     bind_c (put (assignment_file A name ''status'') (unlines [status])) (\<lambda>_.
     ret_c (unlines [join_with [TAB] [''assignment status'', name, status]])))))"

text \<open>
  The changed paths of an assignment are what git reports since its start commit, in the work tree, in the index
  and as untracked. The report lists every line \<open>assignment_check\<close> prints before its verdict.
\<close>

definition changed_since :: "sa_ctx \<Rightarrow> string \<Rightarrow> string \<Rightarrow> error + string list" where
  "changed_since A rt start =
     and_then (collect_ok (git_output A rt)
       [[''diff'', ''--name-only'', start @ ''..HEAD''], [''diff'', ''--name-only''], [''diff'', ''--name-only'', ''--cached''],
        [''ls-files'', ''--others'', ''--exclude-standard'']]) (\<lambda>outs.
     Inr (sort (remdups (concat (map nonempty_lines outs)))))"

definition owned_by :: "string list \<Rightarrow> string \<Rightarrow> bool" where
  "owned_by owned p \<longleftrightarrow> list_ex (\<lambda>base. p = base \<or> slash_suffix base p) owned"

definition assignment_report :: "sa_ctx \<Rightarrow> string list \<Rightarrow> files \<Rightarrow> error + (string \<times> string list \<times> bool)" where
  "assignment_report A args s =
     and_then (one_agent ''assignment-check'' args) (\<lambda>name.
     and_then (require_assignment A name s) (\<lambda>_.
     and_then (sa_read_env s (assignment_file A name ''assignment.env'')) (\<lambda>metadata.
     and_then (sa_root A) (\<lambda>rt.
     and_then (git_output A rt [''rev-parse'', ''--abbrev-ref'', ''HEAD'']) (\<lambda>current.
     let expected = state_value metadata ''branch''
     in and_then (changed_since A rt (state_value metadata ''start_commit'')) (\<lambda>changed.
        and_then (ok_or (lookup s (assignment_file A name ''owned-paths'')) ''read owned paths'') (\<lambda>t.
        let owned = nonempty_lines t
        in Inr (name,
          [join_with [TAB] [''assignment'', name, state_value metadata ''assignment_id''],
           join_with [TAB] [''branch'', expected, current]]
          @ (if current = expected then []
             else [join_with [TAB] [''reject'', ''branch-mismatch'', ''expected='' @ expected, ''actual='' @ current]])
          @ (if changed = [] then [join_with [TAB] [''ok'', ''no-changes'']]
             else map (\<lambda>p. if owned_by owned p then join_with [TAB] [''ok'', p]
               else join_with [TAB] [''reject'', ''outside-owned-path'', p]) changed),
          current = expected \<and> list_all (owned_by owned) changed))))))))"

definition assignment_check :: "sa_ctx \<Rightarrow> string list \<Rightarrow> string wf_cmd" where
  "assignment_check A args =
     lift_r (\<lambda>s.
       and_then (assignment_report A args s) (\<lambda>(name, report, ok).
       if ok then Inr (unlines (report @ [join_with [TAB] [''accepted'', name]])) else Inl []))"

section \<open>Checkpoints\<close>

definition uid_authority_child :: "sa_ctx \<Rightarrow> bool" where
  "uid_authority_child A \<longleftrightarrow>
     sa_environ A ''MULTIAGENT_UID_SANDBOX'' = Some ''1'' \<and>
     sa_environ A ''MULTIAGENT_AUTHORITY_SERVER_CHILD'' = Some ''1''"

definition checkpoint_request ::
  "sa_ctx \<Rightarrow> string list \<Rightarrow> files \<Rightarrow> error + (string \<times> string \<times> (string \<times> string) list)" where
  "checkpoint_request A args s =
     and_then (first_argument ''checkpoint-update requires NAME'' args) (\<lambda>name.
     and_then (require_assignment A name s) (\<lambda>_.
     and_then (repeated_options [] Map.empty (tl args)) (\<lambda>opts.
     and_then (option_required opts ''--step'' ''checkpoint-update requires --step TEXT'') (\<lambda>step.
     let blocker = option_first opts ''--blocker''; idempotency = option_first opts ''--idempotency''
     in and_then (sa_root A) (\<lambda>rt.
        and_then (resolve_named_commit A rt (option_first opts ''--last-commit'') ''last'') (\<lambda>last_commit.
        let status = (if option_first opts ''--status'' \<noteq> [] then option_first opts ''--status''
              else if blocker \<noteq> [] then ''blocked''
              else assignment_status_of A s name)
        in and_then (reject_newlines [(''--step'', step), (''--blocker'', blocker), (''--idempotency'', idempotency),
             (''--status'', status)]) (\<lambda>_.
           and_then (sa_read_env s (assignment_file A name ''assignment.env'')) (\<lambda>m.
           Inr (name, status,
             [(''agent_name'', name), (''assignment_id'', state_value m ''assignment_id''),
              (''branch'', state_value m ''branch''), (''owned_paths_file'', display (assignment_file A name ''owned-paths'')),
              (''last_commit'', last_commit), (''completed_step'', step), (''blocker'', blocker),
              (''idempotency'', idempotency), (''status'', status),
              (''role'', if state_value m ''role'' = [] then ''exploitation'' else state_value m ''role''),
              (''decision_id'', state_value m ''decision_id''), (''plan_id'', state_value m ''plan_id''),
              (''workflow_id'', state_value m ''workflow_id''), (''node_id'', state_value m ''node_id''),
              (''depends_on'', state_value m ''depends_on''), (''updated_at'', sa_now A 0)])))))))))"

definition checkpoint_update :: "sa_ctx \<Rightarrow> string list \<Rightarrow> string wf_cmd" where
  "checkpoint_update A args =
     bind_c (lift_r (checkpoint_request A args)) (\<lambda>(name, status, entries).
     bind_c (sa_lock (assignments_dir A)) (\<lambda>_.
     bind_c (put (assignment_file A name ''checkpoint.env'') (env_text entries)) (\<lambda>_.
     bind_c (put (assignment_file A name ''status'') (unlines [status])) (\<lambda>_.
     bind_c (if uid_authority_child A then ret_c ()
       else bind_c (create_dir (sa_state A @ [''subagents'', name]) ''create subagent state'') (\<lambda>_.
         put (sa_state A @ [''subagents'', name, ''status'']) (unlines [status]))) (\<lambda>_.
     ret_c (unlines [join_with [TAB] [''checkpoint updated'', name, status]]))))))"

definition checkpoint_show :: "sa_ctx \<Rightarrow> string list \<Rightarrow> string wf_cmd" where
  "checkpoint_show A args =
     lift_r (\<lambda>s.
       and_then (one_agent ''checkpoint-show'' args) (\<lambda>name.
       ok_or (lookup s (assignment_file A name ''checkpoint.env'')) (''no checkpoint for agent: '' @ name)))"

section \<open>Worktrees\<close>

definition worktree_file :: "sa_ctx \<Rightarrow> string \<Rightarrow> path" where
  "worktree_file A name = sa_state A @ [''worktrees'', name @ ''.env'']"

definition worktree_request :: "sa_ctx \<Rightarrow> string list \<Rightarrow> files \<Rightarrow> error + (string \<times> string \<times> string \<times> string)" where
  "worktree_request A args s =
     and_then (first_argument ''worktree-create requires NAME'' args) (\<lambda>name.
     and_then (validate_name name) (\<lambda>_.
     and_then (repeated_options [] Map.empty (tl args)) (\<lambda>opts.
     let requested = option_first opts ''--branch'';
         branch = (if requested = [] then state_value (env_at s (assignment_file A name ''assignment.env'')) ''branch''
           else requested);
         at = option_first opts ''--path''
     in and_then (guard_ok (branch \<noteq> []) ''worktree-create requires --branch BRANCH or assignment metadata'') (\<lambda>_.
        and_then (sa_root A) (\<lambda>rt.
        Inr (name, branch, (if at = [] then display (sa_state A @ [''worktrees'', name]) else at), rt))))))"

definition add_worktree :: "sa_ctx \<Rightarrow> string \<Rightarrow> string \<Rightarrow> string \<Rightarrow> error + unit" where
  "add_worktree A rt branch at =
     (if sa_exists A (path_join at ''.git'') then Inr ()
      else and_then (ok_or (sn_git (sa_snap A) rt [''show-ref'', ''--verify'', ''--quiet'', ''refs/heads/'' @ branch])
          ''check worktree branch'') (\<lambda>ref.
        and_then (ok_or (sn_git (sa_snap A) rt
            (if po_success ref then [''worktree'', ''add'', at, branch] else [''worktree'', ''add'', ''-b'', branch, at, ''HEAD'']))
          ''create git worktree'') (\<lambda>out.
        guard_ok (po_success out) (''git worktree add failed: '' @ trim (from_utf8_lossy (po_stderr out))))))"

definition worktree_create :: "sa_ctx \<Rightarrow> string list \<Rightarrow> string wf_cmd" where
  "worktree_create A args =
     bind_c (lift_r (worktree_request A args)) (\<lambda>(name, branch, at, rt).
     bind_c (sa_lock (sa_state A @ [''worktrees''])) (\<lambda>_.
     bind_c (lift_r (\<lambda>_. add_worktree A rt branch at)) (\<lambda>_.
     bind_c (put (worktree_file A name) (env_text [(''agent_name'', name), (''branch'', branch), (''path'', at),
       (''created_at'', sa_now A 0), (''root'', rt)])) (\<lambda>_.
     bind_c (modify_c (\<lambda>s. case lookup s (assignment_file A name ''assignment.env'') of
         None \<Rightarrow> s
       | Some t \<Rightarrow> if list_ex (starts_with ''worktree_path='') (lines t) then s
           else write_file (assignment_file A name ''assignment.env'') (t @ unlines [''worktree_path='' @ at]) s)) (\<lambda>_.
     ret_c (unlines [join_with [TAB] [''worktree created'', name, branch, at]]))))))"

definition worktree_show :: "sa_ctx \<Rightarrow> string list \<Rightarrow> string wf_cmd" where
  "worktree_show A args =
     lift_r (\<lambda>s.
       and_then (one_agent ''worktree-show'' args) (\<lambda>name.
       ok_or (lookup s (worktree_file A name)) (''no worktree metadata for agent: '' @ name)))"

definition worktree_removal :: "sa_ctx \<Rightarrow> string list \<Rightarrow> files \<Rightarrow> error + (string \<times> string)" where
  "worktree_removal A args s =
     and_then (first_argument ''worktree-remove requires NAME'' args) (\<lambda>name.
     and_then (validate_name name) (\<lambda>_.
     and_then (case tl args of [] \<Rightarrow> Inr False | flag # rest \<Rightarrow>
         if flag = ''--force'' \<and> rest = [] then Inr True else Inl (''unknown worktree-remove argument: '' @ flag)) (\<lambda>force.
     and_then (guard_ok (is_file s (worktree_file A name)) (''no worktree metadata for agent: '' @ name)) (\<lambda>_.
     let at = state_value (env_at s (worktree_file A name)) ''path''
     in and_then (sa_root A) (\<lambda>rt.
        and_then (ok_or (sn_git (sa_snap A) rt ([''worktree'', ''remove''] @ (if force then [''--force''] else []) @ [at]))
          ''remove git worktree'') (\<lambda>out.
        and_then (guard_ok (po_success out) (''git worktree remove failed: '' @ trim (from_utf8_lossy (po_stderr out)))) (\<lambda>_.
        Inr (name, at))))))))"

definition worktree_remove :: "sa_ctx \<Rightarrow> string list \<Rightarrow> string wf_cmd" where
  "worktree_remove A args =
     bind_c (lift_r (worktree_removal A args)) (\<lambda>(name, at).
     bind_c (modify_c (remove_file (worktree_file A name))) (\<lambda>_.
     ret_c (unlines [join_with [TAB] [''worktree removed'', name, at]])))"

end
