(* ===== verification/Subagent_Todos.thy ===== *)
theory Subagent_Todos
  imports Subagent
begin

text \<open>
  Findings and TODOs of verifiers (\<open>runtime/src/subagent.rs\<close>): a finding with its evidence, the TODOs queued for it, the
  resolution a worker records, and the two ways to settle them, closing a TODO and dismissing a finding.

  A parsed JSON object has every key once, so a member is found with \<open>map_of\<close>. \<open>sa_now A k\<close> are the time stamps of a
  command in the order they are taken.
\<close>

section \<open>JSON\<close>

definition jget :: "json \<Rightarrow> string \<Rightarrow> json option" where
  "jget v k = (case v of JObj kvs \<Rightarrow> map_of kvs k | _ \<Rightarrow> None)"

definition as_str :: "json \<Rightarrow> string option" where
  "as_str v = (case v of JStr t \<Rightarrow> Some t | _ \<Rightarrow> None)"

definition as_array :: "json \<Rightarrow> json list option" where
  "as_array v = (case v of JArr vs \<Rightarrow> Some vs | _ \<Rightarrow> None)"

definition is_object :: "json \<Rightarrow> bool" where
  "is_object v \<longleftrightarrow> (case v of JObj _ \<Rightarrow> True | _ \<Rightarrow> False)"

definition get_str :: "json \<Rightarrow> string \<Rightarrow> string option" where
  "get_str v k = Option.bind (jget v k) as_str"

text \<open>\<open>Value::as_i64\<close> and \<open>str::parse::<i64>\<close>.\<close>

definition as_i64 :: "json \<Rightarrow> int option" where
  "as_i64 v =
     (case v of
        JNum w \<Rightarrow> if uint w \<le> 9223372036854775807 then Some (uint w) else None
      | JNeg w \<Rightarrow> Some (sint w)
      | _ \<Rightarrow> None)"

definition parse_i64 :: "string \<Rightarrow> int option" where
  "parse_i64 t =
     (let (negative, ds) = (case t of c # r \<Rightarrow> if c = CHR ''-'' then (True, r) else if c = CHR ''+'' then (False, r) else (False, t)
            | [] \<Rightarrow> (False, t));
          v = int (digits_value ds)
      in if ds = [] \<or> \<not> list_all is_ascii_digit ds then None
         else if negative then (if v \<le> 9223372036854775808 then Some (- v) else None)
         else if v \<le> 9223372036854775807 then Some v else None)"

definition json_integer :: "json \<Rightarrow> int option" where
  "json_integer v = (case as_i64 v of Some n \<Rightarrow> Some n | None \<Rightarrow> Option.bind (as_str v) parse_i64)"

definition nonempty_json :: "json \<Rightarrow> bool" where
  "nonempty_json v \<longleftrightarrow>
     (case as_str v of Some t \<Rightarrow> trim t \<noteq> [] | None \<Rightarrow> False) \<or> (v \<noteq> JNull \<and> as_str v = None)"

definition has_nonempty :: "json \<Rightarrow> string \<Rightarrow> bool" where
  "has_nonempty v k \<longleftrightarrow> (case jget v k of Some x \<Rightarrow> nonempty_json x | None \<Rightarrow> False)"

definition has_text :: "json \<Rightarrow> string \<Rightarrow> bool" where
  "has_text v k \<longleftrightarrow> (case get_str v k of Some t \<Rightarrow> trim t \<noteq> [] | None \<Rightarrow> False)"

definition or_else :: "'a option \<Rightarrow> 'a option \<Rightarrow> 'a option" where
  "or_else x y = (case x of Some v \<Rightarrow> Some v | None \<Rightarrow> y)"

definition show_int :: "int \<Rightarrow> string" where
  "show_int i = (if i < 0 then CHR ''-'' # show_nat (nat (- i)) else show_nat (nat i))"

definition nullable :: "string \<Rightarrow> json" where
  "nullable v = (if v = [] then JNull else JStr v)"

definition write_json :: "sa_ctx \<Rightarrow> path \<Rightarrow> json \<Rightarrow> unit wf_cmd" where
  "write_json A p v = put p (sa_pretty A v @ [NL])"

definition from_str :: "sa_ctx \<Rightarrow> string \<Rightarrow> error \<Rightarrow> error + json" where
  "from_str A t e = ok_or (wf_json (sa_wf A) t) e"

definition read_json :: "sa_ctx \<Rightarrow> files \<Rightarrow> path \<Rightarrow> error \<Rightarrow> error \<Rightarrow> error + json" where
  "read_json A s p absent invalid = and_then (ok_or (lookup s p) absent) (\<lambda>t. from_str A t invalid)"

definition file_sha256 :: "sa_ctx \<Rightarrow> files \<Rightarrow> path \<Rightarrow> error + string" where
  "file_sha256 A s p = and_then (ok_or (lookup s p) ''read artifact'') (\<lambda>t. Inr (wf_sha (sa_wf A) t))"

section \<open>Verdicts and the final diff\<close>

definition first_line :: "string \<Rightarrow> string" where
  "first_line t = (case find (\<lambda>l. l \<noteq> []) (map trim (lines t)) of Some l \<Rightarrow> l | None \<Rightarrow> [])"

definition after_prefix :: "string \<Rightarrow> string \<Rightarrow> (string \<Rightarrow> bool) \<Rightarrow> bool" where
  "after_prefix p t ok \<longleftrightarrow> (case strip_prefix p t of Some r \<Rightarrow> ok r | None \<Rightarrow> False)"

definition accepted_verdict :: "string \<Rightarrow> bool" where
  "accepted_verdict t \<longleftrightarrow>
     (let l = to_ascii_lowercase (first_line t)
      in l = ''accepted'' \<or> starts_with ''accepted '' l \<or>
         after_prefix ''verdict:'' l (\<lambda>v. starts_with ''accepted'' (trim v)) \<or>
         after_prefix ''verdict='' l (\<lambda>v. starts_with ''accepted'' (trim v)))"

text \<open>
  The text without its white space, in lower case. The markers it is searched for are ASCII, where the two ways to
  lower case agree.
\<close>

definition compacted :: "string \<Rightarrow> string" where
  "compacted t = to_ascii_lowercase (concat (split_whitespace t))"

definition quoted :: "string \<Rightarrow> string" where
  "quoted t = CHR 0x22 # t @ [CHR 0x22]"

definition evidence_matches_hash :: "string \<Rightarrow> string \<Rightarrow> bool" where
  "evidence_matches_hash t expected \<longleftrightarrow>
     (let c = compacted t; h = to_ascii_lowercase expected
      in list_ex (\<lambda>marker. contains_str marker c)
           [''final-diff-sha256='' @ h, quoted ''final_diff_hash'' @ '':'' @ quoted h, quoted ''final_diff_sha256'' @ '':'' @ quoted h])"

definition dismissal_bound :: "string \<Rightarrow> string \<Rightarrow> bool" where
  "dismissal_bound t expected \<longleftrightarrow>
     (let c = compacted t; h = to_ascii_lowercase expected
      in list_ex (\<lambda>marker. contains_str marker c)
           [''final-diff-sha256='' @ h, quoted ''final_diff_sha256'' @ '':'' @ quoted h, quoted ''final_diff_hash'' @ '':'' @ quoted h])"

definition is_ascii_whitespace :: "char \<Rightarrow> bool" where
  "is_ascii_whitespace c \<longleftrightarrow> c \<in> {CHR 0x20, CHR 0x09, CHR 0x0A, CHR 0x0C, CHR 0x0D}"

definition start_base :: "sa_ctx \<Rightarrow> string" where
  "start_base A =
     (case sa_environ A ''MULTIAGENT_START_HEAD'' of Some v \<Rightarrow> if v \<noteq> [] then v else ''HEAD'' | None \<Rightarrow> ''HEAD'')"

definition hash_bound :: "sa_ctx \<Rightarrow> bool" where
  "hash_bound A \<longleftrightarrow> sa_environ A ''MULTIAGENT_REQUIRE_HASH_BOUND_VERIFIER'' = Some ''1''"

definition current_final_diff_sha256 :: "sa_ctx \<Rightarrow> error + string" where
  "current_final_diff_sha256 A =
     (if \<not> hash_bound A then Inr []
      else if \<not> sa_is_dir A (config_root A) then Inr []
      else and_then (canonical_diff (sa_snap A) (config_root A) (start_base A)) (\<lambda>diff.
        Inr (if list_all is_ascii_whitespace diff then [] else wf_sha (sa_wf A) diff)))"

definition reported_hash :: "json \<Rightarrow> string" where
  "reported_hash v =
     (case Option.bind (or_else (jget v ''final_diff_sha256'') (jget v ''final_diff_hash'')) as_str of
        Some t \<Rightarrow> t | None \<Rightarrow> [])"

text \<open>The evidence of a verifier: sealed by the supervisor under separate accounts, the agent's last message otherwise.\<close>

definition sealed_evidence :: "sa_ctx \<Rightarrow> files \<Rightarrow> string \<Rightarrow> string \<Rightarrow> error + path" where
  "sealed_evidence A s verified operation =
     (let dir = sa_state A @ [''reviewer-evidence'', verified]; p = dir @ [''last-message.txt'']
      in and_then (sa_read_env s (dir @ [''evidence.env''])) (\<lambda>m.
         and_then (guard_ok (state_value m ''role'' = ''reviewer'' \<and> state_value m ''access'' = ''read-only'' \<and>
             state_value m ''state'' = ''completed'')
           (operation @ '' requires completed supervisor-sealed reviewer evidence: '' @ verified)) (\<lambda>_.
         let w = state_value (sa_environ A) ''MULTIAGENT_WORKFLOW_ID''; expected = state_value m ''output_sha256''
         in and_then (guard_ok (w = [] \<or> state_value m ''workflow_id'' = w)
              (operation @ '' reviewer evidence '' @ verified @ '' belongs to a different workflow'')) (\<lambda>_.
            and_then (if expected = [] then Inr False
              else and_then (file_sha256 A s p) (\<lambda>h. Inr (eq_ignore_ascii_case h expected))) (\<lambda>seal.
            and_then (guard_ok seal (operation @ '' reviewer evidence '' @ verified @ '' failed its supervisor seal'')) (\<lambda>_.
            Inr p))))))"

definition verifier_evidence :: "sa_ctx \<Rightarrow> files \<Rightarrow> string \<Rightarrow> string \<Rightarrow> error + (path \<times> string)" where
  "verifier_evidence A s verified operation =
     and_then (if uid_authority_child A then sealed_evidence A s verified operation
       else Inr (sa_state A @ [''subagents'', verified, ''last-message.txt''])) (\<lambda>p.
     and_then (ok_or (lookup s p) (operation @ '' requires verifier evidence: '' @ verified)) (\<lambda>evidence.
     and_then (guard_ok (accepted_verdict evidence) (operation @ '' verifier '' @ verified @ '' did not ACCEPT'')) (\<lambda>_.
     Inr (p, evidence))))"

section \<open>Findings\<close>

definition finding_dir :: "sa_ctx \<Rightarrow> string \<Rightarrow> path" where
  "finding_dir A i = sa_state A @ [''findings'', i]"

definition todo_dir :: "sa_ctx \<Rightarrow> string \<Rightarrow> path" where
  "todo_dir A i = sa_state A @ [''todos'', i]"

definition validate_finding_evidence :: "string \<Rightarrow> string \<Rightarrow> json \<Rightarrow> error + unit" where
  "validate_finding_evidence severity kind evidence =
     and_then (guard_ok (is_object evidence) ''evidence JSON must be an object'') (\<lambda>_.
     and_then (guard_ok (evidence \<noteq> JObj []) ''evidence JSON must be non-empty'') (\<lambda>_.
     let has_command = has_text evidence ''command'' \<or> has_text evidence ''cmd'';
         rc = or_else (jget evidence ''returncode'') (jget evidence ''rc'');
         has_source = list_ex (has_text evidence) [''source_evidence'', ''source_reasoning'', ''evidence'', ''stderr_excerpt'',
           ''stdout_excerpt'']
     in and_then (guard_ok (\<not> (severity = ''blocking'' \<and> \<not> ((has_command \<and> rc \<noteq> None) \<or> has_source)))
          ''blocking finding evidence needs command+returncode or source evidence'') (\<lambda>_.
        and_then (guard_ok (case rc of None \<Rightarrow> True | Some v \<Rightarrow> json_integer v \<noteq> None)
          ''finding evidence returncode/rc must be an integer'') (\<lambda>_.
        guard_ok (\<not> (severity = ''blocking'' \<and>
            kind \<in> {''compile_failure'', ''build_failure'', ''test_failure'', ''validation_failure''} \<and>
            \<not> (has_command \<and> rc \<noteq> None)))
          (kind @ '' finding evidence requires command and returncode'')))))"

record finding_request =
  fr_id :: string
  fr_severity :: string
  fr_kind :: string
  fr_summary :: string
  fr_evidence :: json
  fr_resolution :: string
  fr_affected :: "string list"

definition parse_finding :: "sa_ctx \<Rightarrow> string list \<Rightarrow> error + finding_request" where
  "parse_finding A args =
     and_then (first_argument ''finding-create requires FINDING_ID'' args) (\<lambda>i.
     and_then (validate_name i) (\<lambda>_.
     and_then (repeated_options [] Map.empty (tl args)) (\<lambda>opts.
     and_then (option_required opts ''--severity'' ''invalid finding severity: '') (\<lambda>severity.
     and_then (guard_ok (severity \<in> {''blocking'', ''nonblocking'', ''warning''}) (''invalid finding severity: '' @ severity)) (\<lambda>_.
     and_then (option_required opts ''--type'' ''finding-create requires --type TYPE'') (\<lambda>kind.
     and_then (option_required opts ''--summary'' ''finding-create requires --summary TEXT'') (\<lambda>summary.
     and_then (option_required opts ''--evidence-json'' ''finding-create requires --evidence-json JSON'') (\<lambda>raw.
     and_then (option_required opts ''--required-resolution'' ''finding-create requires --required-resolution TEXT'') (\<lambda>required.
     and_then (reject_newlines [(''--type'', kind), (''--summary'', summary), (''--required-resolution'', required)]) (\<lambda>_.
     and_then (from_str A raw ''invalid evidence JSON'') (\<lambda>evidence.
     and_then (validate_finding_evidence severity kind evidence) (\<lambda>_.
     Inr \<lparr>fr_id = i, fr_severity = severity, fr_kind = kind, fr_summary = summary, fr_evidence = evidence,
       fr_resolution = required, fr_affected = csv_unique (option_first opts ''--affected'')\<rparr>))))))))))))"

definition finding_json :: "finding_request \<Rightarrow> string \<Rightarrow> json" where
  "finding_json f created = JObj [(''id'', JStr (fr_id f)), (''severity'', JStr (fr_severity f)), (''type'', JStr (fr_kind f)),
     (''summary'', JStr (fr_summary f)), (''affected_paths'', JArr (map JStr (fr_affected f))),
     (''evidence'', fr_evidence f), (''required_resolution'', JStr (fr_resolution f)), (''created_at'', JStr created)]"

definition write_finding :: "sa_ctx \<Rightarrow> finding_request \<Rightarrow> string wf_cmd" where
  "write_finding A f =
     (let dir = finding_dir A (fr_id f); created = sa_now A 0
      in bind_c (sa_lock (sa_state A @ [''findings''])) (\<lambda>_.
         bind_c (lift_r (\<lambda>s. guard_ok (\<not> path_there s dir) (''finding already exists: '' @ fr_id f))) (\<lambda>_.
         bind_c (put (dir @ [''finding.env'']) (env_text [(''finding_id'', fr_id f), (''severity'', fr_severity f),
           (''type'', fr_kind f), (''summary'', fr_summary f), (''required_resolution'', fr_resolution f),
           (''created_at'', created), (''root'', config_root A)])) (\<lambda>_.
         bind_c (put (dir @ [''evidence.json'']) (wf_print (sa_wf A) (fr_evidence f) @ [NL])) (\<lambda>_.
         bind_c (put (dir @ [''affected-paths'']) (unlines (fr_affected f))) (\<lambda>_.
         bind_c (write_json A (dir @ [''finding.json'']) (finding_json f created)) (\<lambda>_.
         ret_c (unlines [join_with [TAB] [''finding created'', fr_id f, fr_severity f, fr_kind f]]))))))))"

definition finding_create :: "sa_ctx \<Rightarrow> string list \<Rightarrow> string wf_cmd" where
  "finding_create A args = bind_c (lift_r (\<lambda>_. parse_finding A args)) (write_finding A)"

definition finding_show :: "sa_ctx \<Rightarrow> string list \<Rightarrow> string wf_cmd" where
  "finding_show A args =
     lift_r (\<lambda>s.
       and_then (one_name ''finding-show'' args) (\<lambda>i.
       ok_or (lookup s (finding_dir A i @ [''finding.json''])) (''no finding: '' @ i)))"

definition finding_row :: "sa_ctx \<Rightarrow> files \<Rightarrow> string \<Rightarrow> string \<Rightarrow> string \<Rightarrow> error + string list" where
  "finding_row A s severity_filter type_filter i =
     and_then (sa_read_env s (finding_dir A i @ [''finding.env''])) (\<lambda>m.
     let severity = state_value m ''severity''; kind = state_value m ''type''
     in Inr (if (severity_filter \<noteq> [] \<and> severity_filter \<noteq> severity) \<or> (type_filter \<noteq> [] \<and> type_filter \<noteq> kind) then []
          else [join_with [TAB] [i, severity, kind, state_value m ''summary'']]))"

definition finding_list :: "sa_ctx \<Rightarrow> string list \<Rightarrow> string wf_cmd" where
  "finding_list A args =
     lift_r (\<lambda>s.
       and_then (repeated_options [] Map.empty args) (\<lambda>opts.
       and_then (collect_ok (finding_row A s (option_first opts ''--severity'') (option_first opts ''--type''))
         (sorted_directories s (sa_state A @ [''findings'']))) (\<lambda>rows.
       Inr (unlines (concat rows)))))"

section \<open>TODOs\<close>

definition TODO_ENV_ORDER :: "string list" where
  "TODO_ENV_ORDER = [''todo_id'', ''source_finding_id'', ''source_finding_hash'', ''assigned_to'', ''task'', ''created_at'',
     ''updated_at'', ''root'']"

definition todo_json :: "env \<Rightarrow> path \<Rightarrow> files \<Rightarrow> json" where
  "todo_json m dir s =
     (let list_of = (\<lambda>f. JArr (map JStr (nonempty_lines (read_or_empty s (dir @ [f])))));
          updated = state_value m ''updated_at''
      in JObj [(''todo_id'', JStr (state_value m ''todo_id'')), (''source_finding_id'', JStr (state_value m ''source_finding_id'')),
           (''source_finding_hash'', nullable (state_value m ''source_finding_hash'')),
           (''assigned_to'', nullable (state_value m ''assigned_to'')),
           (''status'', JStr (trim (read_or ''unknown'' s (dir @ [''status''])))), (''task'', JStr (state_value m ''task'')),
           (''context'', JStr (read_or_empty s (dir @ [''context.txt'']))), (''done_criteria'', list_of ''done-criteria''),
           (''required_commands'', list_of ''required-commands''), (''created_at'', JStr (state_value m ''created_at'')),
           (''updated_at'', JStr (if updated = [] then state_value m ''created_at'' else updated))])"

definition write_todo_json :: "sa_ctx \<Rightarrow> path \<Rightarrow> unit wf_cmd" where
  "write_todo_json A dir =
     bind_c (lift_r (\<lambda>s. and_then (sa_read_env s (dir @ [''todo.env''])) (\<lambda>m. Inr (todo_json m dir s)))) (\<lambda>v.
     write_json A (dir @ [''todo.json'']) v)"

definition update_todo_state_locked :: "sa_ctx \<Rightarrow> nat \<Rightarrow> path \<Rightarrow> string option \<Rightarrow> string \<Rightarrow> unit wf_cmd" where
  "update_todo_state_locked A k dir assigned_to status =
     bind_c (lift_r (\<lambda>s. sa_read_env s (dir @ [''todo.env'']))) (\<lambda>m.
     let m1 = (case assigned_to of None \<Rightarrow> m | Some v \<Rightarrow> m(''assigned_to'' \<mapsto> v)); m2 = m1(''updated_at'' \<mapsto> sa_now A k)
     in seq_c [put (dir @ [''todo.env'']) (env_text (map (\<lambda>key. (key, state_value m2 key)) TODO_ENV_ORDER)),
          put (dir @ [''status'']) (unlines [status]), write_todo_json A dir])"

definition update_todo_state :: "sa_ctx \<Rightarrow> string \<Rightarrow> string option \<Rightarrow> string \<Rightarrow> unit wf_cmd" where
  "update_todo_state A i assigned_to status =
     bind_c (sa_lock (sa_state A @ [''todos''])) (\<lambda>_.
     bind_c (lift_r (\<lambda>s. guard_ok (is_file s (todo_dir A i @ [''todo.env''])) (''no todo: '' @ i))) (\<lambda>_.
     update_todo_state_locked A 0 (todo_dir A i) assigned_to status))"

record todo_request =
  tr_id :: string
  tr_source :: string
  tr_task :: string
  tr_criteria :: "string list"
  tr_context :: string
  tr_context_file :: string
  tr_assigned :: string
  tr_commands :: "string list"

definition source_option :: "sa_options \<Rightarrow> error + string" where
  "source_option opts =
     (case or_else (opts ''--source-finding-id'') (opts ''--finding'') of
        Some (v # _) \<Rightarrow> if v \<noteq> [] then Inr v else Inl ''todo-create requires --source-finding-id FINDING_ID''
      | _ \<Rightarrow> Inl ''todo-create requires --source-finding-id FINDING_ID'')"

definition values_of :: "sa_options \<Rightarrow> string \<Rightarrow> string list" where
  "values_of opts key = (case opts key of None \<Rightarrow> [] | Some vs \<Rightarrow> vs)"

definition parse_todo :: "sa_ctx \<Rightarrow> string list \<Rightarrow> files \<Rightarrow> error + todo_request" where
  "parse_todo A args s =
     and_then (first_argument ''todo-create requires TODO_ID'' args) (\<lambda>i.
     and_then (validate_name i) (\<lambda>_.
     and_then (repeated_options [''--done-criteria'', ''--required-command''] Map.empty (tl args)) (\<lambda>opts.
     and_then (source_option opts) (\<lambda>source.
     and_then (validate_name source) (\<lambda>_.
     and_then (option_required opts ''--task'' ''todo-create requires --task TEXT'') (\<lambda>task.
     and_then (reject_newline ''--task'' task) (\<lambda>_.
     let criteria = values_of opts ''--done-criteria''; context = option_first opts ''--context'';
         context_file = option_first opts ''--context-file''; assigned = option_first opts ''--assigned-to''
     in and_then (guard_ok (criteria \<noteq> []) ''todo-create requires at least one --done-criteria TEXT'') (\<lambda>_.
        and_then (all_ok (reject_newline ''--done-criteria'') criteria) (\<lambda>_.
        and_then (guard_ok (context = [] \<or> context_file = []) ''todo-create accepts only one of --context or --context-file'') (\<lambda>_.
        and_then (guard_ok (context_file = [] \<or> is_file s (text_file (sa_wf A) context_file))
          (''context file not found: '' @ context_file)) (\<lambda>_.
        and_then (if assigned = [] then Inr () else validate_name assigned) (\<lambda>_.
        Inr \<lparr>tr_id = i, tr_source = source, tr_task = task, tr_criteria = criteria, tr_context = context,
          tr_context_file = context_file, tr_assigned = assigned, tr_commands = values_of opts ''--required-command''\<rparr>))))))))))))"

definition criterion_command :: "string \<Rightarrow> string option" where
  "criterion_command c =
     (case strip_prefix ''run '' c of None \<Rightarrow> None | Some r \<Rightarrow> if trim r = [] then None else Some (trim r))"

definition required_commands :: "todo_request \<Rightarrow> string list" where
  "required_commands t =
     foldl push_unique (foldl push_unique [] (List.map_filter criterion_command (tr_criteria t))) (tr_commands t)"

definition required_command_ok :: "string \<Rightarrow> error + unit" where
  "required_command_ok c =
     and_then (reject_newline ''--required-command'' c) (\<lambda>_.
     guard_ok (c \<noteq> []) ''todo-create --required-command may not be empty'')"

definition todo_open_status :: "todo_request \<Rightarrow> string" where
  "todo_open_status t = (if tr_assigned t = [] then ''open'' else ''assigned'')"

text \<open>The required commands are checked only after the first two files of the TODO are written.\<close>

definition write_todo :: "sa_ctx \<Rightarrow> todo_request \<Rightarrow> string \<Rightarrow> unit wf_cmd" where
  "write_todo A t source_hash =
     (let dir = todo_dir A (tr_id t)
      in seq_c [
        put (dir @ [''todo.env'']) (env_text [(''todo_id'', tr_id t), (''source_finding_id'', tr_source t),
          (''source_finding_hash'', source_hash), (''assigned_to'', tr_assigned t), (''task'', tr_task t),
          (''created_at'', sa_now A 0), (''updated_at'', sa_now A 1), (''root'', config_root A)]),
        put (dir @ [''done-criteria'']) (unlines (tr_criteria t)),
        lift_r (\<lambda>_. all_ok required_command_ok (tr_commands t)),
        put (dir @ [''required-commands'']) (unlines (required_commands t)),
        bind_c (lift_r (\<lambda>s. if tr_context_file t = [] then Inr (unlines [tr_context t])
            else ok_or (lookup s (text_file (sa_wf A) (tr_context_file t))) ''read context file''))
          (put (dir @ [''context.txt''])),
        put (dir @ [''status'']) (unlines [todo_open_status t]),
        write_todo_json A dir])"

definition todo_create :: "sa_ctx \<Rightarrow> string list \<Rightarrow> string wf_cmd" where
  "todo_create A args =
     bind_c (lift_r (parse_todo A args)) (\<lambda>t.
     bind_c (lift_r (\<lambda>s. guard_ok (is_file s (finding_dir A (tr_source t) @ [''finding.env''])) (''no finding: '' @ tr_source t))) (\<lambda>_.
     bind_c (lift_r (\<lambda>s. file_sha256 A s (finding_dir A (tr_source t) @ [''finding.json'']))) (\<lambda>source_hash.
     bind_c (sa_lock (sa_state A @ [''todos''])) (\<lambda>_.
     bind_c (lift_r (\<lambda>s. guard_ok (\<not> path_there s (todo_dir A (tr_id t))) (''todo already exists: '' @ tr_id t))) (\<lambda>_.
     bind_c (write_todo A t source_hash) (\<lambda>_.
     ret_c (unlines [join_with [TAB] [''todo created'', tr_id t, tr_source t, todo_open_status t]])))))))"

definition todo_show :: "sa_ctx \<Rightarrow> string list \<Rightarrow> string wf_cmd" where
  "todo_show A args =
     bind_c (lift_r (\<lambda>_. one_name ''todo-show'' args)) (\<lambda>i.
     bind_c (lift_r (\<lambda>s. guard_ok (is_file s (todo_dir A i @ [''todo.json''])) (''no todo: '' @ i))) (\<lambda>_.
     bind_c (write_todo_json A (todo_dir A i)) (\<lambda>_.
     lift_r (\<lambda>s. ok_or (lookup s (todo_dir A i @ [''todo.json''])) ''read todo''))))"

definition todo_row :: "sa_ctx \<Rightarrow> files \<Rightarrow> string \<Rightarrow> string \<Rightarrow> error + string list" where
  "todo_row A s status_filter i =
     and_then (sa_read_env s (todo_dir A i @ [''todo.env''])) (\<lambda>m.
     let status = trim (read_or ''unknown'' s (todo_dir A i @ [''status''])); assigned = state_value m ''assigned_to''
     in Inr (if status_filter \<noteq> [] \<and> status_filter \<noteq> status then []
          else [join_with [TAB] [i, status, state_value m ''source_finding_id'', if assigned = [] then ''-'' else assigned,
            state_value m ''task'']]))"

definition todo_list :: "sa_ctx \<Rightarrow> string list \<Rightarrow> string wf_cmd" where
  "todo_list A args =
     lift_r (\<lambda>s.
       and_then (repeated_options [] Map.empty args) (\<lambda>opts.
       and_then (collect_ok (todo_row A s (option_first opts ''--status'')) (sorted_directories s (sa_state A @ [''todos'']))) (\<lambda>rows.
       Inr (unlines (concat rows)))))"

definition todo_assign :: "sa_ctx \<Rightarrow> string list \<Rightarrow> string wf_cmd" where
  "todo_assign A args =
     (case args of
        [i, name] \<Rightarrow>
          bind_c (lift_r (\<lambda>_. and_then (validate_name i) (\<lambda>_. validate_name name))) (\<lambda>_.
          bind_c (update_todo_state A i (Some name) ''assigned'') (\<lambda>_.
          ret_c (unlines [join_with [TAB] [''todo assigned'', i, name]])))
      | _ \<Rightarrow> lift_r (\<lambda>_. Inl ''todo-assign requires TODO_ID NAME''))"

definition sa_todo_status :: "sa_ctx \<Rightarrow> string list \<Rightarrow> string wf_cmd" where
  "sa_todo_status A args =
     (case args of
        [i, status] \<Rightarrow>
          bind_c (lift_r (\<lambda>_. and_then (validate_name i) (\<lambda>_.
            guard_ok (status \<in> {''open'', ''assigned'', ''resolved'', ''reopened'', ''closed''}) (''invalid todo status: '' @ status)))) (\<lambda>_.
          bind_c (update_todo_state A i None status) (\<lambda>_.
          ret_c (unlines [join_with [TAB] [''todo status'', i, status]])))
      | _ \<Rightarrow> lift_r (\<lambda>_. Inl ''todo-status requires TODO_ID STATUS''))"

section \<open>Commands that were run\<close>

definition normalized_command :: "string \<Rightarrow> string" where
  "normalized_command c = join_with '' '' (split_whitespace c)"

definition row_command :: "json \<Rightarrow> string option" where
  "row_command row =
     or_else (Option.bind (or_else (jget row ''cmd'') (jget row ''command_text'')) as_str)
       (map_option (\<lambda>parts. join_with '' '' (map (\<lambda>x. case as_str x of Some t \<Rightarrow> t | None \<Rightarrow> []) parts))
         (Option.bind (jget row ''command'') as_array))"

definition successful_row :: "json \<Rightarrow> string option" where
  "successful_row row =
     (if \<not> is_object row then None
      else let rc = (case Option.bind (or_else (jget row ''rc'') (jget row ''returncode'')) json_integer of Some n \<Rightarrow> n | None \<Rightarrow> 0)
        in if rc \<noteq> 0 then None
           else case row_command row of
             None \<Rightarrow> None
           | Some c \<Rightarrow> if normalized_command c = [] then None else Some (normalized_command c))"

definition successful_commands :: "json \<Rightarrow> string list" where
  "successful_commands v =
     (let items = (if is_object v then Option.bind (or_else (jget v ''commands'') (jget v ''validation'')) as_array else as_array v)
      in sort (remdups (List.map_filter successful_row (case items of None \<Rightarrow> [] | Some vs \<Rightarrow> vs))))"

definition validate_required_commands :: "files \<Rightarrow> path \<Rightarrow> string \<Rightarrow> json \<Rightarrow> error + unit" where
  "validate_required_commands s dir label v =
     all_ok (\<lambda>c. guard_ok (normalized_command c \<in> set (successful_commands v))
       (label @ '' for todo '' @ last dir @ '' missing required command: '' @ c))
       (nonempty_lines (read_or_empty s (dir @ [''required-commands''])))"

section \<open>Resolutions\<close>

definition resolution_item :: "string \<Rightarrow> nat \<times> json \<Rightarrow> error + unit" where
  "resolution_item status = (\<lambda>(index, item).
     and_then (guard_ok (is_object item) (''validation item '' @ show_nat index @ '' must be an object'')) (\<lambda>_.
     let rc = jget item ''rc'';
         source = list_ex (has_nonempty item) [''source_reasoning'', ''source_evidence'', ''evidence'']
     in and_then (guard_ok ((has_text item ''cmd'' \<and> rc \<noteq> None) \<or> source)
          (''validation item '' @ show_nat index @ '' needs cmd+rc or source evidence'')) (\<lambda>_.
        case rc of
          None \<Rightarrow> Inr ()
        | Some raw \<Rightarrow>
            and_then (ok_or (json_integer raw) (''validation item '' @ show_nat index @ '' rc must be an integer'')) (\<lambda>n.
            guard_ok (\<not> (status = ''resolved'' \<and> n \<noteq> 0))
              (''resolved validation item '' @ show_nat index @ '' has nonzero rc='' @ show_int n)))))"

definition validate_resolution :: "string \<Rightarrow> json \<Rightarrow> error + unit" where
  "validate_resolution status v =
     (case as_array v of
        None \<Rightarrow> Inl ''validation JSON must be a non-empty array''
      | Some items \<Rightarrow>
          if items = [] then Inl ''validation JSON must be a non-empty array''
          else all_ok (resolution_item status) (enumerate 0 items))"

definition resolution_json :: "env \<Rightarrow> string list \<Rightarrow> json \<Rightarrow> json" where
  "resolution_json m changed validation = JObj [(''todo_id'', JStr (state_value m ''todo_id'')),
     (''status'', JStr (state_value m ''status'')), (''worker'', JStr (state_value m ''worker'')),
     (''changed_paths'', JArr (map JStr changed)), (''validation'', validation),
     (''why_resolved'', JStr (state_value m ''why_resolved'')), (''created_at'', JStr (state_value m ''created_at''))]"

definition write_resolution_json :: "sa_ctx \<Rightarrow> path \<Rightarrow> unit wf_cmd" where
  "write_resolution_json A dir =
     bind_c (lift_r (\<lambda>s.
       and_then (sa_read_env s (dir @ [''resolution.env''])) (\<lambda>m.
       and_then (read_json A s (dir @ [''validation.json'']) ''read validation'' ''invalid validation JSON'') (\<lambda>validation.
       Inr (resolution_json m (nonempty_lines (read_or_empty s (dir @ [''changed-paths'']))) validation))))) (\<lambda>v.
     write_json A (dir @ [''resolution.json'']) v)"

record resolution_request =
  rr_todo :: string
  rr_worker :: string
  rr_status :: string
  rr_validation :: string
  rr_why :: string
  rr_changed :: "string list"

definition parse_resolution :: "string list \<Rightarrow> error + resolution_request" where
  "parse_resolution args =
     and_then (case args of i # _ \<Rightarrow> if i \<noteq> [] \<and> \<not> starts_with ''--'' i then Inr i else Inl ''resolution-create requires TODO_ID''
       | [] \<Rightarrow> Inl ''resolution-create requires TODO_ID'') (\<lambda>i.
     and_then (validate_name i) (\<lambda>_.
     and_then (repeated_options [] Map.empty (tl args)) (\<lambda>opts.
     and_then (option_required opts ''--worker'' ''resolution-create requires --worker NAME'') (\<lambda>worker.
     and_then (validate_name worker) (\<lambda>_.
     and_then (option_required opts ''--status'' ''resolution-create requires --status resolved|blocked'') (\<lambda>status.
     and_then (guard_ok (status \<in> {''resolved'', ''blocked''}) (''invalid resolution status: '' @ status)) (\<lambda>_.
     and_then (option_required opts ''--validation-json'' ''resolution-create requires --validation-json JSON'') (\<lambda>raw.
     and_then (option_required opts ''--why'' ''resolution-create requires --why TEXT'') (\<lambda>why.
     Inr \<lparr>rr_todo = i, rr_worker = worker, rr_status = status, rr_validation = raw, rr_why = why,
       rr_changed = csv_unique (option_first opts ''--changed'')\<rparr>)))))))))"

text \<open>The commands a command runs itself take the time stamps from the \<open>k\<close>-th on.\<close>

definition later :: "nat \<Rightarrow> sa_ctx \<Rightarrow> sa_ctx" where
  "later k A = A\<lparr>sa_wf := (sa_wf A)\<lparr>wf_now := (\<lambda>n. sa_now A (k + n))\<rparr>\<rparr>"

definition autocreate_todo :: "sa_ctx \<Rightarrow> resolution_request \<Rightarrow> string wf_cmd" where
  "autocreate_todo A r =
     (let finding = ''auto-'' @ rr_todo r
      in bind_c (lift_r (\<lambda>s. Inr (is_file s (finding_dir A finding @ [''finding.env''])))) (\<lambda>registered.
         bind_c (if registered then ret_c []
           else finding_create A [finding, ''--severity'', ''blocking'', ''--type'', ''worker_resolution_without_registered_todo'',
             ''--summary'', ''Worker recorded a resolution for an unregistered todo.'', ''--evidence-json'',
             wf_print (sa_wf A) (JObj [(''source'', JStr ''resolution-create-autocreate''), (''evidence'', JStr (rr_why r))]),
             ''--required-resolution'', ''Create durable todo state before assigning worker repairs; verifier must close the todo after rechecking the worker resolution.'']) (\<lambda>first.
         bind_c (todo_create (later 1 A) [rr_todo r, ''--source-finding-id'', finding, ''--task'',
           ''Record and verify worker resolution evidence.'', ''--context'', rr_why r, ''--done-criteria'',
           ''worker records structured resolution evidence'', ''--done-criteria'',
           ''verifier closes todo only after objective recheck'']) (\<lambda>second.
         ret_c (first @ second)))))"

definition resolution_checks :: "sa_ctx \<Rightarrow> resolution_request \<Rightarrow> files \<Rightarrow> error + json" where
  "resolution_checks A r s =
     and_then (guard_ok (is_file s (todo_dir A (rr_todo r) @ [''todo.env''])) (''no todo: '' @ rr_todo r)) (\<lambda>_.
     and_then (reject_newline ''--why'' (rr_why r)) (\<lambda>_.
     and_then (from_str A (rr_validation r) ''invalid validation JSON'') (\<lambda>validation.
     and_then (validate_resolution (rr_status r) validation) (\<lambda>_.
     and_then (if rr_status r = ''resolved''
       then validate_required_commands s (todo_dir A (rr_todo r)) ''worker resolution'' validation else Inr ()) (\<lambda>_.
     Inr validation)))))"

definition write_resolution :: "sa_ctx \<Rightarrow> resolution_request \<Rightarrow> json \<Rightarrow> unit wf_cmd" where
  "write_resolution A r validation =
     (let dir = todo_dir A (rr_todo r)
      in seq_c [
        put (dir @ [''resolution.env'']) (env_text [(''todo_id'', rr_todo r), (''status'', rr_status r), (''worker'', rr_worker r),
          (''why_resolved'', rr_why r), (''created_at'', sa_now A 3)]),
        put (dir @ [''validation.json'']) (wf_print (sa_wf A) validation @ [NL]),
        put (dir @ [''changed-paths'']) (unlines (rr_changed r)),
        write_resolution_json A dir,
        update_todo_state_locked A 4 dir None (if rr_status r = ''resolved'' then ''resolved'' else ''reopened'')])"

definition resolution_create :: "sa_ctx \<Rightarrow> string list \<Rightarrow> string wf_cmd" where
  "resolution_create A args =
     bind_c (lift_r (\<lambda>_. parse_resolution args)) (\<lambda>r.
     bind_c (lift_r (\<lambda>s. Inr (\<not> is_file s (todo_dir A (rr_todo r) @ [''todo.env'']) \<and>
       sa_environ A ''MULTIAGENT_RESOLUTION_AUTOCREATE_TODO'' = Some ''1''))) (\<lambda>auto.
     bind_c (if auto then autocreate_todo A r else ret_c []) (\<lambda>printed.
     bind_c (lift_r (resolution_checks A r)) (\<lambda>validation.
     bind_c (sa_lock (sa_state A @ [''todos''])) (\<lambda>_.
     bind_c (write_resolution A r validation) (\<lambda>_.
     ret_c (printed @ unlines [join_with [TAB] [''resolution recorded'', rr_todo r, rr_worker r, rr_status r]])))))))"

section \<open>Closing and dismissing\<close>

definition recheck_command :: "nat \<times> json \<Rightarrow> error + unit" where
  "recheck_command = (\<lambda>(index, row).
     and_then (guard_ok (is_object row) (''recheck command '' @ show_nat index @ '' must be an object'')) (\<lambda>_.
     and_then (guard_ok (has_text row ''cmd'') (''recheck command '' @ show_nat index @ '' missing cmd'')) (\<lambda>_.
     and_then (ok_or (jget row ''rc'') (''recheck command '' @ show_nat index @ '' missing rc'')) (\<lambda>raw.
     and_then (ok_or (json_integer raw) (''recheck command '' @ show_nat index @ '' rc must be an integer'')) (\<lambda>n.
     guard_ok (n = 0) (''recheck command '' @ show_nat index @ '' has nonzero rc='' @ show_int n))))))"

definition validate_closure :: "json \<Rightarrow> error + unit" where
  "validate_closure v =
     and_then (guard_ok (is_object v) ''recheck JSON must be an object'') (\<lambda>_.
     and_then (guard_ok (jget v ''accepted'' = Some (JBool True)) ''recheck JSON must include accepted=true'') (\<lambda>_.
     and_then (guard_ok (list_ex (\<lambda>k. jget v k \<noteq> None)
         [''finding_rechecked'', ''source_finding_id'', ''commands'', ''evidence'', ''final_diff_hash''])
       ''recheck JSON must name the finding, commands, evidence, or final diff hash'') (\<lambda>_.
     case jget v ''commands'' of
       None \<Rightarrow> Inr ()
     | Some commands \<Rightarrow>
         and_then (ok_or (as_array commands) ''recheck commands must be an array when present'') (\<lambda>rows.
         all_ok recheck_command (enumerate 0 rows)))))"

definition recheck_names :: "json \<Rightarrow> string list" where
  "recheck_names v = List.map_filter (get_str v) [''finding_rechecked'', ''source_finding_id'']"

definition missing_commands :: "json \<Rightarrow> json \<Rightarrow> string list" where
  "missing_commands resolution recheck =
     filter (\<lambda>c. c \<notin> set (successful_commands recheck)) (successful_commands resolution)"

definition validate_closure_matches :: "string \<Rightarrow> string \<Rightarrow> string \<Rightarrow> json \<Rightarrow> json \<Rightarrow> error + unit" where
  "validate_closure_matches todo source source_hash resolution recheck =
     and_then (guard_ok (is_object recheck) ''recheck JSON must be an object'') (\<lambda>_.
     and_then (guard_ok (source \<in> set (recheck_names recheck))
       (''recheck JSON for todo '' @ todo @ '' must name source finding '' @ source)) (\<lambda>_.
     and_then (guard_ok (case get_str recheck ''source_finding_hash'' of None \<Rightarrow> True | Some h \<Rightarrow> h = [] \<or> h = source_hash)
       (''recheck JSON for todo '' @ todo @ '' must match source finding hash '' @ source_hash)) (\<lambda>_.
     guard_ok (missing_commands resolution recheck = [])
       (''recheck JSON for todo '' @ todo @ '' must cover worker validation command(s): ''
         @ join_with '', '' (missing_commands resolution recheck)))))"

record closing_request =
  cr_id :: string
  cr_verified :: string
  cr_recheck :: string
  cr_notes :: string

definition parse_closing :: "string \<Rightarrow> string \<Rightarrow> string list \<Rightarrow> error + closing_request" where
  "parse_closing command what args =
     and_then (first_argument (command @ '' requires '' @ what) args) (\<lambda>i.
     and_then (validate_name i) (\<lambda>_.
     and_then (repeated_options [] Map.empty (tl args)) (\<lambda>opts.
     and_then (option_required opts ''--verified-by'' (command @ '' requires --verified-by NAME'')) (\<lambda>verified.
     and_then (validate_name verified) (\<lambda>_.
     and_then (option_required opts ''--recheck-json'' (command @ '' requires --recheck-json JSON'')) (\<lambda>raw.
     and_then (reject_newline ''--notes'' (option_first opts ''--notes'')) (\<lambda>_.
     Inr \<lparr>cr_id = i, cr_verified = verified, cr_recheck = raw, cr_notes = option_first opts ''--notes''\<rparr>)))))))"

definition closing_evidence :: "sa_ctx \<Rightarrow> closing_request \<Rightarrow> files \<Rightarrow> error + (path \<times> string)" where
  "closing_evidence A r s =
     (if uid_authority_child A \<or> hash_bound A then verifier_evidence A s (cr_verified r) ''todo-close''
      else Inr (sa_state A @ [''subagents'', cr_verified r, ''last-message.txt''], []))"

definition close_checks :: "sa_ctx \<Rightarrow> closing_request \<Rightarrow> files \<Rightarrow> error + (path \<times> env \<times> json)" where
  "close_checks A r s =
     (let dir = todo_dir A (cr_id r)
      in and_then (guard_ok (is_file s (dir @ [''todo.env''])) (''no todo: '' @ cr_id r)) (\<lambda>_.
         and_then (guard_ok (trim (read_or_empty s (dir @ [''status''])) = ''resolved'') ''todo-close requires a resolved todo'') (\<lambda>_.
         and_then (guard_ok (is_file s (dir @ [''resolution.json''])) ''todo-close requires worker resolution evidence'') (\<lambda>_.
         and_then (from_str A (cr_recheck r) ''invalid recheck JSON'') (\<lambda>recheck.
         and_then (validate_closure recheck) (\<lambda>_.
         and_then (validate_required_commands s dir ''verifier recheck'' recheck) (\<lambda>_.
         and_then (closing_evidence A r s) (\<lambda>(p, evidence).
         and_then (current_final_diff_sha256 A) (\<lambda>final_hash.
         and_then (guard_ok (final_hash = [] \<or> eq_ignore_ascii_case (reported_hash recheck) final_hash)
           (''todo-close must bind to final diff '' @ final_hash)) (\<lambda>_.
         and_then (guard_ok (final_hash = [] \<or> evidence_matches_hash evidence final_hash)
           (''todo-close verifier '' @ cr_verified r @ '' is not bound to final diff '' @ final_hash)) (\<lambda>_.
         and_then (sa_read_env s (dir @ [''todo.env''])) (\<lambda>m.
         and_then (read_json A s (dir @ [''resolution.json'']) ''read resolution'' ''invalid resolution JSON'') (\<lambda>resolution.
         and_then (validate_closure_matches (cr_id r) (state_value m ''source_finding_id'') (state_value m ''source_finding_hash'')
           resolution recheck) (\<lambda>_.
         Inr (p, m, recheck)))))))))))))))"

definition closure_json :: "closing_request \<Rightarrow> path \<Rightarrow> env \<Rightarrow> json \<Rightarrow> string \<Rightarrow> json" where
  "closure_json r p m recheck created = JObj [(''todo_id'', JStr (cr_id r)),
     (''source_finding_id'', JStr (state_value m ''source_finding_id'')),
     (''source_finding_hash'', nullable (state_value m ''source_finding_hash'')), (''verified_by'', JStr (cr_verified r)),
     (''verifier_evidence'', JStr (display p)), (''recheck'', recheck), (''notes'', JStr (cr_notes r)),
     (''created_at'', JStr created)]"

definition write_closure :: "sa_ctx \<Rightarrow> closing_request \<Rightarrow> path \<times> env \<times> json \<Rightarrow> unit wf_cmd" where
  "write_closure A r = (\<lambda>(p, m, recheck).
     let dir = todo_dir A (cr_id r); created = sa_now A 0
     in seq_c [
       put (dir @ [''closure.env'']) (env_text [(''todo_id'', cr_id r), (''source_finding_id'', state_value m ''source_finding_id''),
         (''source_finding_hash'', state_value m ''source_finding_hash''), (''verified_by'', cr_verified r), (''notes'', cr_notes r),
         (''created_at'', created)]),
       put (dir @ [''recheck.json'']) (wf_print (sa_wf A) recheck @ [NL]),
       write_json A (dir @ [''closure.json'']) (closure_json r p m recheck created),
       update_todo_state_locked A 1 dir None ''closed''])"

definition todo_close :: "sa_ctx \<Rightarrow> string list \<Rightarrow> string wf_cmd" where
  "todo_close A args =
     bind_c (lift_r (\<lambda>_. parse_closing ''todo-close'' ''TODO_ID'' args)) (\<lambda>r.
     bind_c (lift_r (close_checks A r)) (\<lambda>checked.
     bind_c (sa_lock (sa_state A @ [''todos''])) (\<lambda>_.
     bind_c (write_closure A r checked) (\<lambda>_.
     ret_c (unlines [join_with [TAB] [''todo closed'', cr_id r, cr_verified r]])))))"

definition linked_todos :: "sa_ctx \<Rightarrow> files \<Rightarrow> string \<Rightarrow> string list" where
  "linked_todos A s i =
     filter (\<lambda>t. case sa_read_env s (todo_dir A t @ [''todo.env'']) of
         Inl _ \<Rightarrow> False | Inr m \<Rightarrow> state_value m ''source_finding_id'' = i)
       (sorted_directories s (sa_state A @ [''todos'']))"

definition dismissal_recheck_named :: "json \<Rightarrow> string \<Rightarrow> bool" where
  "dismissal_recheck_named v i \<longleftrightarrow> i \<in> set (map trim (recheck_names v))"

definition disposition_ok :: "json \<Rightarrow> bool" where
  "disposition_ok v \<longleftrightarrow> get_str v ''disposition'' \<in> {Some ''invalid'', Some ''superseded'', Some ''not_reproducible''}"

definition dismissal_checks ::
  "sa_ctx \<Rightarrow> closing_request \<Rightarrow> files \<Rightarrow> error + (string list \<times> path \<times> json \<times> string)" where
  "dismissal_checks A r s =
     (let i = cr_id r; dir = finding_dir A i
      in and_then (guard_ok (is_file s (dir @ [''finding.json''])) (''no finding: '' @ i)) (\<lambda>_.
         and_then (guard_ok (\<not> is_file s (dir @ [''dismissal.json''])) (''finding already dismissed: '' @ i)) (\<lambda>_.
         and_then (verifier_evidence A s (cr_verified r) ''finding-dismiss'') (\<lambda>(p, evidence).
         and_then (from_str A (cr_recheck r) ''invalid finding dismissal recheck'') (\<lambda>recheck.
         and_then (guard_ok (is_object recheck) ''finding dismissal recheck must be an object'') (\<lambda>_.
         and_then (guard_ok (jget recheck ''accepted'' = Some (JBool True)) ''finding dismissal recheck must include accepted=true'') (\<lambda>_.
         and_then (guard_ok (dismissal_recheck_named recheck i) (''finding dismissal recheck must name finding '' @ i)) (\<lambda>_.
         and_then (guard_ok (disposition_ok recheck)
           ''finding dismissal disposition must be invalid, superseded, or not_reproducible'') (\<lambda>_.
         and_then (guard_ok (has_nonempty recheck ''evidence'') ''finding dismissal requires concrete recheck evidence'') (\<lambda>_.
         and_then (file_sha256 A s (dir @ [''finding.json''])) (\<lambda>finding_hash.
         and_then (current_final_diff_sha256 A) (\<lambda>final_hash.
         and_then (guard_ok (final_hash = [] \<or> eq_ignore_ascii_case (reported_hash recheck) final_hash)
           (''finding dismissal must bind to final diff '' @ final_hash)) (\<lambda>_.
         and_then (guard_ok (final_hash = [] \<or> dismissal_bound evidence final_hash)
           (''finding dismissal verifier '' @ cr_verified r @ '' is not bound to final diff '' @ final_hash)) (\<lambda>_.
         Inr (linked_todos A s i, p, recheck, finding_hash)))))))))))))))"

definition dismissal_json :: "closing_request \<Rightarrow> path \<Rightarrow> json \<Rightarrow> string \<Rightarrow> json" where
  "dismissal_json r p recheck finding_hash = JObj [(''finding_id'', JStr (cr_id r)), (''finding_hash'', JStr finding_hash),
     (''verified_by'', JStr (cr_verified r)), (''verifier_evidence'', JStr (display p)), (''recheck'', recheck),
     (''notes'', JStr (cr_notes r))]"

definition supersession_json :: "closing_request \<Rightarrow> path \<Rightarrow> json \<Rightarrow> string \<Rightarrow> string \<Rightarrow> json" where
  "supersession_json r p recheck finding_hash t = JObj [(''todo_id'', JStr t), (''source_finding_id'', JStr (cr_id r)),
     (''source_finding_hash'', JStr finding_hash), (''verified_by'', JStr (cr_verified r)),
     (''verifier_evidence'', JStr (display p)), (''recheck'', recheck)]"

text \<open>Each superseded TODO takes a time stamp of its own.\<close>

fun supersede_all :: "sa_ctx \<Rightarrow> nat \<Rightarrow> (string \<Rightarrow> json) \<Rightarrow> string list \<Rightarrow> unit wf_cmd" where
  "supersede_all A k supersession [] = ret_c ()"
| "supersede_all A k supersession (t # ts) =
     bind_c (write_json A (todo_dir A t @ [''supersession.json'']) (supersession t)) (\<lambda>_.
     bind_c (update_todo_state_locked A k (todo_dir A t) None ''superseded'') (\<lambda>_.
     supersede_all A (Suc k) supersession ts))"

definition finding_dismiss :: "sa_ctx \<Rightarrow> string list \<Rightarrow> string wf_cmd" where
  "finding_dismiss A args =
     bind_c (lift_r (\<lambda>_. parse_closing ''finding-dismiss'' ''FINDING_ID'' args)) (\<lambda>r.
     bind_c (sa_lock (sa_state A @ [''todos''])) (\<lambda>_.
     bind_c (sa_lock (sa_state A @ [''findings''])) (\<lambda>_.
     bind_c (lift_r (dismissal_checks A r)) (\<lambda>(linked, p, recheck, finding_hash).
     bind_c (write_json A (finding_dir A (cr_id r) @ [''dismissal.json'']) (dismissal_json r p recheck finding_hash)) (\<lambda>_.
     bind_c (supersede_all A 0 (supersession_json r p recheck finding_hash) linked) (\<lambda>_.
     ret_c (unlines [join_with [TAB] [''finding dismissed'', cr_id r, cr_verified r]])))))))"

end
