(* ===== verification/Subagent_Gate.thy ===== *)
theory Subagent_Gate
  imports Subagent_Todos
begin

text \<open>
  The completion gate of the subagents (\<open>runtime/src/subagent.rs\<close>): no verifier is at work, the last verdict accepts the
  current diff, every blocking finding is dismissed or queued and closed, and every TODO is closed or superseded with
  evidence that is still what it was.

  \<open>sa_mtime\<close> gives the modification time of a file. Directories are listed in the order of their names. A parsed
  object lists its members in the order of their keys, so equality of values is equality of what they hold.
\<close>

section \<open>Verifiers\<close>

definition verifier_name :: "string \<Rightarrow> bool" where
  "verifier_name n \<longleftrightarrow>
     (let l = to_ascii_lowercase n in contains_str ''verifier'' l \<and> \<not> contains_str ''build-verifier'' l)"

definition verifier_dirs :: "sa_ctx \<Rightarrow> files \<Rightarrow> string list" where
  "verifier_dirs A s = filter verifier_name (sorted_directories s (sa_state A @ [''subagents'']))"

definition subagent_file :: "sa_ctx \<Rightarrow> string \<Rightarrow> string \<Rightarrow> path" where
  "subagent_file A n f = sa_state A @ [''subagents'', n, f]"

definition hash_part :: "string \<Rightarrow> bool" where
  "hash_part p \<longleftrightarrow>
     (case split_once CHR ''='' p of
        None \<Rightarrow> False
      | Some (key, h) \<Rightarrow>
          key \<in> {''final_diff_sha256'', ''final-diff-sha256'', ''final_diff_hash'', ''final-diff-hash''} \<and>
          length h = 64 \<and> list_all is_ascii_hexdigit h)"

definition verifier_hash_suffix :: "string \<Rightarrow> bool" where
  "verifier_hash_suffix v \<longleftrightarrow> list_all hash_part (split_whitespace v)"

text \<open>The text before the first white space, semicolon, comma, dot or colon.\<close>

fun until_break :: "string \<Rightarrow> string" where
  "until_break [] = []"
| "until_break (c # cs) =
     (if leading_in white_space (c # cs) \<noteq> 0 \<or> c \<in> {CHR '';'', CHR '','', CHR ''.'', CHR '':''} then []
      else c # until_break cs)"

definition recommendation :: "string \<Rightarrow> string option" where
  "recommendation line =
     (let lower = to_ascii_lowercase (trim line)
      in map_option (\<lambda>v. until_break (trim v))
           (or_else (strip_prefix ''final recommendation:'' lower) (or_else (strip_prefix ''final-recommendation:'' lower)
             (or_else (strip_prefix ''recommendation:'' lower) (strip_prefix ''recommendation='' lower)))))"

fun recommended :: "string list \<Rightarrow> string" where
  "recommended [] = ''MISSING''"
| "recommended (l # ls) =
     (case recommendation l of
        None \<Rightarrow> recommended ls
      | Some r \<Rightarrow>
          if r \<in> {''accept'', ''accepted''} then ''ACCEPTED''
          else if r \<in> {''block'', ''blocking'', ''reject'', ''rejected''} then ''BLOCKING''
          else recommended ls)"

definition report_verdict :: "string \<Rightarrow> string" where
  "report_verdict t =
     (let lower = to_ascii_lowercase (first_line t);
          normalized = trim (case or_else (strip_prefix ''verdict:'' lower) (strip_prefix ''verdict='' lower) of
            Some r \<Rightarrow> r | None \<Rightarrow> lower)
      in if normalized = ''accepted'' \<or> after_prefix ''accepted '' normalized verifier_hash_suffix then ''ACCEPTED''
         else if normalized \<in> {''blocking'', ''rejected''} \<or> after_prefix ''blocking '' normalized verifier_hash_suffix
         then ''BLOCKING''
         else recommended (lines t))"

definition verifier_status :: "sa_ctx \<Rightarrow> files \<Rightarrow> string \<Rightarrow> string" where
  "verifier_status A s n = trim (read_or_empty s (subagent_file A n ''status''))"

definition verifier_active :: "sa_ctx \<Rightarrow> files \<Rightarrow> string \<Rightarrow> bool" where
  "verifier_active A s n \<longleftrightarrow> verifier_status A s n \<in> {''running'', ''starting'', ''pending''}"

definition reconcile_verifier :: "sa_ctx \<Rightarrow> string \<Rightarrow> files \<Rightarrow> files" where
  "reconcile_verifier A n s =
     (if \<not> verifier_active A s n then s
      else let verdict = report_verdict (read_or_empty s (subagent_file A n ''last-message.txt''))
        in if verdict = ''ACCEPTED'' then write_file (subagent_file A n ''status'') (unlines [''done'']) s
           else if verdict = ''BLOCKING'' then write_file (subagent_file A n ''status'') (unlines [''blocked'']) s
           else s)"

definition reconcile_terminal_verifiers :: "sa_ctx \<Rightarrow> unit wf_cmd" where
  "reconcile_terminal_verifiers A = modify_c (\<lambda>s. fold (reconcile_verifier A) (verifier_dirs A s) s)"

definition active_verifiers :: "sa_ctx \<Rightarrow> files \<Rightarrow> (string \<times> string) list" where
  "active_verifiers A s =
     map (\<lambda>n. (n, verifier_status A s n)) (filter (verifier_active A s) (verifier_dirs A s))"

text \<open>The directories are sorted by name and the sort is stable, so it orders by time and then by path.\<close>

definition latest_verifier_verdict :: "sa_ctx \<Rightarrow> files \<Rightarrow> (string \<times> string \<times> path) option" where
  "latest_verifier_verdict A s =
     (let candidates = sort_key (\<lambda>n. sa_mtime A (subagent_file A n ''last-message.txt''))
            (filter (\<lambda>n. is_file s (subagent_file A n ''last-message.txt'')) (verifier_dirs A s))
      in if candidates = [] then None
         else let n = last candidates; p = subagent_file A n ''last-message.txt''
           in Some (report_verdict (read_or_empty s p), n, p))"

definition route_stem :: "string \<Rightarrow> bool" where
  "route_stem component \<longleftrightarrow>
     hd (split_char CHR ''.'' (to_ascii_lowercase component)) \<in> {''route'', ''routes'', ''router'', ''routers'', ''routing''}"

definition route_line :: "string \<Rightarrow> bool" where
  "route_line l \<longleftrightarrow>
     (case Option.bind (strip_prefix ''diff --git a/'' l) (split_once_str '' b/'') of
        None \<Rightarrow> False
      | Some (_, p) \<Rightarrow> list_ex route_stem (split_char CHR ''/'' p))"

definition current_diff_requires_route_probe :: "sa_ctx \<Rightarrow> error + bool" where
  "current_diff_requires_route_probe A =
     (if \<not> hash_bound A then Inr False
      else if \<not> sa_is_dir A (config_root A) then Inr False
      else and_then (canonical_diff (sa_snap A) (config_root A) (start_base A)) (\<lambda>diff.
        Inr (list_ex route_line (lines (from_utf8_lossy diff)))))"

section \<open>Audits\<close>

definition audit_dismissed_finding :: "sa_ctx \<Rightarrow> files \<Rightarrow> string \<Rightarrow> string \<Rightarrow> error + unit" where
  "audit_dismissed_finding A s i final_hash =
     (let dir = finding_dir A i
      in and_then (ok_or (lookup s (dir @ [''finding.json''])) ''read finding'') (\<lambda>finding.
         and_then (read_json A s (dir @ [''dismissal.json'']) ''read dismissal'' ''invalid dismissal JSON'') (\<lambda>dismissal.
         and_then (ok_or (case jget dismissal ''recheck'' of Some v \<Rightarrow> if is_object v then Some v else None | None \<Rightarrow> None)
           ''missing recheck'') (\<lambda>recheck.
         and_then (guard_ok (get_str dismissal ''finding_id'' = Some i) ''id-mismatch'') (\<lambda>_.
         and_then (guard_ok (get_str dismissal ''finding_hash'' = Some (wf_sha (sa_wf A) finding)) ''hash-mismatch'') (\<lambda>_.
         and_then (guard_ok (jget recheck ''accepted'' = Some (JBool True) \<and> dismissal_recheck_named recheck i \<and>
             disposition_ok recheck \<and> has_nonempty recheck ''evidence'') ''invalid-recheck'') (\<lambda>_.
         and_then (ok_or (get_str dismissal ''verifier_evidence'') ''missing verifier evidence'') (\<lambda>p.
         and_then (ok_or (lookup s (text_file (sa_wf A) p)) ''read verifier evidence'') (\<lambda>evidence.
         and_then (guard_ok (report_verdict evidence = ''ACCEPTED'') ''verifier-not-accepted'') (\<lambda>_.
         guard_ok (final_hash = [] \<or>
             eq_ignore_ascii_case (reported_hash recheck) final_hash \<and> evidence_matches_hash evidence final_hash)
           ''final-diff-mismatch''))))))))))"

definition audit_superseded_todo :: "sa_ctx \<Rightarrow> files \<Rightarrow> string \<Rightarrow> string \<Rightarrow> error + unit" where
  "audit_superseded_todo A s i final_hash =
     (let dir = todo_dir A i
      in and_then (sa_read_env s (dir @ [''todo.env''])) (\<lambda>m.
         let source = state_value m ''source_finding_id''; expected_hash = state_value m ''source_finding_hash''
         in and_then (guard_ok (source \<noteq> [] \<and> is_file s (finding_dir A source @ [''finding.json''])) ''missing-source-finding'') (\<lambda>_.
            and_then (if expected_hash = [] then Inr False
              else and_then (file_sha256 A s (finding_dir A source @ [''finding.json''])) (\<lambda>h. Inr (h = expected_hash))) (\<lambda>ok.
            and_then (guard_ok ok ''source-finding-hash-mismatch'') (\<lambda>_.
            and_then (guard_ok (is_file s (finding_dir A source @ [''dismissal.json''])) ''source-finding-not-dismissed'') (\<lambda>_.
            and_then (read_json A s (finding_dir A source @ [''dismissal.json'']) ''read finding dismissal'' ''invalid dismissal JSON'') (\<lambda>dismissal.
            and_then (read_json A s (dir @ [''supersession.json'']) ''read todo supersession'' ''invalid supersession JSON'') (\<lambda>supersession.
            and_then (guard_ok (get_str supersession ''todo_id'' = Some i \<and> get_str supersession ''source_finding_id'' = Some source \<and>
                get_str supersession ''source_finding_hash'' = Some expected_hash \<and>
                list_all (\<lambda>k. jget supersession k = jget dismissal k) [''verified_by'', ''verifier_evidence'', ''recheck''])
              ''supersession-binding-mismatch'') (\<lambda>_.
            case audit_dismissed_finding A s source final_hash of
              Inl _ \<Rightarrow> Inl ''invalid-source-finding-dismissal''
            | Inr _ \<Rightarrow> Inr ())))))))))"

definition reasoned :: "string \<Rightarrow> error + unit \<Rightarrow> error + unit" where
  "reasoned i r =
     (case r of Inl e \<Rightarrow> Inl (join_with [TAB] [''closed-todo-invalid-evidence'', ''todo='' @ i, ''reason='' @ e]) | Inr u \<Rightarrow> Inr u)"

definition audit_closed_todo :: "sa_ctx \<Rightarrow> files \<Rightarrow> string \<Rightarrow> string \<Rightarrow> error + unit" where
  "audit_closed_todo A s i final_hash =
     (let dir = todo_dir A i; reject = (\<lambda>what. join_with [TAB] [what, ''todo='' @ i])
      in and_then (sa_read_env s (dir @ [''todo.env''])) (\<lambda>m.
         let source = state_value m ''source_finding_id''; expected_hash = state_value m ''source_finding_hash'';
             finding_path = finding_dir A source @ [''finding.json'']
         in and_then (guard_ok (source \<noteq> [] \<and> is_file s finding_path)
              (reject ''closed-todo-missing-source-finding'' @ [TAB] @ ''finding='' @ source)) (\<lambda>_.
            and_then (guard_ok (expected_hash \<noteq> []) (reject ''closed-todo-missing-source-finding-hash'')) (\<lambda>_.
            and_then (file_sha256 A s finding_path) (\<lambda>h.
            and_then (guard_ok (h = expected_hash)
              (reject ''closed-todo-source-finding-hash-changed'' @ [TAB] @ ''finding='' @ source)) (\<lambda>_.
            and_then (guard_ok (is_file s (dir @ [''resolution.json''])) (reject ''closed-todo-missing-resolution'')) (\<lambda>_.
            and_then (guard_ok (is_file s (dir @ [''closure.json''])) (reject ''closed-todo-missing-verifier-closure'')) (\<lambda>_.
            and_then (read_json A s (dir @ [''resolution.json'']) ''read resolution'' (reject ''closed-todo-invalid-evidence'')) (\<lambda>resolution.
            and_then (read_json A s (dir @ [''closure.json'']) ''read closure'' (reject ''closed-todo-invalid-evidence'')) (\<lambda>closure.
            and_then (guard_ok (get_str resolution ''todo_id'' = Some i \<and> get_str resolution ''status'' = Some ''resolved'')
              (reject ''closed-todo-invalid-resolution'')) (\<lambda>_.
            and_then (ok_or (case jget closure ''recheck'' of Some v \<Rightarrow> if is_object v then Some v else None | None \<Rightarrow> None)
              (reject ''closed-todo-invalid-closure'')) (\<lambda>recheck.
            and_then (guard_ok (get_str closure ''todo_id'' = Some i \<and> jget recheck ''accepted'' = Some (JBool True))
              (reject ''closed-todo-invalid-closure'')) (\<lambda>_.
            and_then (guard_ok (get_str closure ''source_finding_hash'' = Some expected_hash)
              (reject ''closed-todo-closure-finding-hash-mismatch'')) (\<lambda>_.
            and_then (guard_ok (final_hash = [] \<or> eq_ignore_ascii_case (reported_hash recheck) final_hash)
              (reject ''closed-todo-final-diff-hash-mismatch'')) (\<lambda>_.
            and_then (guard_ok (dismissal_recheck_named recheck source)
              (reject ''closed-todo-recheck-mismatch'' @ [TAB] @ ''finding='' @ source)) (\<lambda>_.
            and_then (case missing_commands resolution recheck of [] \<Rightarrow> Inr ()
              | c # _ \<Rightarrow> Inl (reject ''closed-todo-recheck-missing-worker-command'' @ [TAB] @ ''cmd='' @ c)) (\<lambda>_.
            and_then (reasoned i (validate_required_commands s dir ''closed todo resolution'' resolution)) (\<lambda>_.
            reasoned i (validate_required_commands s dir ''closed todo verifier recheck'' recheck)))))))))))))))))))"

section \<open>The gate\<close>

definition verdict_rejects :: "sa_ctx \<Rightarrow> files \<Rightarrow> string \<Rightarrow> bool \<Rightarrow> string list" where
  "verdict_rejects A s final_hash route =
     (case latest_verifier_verdict A s of
        None \<Rightarrow> if final_hash = [] then [] else [join_with [TAB] [''reject'', ''missing-verifier-acceptance'', ''expected='' @ final_hash]]
      | Some (verdict, n, p) \<Rightarrow>
          if verdict = ''BLOCKING''
          then [join_with [TAB] [''reject'', ''latest-verifier-blocking'', ''verifier='' @ n, ''evidence='' @ display p]]
          else if verdict = ''MISSING''
          then [join_with [TAB] [''reject'', ''latest-verifier-missing-verdict'', ''verifier='' @ n, ''evidence='' @ display p]]
          else if verdict = ''ACCEPTED'' \<and> final_hash \<noteq> []
          then let evidence = read_or_empty s p
            in (if evidence_matches_hash evidence final_hash then []
                else [join_with [TAB] [''reject'', ''latest-verifier-final-diff-hash-mismatch'', ''verifier='' @ n,
                  ''expected='' @ final_hash, ''evidence='' @ display p]])
               @ (if route \<and> \<not> contains_str (''route-integration-probe-passed: final-diff-sha256='' @ final_hash) evidence
                  then [join_with [TAB] [''reject'', ''missing-route-integration-probe'', ''verifier='' @ n,
                    ''expected='' @ final_hash, ''evidence='' @ display p]]
                  else [])
          else [])"

definition todo_status_of :: "sa_ctx \<Rightarrow> files \<Rightarrow> string \<Rightarrow> string" where
  "todo_status_of A s t = trim (read_or_empty s (todo_dir A t @ [''status'']))"

definition finding_rejects :: "sa_ctx \<Rightarrow> files \<Rightarrow> string \<Rightarrow> string \<Rightarrow> string list" where
  "finding_rejects A s final_hash i =
     (if state_value (env_at s (finding_dir A i @ [''finding.env''])) ''severity'' \<noteq> ''blocking'' then []
      else if is_file s (finding_dir A i @ [''dismissal.json''])
      then (case audit_dismissed_finding A s i final_hash of
              Inr _ \<Rightarrow> []
            | Inl reason \<Rightarrow> [join_with [TAB] [''reject'', ''invalid-finding-dismissal-evidence'', ''finding='' @ i, ''reason='' @ reason]])
      else let queued = filter (\<lambda>t. state_value (env_at s (todo_dir A t @ [''todo.env''])) ''source_finding_id'' = i)
             (sorted_directories s (sa_state A @ [''todos'']))
        in if queued = [] then [join_with [TAB] [''reject'', ''unqueued-blocking-finding'', ''finding='' @ i]]
           else map (\<lambda>t. join_with [TAB] [''reject'', ''open-blocking-todo'', ''finding='' @ i, ''todo='' @ t,
               ''status='' @ todo_status_of A s t]) (filter (\<lambda>t. todo_status_of A s t \<noteq> ''closed'') queued))"

text \<open>The audit of the finding behind a superseded TODO prints its own line when it fails.\<close>

definition todo_rejects :: "sa_ctx \<Rightarrow> files \<Rightarrow> string \<Rightarrow> string \<Rightarrow> string list" where
  "todo_rejects A s final_hash t =
     (let status = todo_status_of A s t
      in if status = ''superseded''
         then (case audit_superseded_todo A s t final_hash of
                 Inr _ \<Rightarrow> []
               | Inl reason \<Rightarrow>
                   (if reason \<noteq> ''invalid-source-finding-dismissal'' then []
                    else let source = state_value (env_at s (todo_dir A t @ [''todo.env''])) ''source_finding_id''
                      in case audit_dismissed_finding A s source final_hash of
                           Inr _ \<Rightarrow> []
                         | Inl e \<Rightarrow> [join_with [TAB] [''reject'', ''invalid-finding-dismissal-evidence'', ''finding='' @ source, ''reason='' @ e]])
                   @ [join_with [TAB] [''reject'', ''invalid-todo-supersession'', ''todo='' @ t, ''reason='' @ reason]])
         else if status \<noteq> ''closed'' then [join_with [TAB] [''reject'', ''open-todo'', ''todo='' @ t, ''status='' @ status]]
         else case audit_closed_todo A s t final_hash of
           Inr _ \<Rightarrow> []
         | Inl reason \<Rightarrow> [join_with [TAB] [''reject'', reason]])"

definition gate_rejects :: "sa_ctx \<Rightarrow> string \<Rightarrow> bool \<Rightarrow> files \<Rightarrow> string list" where
  "gate_rejects A final_hash route s =
     map (\<lambda>(n, status). join_with [TAB] [''reject'', ''active-verifier'', n, status]) (active_verifiers A s)
     @ verdict_rejects A s final_hash route
     @ concat (map (finding_rejects A s final_hash) (sorted_directories s (sa_state A @ [''findings''])))
     @ concat (map (todo_rejects A s final_hash) (sorted_directories s (sa_state A @ [''todos''])))"

definition gate_diff :: "sa_ctx \<Rightarrow> bool \<Rightarrow> error + (string \<times> bool)" where
  "gate_diff A include_source_diff =
     (if include_source_diff
      then and_then (current_final_diff_sha256 A) (\<lambda>h. and_then (current_diff_requires_route_probe A) (\<lambda>route. Inr (h, route)))
      else Inr ([], False))"

definition completion_gate_check_with_source_diff :: "sa_ctx \<Rightarrow> bool \<Rightarrow> string wf_cmd" where
  "completion_gate_check_with_source_diff A include_source_diff =
     bind_c (reconcile_terminal_verifiers A) (\<lambda>_.
     bind_c (lift_r (\<lambda>_. gate_diff A include_source_diff)) (\<lambda>(final_hash, route).
     lift_r (\<lambda>s. if gate_rejects A final_hash route s = [] then Inr (unlines [join_with [TAB] [''accepted'', ''final-gate'']]) else Inl [])))"

definition gate_check :: "sa_ctx \<Rightarrow> string list \<Rightarrow> string wf_cmd" where
  "gate_check A args =
     (if args \<noteq> [] then lift_r (\<lambda>_. Inl ''gate-check takes no arguments'')
      else completion_gate_check_with_source_diff A True)"

text \<open>
  The gate as the workflow calls it: \<open>completion_gate_check\<close> for source work and
  \<open>external_completion_gate_check\<close> for work without a diff.
\<close>

definition completion_gate :: "sa_ctx \<Rightarrow> bool \<Rightarrow> unit wf_cmd" where
  "completion_gate A external =
     bind_c (completion_gate_check_with_source_diff A (\<not> external)) (\<lambda>_. ret_c ())"

end
