(* ===== verification/Subagent_Leases.thy ===== *)
theory Subagent_Leases
  imports Subagent_Gate
begin

text \<open>
  Validation leases and runs, and the dispatch of the subagent commands (\<open>runtime/src/subagent.rs\<close>). A lease gives its
  owner the only run of a validation target; \<open>validation_run\<close> takes one, runs the command and records the result.

  The child process is \<open>sa_child\<close>: nothing where it cannot be started, and otherwise how it ended within the time limit
  with what it wrote. \<open>sa_during\<close> is what other processes do to the files meanwhile, since the lock is not held
  then. The temporary directory for the output of the child is not part of the state.
\<close>

section \<open>Text\<close>

definition byte_tail :: "string \<Rightarrow> nat \<Rightarrow> string" where
  "byte_tail t maximum = from_utf8_lossy (drop (length t - maximum) t)"

text \<open>\<open>str::replace\<close>.\<close>

function replace_str :: "string \<Rightarrow> string \<Rightarrow> string \<Rightarrow> string" where
  "replace_str pat rep s =
     (if pat = [] \<or> s = [] then s
      else case strip_prefix pat s of
        Some r \<Rightarrow> rep @ replace_str pat rep r
      | None \<Rightarrow> hd s # replace_str pat rep (tl s))"
  by pat_completeness auto
termination replace_str
proof (relation "measure (\<lambda>(pat, rep, s). length s)", goal_cases)
  case (2 pat rep s)
  then show ?case by (cases s) simp_all
next
  case (3 pat rep s r)
  then show ?case by (cases pat) (auto simp: strip_prefix_Some)
qed simp

declare replace_str.simps [simp del]

section \<open>Leases\<close>

definition LEASE_STATES :: "string list" where
  "LEASE_STATES = [''planned'', ''running'', ''passed'', ''failed'', ''timed-out'', ''stale'', ''released'']"

definition validate_lease_state :: "string \<Rightarrow> error + unit" where
  "validate_lease_state state = guard_ok (state \<in> set LEASE_STATES) (''invalid validation lease status: '' @ state)"

definition one_lease :: "string \<Rightarrow> string list \<Rightarrow> error + string" where
  "one_lease command args =
     (case args of
        [v] \<Rightarrow> and_then (validate_name v) (\<lambda>_. Inr v)
      | _ \<Rightarrow> Inl (command @ '' requires LEASE_ID''))"

definition leases_dir :: "sa_ctx \<Rightarrow> path" where
  "leases_dir A = sa_state A @ [''validation-leases'']"

definition lease_file :: "sa_ctx \<Rightarrow> string \<Rightarrow> string \<Rightarrow> path" where
  "lease_file A i f = leases_dir A @ [i, f]"

definition LEASE_ENV_ORDER :: "string list" where
  "LEASE_ENV_ORDER = [''lease_id'', ''owner'', ''target'', ''command'', ''resource_risk'', ''created_at'', ''updated_at'', ''root'']"

definition write_lease_env :: "path \<Rightarrow> env \<Rightarrow> unit wf_cmd" where
  "write_lease_env p m = put p (env_text (map (\<lambda>key. (key, state_value m key)) LEASE_ENV_ORDER))"

definition lease_state_of :: "sa_ctx \<Rightarrow> files \<Rightarrow> string \<Rightarrow> string" where
  "lease_state_of A s i = trim (read_or ''unknown'' s (lease_file A i ''status''))"

definition lease_json :: "env \<Rightarrow> string \<Rightarrow> json \<Rightarrow> json" where
  "lease_json m state result =
     (let value = (\<lambda>k. JStr (state_value m k)); updated = state_value m ''updated_at''
      in JObj [(''lease_id'', value ''lease_id''), (''owner'', value ''owner''), (''target'', value ''target''),
           (''command'', value ''command''), (''state'', JStr state), (''resource_risk'', value ''resource_risk''),
           (''result'', result), (''created_at'', value ''created_at''),
           (''updated_at'', if updated = [] then value ''created_at'' else JStr updated)])"

definition write_validation_lease_json :: "sa_ctx \<Rightarrow> string \<Rightarrow> unit wf_cmd" where
  "write_validation_lease_json A i =
     bind_c (lift_r (\<lambda>s.
       and_then (sa_read_env s (lease_file A i ''lease.env'')) (\<lambda>m.
       and_then (from_str A (read_or ''{}'' s (lease_file A i ''result.json'')) ''invalid validation result JSON'') (\<lambda>result.
       Inr (lease_json m (lease_state_of A s i) result))))) (\<lambda>v.
     write_json A (lease_file A i ''lease.json'') v)"

record lease_request =
  lr_id :: string
  lr_owner :: string
  lr_target :: string
  lr_command :: string
  lr_state :: string
  lr_risk :: string

definition parse_lease :: "string list \<Rightarrow> error + lease_request" where
  "parse_lease args =
     and_then (first_argument ''validation-lease-acquire requires LEASE_ID'' args) (\<lambda>i.
     and_then (validate_name i) (\<lambda>_.
     and_then (repeated_options [] Map.empty (tl args)) (\<lambda>opts.
     and_then (option_required opts ''--owner'' ''validation-lease-acquire requires --owner NAME'') (\<lambda>owner.
     and_then (validate_name owner) (\<lambda>_.
     and_then (option_required opts ''--target'' ''validation-lease-acquire requires --target TEXT'') (\<lambda>target.
     and_then (option_required opts ''--command'' ''validation-lease-acquire requires --command TEXT'') (\<lambda>command.
     let given = option_first opts ''--state''; state = (if given = [] then ''running'' else given);
         risk = option_first opts ''--resource-risk''
     in and_then (reject_newlines [(''--target'', target), (''--command'', command), (''--resource-risk'', risk)]) (\<lambda>_.
        and_then (validate_lease_state state) (\<lambda>_.
        and_then (guard_ok (state \<in> {''planned'', ''running''}) ''validation-lease-acquire state must be planned or running'') (\<lambda>_.
        Inr \<lparr>lr_id = i, lr_owner = owner, lr_target = target, lr_command = command, lr_state = state, lr_risk = risk\<rparr>))))))))))"

definition lease_conflict :: "sa_ctx \<Rightarrow> lease_request \<Rightarrow> files \<Rightarrow> string \<Rightarrow> error + unit" where
  "lease_conflict A r s i =
     (if i = lr_id r then Inr ()
      else and_then (sa_read_env s (lease_file A i ''lease.env'')) (\<lambda>m.
        if state_value m ''target'' \<noteq> lr_target r then Inr ()
        else let state = lease_state_of A s i
          in guard_ok (state \<notin> {''planned'', ''running''})
               (''validation lease conflict: target='' @ lr_target r @ '' lease='' @ i @ '' owner='' @ state_value m ''owner''
                 @ '' state='' @ state)))"

definition lease_checks :: "sa_ctx \<Rightarrow> lease_request \<Rightarrow> files \<Rightarrow> error + unit" where
  "lease_checks A r s =
     and_then (all_ok (lease_conflict A r s) (sorted_directories s (leases_dir A))) (\<lambda>_.
     guard_ok (\<not> path_there s (leases_dir A @ [lr_id r])) (''validation lease already exists: '' @ lr_id r))"

definition write_lease :: "sa_ctx \<Rightarrow> lease_request \<Rightarrow> unit wf_cmd" where
  "write_lease A r = seq_c [
     put (lease_file A (lr_id r) ''lease.env'') (env_text [(''lease_id'', lr_id r), (''owner'', lr_owner r), (''target'', lr_target r),
       (''command'', lr_command r), (''resource_risk'', lr_risk r), (''created_at'', sa_now A 0), (''updated_at'', sa_now A 1),
       (''root'', config_root A)]),
     put (lease_file A (lr_id r) ''result.json'') (unlines [''{}'']),
     put (lease_file A (lr_id r) ''status'') (unlines [lr_state r]),
     write_validation_lease_json A (lr_id r)]"

definition validation_lease_acquire_impl :: "sa_ctx \<Rightarrow> bool \<Rightarrow> string list \<Rightarrow> string wf_cmd" where
  "validation_lease_acquire_impl A quiet args =
     bind_c (lift_r (\<lambda>_. parse_lease args)) (\<lambda>r.
     bind_c (sa_lock (leases_dir A)) (\<lambda>_.
     bind_c (lift_r (lease_checks A r)) (\<lambda>_.
     bind_c (write_lease A r) (\<lambda>_.
     ret_c (if quiet then [] else unlines [join_with [TAB] [''validation lease acquired'', lr_id r, lr_owner r, lr_state r]])))))"

definition parse_lease_status :: "string list \<Rightarrow> error + (string \<times> string \<times> string)" where
  "parse_lease_status args =
     (case args of
        i # state # rest \<Rightarrow>
          and_then (validate_name i) (\<lambda>_.
          and_then (validate_lease_state state) (\<lambda>_.
          and_then (repeated_options [] Map.empty rest) (\<lambda>opts.
          Inr (i, state, option_first opts ''--result-json''))))
      | _ \<Rightarrow> Inl ''validation-lease-status requires LEASE_ID STATUS'')"

definition record_lease_status :: "sa_ctx \<Rightarrow> nat \<Rightarrow> string \<Rightarrow> string \<Rightarrow> string \<Rightarrow> unit wf_cmd" where
  "record_lease_status A k i state result =
     bind_c (lift_r (\<lambda>s. guard_ok (is_file s (lease_file A i ''lease.env'')) (''no validation lease: '' @ i))) (\<lambda>_.
     bind_c (if result = [] then ret_c ()
       else bind_c (lift_r (\<lambda>_. from_str A result ''invalid result JSON'')) (\<lambda>v.
         put (lease_file A i ''result.json'') (wf_print (sa_wf A) v @ [NL]))) (\<lambda>_.
     bind_c (lift_r (\<lambda>s. sa_read_env s (lease_file A i ''lease.env''))) (\<lambda>m.
     seq_c [write_lease_env (lease_file A i ''lease.env'') (m(''updated_at'' \<mapsto> sa_now A k)),
       put (lease_file A i ''status'') (unlines [state]),
       write_validation_lease_json A i])))"

definition validation_lease_status_impl :: "sa_ctx \<Rightarrow> nat \<Rightarrow> bool \<Rightarrow> string list \<Rightarrow> string wf_cmd" where
  "validation_lease_status_impl A k quiet args =
     bind_c (lift_r (\<lambda>_. parse_lease_status args)) (\<lambda>(i, state, result).
     bind_c (sa_lock (leases_dir A)) (\<lambda>_.
     bind_c (record_lease_status A k i state result) (\<lambda>_.
     ret_c (if quiet then [] else unlines [join_with [TAB] [''validation lease status'', i, state]]))))"

definition validation_lease_show :: "sa_ctx \<Rightarrow> string list \<Rightarrow> string wf_cmd" where
  "validation_lease_show A args =
     bind_c (lift_r (\<lambda>_. one_lease ''validation-lease-show'' args)) (\<lambda>i.
     bind_c (lift_r (\<lambda>s. guard_ok (is_file s (lease_file A i ''lease.json'')) (''no validation lease: '' @ i))) (\<lambda>_.
     bind_c (write_validation_lease_json A i) (\<lambda>_.
     lift_r (\<lambda>s. ok_or (lookup s (lease_file A i ''lease.json'')) ''read validation lease''))))"

definition lease_row :: "sa_ctx \<Rightarrow> files \<Rightarrow> string \<Rightarrow> string \<Rightarrow> error + string list" where
  "lease_row A s state_filter i =
     and_then (sa_read_env s (lease_file A i ''lease.env'')) (\<lambda>m.
     let state = lease_state_of A s i
     in Inr (if state_filter \<noteq> [] \<and> state_filter \<noteq> state then []
          else [join_with [TAB] [i, state, state_value m ''owner'', state_value m ''target'', state_value m ''command'']]))"

definition validation_lease_list :: "sa_ctx \<Rightarrow> string list \<Rightarrow> string wf_cmd" where
  "validation_lease_list A args =
     lift_r (\<lambda>s.
       and_then (repeated_options [] Map.empty args) (\<lambda>opts.
       and_then (if option_first opts ''--state'' = [] then Inr () else validate_lease_state (option_first opts ''--state'')) (\<lambda>_.
       and_then (collect_ok (lease_row A s (option_first opts ''--state'')) (sorted_directories s (leases_dir A))) (\<lambda>rows.
       Inr (unlines (concat rows))))))"

section \<open>Validation runs\<close>

record run_request =
  vr_lease :: string
  vr_owner :: string
  vr_target :: string
  vr_risk :: string
  vr_timeout :: nat
  vr_command :: "string list"
  vr_root :: string

definition run_timeout :: "sa_ctx \<Rightarrow> sa_options \<Rightarrow> error + nat" where
  "run_timeout A opts =
     (let requested = option_first opts ''--timeout-seconds'';
          t = (if requested \<noteq> [] then requested
            else case sa_environ A ''MULTIAGENT_VALIDATION_TIMEOUT_SECONDS'' of Some v \<Rightarrow> v | None \<Rightarrow> ''600'')
      in case parse_u64 t of
           Some n \<Rightarrow> if n > 0 then Inr n else Inl ''validation-run --timeout-seconds must be a positive integer''
         | None \<Rightarrow> Inl ''validation-run --timeout-seconds must be a positive integer'')"

definition parse_run :: "sa_ctx \<Rightarrow> string list \<Rightarrow> error + run_request" where
  "parse_run A args =
     and_then (first_argument ''validation-run requires LEASE_ID'' args) (\<lambda>i.
     and_then (validate_name i) (\<lambda>_.
     and_then (guard_ok (''--'' \<in> set args) ''validation-run requires COMMAND after --'') (\<lambda>_.
     let before = takeWhile (\<lambda>a. a \<noteq> ''--'') args; command = tl (dropWhile (\<lambda>a. a \<noteq> ''--'') args)
     in and_then (case repeated_options [] Map.empty (tl before) of
            Inl e \<Rightarrow> Inl (replace_str ''unknown argument'' ''unknown validation-run argument before --'' e)
          | Inr opts \<Rightarrow> Inr opts) (\<lambda>opts.
        and_then (guard_ok (command \<noteq> []) ''validation-run requires COMMAND after --'') (\<lambda>_.
        and_then (option_required opts ''--owner'' ''validation-run requires --owner NAME'') (\<lambda>owner.
        and_then (validate_name owner) (\<lambda>_.
        and_then (option_required opts ''--target'' ''validation-run requires --target TEXT'') (\<lambda>target.
        and_then (run_timeout A opts) (\<lambda>seconds.
        and_then (ok_or (wf_canon (sa_wf A) (config_root A)) (''validation-run root does not exist: '' @ config_root A)) (\<lambda>rt.
        and_then (guard_ok (sa_is_dir A rt) (''validation-run root does not exist: '' @ rt)) (\<lambda>_.
        Inr \<lparr>vr_lease = i, vr_owner = owner, vr_target = target, vr_risk = option_first opts ''--resource-risk'',
          vr_timeout = seconds, vr_command = command, vr_root = rt\<rparr>)))))))))))"

definition json_int :: "int \<Rightarrow> json" where
  "json_int i = (if i < 0 then JNeg (of_int i) else JNum (of_int i))"

definition run_result :: "sa_ctx \<Rightarrow> run_request \<Rightarrow> int \<Rightarrow> bool \<Rightarrow> string \<Rightarrow> string \<Rightarrow> json" where
  "run_result A r code timed_out out err = JObj [(''command'', JArr (map JStr (vr_command r))),
     (''command_text'', JStr (join_with '' '' (vr_command r))), (''returncode'', json_int code), (''cwd'', JStr (vr_root r)),
     (''started_at'', JStr (sa_now A 2)), (''finished_at'', JStr (sa_now A 3)), (''timeout_seconds'', JNum (of_nat (vr_timeout r))),
     (''timed_out'', JBool timed_out), (''stdout_tail'', JStr (byte_tail out 4000)), (''stderr_tail'', JStr (byte_tail err 4000))]"

definition child_code :: "child_end \<Rightarrow> int" where
  "child_code e = (case e of Exited c \<Rightarrow> (case c of Some n \<Rightarrow> n | None \<Rightarrow> 1) | Overdue \<Rightarrow> 124)"

definition child_state :: "child_end \<Rightarrow> string" where
  "child_state e = (if e = Overdue then ''timed-out'' else if child_code e = 0 then ''passed'' else ''failed'')"

definition run_arguments :: "run_request \<Rightarrow> string list" where
  "run_arguments r = [vr_lease r, ''--owner'', vr_owner r, ''--target'', vr_target r, ''--command'', join_with '' '' (vr_command r),
     ''--state'', ''running'', ''--resource-risk'', vr_risk r]"

text \<open>The result is what is printed on the two outputs and the exit code.\<close>

definition finish_run :: "sa_ctx \<Rightarrow> run_request \<Rightarrow> child_end \<times> string \<times> string \<Rightarrow> (string \<times> string \<times> nat) wf_cmd" where
  "finish_run A r = (\<lambda>(e, out, err0).
     let err = err0 @ (if e = Overdue then unlines [[], ''validation-run timed out after '' @ show_nat (vr_timeout r) @ '' seconds''] else []);
         result = run_result A r (child_code e) (e = Overdue) out err
     in bind_c (validation_lease_status_impl A 4 True [vr_lease r, child_state e, ''--result-json'', wf_print (sa_wf A) result]) (\<lambda>_.
        ret_c (out, err, nat (min 255 (max 0 (child_code e))))))"

definition validation_run :: "sa_ctx \<Rightarrow> string list \<Rightarrow> (string \<times> string \<times> nat) wf_cmd" where
  "validation_run A args =
     bind_c (lift_r (\<lambda>_. parse_run A args)) (\<lambda>r.
     bind_c (validation_lease_acquire_impl A True (run_arguments r)) (\<lambda>_.
     bind_c (lift_r (\<lambda>_. ok_or (sa_child A (vr_root r) (vr_command r) (vr_timeout r)) ''start validation command'')) (\<lambda>ended.
     bind_c (modify_c (sa_during A)) (\<lambda>_.
     finish_run A r ended))))"

section \<open>Dispatch\<close>

text \<open>\<open>other\<close> stands for \<open>runtime::subagent\<close>, which handles the commands that start and observe agents.\<close>

definition subagent_table :: "sa_ctx \<Rightarrow> (string \<times> (string list \<Rightarrow> string wf_cmd)) list" where
  "subagent_table A = [
     (''assignment-create'', assignment_create A), (''assignment-show'', assignment_show A),
     (''assignment-status'', assignment_status A), (''assignment-check'', assignment_check A),
     (''checkpoint-update'', checkpoint_update A), (''checkpoint-show'', checkpoint_show A),
     (''worktree-create'', worktree_create A), (''worktree-show'', worktree_show A), (''worktree-remove'', worktree_remove A),
     (''finding-create'', finding_create A), (''finding-show'', finding_show A), (''finding-list'', finding_list A),
     (''finding-dismiss'', finding_dismiss A), (''todo-create'', todo_create A), (''todo-show'', todo_show A),
     (''todo-list'', todo_list A), (''todo-assign'', todo_assign A), (''todo-status'', sa_todo_status A),
     (''resolution-create'', resolution_create A), (''todo-close'', todo_close A),
     (''validation-lease-acquire'', validation_lease_acquire_impl A False),
     (''validation-lease-status'', validation_lease_status_impl A 0 False),
     (''validation-lease-show'', validation_lease_show A), (''validation-lease-list'', validation_lease_list A),
     (''gate-check'', gate_check A)]"

definition subagent_commands :: "sa_ctx \<Rightarrow> string \<Rightarrow> (string list \<Rightarrow> string wf_cmd) option" where
  "subagent_commands A = map_of (subagent_table A)"

definition subagent_run ::
  "sa_ctx \<Rightarrow> (string list \<Rightarrow> (string \<times> string \<times> nat) wf_cmd) \<Rightarrow> string list \<Rightarrow> (string \<times> string \<times> nat) wf_cmd" where
  "subagent_run A other args =
     (case args of
        [] \<Rightarrow> lift_r (\<lambda>_. Inl ''missing command'')
      | command # rest \<Rightarrow>
          if command = ''validation-run'' then validation_run A rest
          else case subagent_commands A command of
            Some f \<Rightarrow> bind_c (f rest) (\<lambda>printed. ret_c (printed, [], 0))
          | None \<Rightarrow> other args)"

end
