(* ===== verification/Subagent_Frame.thy ===== *)
theory Subagent_Frame
  imports Subagent_Leases
begin

text \<open>
  What the subagent commands write. \<open>writes Q m\<close> says that \<open>m\<close>, in success and in failure, leaves every file as it
  was or with contents that \<open>Q\<close> allows; the rules follow the structure of a command. With \<open>tidy\<close> for \<open>Q\<close> they bound
  every command by the directories of its kind and the values of the status files it writes.
\<close>

named_theorems written

section \<open>Writes of a command\<close>

definition writes :: "(path \<Rightarrow> string option \<Rightarrow> bool) \<Rightarrow> 'a wf_cmd \<Rightarrow> bool" where
  "writes Q m \<longleftrightarrow> (\<forall>s r s' p. m s = (r, s') \<longrightarrow> lookup s' p = lookup s p \<or> Q p (lookup s' p))"

lemma writesD: "writes Q m \<Longrightarrow> m s = (r, s') \<Longrightarrow> lookup s' p \<noteq> lookup s p \<Longrightarrow> Q p (lookup s' p)"
  by (auto simp: writes_def)

lemma writes_mono: "writes Q m \<Longrightarrow> (\<And>p c. Q p c \<Longrightarrow> R p c) \<Longrightarrow> writes R m"
  unfolding writes_def by blast

lemma writes_ret [written]: "writes Q (ret_c x)"
  and writes_lift [written]: "writes Q (lift_r f)"
  and writes_ensure [written]: "writes Q (ensure b e)"
  and writes_create_dir [written]: "writes Q (create_dir p e)"
  by (simp_all add: writes_def ret_c_def lift_r_def ensure_def create_dir_def)

lemma writes_modify: "(\<And>s p. lookup (h s) p = lookup s p \<or> Q p (lookup (h s) p)) \<Longrightarrow> writes Q (modify_c h)"
  by (simp add: writes_def modify_c_def)

lemma writes_put [written]: "Q p (Some t) \<Longrightarrow> writes Q (put p t)"
  by (rule writes_modify) simp

lemma writes_lock [written]: "Q (base @ [''.lock'']) (Some []) \<Longrightarrow> writes Q (sa_lock base)"
  unfolding sa_lock_def by (rule writes_modify) simp

lemma writes_json [written]: "(\<And>t. Q p (Some t)) \<Longrightarrow> writes Q (write_json A p v)"
  unfolding write_json_def by (rule writes_put)

lemma writes_bind [written]:
  assumes m: "writes Q m" and f: "\<And>x. writes Q (f x)"
  shows "writes Q (bind_c m f)"
  unfolding writes_def
proof (intro allI impI)
  fix s r s' p assume run: "bind_c m f s = (r, s')"
  obtain r0 t where t: "m s = (r0, t)" by force
  have mt: "lookup t p = lookup s p \<or> Q p (lookup t p)" using m t unfolding writes_def by blast
  show "lookup s' p = lookup s p \<or> Q p (lookup s' p)"
  proof (cases r0)
    case (Inl e)
    then show ?thesis using run t mt by (auto simp: bind_c_def)
  next
    case (Inr x)
    then have "f x t = (r, s')" using run t by (simp add: bind_c_def)
    then have "lookup s' p = lookup t p \<or> Q p (lookup s' p)" using f [of x] unfolding writes_def by blast
    then show ?thesis using mt by metis
  qed
qed

lemma writes_bind_checked:
  assumes "\<And>s x. f s = Inr x \<Longrightarrow> writes Q (g x)"
  shows "writes Q (bind_c (lift_r f) g)"
  using assms unfolding writes_def by (auto simp: bind_c_def lift_r_def split: sum.splits)

lemma writes_seq [written]: "writes Q (seq_c [])" "writes Q c \<Longrightarrow> writes Q (seq_c cs) \<Longrightarrow> writes Q (seq_c (c # cs))"
  by (simp_all add: writes_ret writes_bind)

lemma writes_if [written]: "(b \<Longrightarrow> writes Q m) \<Longrightarrow> (\<not> b \<Longrightarrow> writes Q n) \<Longrightarrow> writes Q (if b then m else n)"
  by simp

lemma writes_case_prod [written]: "(\<And>x y. writes Q (f x y)) \<Longrightarrow> writes Q (case z of (x, y) \<Rightarrow> f x y)"
  by (cases z) simp

lemma writes_let [written]: "writes Q (f x) \<Longrightarrow> writes Q (let y = x in f y)"
  by simp

section \<open>Directories and status values\<close>

definition TODO_STATUSES :: "string list" where
  "TODO_STATUSES = [''open'', ''assigned'', ''resolved'', ''reopened'', ''closed'', ''superseded'']"

text \<open>
  A write into one of the given directories of the state directory. A TODO and a lease that get a status get one of
  their kind.
\<close>

definition tidy :: "sa_ctx \<Rightarrow> string set \<Rightarrow> path \<Rightarrow> string option \<Rightarrow> bool" where
  "tidy A ds p c \<longleftrightarrow>
     (\<exists>d \<in> ds. \<exists>rest. p = sa_state A @ d # rest) \<and>
     (\<forall>i. p = todo_dir A i @ [''status''] \<longrightarrow> c \<in> (\<lambda>v. Some (unlines [v])) ` set TODO_STATUSES) \<and>
     (\<forall>i. p = lease_file A i ''status'' \<longrightarrow> c \<in> (\<lambda>v. Some (unlines [v])) ` set LEASE_STATES)"

lemma later_simps [simp]: "sa_state (later k A) = sa_state A" "sa_environ (later k A) = sa_environ A"
  by (simp_all add: later_def)

lemmas sa_paths = assignment_file_def assignments_dir_def finding_dir_def todo_dir_def leases_dir_def lease_file_def
  subagent_file_def worktree_file_def

lemma tidy_simps [simp]:
  "tidy A ds (sa_state A @ d # rest) c \<longleftrightarrow> d \<in> ds \<and>
     (d = ''todos'' \<longrightarrow> (\<forall>i. rest = [i, ''status''] \<longrightarrow> c \<in> (\<lambda>v. Some (unlines [v])) ` set TODO_STATUSES)) \<and>
     (d = ''validation-leases'' \<longrightarrow> (\<forall>i. rest = [i, ''status''] \<longrightarrow> c \<in> (\<lambda>v. Some (unlines [v])) ` set LEASE_STATES))"
  by (auto simp: tidy_def sa_paths)

lemma tidy_mono: "tidy A ds p c \<Longrightarrow> ds \<subseteq> es \<Longrightarrow> tidy A es p c"
  by (auto simp: tidy_def)

lemma tidy_later [simp]: "tidy (later k A) = tidy A"
  by (auto simp: tidy_def fun_eq_iff sa_paths)

section \<open>Commands\<close>

lemma writes_assignments [written]:
  "writes (tidy A {''assignments''}) (assignment_create A args)"
  "writes (tidy A {''assignments''}) (assignment_status A args)"
  "writes (tidy A {''assignments'', ''subagents''}) (checkpoint_update A args)"
  unfolding assignment_create_def write_assignment_def assignment_status_def checkpoint_update_def Let_def
  by (intro written; simp add: sa_paths)+

lemma writes_worktrees [written]:
  "writes (tidy A {''worktrees'', ''assignments''}) (worktree_create A args)"
  "writes (tidy A {''worktrees''}) (worktree_remove A args)"
proof -
  show "writes (tidy A {''worktrees'', ''assignments''}) (worktree_create A args)"
    unfolding worktree_create_def
    by (intro written writes_modify) (auto simp: sa_paths split: option.splits)
  show "writes (tidy A {''worktrees''}) (worktree_remove A args)"
    unfolding worktree_remove_def
    by (intro written writes_modify) (auto simp: sa_paths remove_file_def lookup_def delete_conv')
qed

lemma writes_finding [written]: "writes (tidy A {''findings''}) (finding_create A args)"
  unfolding finding_create_def write_finding_def Let_def by (intro written; simp add: sa_paths)

lemma writes_todo_json [written]: "writes (tidy A {''todos''}) (write_todo_json A (todo_dir A i))"
  unfolding write_todo_json_def by (intro written; simp add: sa_paths)

lemma writes_update_locked [written]:
  "status \<in> set TODO_STATUSES \<Longrightarrow> writes (tidy A {''todos''}) (update_todo_state_locked A k (todo_dir A i) assigned status)"
  unfolding update_todo_state_locked_def Let_def by (intro written; simp add: sa_paths)

lemma writes_update [written]:
  "status \<in> set TODO_STATUSES \<Longrightarrow> writes (tidy A {''todos''}) (update_todo_state A i assigned status)"
  unfolding update_todo_state_def by (intro written; simp add: sa_paths)

lemma writes_todo_create [written]: "writes (tidy A {''todos''}) (todo_create A args)"
  unfolding todo_create_def write_todo_def Let_def
  by (intro written; simp add: sa_paths TODO_STATUSES_def todo_open_status_def)

lemma writes_todo_show [written]: "writes (tidy A {''todos''}) (todo_show A args)"
  unfolding todo_show_def by (intro written)

lemma writes_todo_assign [written]: "writes (tidy A {''todos''}) (todo_assign A args)"
  unfolding todo_assign_def by (auto split: list.splits intro!: written simp: TODO_STATUSES_def)

lemma writes_todo_status [written]: "writes (tidy A {''todos''}) (sa_todo_status A args)"
  unfolding sa_todo_status_def
  by (auto split: list.splits intro!: writes_bind_checked written simp: and_then_Inr guard_ok_Inr TODO_STATUSES_def)

lemma writes_into: "writes (tidy A ds) m \<Longrightarrow> ds \<subseteq> es \<Longrightarrow> writes (tidy A es) m"
  by (erule writes_mono) (rule tidy_mono)

lemma writes_resolution [written]: "writes (tidy A {''todos''}) (write_resolution A r v)"
  unfolding write_resolution_def write_resolution_json_def Let_def
  by (intro written; simp add: sa_paths TODO_STATUSES_def)

lemma writes_resolution_create [written]: "writes (tidy A {''findings'', ''todos''}) (resolution_create A args)"
proof -
  have create: "writes (tidy A {''findings'', ''todos''}) (finding_create A as)" for as
    by (rule writes_into [OF writes_finding]) simp
  have "writes (tidy A {''findings'', ''todos''}) (todo_create (later 1 A) as)" for as
    using writes_into [OF writes_todo_create [of "later 1 A" as], of "{''findings'', ''todos''}"] by simp
  with create have auto_create: "writes (tidy A {''findings'', ''todos''}) (autocreate_todo A r)" for r
    unfolding autocreate_todo_def Let_def by (intro written)
  have recorded: "writes (tidy A {''findings'', ''todos''}) (write_resolution A r v)" for r v
    by (rule writes_into [OF writes_resolution]) simp
  show ?thesis unfolding resolution_create_def
    by (intro written auto_create recorded; simp)
qed

lemma writes_todo_close [written]: "writes (tidy A {''todos''}) (todo_close A args)"
  unfolding todo_close_def write_closure_def Let_def by (intro written; simp add: sa_paths TODO_STATUSES_def)

lemma writes_supersede [written]: "writes (tidy A {''todos''}) (supersede_all A k f ts)"
proof (induction ts arbitrary: k)
  case (Cons t ts)
  have "writes (tidy A {''todos''}) (write_json A (todo_dir A t @ [''supersession.json'']) v)" for v
    by (intro written; simp add: sa_paths)
  then show ?case using Cons
    by (simp only: supersede_all.simps) (intro writes_bind writes_update_locked; simp add: TODO_STATUSES_def)
qed (simp add: writes_ret)

lemma writes_dismiss [written]: "writes (tidy A {''findings'', ''todos''}) (finding_dismiss A args)"
proof -
  have supersede: "writes (tidy A {''findings'', ''todos''}) (supersede_all A k f ts)" for k f ts
    by (rule writes_into [OF writes_supersede]) simp
  show ?thesis unfolding finding_dismiss_def by (intro written supersede; simp add: sa_paths)
qed

lemma writes_lease_json [written]: "writes (tidy A {''validation-leases''}) (write_validation_lease_json A i)"
  unfolding write_validation_lease_json_def by (intro written; simp add: sa_paths)

lemma parse_lease_state: "parse_lease args = Inr r \<Longrightarrow> lr_state r \<in> {''planned'', ''running''}"
  unfolding parse_lease_def Let_def by (auto simp: and_then_Inr guard_ok_Inr)

lemma writes_lease_acquire [written]: "writes (tidy A {''validation-leases''}) (validation_lease_acquire_impl A quiet args)"
proof -
  have "writes (tidy A {''validation-leases''}) (write_lease A r)" if "lr_state r \<in> {''planned'', ''running''}" for r
    unfolding write_lease_def using that by (intro written; auto simp: sa_paths LEASE_STATES_def)
  then show ?thesis unfolding validation_lease_acquire_impl_def
    by (intro writes_bind_checked written) (auto dest: parse_lease_state simp: sa_paths)
qed

lemma writes_lease_status [written]: "writes (tidy A {''validation-leases''}) (validation_lease_status_impl A k quiet args)"
proof -
  have "writes (tidy A {''validation-leases''}) (record_lease_status A k i state result)" if "state \<in> set LEASE_STATES" for i state result
    unfolding record_lease_status_def write_lease_env_def using that by (intro written; auto simp: sa_paths)
  moreover have "fst (snd x) \<in> set LEASE_STATES" if "parse_lease_status args = Inr x" for x
    using that unfolding parse_lease_status_def validate_lease_state_def
    by (auto simp: and_then_Inr guard_ok_Inr split: list.splits)
  ultimately show ?thesis unfolding validation_lease_status_impl_def
    by (intro writes_bind_checked) (auto intro!: written simp: sa_paths split: prod.splits)
qed

lemma writes_lease_show [written]: "writes (tidy A {''validation-leases''}) (validation_lease_show A args)"
  unfolding validation_lease_show_def by (intro written)

lemma lookup_reconcile:
  "lookup (fold (reconcile_verifier A) ns s) p = lookup s p \<or> tidy A {''subagents''} p (lookup (fold (reconcile_verifier A) ns s) p)"
proof (induction ns arbitrary: s)
  case (Cons n ns)
  have "lookup (reconcile_verifier A n s) p = lookup s p \<or> tidy A {''subagents''} p (lookup (reconcile_verifier A n s) p)"
    by (simp add: reconcile_verifier_def Let_def subagent_file_def)
  then show ?case using Cons [of "reconcile_verifier A n s"] by auto
qed simp

lemma writes_gate [written]: "writes (tidy A {''subagents''}) (completion_gate_check_with_source_diff A include)"
  unfolding completion_gate_check_with_source_diff_def reconcile_terminal_verifiers_def
  by (intro written writes_modify lookup_reconcile)

lemma writes_gate_check [written]: "writes (tidy A {''subagents''}) (gate_check A args)"
  and writes_completion_gate [written]: "writes (tidy A {''subagents''}) (completion_gate A external)"
  unfolding gate_check_def completion_gate_def by (intro written)+

lemma writes_readers [written]:
  "writes Q (assignment_show A args)" "writes Q (assignment_check A args)" "writes Q (checkpoint_show A args)"
  "writes Q (worktree_show A args)" "writes Q (finding_show A args)" "writes Q (finding_list A args)"
  "writes Q (todo_list A args)" "writes Q (validation_lease_list A args)"
  unfolding assignment_show_def assignment_check_def checkpoint_show_def worktree_show_def finding_show_def
    finding_list_def todo_list_def validation_lease_list_def
  by (rule writes_lift)+

text \<open>The directories each command may write into.\<close>

definition command_dirs :: "string \<Rightarrow> string set" where
  "command_dirs command =
     (if command \<in> {''assignment-create'', ''assignment-status''} then {''assignments''}
      else if command = ''checkpoint-update'' then {''assignments'', ''subagents''}
      else if command = ''worktree-create'' then {''worktrees'', ''assignments''}
      else if command = ''worktree-remove'' then {''worktrees''}
      else if command = ''finding-create'' then {''findings''}
      else if command \<in> {''finding-dismiss'', ''resolution-create''} then {''findings'', ''todos''}
      else if command \<in> {''todo-create'', ''todo-show'', ''todo-assign'', ''todo-status'', ''todo-close''} then {''todos''}
      else if command \<in> {''validation-lease-acquire'', ''validation-lease-status'', ''validation-lease-show''}
        then {''validation-leases''}
      else if command = ''gate-check'' then {''subagents''}
      else {})"

lemma writes_commands:
  assumes "subagent_commands A command = Some f"
  shows "writes (tidy A (command_dirs command)) (f args)"
proof -
  have "list_all (\<lambda>(c, g). writes (tidy A (command_dirs c)) (g args)) (subagent_table A)"
    unfolding subagent_table_def list.pred_inject prod.case 
    by (intro conjI; simp add: command_dirs_def written)
  then show ?thesis using map_of_SomeD [OF assms [unfolded subagent_commands_def]] unfolding list_all_iff by blast
qed

end
