(* ===== verification/Subagent_Gate_Props.thy ===== *)
theory Subagent_Gate_Props
  imports Subagent_Frame Workflow_Sealing
begin

text \<open>
  What the completion gate of the subagents guarantees, and the completion of a workflow with this gate in place of
  the parameter of the workflow commands.
\<close>

section \<open>Settled findings and TODOs\<close>

text \<open>
  A finding that was dismissed with evidence that still counts, and a TODO that was closed with a resolution and a recheck
  that still count, for the hash of the current diff (empty where no hash is required).
\<close>

definition dismissed :: "sa_ctx \<Rightarrow> files \<Rightarrow> string \<Rightarrow> string \<Rightarrow> bool" where
  "dismissed A s h f \<longleftrightarrow> (\<exists>finding t dismissal recheck p evidence.
     lookup s (finding_dir A f @ [''finding.json'']) = Some finding \<and>
     lookup s (finding_dir A f @ [''dismissal.json'']) = Some t \<and> wf_json (sa_wf A) t = Some dismissal \<and>
     get_str dismissal ''finding_id'' = Some f \<and> get_str dismissal ''finding_hash'' = Some (wf_sha (sa_wf A) finding) \<and>
     jget dismissal ''recheck'' = Some recheck \<and> jget recheck ''accepted'' = Some (JBool True) \<and>
     f \<in> set (map trim (recheck_names recheck)) \<and> disposition_ok recheck \<and> has_nonempty recheck ''evidence'' \<and>
     get_str dismissal ''verifier_evidence'' = Some p \<and> lookup s (text_file (sa_wf A) p) = Some evidence \<and>
     report_verdict evidence = ''ACCEPTED'' \<and>
     (h \<noteq> [] \<longrightarrow> eq_ignore_ascii_case (reported_hash recheck) h \<and> evidence_matches_hash evidence h))"

definition todo_source :: "sa_ctx \<Rightarrow> files \<Rightarrow> string \<Rightarrow> string" where
  "todo_source A s t = state_value (env_at s (todo_dir A t @ [''todo.env''])) ''source_finding_id''"

definition verified_closed :: "sa_ctx \<Rightarrow> files \<Rightarrow> string \<Rightarrow> string \<Rightarrow> bool" where
  "verified_closed A s h t \<longleftrightarrow> todo_status_of A s t = ''closed'' \<and> is_file s (todo_dir A t @ [''todo.env'']) \<and> (\<exists>finding r c resolution closure recheck.
     lookup s (finding_dir A (todo_source A s t) @ [''finding.json'']) = Some finding \<and>
     state_value (env_at s (todo_dir A t @ [''todo.env''])) ''source_finding_hash'' = wf_sha (sa_wf A) finding \<and>
     lookup s (todo_dir A t @ [''resolution.json'']) = Some r \<and> wf_json (sa_wf A) r = Some resolution \<and>
     lookup s (todo_dir A t @ [''closure.json'']) = Some c \<and> wf_json (sa_wf A) c = Some closure \<and>
     get_str resolution ''todo_id'' = Some t \<and> get_str resolution ''status'' = Some ''resolved'' \<and>
     get_str closure ''todo_id'' = Some t \<and> get_str closure ''source_finding_hash'' = Some (wf_sha (sa_wf A) finding) \<and>
     jget closure ''recheck'' = Some recheck \<and> jget recheck ''accepted'' = Some (JBool True) \<and>
     todo_source A s t \<in> set (map trim (recheck_names recheck)) \<and>
     (h \<noteq> [] \<longrightarrow> eq_ignore_ascii_case (reported_hash recheck) h) \<and>
     set (successful_commands resolution) \<subseteq> set (successful_commands recheck) \<and>
     (\<forall>command \<in> set (nonempty_lines (read_or_empty s (todo_dir A t @ [''required-commands'']))).
        normalized_command command \<in> set (successful_commands resolution)))"

definition superseded :: "sa_ctx \<Rightarrow> files \<Rightarrow> string \<Rightarrow> string \<Rightarrow> bool" where
  "superseded A s h t \<longleftrightarrow> todo_status_of A s t = ''superseded'' \<and> todo_source A s t \<noteq> [] \<and> dismissed A s h (todo_source A s t)"

definition queued_for :: "sa_ctx \<Rightarrow> files \<Rightarrow> string \<Rightarrow> string \<Rightarrow> bool" where
  "queued_for A s f t \<longleftrightarrow> is_file s (todo_dir A t @ [''todo.env'']) \<and> todo_source A s t = f"

definition finding_settled :: "sa_ctx \<Rightarrow> files \<Rightarrow> string \<Rightarrow> string \<Rightarrow> bool" where
  "finding_settled A s h f \<longleftrightarrow> dismissed A s h f \<or>
     (\<exists>t. queued_for A s f t) \<and> (\<forall>t. queued_for A s f t \<longrightarrow> verified_closed A s h t)"

lemma object_member:
  "(case jget v k of Some x \<Rightarrow> if is_object x then Some x else None | None \<Rightarrow> None) = Some y \<longleftrightarrow> jget v k = Some y \<and> is_object y"
  by (auto split: option.splits)

lemma read_json_Inr: "read_json A s p e e' = Inr v \<longleftrightarrow> (\<exists>t. lookup s p = Some t \<and> wf_json (sa_wf A) t = Some v)"
  by (auto simp: read_json_def from_str_def and_then_Inr ok_or_Inr)

lemma file_sha256_Inr: "file_sha256 A s p = Inr h \<longleftrightarrow> (\<exists>t. lookup s p = Some t \<and> h = wf_sha (sa_wf A) t)"
  by (auto simp: file_sha256_def and_then_Inr ok_or_Inr)

lemma sa_read_env_Inr: "sa_read_env s p = Inr m \<longleftrightarrow> is_file s p \<and> m = env_at s p"
  by (auto simp: sa_read_env_def read_env_def is_file_def env_at_def split: option.splits)

lemma reasoned_Inr: "reasoned i r = Inr u \<longleftrightarrow> r = Inr ()"
  by (cases r) (simp_all add: reasoned_def)

lemma covered_commands:
  "(case missing_commands x y of [] \<Rightarrow> Inr () | c # _ \<Rightarrow> Inl (f c)) = Inr u \<longleftrightarrow>
     set (successful_commands x) \<subseteq> set (successful_commands y)"
  by (auto simp: missing_commands_def filter_empty_conv split: list.splits)
    (metis filter_False list.distinct(1) subset_iff)

lemma required_Inr:
  "validate_required_commands s dir label v = Inr u \<longleftrightarrow>
     (\<forall>c \<in> set (nonempty_lines (read_or_empty s (dir @ [''required-commands'']))). normalized_command c \<in> set (successful_commands v))"
  by (simp add: validate_required_commands_def all_ok_Inr guard_ok_Inr)

lemmas audit_Inr = object_member read_json_Inr file_sha256_Inr sa_read_env_Inr reasoned_Inr covered_commands required_Inr
  and_then_Inr guard_ok_Inr ok_or_Inr

lemma dismissed_audit: "audit_dismissed_finding A s f h = Inr u \<Longrightarrow> dismissed A s h f"
  unfolding audit_dismissed_finding_def dismissed_def dismissal_recheck_named_def Let_def audit_Inr by blast

lemma closed_audit:
  assumes status: "todo_status_of A s t = ''closed''" and audit: "audit_closed_todo A s t h = Inr u"
  shows "verified_closed A s h t"
proof -
  let ?m = "env_at s (todo_dir A t @ [''todo.env''])"
  obtain finding r c resolution closure recheck where "is_file s (todo_dir A t @ [''todo.env''])"
      "lookup s (finding_dir A (state_value ?m ''source_finding_id'') @ [''finding.json'']) = Some finding"
      "wf_sha (sa_wf A) finding = state_value ?m ''source_finding_hash''"
      "lookup s (todo_dir A t @ [''resolution.json'']) = Some r" "wf_json (sa_wf A) r = Some resolution"
      "lookup s (todo_dir A t @ [''closure.json'']) = Some c" "wf_json (sa_wf A) c = Some closure"
      "get_str resolution ''todo_id'' = Some t" "get_str resolution ''status'' = Some ''resolved''"
      "get_str closure ''todo_id'' = Some t" "get_str closure ''source_finding_hash'' = Some (state_value ?m ''source_finding_hash'')"
      "jget closure ''recheck'' = Some recheck" "jget recheck ''accepted'' = Some (JBool True)"
      "state_value ?m ''source_finding_id'' \<in> set (map trim (recheck_names recheck))"
      "h = [] \<or> eq_ignore_ascii_case (reported_hash recheck) h"
      "set (successful_commands resolution) \<subseteq> set (successful_commands recheck)"
      "\<forall>command \<in> set (nonempty_lines (read_or_empty s (todo_dir A t @ [''required-commands'']))).
         normalized_command command \<in> set (successful_commands resolution)"
    using audit unfolding audit_closed_todo_def dismissal_recheck_named_def Let_def audit_Inr by blast
  then show ?thesis using status unfolding verified_closed_def todo_source_def by metis
qed

lemma superseded_audit:
  assumes status: "todo_status_of A s t = ''superseded''" and audit: "audit_superseded_todo A s t h = Inr u"
  shows "superseded A s h t"
proof -
  let ?source = "state_value (env_at s (todo_dir A t @ [''todo.env''])) ''source_finding_id''"
  have "?source \<noteq> [] \<and> (\<exists>u. audit_dismissed_finding A s ?source h = Inr u)"
    using audit unfolding audit_superseded_todo_def Let_def audit_Inr by (auto split: sum.splits)
  then show ?thesis using status dismissed_audit unfolding superseded_def todo_source_def by blast
qed

section \<open>What the gate accepts\<close>

lemma in_subdirs: "is_file s (dir @ [n, f]) \<Longrightarrow> n \<in> set (subdirs s dir)"
proof -
  assume "is_file s (dir @ [n, f])"
  then obtain t where "(dir @ [n, f], t) \<in> set s" by (auto simp: is_file_def lookup_def dest: map_of_SomeD)
  then show ?thesis by (force simp: subdirs_def map_filter_def image_iff)
qed

lemma in_sorted_directories: "is_file s (dir @ [n, f]) \<Longrightarrow> n \<in> set (sorted_directories s dir)"
  by (simp add: sorted_directories_def in_subdirs)

lemma recommended_cases: "recommended ls \<in> {''ACCEPTED'', ''BLOCKING'', ''MISSING''}"
  by (induction ls) (auto split: option.splits)

lemma report_verdict_cases: "report_verdict t \<in> {''ACCEPTED'', ''BLOCKING'', ''MISSING''}"
  using recommended_cases [of "lines t"] by (auto simp: report_verdict_def Let_def)

text \<open>The last verdict of a verifier, if there is one, accepts; where a hash is required there is one and it names the hash.\<close>

definition verdict_accepts :: "sa_ctx \<Rightarrow> files \<Rightarrow> string \<Rightarrow> bool" where
  "verdict_accepts A s h \<longleftrightarrow>
     (case latest_verifier_verdict A s of
        None \<Rightarrow> h = []
      | Some (verdict, n, p) \<Rightarrow> verdict = ''ACCEPTED'' \<and> (h \<noteq> [] \<longrightarrow> evidence_matches_hash (read_or_empty s p) h))"

lemma verdict_rejects_Nil: "verdict_rejects A s h route = [] \<Longrightarrow> verdict_accepts A s h"
proof -
  have "fst v \<in> {''ACCEPTED'', ''BLOCKING'', ''MISSING''}" if "latest_verifier_verdict A s = Some v" for v
    using that report_verdict_cases unfolding latest_verifier_verdict_def Let_def
    by (metis fst_conv option.distinct(1) option.inject)
  then show "verdict_rejects A s h route = [] \<Longrightarrow> ?thesis"
    unfolding verdict_rejects_def verdict_accepts_def Let_def
    by (auto split: option.splits prod.splits if_splits)
qed

lemma finding_rejects_Nil:
  assumes "finding_rejects A s h f = []"
    and "state_value (env_at s (finding_dir A f @ [''finding.env''])) ''severity'' = ''blocking''"
    and todos: "\<And>t. t \<in> set (sorted_directories s (sa_state A @ [''todos''])) \<Longrightarrow> todo_status_of A s t = ''closed'' \<Longrightarrow> verified_closed A s h t"
  shows "finding_settled A s h f"
proof (cases "is_file s (finding_dir A f @ [''dismissal.json''])")
  case True
  then have "\<exists>u. audit_dismissed_finding A s f h = Inr u"
    using assms(1,2) by (auto simp: finding_rejects_def split: sum.splits)
  then show ?thesis using dismissed_audit unfolding finding_settled_def by blast
next
  case False
  let ?queued = "filter (\<lambda>t. todo_source A s t = f) (sorted_directories s (sa_state A @ [''todos'']))"
  have q: "?queued \<noteq> []" "\<forall>t \<in> set ?queued. todo_status_of A s t = ''closed''"
    using assms(1,2) False by (auto simp: finding_rejects_def todo_source_def Let_def filter_empty_conv split: if_splits)
  have "queued_for A s f t \<Longrightarrow> verified_closed A s h t" for t
    using q(2) todos in_sorted_directories [of s "sa_state A @ [''todos'']" t "''todo.env''"]
    by (auto simp: queued_for_def todo_dir_def)
  moreover have "\<exists>t. queued_for A s f t"
  proof -
    obtain t where t: "t \<in> set ?queued" using q(1) by (meson last_in_set)
    then have "verified_closed A s h t" using q(2) todos by auto
    then have "is_file s (todo_dir A t @ [''todo.env''])" by (simp add: verified_closed_def)
    then show ?thesis using t by (auto simp: queued_for_def)
  qed
  ultimately show ?thesis unfolding finding_settled_def by blast
qed

definition blocking_finding :: "sa_ctx \<Rightarrow> files \<Rightarrow> string \<Rightarrow> bool" where
  "blocking_finding A s f \<longleftrightarrow> state_value (env_at s (finding_dir A f @ [''finding.env''])) ''severity'' = ''blocking''"

definition gate_clear :: "sa_ctx \<Rightarrow> files \<Rightarrow> string \<Rightarrow> bool" where
  "gate_clear A s h \<longleftrightarrow>
     (\<forall>n \<in> set (verifier_dirs A s). \<not> verifier_active A s n) \<and> verdict_accepts A s h \<and>
     (\<forall>f. blocking_finding A s f \<longrightarrow> finding_settled A s h f) \<and>
     (\<forall>t. is_file s (todo_dir A t @ [''todo.env'']) \<longrightarrow> verified_closed A s h t \<or> superseded A s h t)"

lemma todo_rejects_Nil:
  "todo_rejects A s h t = [] \<Longrightarrow> verified_closed A s h t \<or> superseded A s h t"
  using closed_audit [of A s t h] superseded_audit [of A s t h]
  by (auto simp: todo_rejects_def Let_def split: if_splits sum.splits)

lemma gate_rejects_Nil: "gate_rejects A h route s = [] \<Longrightarrow> gate_clear A s h"
proof -
  assume "gate_rejects A h route s = []"
  then have none: "active_verifiers A s = []" "verdict_rejects A s h route = []"
      "\<And>f. f \<in> set (sorted_directories s (sa_state A @ [''findings''])) \<Longrightarrow> finding_rejects A s h f = []"
      "\<And>t. t \<in> set (sorted_directories s (sa_state A @ [''todos''])) \<Longrightarrow> todo_rejects A s h t = []"
    by (auto simp: gate_rejects_def)
  have todos: "verified_closed A s h t \<or> superseded A s h t" if "t \<in> set (sorted_directories s (sa_state A @ [''todos'']))" for t
    using todo_rejects_Nil none(4) that by blast
  then have closed: "verified_closed A s h t"
    if "t \<in> set (sorted_directories s (sa_state A @ [''todos'']))" "todo_status_of A s t = ''closed''" for t
    using todos [OF that(1)] that(2) by (simp add: superseded_def)
  have "finding_settled A s h f" if f: "blocking_finding A s f" for f
  proof -
    have "is_file s (finding_dir A f @ [''finding.env''])"
      using f by (auto simp: blocking_finding_def env_at_def is_file_def state_value_def split: option.splits)
    then have "f \<in> set (sorted_directories s (sa_state A @ [''findings'']))"
      using in_sorted_directories [of s "sa_state A @ [''findings'']" f "''finding.env''"] by (simp add: finding_dir_def)
    then show ?thesis using finding_rejects_Nil [OF none(3)] f closed unfolding blocking_finding_def by blast
  qed
  moreover have "verified_closed A s h t \<or> superseded A s h t" if "is_file s (todo_dir A t @ [''todo.env''])" for t
    using todos in_sorted_directories [of s "sa_state A @ [''todos'']" t "''todo.env''"] that by (simp add: todo_dir_def)
  moreover have "\<forall>n \<in> set (verifier_dirs A s). \<not> verifier_active A s n"
    using none(1) by (auto simp: active_verifiers_def filter_empty_conv)
  ultimately show ?thesis using verdict_rejects_Nil [OF none(2)] unfolding gate_clear_def by blast
qed

lemma completion_gate_clear:
  assumes "completion_gate A external s = (Inr u, t)"
  shows "\<exists>h route. gate_diff A (\<not> external) = Inr (h, route) \<and> gate_clear A t h"
  using assms gate_rejects_Nil unfolding completion_gate_def completion_gate_check_with_source_diff_def
  by (fastforce simp: bind_c_Inr lift_r_eq ret_c_eq split: prod.splits if_splits)

section \<open>Findings stay\<close>

definition finding_files :: "sa_ctx \<Rightarrow> path set" where
  "finding_files A = {finding_dir A f @ [x] | f x. x \<in> {''finding.env'', ''finding.json''}}"

definition keeps_findings :: "sa_ctx \<Rightarrow> 'a wf_cmd \<Rightarrow> bool" where
  "keeps_findings A m \<longleftrightarrow>
     (\<forall>s r s' p. m s = (r, s') \<longrightarrow> p \<in> finding_files A \<longrightarrow> lookup s p \<noteq> None \<longrightarrow> lookup s' p = lookup s p)"

lemma keeps_findingsD:
  "keeps_findings A m \<Longrightarrow> m s = (r, s') \<Longrightarrow> p \<in> finding_files A \<Longrightarrow> lookup s p = Some t \<Longrightarrow> lookup s' p = Some t"
  by (simp add: keeps_findings_def)

lemma keeps_findings_bind: "keeps_findings A m \<Longrightarrow> (\<And>x. keeps_findings A (f x)) \<Longrightarrow> keeps_findings A (bind_c m f)"
  unfolding keeps_findings_def by (auto simp: bind_c_def split: prod.splits sum.splits)

lemma keeps_findings_writes: "writes Q m \<Longrightarrow> (\<And>p c. Q p c \<Longrightarrow> p \<notin> finding_files A) \<Longrightarrow> keeps_findings A m"
  unfolding keeps_findings_def writes_def by blast

lemma keeps_findings_tidy: "writes (tidy A ds) m \<Longrightarrow> ''findings'' \<notin> ds \<Longrightarrow> keeps_findings A m"
  by (erule keeps_findings_writes) (auto simp: tidy_def finding_files_def finding_dir_def)

text \<open>A command that finds no file in a directory and then writes only there changes no file that was there before.\<close>

lemma keeps_findings_fresh:
  assumes "writes (\<lambda>p c. \<exists>x. p = dir @ [x]) (g ())"
  shows "keeps_findings A (bind_c (lift_r (\<lambda>s. guard_ok (\<not> path_there s dir) e)) g)"
  unfolding keeps_findings_def
proof (intro allI impI)
  fix s q s' p
  assume run: "bind_c (lift_r (\<lambda>s. guard_ok (\<not> path_there s dir) e)) g s = (q, s')" and p: "lookup s p \<noteq> None"
  show "lookup s' p = lookup s p"
  proof (cases "path_there s dir")
    case True
    then show ?thesis using run by (simp add: bind_c_def lift_r_def guard_ok_def)
  next
    case False
    have "p \<noteq> dir @ [x]" for x
    proof
      assume "p = dir @ [x]"
      then obtain t where "(dir @ [x], t) \<in> set s" using p by (auto simp: lookup_def dest: map_of_SomeD)
      then show False using False by (force simp: path_there_def list_ex_iff)
    qed
    moreover have "g () s = (q, s')" using False run by (simp add: bind_c_def lift_r_def guard_ok_def)
    ultimately show ?thesis using assms unfolding writes_def by blast
  qed
qed

lemma keeps_findings_lift: "keeps_findings A (lift_r f)"
  by (simp add: keeps_findings_def lift_r_def)

lemma keeps_findings_ret: "keeps_findings A (ret_c x)"
  by (simp add: keeps_findings_def ret_c_def)

lemma keeps_findings_lock: "keeps_findings A (sa_lock (sa_state A @ [d]))"
  by (rule keeps_findings_writes [OF writes_lock [of "\<lambda>p c. p = sa_state A @ [d, ''.lock'']"]])
    (auto simp: finding_files_def finding_dir_def)

lemma keeps_findings_create: "keeps_findings A (finding_create A args)"
  unfolding finding_create_def write_finding_def Let_def
  by (intro keeps_findings_bind keeps_findings_lift keeps_findings_lock keeps_findings_fresh written) auto

lemma keeps_findings_dismiss: "keeps_findings A (finding_dismiss A args)"
proof -
  have "keeps_findings A (write_json A (finding_dir A f @ [''dismissal.json'']) v)" for f v
    by (rule keeps_findings_writes [OF writes_json [of "\<lambda>p c. p = finding_dir A f @ [''dismissal.json'']"]])
      (auto simp: finding_files_def finding_dir_def)
  moreover have "keeps_findings A (supersede_all A k f ts)" for k f ts
    by (rule keeps_findings_tidy [OF writes_supersede]) simp
  ultimately show ?thesis unfolding finding_dismiss_def split_beta
    by (intro keeps_findings_bind keeps_findings_lift keeps_findings_lock keeps_findings_ret)
qed

lemma keeps_findings_resolution: "keeps_findings A (resolution_create A args)"
proof -
  have create: "keeps_findings A (todo_create (later 1 A) as)" for as
    using keeps_findings_tidy [OF writes_todo_create, of "later 1 A" as] by (simp add: keeps_findings_def finding_files_def finding_dir_def)
  have auto_create: "keeps_findings A (autocreate_todo A r)" for r
    unfolding autocreate_todo_def Let_def
    by (intro keeps_findings_bind keeps_findings_lift keeps_findings_ret create) (simp add: keeps_findings_create keeps_findings_ret)
  have "keeps_findings A (write_resolution A r v)" for r v
    by (rule keeps_findings_tidy [OF writes_resolution]) simp
  then show ?thesis unfolding resolution_create_def
    by (intro keeps_findings_bind keeps_findings_lift keeps_findings_lock keeps_findings_ret)
      (auto simp: auto_create keeps_findings_ret)
qed

lemma keeps_findings_commands:
  assumes "subagent_commands A command = Some f"
  shows "keeps_findings A (f args)"
proof -
  have "list_all (\<lambda>(c, g). keeps_findings A (g args)) (subagent_table A)"
    unfolding subagent_table_def list.pred_inject prod.case
    by (intro conjI list.pred_inject(1) keeps_findings_create keeps_findings_dismiss keeps_findings_resolution;
      (rule keeps_findings_tidy [where ds = "{}"], rule writes_readers, simp | rule keeps_findings_tidy, rule written, simp))
  then show ?thesis using map_of_SomeD [OF assms [unfolded subagent_commands_def]] unfolding list_all_iff by blast
qed

lemma keeps_findings_run:
  assumes "\<And>args. keeps_findings A (other args)" and "keeps_findings A (modify_c (sa_during A))"
  shows "keeps_findings A (subagent_run A other args)"
proof -
  have "keeps_findings A (validation_lease_acquire_impl A quiet as)" "keeps_findings A (validation_lease_status_impl A k quiet as)" for quiet k as
    by (rule keeps_findings_tidy, rule written, simp)+
  then have "keeps_findings A (validation_run A as)" for as
    unfolding validation_run_def finish_run_def split_beta Let_def
    by (intro keeps_findings_bind keeps_findings_lift keeps_findings_ret assms(2))
  then show ?thesis unfolding subagent_run_def using assms(1)
    by (auto split: list.splits option.splits intro!: keeps_findings_bind keeps_findings_commands keeps_findings_lift keeps_findings_ret)
qed

section \<open>Completion with the gate of the subagents\<close>

text \<open>The context of the workflow commands in which the gate is the one of the subagents.\<close>

definition gated :: "sa_ctx \<Rightarrow> wf_ctx" where
  "gated A = (sa_wf A)\<lparr>wf_gate := completion_gate A\<rparr>"

definition run_subagents :: "sa_ctx \<Rightarrow> (string list \<Rightarrow> (string \<times> string \<times> nat) wf_cmd) \<Rightarrow> string list list \<Rightarrow> files \<Rightarrow> files" where
  "run_subagents A other cs s = fold (\<lambda>args s. snd (subagent_run A other args s)) cs s"

lemma gated_gate: "wf_gate (gated A) = completion_gate A"
  by (simp add: gated_def)

lemma gated_gate_keeps: "gate_keeps (gated A)"
proof -
  have "keeps (gated A) (completion_gate A b)" for b
    using writes_completion_gate [of A b] unfolding keeps_def writes_def view_def tidy_def gated_def env_path_def wf_base_def
    by (fastforce simp: fun_eq_iff)
  then show ?thesis by (simp add: gate_keeps_def gated_def)
qed

lemma run_keeps_findings:
  assumes "\<And>args. keeps_findings A (other args)" and "keeps_findings A (modify_c (sa_during A))"
    and "p \<in> finding_files A" and "lookup s p = Some t"
  shows "lookup (run_subagents A other cs s) p = Some t"
  using assms(4)
proof (induction cs arbitrary: s)
  case (Cons args cs)
  obtain r s' where run: "subagent_run A other args s = (r, s')" by (rule prod.exhaust)
  have "lookup s' p = Some t" by (rule keeps_findingsD [OF keeps_findings_run [OF assms(1,2)] run assms(3) Cons.prems])
  then have "lookup (run_subagents A other cs s') p = Some t" by (rule Cons.IH)
  moreover have "run_subagents A other (args # cs) s = run_subagents A other cs s'" using run by (simp add: run_subagents_def)
  ultimately show ?case by simp
qed (simp add: run_subagents_def)

lemma open_store_findings: "open_store C i s = (r, t) \<Longrightarrow> p \<noteq> lock_path C i \<Longrightarrow> lookup t p = lookup s p"
  by (auto simp: open_store_def wf_lock_def bind_c_def lift_r_def modify_c_def ret_c_def split: prod.splits sum.splits)


text \<open>A store in which a reviewed workflow has a blocking finding that a verifier dismissed.\<close>

definition sample_dismissal :: json where
  "sample_dismissal = JObj [(''finding_id'', JStr ''f''), (''finding_hash'', JStr ''F''), (''verified_by'', JStr ''v''),
     (''verifier_evidence'', JStr ''/e''), (''recheck'', JObj [(''accepted'', JBool True), (''source_finding_id'', JStr ''f''),
       (''disposition'', JStr ''invalid''), (''evidence'', JStr ''x'')]), (''notes'', JStr [])]"

definition sample_json :: "string \<Rightarrow> json option" where
  "sample_json t = (if t = ''D'' then Some sample_dismissal else parse_json t)"

definition sample_snap :: snap_ctx where
  "sample_snap = \<lparr>sn_git = (\<lambda>_ _. Some \<lparr>po_code = Some 0, po_stdout = ''c'', po_stderr = []\<rparr>), sn_leaf = (\<lambda>_. True),
     sn_read = (\<lambda>_. None), sn_environ = Map.empty, sn_sha = (\<lambda>t. t), sn_print = enc\<rparr>"

definition sample_sa :: sa_ctx where
  "sample_sa = \<lparr>sa_wf = sample_wf\<lparr>wf_json := sample_json\<rparr>,
     sa_snap = sample_snap, sa_exists = (\<lambda>_. True), sa_is_dir = (\<lambda>_. True), sa_mtime = (\<lambda>_. 0), sa_pretty = enc,
     sa_child = (\<lambda>_ _ _. None), sa_during = (\<lambda>s. s)\<rparr>"

definition dismissed_files :: files where
  "dismissed_files = reviewed_files @ [([''st'', ''findings'', ''f'', ''finding.env''], unlines [''severity=blocking'']),
     ([''st'', ''findings'', ''f'', ''finding.json''], ''F''), ([''st'', ''findings'', ''f'', ''dismissal.json''], ''D''),
     ([''e''], ''Accepted''), (lock_path sample_wf ''w'', [])]"

lemma dismissed_files_audit: "audit_dismissed_finding sample_sa dismissed_files ''f'' [] = Inr ()"
proof -
  let ?r = "JObj [(''accepted'', JBool True), (''source_finding_id'', JStr ''f''), (''disposition'', JStr ''invalid''), (''evidence'', JStr ''x'')]"
  have files: "lookup dismissed_files (finding_dir sample_sa ''f'' @ [''finding.json'']) = Some ''F''"
    "read_json sample_sa dismissed_files (finding_dir sample_sa ''f'' @ [''dismissal.json'']) e e' = Inr sample_dismissal"
    "lookup dismissed_files (text_file (sa_wf sample_sa) ''/e'') = Some ''Accepted''" for e e' by code_simp+
  have members: "get_str sample_dismissal ''finding_id'' = Some ''f''" "get_str sample_dismissal ''finding_hash'' = Some (wf_sha (sa_wf sample_sa) ''F'')"
    "jget sample_dismissal ''recheck'' = Some ?r" "is_object ?r" "jget ?r ''accepted'' = Some (JBool True)" "dismissal_recheck_named ?r ''f''"
    "disposition_ok ?r" "has_nonempty ?r ''evidence''" "get_str sample_dismissal ''verifier_evidence'' = Some ''/e''"
    "report_verdict ''Accepted'' = ''ACCEPTED''" by code_simp+
  show ?thesis unfolding audit_dismissed_finding_def Let_def audit_Inr using files members unfolding read_json_Inr by blast
qed

lemma dismissed_files_gate: "completion_gate sample_sa False dismissed_files = (Inr (), dismissed_files)"
proof -
  have "verifier_dirs sample_sa dismissed_files = []" "current_final_diff_sha256 sample_sa = Inr []"
    "current_diff_requires_route_probe sample_sa = Inr False" "active_verifiers sample_sa dismissed_files = []"
    "verdict_rejects sample_sa dismissed_files [] False = []"
    "sorted_directories dismissed_files (sa_state sample_sa @ [''findings'']) = [''f'']"
    "sorted_directories dismissed_files (sa_state sample_sa @ [''todos'']) = []"
    "is_file dismissed_files (finding_dir sample_sa ''f'' @ [''dismissal.json''])" by code_simp+
  note facts = this
  have "finding_rejects sample_sa dismissed_files [] ''f'' = []" using facts(8) by (simp add: finding_rejects_def dismissed_files_audit)
  then have "gate_rejects sample_sa [] False dismissed_files = []" unfolding gate_rejects_def facts(4-7) by simp
  then show ?thesis using facts(1-3)
    by (simp add: completion_gate_def completion_gate_check_with_source_diff_def reconcile_terminal_verifiers_def gate_diff_def
      and_then_def cmd_defs)
qed

lemma dismissed_files_complete: "\<exists>s'. supervisor_complete (gated sample_sa) ''w'' dismissed_files = (Inr ''d'', s')"
proof -
  let ?C = "gated sample_sa"
  define st where "st = env_at dismissed_files (env_path ?C ''w'')"
  have "is_file dismissed_files (env_path ?C ''w'')" by code_simp
  then have env: "wf_read_env ?C ''w'' dismissed_files = Inr st" by (simp add: wf_read_env_def st_def)
  have "\<not> isl (completion_state ?C ''w'' dismissed_files)" by code_simp
  then obtain st' where "completion_state ?C ''w'' dismissed_files = Inr st'" by (cases "completion_state ?C ''w'' dismissed_files") auto
  moreover from this have "st' = st" using completion_state_gates(1) env by fastforce
  moreover have "state_value st ''phase'' = ''post-implementation''" "state_value st ''candidate_diff_hash'' = ''d''"
    unfolding st_def by code_simp+
  moreover have "require_supervisor_completion_authority ?C = Inr ()" by code_simp
  moreover have "open_store ?C ''w'' dismissed_files = (Inr (), dismissed_files)"
  proof -
    have "wf_valid_id ''workflow ID'' ''w'' = Inr ()" "is_file dismissed_files (lock_path ?C ''w'')" by code_simp+
    then show ?thesis by (simp add: open_store_def wf_lock_def cmd_defs)
  qed
  ultimately show ?thesis using env
    by (simp add: supervisor_complete_def bind_c_def lift_r_def and_then_def guard_ok_def gated_gate dismissed_files_gate
      wf_write_env_def wf_event_def modify_c_def ret_c_def Let_def)
qed


end
