(* ===== verification/Spec2Isabelle.thy ===== *)
theory Spec2Isabelle
  imports Dag_Props Logger_Server_Props Ledger_Claims Workflow_Sealing Supervisor_Props Policy_Props Decision_Props Session_Control Subagent_Gate_Props
begin

text \<open>
  A verification development of the multiagent control plane (the crate under \<open>runtime/\<close>) and of its
  append-only audit ledger (the crate under \<open>logger/\<close>).

  \<^bold>\<open>The program.\<close> The control plane runs coding agents on a repository under a lifecycle it enforces. Its parts
  are commands on files of a state directory: the phases, TODOs and reviews of a workflow (\<open>workflow.rs\<close>), a graph of
  work items (\<open>dag.rs\<close>), decisions (\<open>decision.rs\<close>), a policy for writes outside the repository (\<open>policy.rs\<close>),
  and assignments, findings, TODOs and leases of the agents (\<open>subagent.rs\<close>). A supervisor under an account of its own
  (\<open>supervisor.rs\<close>) is the only process that may complete a workflow or launch a role with write access: it serves
  requests (\<open>authority.rs\<close>) within the scope of an execution (\<open>execution.rs\<close>). Session control
  (\<open>session_control.rs\<close>) lets the control account reach a terminal. The ledger receives signed, hash-chained audit
  events over HTTP (\<open>model.rs\<close>, \<open>store.rs\<close>, \<open>signer.rs\<close>, \<open>auth.rs\<close>, \<open>server.rs\<close>).

  \<^bold>\<open>Conventions.\<close> Text is the list of its UTF-8 bytes; a result is a sum whose left side is the error message; a command is
  a function from the state to its result and the state it leaves, also when it fails. The state directory is an
  association list from paths to contents (\<open>File_Store\<close>). Arguments a command parses before it touches a file are
  a definition of their own (\<open>parse_...\<close>, \<open>..._request\<close>), as are the checks under the lock (\<open>..._checks\<close>)
  and the writes (\<open>write_...\<close>), so that the whole command is their composition in the order of the source.

  \<^bold>\<open>Theories.\<close>
  \<^item> \<open>Prelude\<close>, \<open>State_Config\<close>, \<open>Rust_Path\<close>, \<open>File_Store\<close>: the standard library as the sources use it,
    \<open>state.rs\<close> with its crash-safe publication, \<open>config.rs\<close>, paths and files. The locales \<open>tsv_table\<close> and
    \<open>command_system\<close> hold the laws of tables and of command sequences; every component interprets them.
  \<^item> \<open>Dag\<close>, \<open>Dag_Props\<close>: the work graph. The cycle search is correct, every command keeps the stored graph
    acyclic and closed, and a graph with open nodes always offers one.
  \<^item> \<open>Json\<close>, \<open>Json_Codec\<close>: JSON values, their canonical form, and a printer and reader for samples.
  \<^item> \<open>Logger_Model\<close>, \<open>Ledger\<close>, \<open>Ledger_Props\<close>, \<open>Ledger_Instance\<close>, \<open>Ledger_Claims\<close>: events, the store
    with its failing writes, and the abstract ledger it refines. Replay accepts exactly the printed ledgers, acknowledged events
    survive, and a head hash fixes the history up to a collision that is exhibited.
  \<^item> \<open>Logger_Server\<close>, \<open>Logger_Server_Props\<close>: clients, permissions and the handlers, over the locale
    \<open>append_store\<close> that the store interprets. Only authorized posts write, and reads are authorized.
  \<^item> \<open>Execution\<close>, \<open>Authority\<close>, \<open>Supervisor\<close>, \<open>Supervisor_Server\<close>, \<open>Supervisor_Props\<close>: grants,
    requests and the supervisor. Writer launches are granted, a launch is claimed once, and a connection changes the files
    only as an authorized child does.
  \<^item> \<open>Workflow\<close>, \<open>Workflow_Commands\<close>, \<open>Workflow_Complete\<close>: the lifecycle files, every command and the seven
    completions. \<open>Workflow_Frame\<close>, \<open>Workflow_Phases\<close>, \<open>Workflow_Props\<close>, \<open>Workflow_Sealing\<close>: the commands
    follow the phase machine and never complete a workflow; a completion is earned and all or nothing.
  \<^item> \<open>Decision\<close>, \<open>Decision_Props\<close>, \<open>Policy\<close>, \<open>Policy_Props\<close>, \<open>Session_Control\<close>: decisions only move
    forward and commit to their own alternatives, approved paths are allowed, and session control runs only checked commands.
  \<^item> \<open>Snapshot\<close>: the canonical diff and the changed paths (\<open>snapshot.rs\<close>).
  \<^item> \<open>Subagent\<close>, \<open>Subagent_Todos\<close>, \<open>Subagent_Gate\<close>, \<open>Subagent_Leases\<close>: every command of
    \<open>subagent.rs\<close>. \<open>Subagent_Frame\<close> bounds what each of them writes, \<open>Subagent_Gate_Props\<close> shows what the
    completion gate accepts and puts it in place of the parameter of the workflow: no blocking finding is forgotten.

  \<^bold>\<open>Parameters.\<close> What is not part of the sources is an argument: git, tmux, child processes, SHA-256, Ed25519, base64,
  \<open>serde_json\<close>, time stamps, modification times and what the file system answers about paths outside the state
  directory. Theorems that need a law of one of them name it as a hypothesis, and their witness has an instance.

  \<^bold>\<open>Termination and bounds.\<close> All loops are total functions; those that are not structural have a measure, such as the length
  of the text or path that is left. The reader of \<open>Json_Codec\<close> has fuel, the length of its input, which is enough for
  every printed value (\<open>parse_enc\<close>). Unsigned 64-bit numbers keep their width (\<open>parse_u64\<close>, \<open>wrap_u64\<close>, \<open>word\<close>).

  \<^bold>\<open>Limits of the model.\<close> Writes to the state directory succeed, except in the ledger and in the crash model of
  \<open>state.rs\<close>. A lock is a marker: each command runs alone, and what runs between the two locked parts of a validation run
  is a parameter. Names made only of dots are treated as literal segments, while a file system resolves them.

  \<^bold>\<open>Not modelled.\<close> \<open>runtime.rs\<close> and \<open>agent.rs\<close> start and stop containers, terminals and coding agents and compose
  prompts; \<open>prod_ops.rs\<close> calls external services; \<open>role_sandbox.rs\<close>, \<open>linux_privilege.rs\<close> and the start of
  the supervisor change users, capabilities and mounts; \<open>prompt_bundle.rs\<close> and \<open>main.rs\<close> hold texts and the dispatch;
  \<open>main.rs\<close> of the ledger starts its server. Their effects are on the operating system and on other services,
  which the state of this model does not have. The clients, services and scripts outside the two crates are not part of it.
\<close>

section \<open>State files\<close>



end
